(* ===== verification/Prelude.thy ===== *)
theory Prelude
  imports Main "HOL-Library.List_Lexorder" "HOL-Library.Char_ord" "HOL-Library.Sublist"
begin

text \<open>
  What every component of the admission controller shares: the outcome of a Go call (a value, a
  non-nil error, or a run-time panic), the early-return discipline \<open>if err != nil { return err }\<close>
  as a bind, the same discipline over a threaded state, and the parts of the Go standard library's
  \<open>strings\<close> package and of map lookup that the sources use.

  A Go string is a sequence of bytes, and so is an Isabelle \<open>string\<close>.
\<close>

section \<open>Outcomes of a Go call\<close>

datatype ('a, 'e) outcome = Ok 'a | Err 'e | Panic

named_theorems outcome_simps \<open>inversion of outcomes: when a composed call returns a value\<close>
named_theorems guard_defs \<open>definitions of the single checks a validator runs\<close>

fun bind_res :: "('a, 'e) outcome \<Rightarrow> ('a \<Rightarrow> ('b, 'e) outcome) \<Rightarrow> ('b, 'e) outcome" where
  "bind_res (Ok x) f = f x"
| "bind_res (Err e) f = Err e"
| "bind_res Panic f = Panic"

text \<open>\<open>if err != nil { return Maskf(other, ...) }\<close>: the error is replaced, a panic is not.\<close>

fun replace_err :: "('a, 'e) outcome \<Rightarrow> 'e \<Rightarrow> ('a, 'e) outcome" where
  "replace_err (Ok x) e' = Ok x"
| "replace_err (Err e) e' = Err e'"
| "replace_err Panic e' = Panic"

text \<open>\<open>if bad { return err }\<close> and \<open>return nil\<close>.\<close>

definition fail_if :: "bool \<Rightarrow> 'e \<Rightarrow> (unit, 'e) outcome" where
  "fail_if bad e = (if bad then Err e else Ok ())"

definition is_ok :: "('a, 'e) outcome \<Rightarrow> bool" where
  "is_ok m = (case m of Ok _ \<Rightarrow> True | _ \<Rightarrow> False)"

text \<open>A library call that returns an \<open>error\<close> only.\<close>

definition of_error :: "'e option \<Rightarrow> (unit, 'e) outcome" where
  "of_error r = (case r of None \<Rightarrow> Ok () | Some e \<Rightarrow> Err e)"

text \<open>\<open>*p\<close>: dereferencing a nil pointer panics.\<close>

definition deref :: "'a option \<Rightarrow> ('a, 'e) outcome" where
  "deref p = (case p of None \<Rightarrow> Panic | Some x \<Rightarrow> Ok x)"

lemma bind_res_Ok_iff [outcome_simps]:
  "bind_res m f = Ok y \<longleftrightarrow> (\<exists>x. m = Ok x \<and> f x = Ok y)"
  by (cases m) auto

lemma bind_res_Err_iff: "bind_res m f = Err e \<longleftrightarrow> m = Err e \<or> (\<exists>x. m = Ok x \<and> f x = Err e)"
  by (cases m) auto

lemma bind_res_Panic_iff: "bind_res m f = Panic \<longleftrightarrow> m = Panic \<or> (\<exists>x. m = Ok x \<and> f x = Panic)"
  by (cases m) auto

lemma bind_res_assoc: "bind_res (bind_res m f) g = bind_res m (\<lambda>x. bind_res (f x) g)"
  by (cases m) auto

lemma bind_res_cong [fundef_cong]:
  "m = m' \<Longrightarrow> (\<And>x. m' = Ok x \<Longrightarrow> f x = f' x) \<Longrightarrow> bind_res m f = bind_res m' f'"
  by (cases m') auto

lemma replace_err_Ok_iff [outcome_simps]: "replace_err m e = Ok x \<longleftrightarrow> m = Ok x"
  by (cases m) auto

lemma replace_err_Panic_iff [simp]: "replace_err m e = Panic \<longleftrightarrow> m = Panic"
  by (cases m) auto

lemma fail_if_Ok_iff [outcome_simps]: "fail_if b e = Ok u \<longleftrightarrow> \<not> b"
  by (simp add: fail_if_def)

lemma fail_if_simps [simp]: "fail_if True e = Err e" "fail_if False e = Ok ()"
  by (simp_all add: fail_if_def)

lemma fail_if_Err_iff: "fail_if b e = Err e' \<longleftrightarrow> b \<and> e' = e"
  by (auto simp: fail_if_def)

lemma fail_if_not_Panic [simp]: "fail_if b e \<noteq> Panic"
  by (simp add: fail_if_def)

lemma of_error_Ok_iff [outcome_simps]: "of_error r = Ok u \<longleftrightarrow> r = None"
  by (cases r) (auto simp: of_error_def)

lemma of_error_simps [simp]: "of_error None = Ok ()" "of_error (Some e) = Err e"
  by (simp_all add: of_error_def)

lemma of_error_not_Panic [simp]: "of_error r \<noteq> Panic"
  by (cases r) simp_all

lemma deref_Ok_iff [outcome_simps]: "deref p = Ok x \<longleftrightarrow> p = Some x"
  by (cases p) (auto simp: deref_def)

lemma deref_simps [simp]: "deref None = Panic" "deref (Some x) = Ok x"
  by (simp_all add: deref_def)

lemma is_ok_simps [simp]: "is_ok (Ok x)" "\<not> is_ok (Err e)" "\<not> is_ok Panic"
  by (simp_all add: is_ok_def)

lemma is_ok_iff: "is_ok m \<longleftrightarrow> (\<exists>x. m = Ok x)"
  by (cases m) auto

section \<open>The same discipline over a threaded state\<close>

type_synonym ('s, 'a, 'e) prog = "'s \<Rightarrow> ('a, 'e) outcome \<times> 's"

definition bind_st :: "('s, 'a, 'e) prog \<Rightarrow> ('a \<Rightarrow> ('s, 'b, 'e) prog) \<Rightarrow> ('s, 'b, 'e) prog" where
  "bind_st m f = (\<lambda>s. case m s of
      (Ok x, s') \<Rightarrow> f x s'
    | (Err e, s') \<Rightarrow> (Err e, s')
    | (Panic, s') \<Rightarrow> (Panic, s'))"

definition lift_st :: "('a, 'e) outcome \<Rightarrow> ('s, 'a, 'e) prog" where
  "lift_st m = (\<lambda>s. (m, s))"

lemma bind_st_Ok_iff [outcome_simps]:
  "bind_st m f s = (Ok y, s'') \<longleftrightarrow> (\<exists>x s'. m s = (Ok x, s') \<and> f x s' = (Ok y, s''))"
  by (cases "m s"; cases "fst (m s)") (auto simp: bind_st_def)

lemma lift_st_iff [outcome_simps]: "lift_st m s = (r, s') \<longleftrightarrow> m = r \<and> s' = s"
  by (auto simp: lift_st_def)

lemma bind_st_eqI: "m s = (Ok x, s') \<Longrightarrow> bind_st m f s = f x s'"
  by (simp add: bind_st_def)

lemma bind_st_errI: "m s = (Err e, s') \<Longrightarrow> bind_st m f s = (Err e, s')"
  by (simp add: bind_st_def)

lemma bind_st_lift [simp]: "bind_st (lift_st (Ok x)) f = f x"
  by (simp add: bind_st_def lift_st_def)

lemma bind_st_lift_Err [simp]: "bind_st (lift_st (Err e)) f = lift_st (Err e)"
  by (simp add: bind_st_def lift_st_def)

section \<open>Reading a Go map\<close>

text \<open>
  \<open>m[k]\<close> yields the zero value for a missing key, and a nil map reads as an empty one; the zero
  value of a string is the empty string.
\<close>

type_synonym str_map = "string \<rightharpoonup> string"

definition mget :: "str_map \<Rightarrow> string \<Rightarrow> string" where
  "mget m k = (case m k of None \<Rightarrow> '''' | Some v \<Rightarrow> v)"

lemma mget_simps [simp]: "m k = Some v \<Longrightarrow> mget m k = v" "m k = None \<Longrightarrow> mget m k = ''''"
  by (simp_all add: mget_def)

lemma mget_upd [simp]: "mget (m(k \<mapsto> v)) k' = (if k' = k then v else mget m k')"
  by (simp add: mget_def)

lemma mget_empty [simp]: "mget Map.empty k = ''''"
  by (simp add: mget_def)

lemma mget_nonempty: "mget m k \<noteq> '''' \<Longrightarrow> m k = Some (mget m k)"
  by (auto simp: mget_def split: option.splits)

section \<open>The \<open>strings\<close> package\<close>

definition HasPrefix :: "string \<Rightarrow> string \<Rightarrow> bool" where
  "HasPrefix s p \<longleftrightarrow> take (length p) s = p"

definition TrimPrefix :: "string \<Rightarrow> string \<Rightarrow> string" where
  "TrimPrefix s p = (if HasPrefix s p then drop (length p) s else s)"

fun Contains :: "string \<Rightarrow> string \<Rightarrow> bool" where
  "Contains [] t \<longleftrightarrow> t = []"
| "Contains (c # s) t \<longleftrightarrow> HasPrefix (c # s) t \<or> Contains s t"

text \<open>\<open>strings.ReplaceAll\<close> with a pattern of one byte.\<close>

definition ReplaceAll1 :: "string \<Rightarrow> char \<Rightarrow> string \<Rightarrow> string" where
  "ReplaceAll1 s old new = concat (map (\<lambda>c. if c = old then new else [c]) s)"

text \<open>
  The ASCII part of \<open>unicode.ToLower\<close>. No other character of Unicode is folded to one of the
  letters of \<open>true\<close>, so comparing a lowered string with that word needs no more than this.
\<close>

definition ascii_lower :: "char \<Rightarrow> char" where
  "ascii_lower c = (let n = of_char c :: nat in if 65 \<le> n \<and> n \<le> 90 then char_of (n + 32) else c)"

definition EqualFold_true :: "string \<Rightarrow> bool" where
  "EqualFold_true s \<longleftrightarrow> map ascii_lower s = ''true''"

lemma HasPrefix_iff: "HasPrefix s p \<longleftrightarrow> prefix p s"
  unfolding HasPrefix_def by (metis append_eq_conv_conj append_take_drop_id prefix_def)

lemma HasPrefix_append [simp]: "HasPrefix (p @ s) p"
  by (simp add: HasPrefix_def)

lemma TrimPrefix_append [simp]: "TrimPrefix (p @ s) p = s"
  by (simp add: TrimPrefix_def)

lemma Contains_iff: "Contains s t \<longleftrightarrow> sublist t s"
proof (induction s)
  case Nil
  then show ?case by auto
next
  case (Cons c s)
  then show ?case by (auto simp: sublist_Cons_right HasPrefix_iff)
qed

lemma ReplaceAll1_Nil [simp]: "ReplaceAll1 [] old new = []"
  by (simp add: ReplaceAll1_def)

lemma ReplaceAll1_Cons [simp]:
  "ReplaceAll1 (c # s) old new = (if c = old then new else [c]) @ ReplaceAll1 s old new"
  by (simp add: ReplaceAll1_def)

lemma ReplaceAll1_append [simp]:
  "ReplaceAll1 (s @ t) old new = ReplaceAll1 s old new @ ReplaceAll1 t old new"
  by (simp add: ReplaceAll1_def)

lemma ReplaceAll1_id: "old \<notin> set s \<Longrightarrow> ReplaceAll1 s old new = s"
  by (induction s) auto

section \<open>Splitting and joining\<close>

text \<open>\<open>strings.Split\<close> at a separator of one byte: one more piece than there are separators.\<close>

fun Split1 :: "char \<Rightarrow> string \<Rightarrow> string list" where
  "Split1 sep [] = [[]]"
| "Split1 sep (c # cs) =
     (if c = sep then [] # Split1 sep cs
      else (case Split1 sep cs of [] \<Rightarrow> [[c]] | s # ss \<Rightarrow> (c # s) # ss))"

text \<open>\<open>strings.Join\<close>.\<close>

fun Join :: "string \<Rightarrow> string list \<Rightarrow> string" where
  "Join sep [] = []"
| "Join sep [s] = s"
| "Join sep (s # t # ss) = s @ sep @ Join sep (t # ss)"

text \<open>The elements of a path between its slashes.\<close>

abbreviation segments :: "string \<Rightarrow> string list" where
  "segments \<equiv> Split1 (CHR ''/'')"

lemma Split1_not_Nil [simp]: "Split1 sep s \<noteq> []"
  by (induction s) (auto split: list.splits)

lemma Split1_no_sep: "s \<in> set (Split1 sep p) \<Longrightarrow> sep \<notin> set s"
  by (induction p arbitrary: s) (auto split: if_splits list.splits)

lemma Split1_append: "sep \<notin> set s \<Longrightarrow> Split1 sep (s @ sep # p) = s # Split1 sep p"
  by (induction s) auto

lemma Split1_plain: "sep \<notin> set s \<Longrightarrow> Split1 sep s = [s]"
  by (induction s) auto

lemma Split1_length: "length (Split1 sep s) = Suc (count_list s sep)"
  by (induction s) (auto split: list.splits)

lemma Join_Cons: "ss \<noteq> [] \<Longrightarrow> Join sep (s # ss) = s @ sep @ Join sep ss"
  by (cases ss) simp_all

lemma Join_Split1: "Join [sep] (Split1 sep s) = s"
proof (induction s)
  case (Cons c s)
  obtain t ts where s: "Split1 sep s = t # ts" by (cases "Split1 sep s") auto
  with Cons show ?case by (cases ts) (simp_all add: Join_Cons)
qed simp

lemma Split1_Join: "ss \<noteq> [] \<Longrightarrow> \<forall>s\<in>set ss. sep \<notin> set s \<Longrightarrow> Split1 sep (Join [sep] ss) = ss"
  by (induction ss rule: induct_list012) (simp_all add: Split1_plain Split1_append)

end
