(* ===== verification/Errors.thy ===== *)
theory Errors
  imports Prelude
begin

text \<open>
  The errors of the program. Every package declares its errors as pointers to \<open>microerror.Error\<close>
  values and recognises them by pointer identity (\<open>microerror.Cause(err) == x\<close>), never by the
  \<open>Kind\<close> string: a sentinel is therefore a constructor, one datatype per package, prefixed with
  the package. \<open>microerror.Mask\<close> and \<open>Maskf\<close> keep the cause, so an error value is its cause;
  the annotation text of \<open>Maskf\<close> is not kept. The second half models
  \<^verbatim>\<open>internal/errors/errors.go\<close>, which drops the causes of a Kubernetes \<open>Invalid\<close> status that
  concern a given field, and rebuilds the message of what is left.
\<close>

section \<open>Sentinels and their kinds\<close>

text \<open>\<^verbatim>\<open>internal/errors/errors.go\<close>\<close>

datatype errors_error =
    Errors_InvalidUpgradingConditionMessageFormatError
  | Errors_InvalidReleaseVersionInUpgradingConditionMessageError
  | Errors_InvalidConditionStatusError
  | Errors_InvalidConditionModificationError
  | Errors_InvalidOperationError
  | Errors_InvalidReleaseError
  | Errors_NotFoundError
  | Errors_ParsingFailedError
  | Errors_UnknownReleaseError
  | Errors_WrongTypeError

fun errors_Kind :: "errors_error \<Rightarrow> string" where
  "errors_Kind Errors_InvalidUpgradingConditionMessageFormatError = ''InvalidUpgradingConditionMessageFormatError''"
| "errors_Kind Errors_InvalidReleaseVersionInUpgradingConditionMessageError = ''InvalidReleaseVersionInUpgradingConditionMessageError''"
| "errors_Kind Errors_InvalidConditionStatusError = ''InvalidConditionStatusError''"
| "errors_Kind Errors_InvalidConditionModificationError = ''InvalidConditionModification''"
| "errors_Kind Errors_InvalidOperationError = ''invalidOperationError''"
| "errors_Kind Errors_InvalidReleaseError = ''invalidReleaseError''"
| "errors_Kind Errors_NotFoundError = ''notFoundError''"
| "errors_Kind Errors_ParsingFailedError = ''ParsingFailedError''"
| "errors_Kind Errors_UnknownReleaseError = ''UnknownReleaseError''"
| "errors_Kind Errors_WrongTypeError = ''WrongTypeError''"

text \<open>\<^verbatim>\<open>internal/releaseversion/error.go\<close>\<close>

datatype releaseversion_error =
    ReleaseVersion_releaseNotFoundError
  | ReleaseVersion_downgradingIsNotAllowedError
  | ReleaseVersion_upgradingToOrFromAlphaReleaseError
  | ReleaseVersion_skippingReleaseError

fun releaseversion_Kind :: "releaseversion_error \<Rightarrow> string" where
  "releaseversion_Kind ReleaseVersion_releaseNotFoundError = ''downgradingIsNotAllowedError''"
| "releaseversion_Kind ReleaseVersion_downgradingIsNotAllowedError = ''downgradingIsNotAllowedError''"
| "releaseversion_Kind ReleaseVersion_upgradingToOrFromAlphaReleaseError = ''upgradingToOrFromAlphaReleaseError''"
| "releaseversion_Kind ReleaseVersion_skippingReleaseError = ''skippingReleaseError''"

text \<open>\<^verbatim>\<open>internal/scheduledupgrades/error.go\<close>\<close>

datatype scheduledupgrades_error =
    Sched_notAllowedError

fun scheduledupgrades_Kind :: "scheduledupgrades_error \<Rightarrow> string" where
  "scheduledupgrades_Kind Sched_notAllowedError = ''notAllowedError''"

text \<open>\<^verbatim>\<open>internal/vmcapabilities/error.go\<close>\<close>

datatype vmcapabilities_error =
    VM_invalidRequestError
  | VM_invalidConfigError
  | VM_invalidUpstreamResponseError
  | VM_skuNotFoundError

fun vmcapabilities_Kind :: "vmcapabilities_error \<Rightarrow> string" where
  "vmcapabilities_Kind VM_invalidRequestError = ''invalidRequestError''"
| "vmcapabilities_Kind VM_invalidConfigError = ''invalidConfigError''"
| "vmcapabilities_Kind VM_invalidUpstreamResponseError = ''invalidUpstreamResponseError''"
| "vmcapabilities_Kind VM_skuNotFoundError = ''skuNotFoundError''"

text \<open>\<^verbatim>\<open>pkg/generic/error.go\<close>\<close>

datatype generic_error =
    Generic_clusterNotFoundError
  | Generic_nodepoolOrgDoesNotMatchClusterOrgError
  | Generic_organizationLabelNotFoundError
  | Generic_organizationNotFoundError
  | Generic_organizationLabelWasChangedError
  | Generic_clusterLabelNotFoundError
  | Generic_releaseLabelNotFoundError
  | Generic_azureOperatorVersionLabelNotFoundError
  | Generic_componentNotFoundInReleaseError
  | Generic_parsingFailedError

fun generic_Kind :: "generic_error \<Rightarrow> string" where
  "generic_Kind Generic_clusterNotFoundError = ''clusterNotFoundError''"
| "generic_Kind Generic_nodepoolOrgDoesNotMatchClusterOrgError = ''nodepoolOrgDoesNotMatchClusterOrgError''"
| "generic_Kind Generic_organizationLabelNotFoundError = ''organizationLabelNotFoundError''"
| "generic_Kind Generic_organizationNotFoundError = ''organizationNotFoundError''"
| "generic_Kind Generic_organizationLabelWasChangedError = ''organizationLabelWasChangedError''"
| "generic_Kind Generic_clusterLabelNotFoundError = ''clusterLabelNotFoundError''"
| "generic_Kind Generic_releaseLabelNotFoundError = ''releaseLabelNotFoundError''"
| "generic_Kind Generic_azureOperatorVersionLabelNotFoundError = ''azureOperatorVersionLabelNotFoundError''"
| "generic_Kind Generic_componentNotFoundInReleaseError = ''componentNotFoundInReleaseError''"
| "generic_Kind Generic_parsingFailedError = ''parsingFailedError''"

text \<open>\<^verbatim>\<open>pkg/release/error.go\<close>\<close>

datatype release_error =
    Release_ReleaseNotFoundError

fun release_Kind :: "release_error \<Rightarrow> string" where
  "release_Kind Release_ReleaseNotFoundError = ''ReleaseNotFoundError''"

text \<open>\<^verbatim>\<open>pkg/mutator/error.go\<close>\<close>

datatype mutator_error =
    Mutator_invalidConfigError
  | Mutator_azureOperatorVersionLabelNotFoundError
  | Mutator_clusterLabelNotFoundError
  | Mutator_componentNotFoundInReleaseError
  | Mutator_releaseLabelNotFoundError

fun mutator_Kind :: "mutator_error \<Rightarrow> string" where
  "mutator_Kind Mutator_invalidConfigError = ''invalidConfigError''"
| "mutator_Kind Mutator_azureOperatorVersionLabelNotFoundError = ''azureOperatorVersionLabelNotFoundError''"
| "mutator_Kind Mutator_clusterLabelNotFoundError = ''clusterLabelNotFoundError''"
| "mutator_Kind Mutator_componentNotFoundInReleaseError = ''componentNotFoundInReleaseError''"
| "mutator_Kind Mutator_releaseLabelNotFoundError = ''releaseLabelNotFoundError''"

text \<open>\<^verbatim>\<open>pkg/validator/error.go\<close>\<close>

datatype validator_error =
    Validator_invalidConfigError

fun validator_Kind :: "validator_error \<Rightarrow> string" where
  "validator_Kind Validator_invalidConfigError = ''invalidConfigError''"

text \<open>\<^verbatim>\<open>pkg/cluster/error.go\<close>\<close>

datatype cluster_error =
    Cluster_invalidConfigError
  | Cluster_parsingFailedError
  | Cluster_emptyClusterNetworkError
  | Cluster_emptyClusterNetworkServicesError
  | Cluster_unexpectedAPIServerPortError
  | Cluster_unexpectedServiceDomainError
  | Cluster_unexpectedCIDRBlocksError
  | Cluster_invalidControlPlaneEndpointHostError
  | Cluster_invalidControlPlaneEndpointPortError
  | Cluster_controlPlaneEndpointWasChangedError
  | Cluster_clusterNetworkWasChangedError

fun cluster_Kind :: "cluster_error \<Rightarrow> string" where
  "cluster_Kind Cluster_invalidConfigError = ''invalidConfigError''"
| "cluster_Kind Cluster_parsingFailedError = ''parsingFailedError''"
| "cluster_Kind Cluster_emptyClusterNetworkError = ''emptyClusterNetworkError''"
| "cluster_Kind Cluster_emptyClusterNetworkServicesError = ''emptyClusterNetworkServicesError''"
| "cluster_Kind Cluster_unexpectedAPIServerPortError = ''unexpectedAPIServerPortError''"
| "cluster_Kind Cluster_unexpectedServiceDomainError = ''unexpectedServiceDomainError''"
| "cluster_Kind Cluster_unexpectedCIDRBlocksError = ''unexpectedCIDRBlocksError''"
| "cluster_Kind Cluster_invalidControlPlaneEndpointHostError = ''invalidControlPlaneEndpointHostError''"
| "cluster_Kind Cluster_invalidControlPlaneEndpointPortError = ''invalidControlPlaneEndpointPortError''"
| "cluster_Kind Cluster_controlPlaneEndpointWasChangedError = ''controlPlaneEndpointWasChangedError''"
| "cluster_Kind Cluster_clusterNetworkWasChangedError = ''clusterNetworkWasChangedError''"

text \<open>\<^verbatim>\<open>pkg/azurecluster/error.go\<close>\<close>

datatype azurecluster_error =
    AzureCluster_invalidConfigError
  | AzureCluster_parsingFailedError
  | AzureCluster_invalidControlPlaneEndpointHostError
  | AzureCluster_invalidControlPlaneEndpointPortError
  | AzureCluster_controlPlaneEndpointWasChangedError
  | AzureCluster_locationWasChangedError
  | AzureCluster_unexpectedLocationError

fun azurecluster_Kind :: "azurecluster_error \<Rightarrow> string" where
  "azurecluster_Kind AzureCluster_invalidConfigError = ''invalidConfigError''"
| "azurecluster_Kind AzureCluster_parsingFailedError = ''parsingFailedError''"
| "azurecluster_Kind AzureCluster_invalidControlPlaneEndpointHostError = ''invalidControlPlaneEndpointHostError''"
| "azurecluster_Kind AzureCluster_invalidControlPlaneEndpointPortError = ''invalidControlPlaneEndpointPortError''"
| "azurecluster_Kind AzureCluster_controlPlaneEndpointWasChangedError = ''controlPlaneEndpointWasChangedError''"
| "azurecluster_Kind AzureCluster_locationWasChangedError = ''locationWasChangedError''"
| "azurecluster_Kind AzureCluster_unexpectedLocationError = ''unexpectedLocationError''"

text \<open>\<^verbatim>\<open>pkg/azuremachine/error.go\<close>\<close>

datatype azuremachine_error =
    AzureMachine_invalidConfigError
  | AzureMachine_parsingFailedError
  | AzureMachine_unsupportedFailureDomainError
  | AzureMachine_locationWithNoFailureDomainSupportError
  | AzureMachine_failureDomainWasChangedError
  | AzureMachine_locationWasChangedError
  | AzureMachine_unexpectedLocationError
  | AzureMachine_sshFieldIsSetError

fun azuremachine_Kind :: "azuremachine_error \<Rightarrow> string" where
  "azuremachine_Kind AzureMachine_invalidConfigError = ''invalidConfigError''"
| "azuremachine_Kind AzureMachine_parsingFailedError = ''parsingFailedError''"
| "azuremachine_Kind AzureMachine_unsupportedFailureDomainError = ''unsupportedFailureDomainError''"
| "azuremachine_Kind AzureMachine_locationWithNoFailureDomainSupportError = ''locationWithNoFailureDomainSupportError''"
| "azuremachine_Kind AzureMachine_failureDomainWasChangedError = ''failureDomainWasChangedError''"
| "azuremachine_Kind AzureMachine_locationWasChangedError = ''locationWasChangedError''"
| "azuremachine_Kind AzureMachine_unexpectedLocationError = ''unexpectedLocationError''"
| "azuremachine_Kind AzureMachine_sshFieldIsSetError = ''sshFieldIsSetError''"

text \<open>\<^verbatim>\<open>pkg/azuremachinepool/error.go\<close>\<close>

datatype azuremachinepool_error =
    AMP_invalidConfigError
  | AMP_parsingFailedError
  | AMP_vmsizeDoesNotSupportAcceleratedNetworkingError
  | AMP_datadisksFieldIsSetError
  | AMP_locationWasChangedError
  | AMP_acceleratedNetworkingWasChangedError
  | AMP_spotVMOptionsWasChangedError
  | AMP_storageAccountWasChangedError
  | AMP_unexpectedLocationError
  | AMP_sshFieldIsSetError
  | AMP_insufficientMemoryError
  | AMP_insufficientCPUError
  | AMP_switchToVmSizeThatDoesNotSupportAcceleratedNetworkingError
  | AMP_premiumStorageNotSupportedByVMSizeError
  | AMP_invalidStorageAccountTypeError

fun azuremachinepool_Kind :: "azuremachinepool_error \<Rightarrow> string" where
  "azuremachinepool_Kind AMP_invalidConfigError = ''invalidConfigError''"
| "azuremachinepool_Kind AMP_parsingFailedError = ''parsingFailedError''"
| "azuremachinepool_Kind AMP_vmsizeDoesNotSupportAcceleratedNetworkingError = ''vmsizeDoesNotSupportAcceleratedNetworkingError''"
| "azuremachinepool_Kind AMP_datadisksFieldIsSetError = ''datadisksFieldIsSetError''"
| "azuremachinepool_Kind AMP_locationWasChangedError = ''locationWasChangedError''"
| "azuremachinepool_Kind AMP_acceleratedNetworkingWasChangedError = ''acceleratedNetworkingWasChangedError''"
| "azuremachinepool_Kind AMP_spotVMOptionsWasChangedError = ''spotVMOptionsWasChangedError''"
| "azuremachinepool_Kind AMP_storageAccountWasChangedError = ''storageAccountWasChangedError''"
| "azuremachinepool_Kind AMP_unexpectedLocationError = ''unexpectedLocationError''"
| "azuremachinepool_Kind AMP_sshFieldIsSetError = ''sshFieldIsSetError''"
| "azuremachinepool_Kind AMP_insufficientMemoryError = ''insufficientMemoryError''"
| "azuremachinepool_Kind AMP_insufficientCPUError = ''insufficientCPUError''"
| "azuremachinepool_Kind AMP_switchToVmSizeThatDoesNotSupportAcceleratedNetworkingError = ''switchToVmSizeThatDoesNotSupportAcceleratedNetworkingError''"
| "azuremachinepool_Kind AMP_premiumStorageNotSupportedByVMSizeError = ''premiumStorageNotSupportedByVMSizeError''"
| "azuremachinepool_Kind AMP_invalidStorageAccountTypeError = ''invalidStorageAccountTypeError''"

text \<open>\<^verbatim>\<open>pkg/machinepool/error.go\<close>\<close>

datatype machinepool_error =
    MachinePool_azureMachinePoolNotFoundError
  | MachinePool_invalidConfigError
  | MachinePool_parsingFailedError
  | MachinePool_unsupportedFailureDomainError
  | MachinePool_locationWithNoFailureDomainSupportError
  | MachinePool_failureDomainWasChangedError

fun machinepool_Kind :: "machinepool_error \<Rightarrow> string" where
  "machinepool_Kind MachinePool_azureMachinePoolNotFoundError = ''azureMachinePoolNotFoundError''"
| "machinepool_Kind MachinePool_invalidConfigError = ''invalidConfigError''"
| "machinepool_Kind MachinePool_parsingFailedError = ''parsingFailedError''"
| "machinepool_Kind MachinePool_unsupportedFailureDomainError = ''unsupportedFailureDomainError''"
| "machinepool_Kind MachinePool_locationWithNoFailureDomainSupportError = ''locationWithNoFailureDomainSupportError''"
| "machinepool_Kind MachinePool_failureDomainWasChangedError = ''failureDomainWasChangedError''"

text \<open>\<^verbatim>\<open>pkg/azureupdate/error.go\<close>\<close>

datatype azureupdate_error =
    AzureUpdate_availabilityZonesChangeError
  | AzureUpdate_invalidConfigError
  | AzureUpdate_masterCIDRChangeError

fun azureupdate_Kind :: "azureupdate_error \<Rightarrow> string" where
  "azureupdate_Kind AzureUpdate_availabilityZonesChangeError = ''availabilityZonesChangeError''"
| "azureupdate_Kind AzureUpdate_invalidConfigError = ''invalidConfigError''"
| "azureupdate_Kind AzureUpdate_masterCIDRChangeError = ''masterCIDRChangeError''"

text \<open>\<^verbatim>\<open>pkg/spark/error.go\<close>\<close>

datatype spark_error =
    Spark_invalidConfigError

fun spark_Kind :: "spark_error \<Rightarrow> string" where
  "spark_Kind Spark_invalidConfigError = ''invalidConfigError''"

text \<open>\<^verbatim>\<open>integration/util/error.go\<close>\<close>

datatype integration_error =
    Integration_unknownKindError

fun integration_Kind :: "integration_error \<Rightarrow> string" where
  "integration_Kind Integration_unknownKindError = ''unknownKindError''"

datatype sentinel =
    E_errors errors_error
  | E_releaseversion releaseversion_error
  | E_scheduledupgrades scheduledupgrades_error
  | E_vmcapabilities vmcapabilities_error
  | E_generic generic_error
  | E_release release_error
  | E_mutator mutator_error
  | E_validator validator_error
  | E_cluster cluster_error
  | E_azurecluster azurecluster_error
  | E_azuremachine azuremachine_error
  | E_azuremachinepool azuremachinepool_error
  | E_machinepool machinepool_error
  | E_azureupdate azureupdate_error
  | E_spark spark_error
  | E_integration integration_error

fun Kind :: "sentinel \<Rightarrow> string" where
  "Kind (E_errors e) = errors_Kind e"
| "Kind (E_releaseversion e) = releaseversion_Kind e"
| "Kind (E_scheduledupgrades e) = scheduledupgrades_Kind e"
| "Kind (E_vmcapabilities e) = vmcapabilities_Kind e"
| "Kind (E_generic e) = generic_Kind e"
| "Kind (E_release e) = release_Kind e"
| "Kind (E_mutator e) = mutator_Kind e"
| "Kind (E_validator e) = validator_Kind e"
| "Kind (E_cluster e) = cluster_Kind e"
| "Kind (E_azurecluster e) = azurecluster_Kind e"
| "Kind (E_azuremachine e) = azuremachine_Kind e"
| "Kind (E_azuremachinepool e) = azuremachinepool_Kind e"
| "Kind (E_machinepool e) = machinepool_Kind e"
| "Kind (E_azureupdate e) = azureupdate_Kind e"
| "Kind (E_spark e) = spark_Kind e"
| "Kind (E_integration e) = integration_Kind e"

section \<open>Error values\<close>

text \<open>
  \<open>metav1.Status\<close> with the fields the sources read. An error of a library that is no API status
  is opaque.
\<close>

record status_cause =
  sc_Field :: string
  sc_Message :: string

record status_details =
  sd_Causes :: "status_cause list"
  sd_rest :: string

record api_status =
  st_Reason :: string
  st_Message :: string
  st_Details :: "status_details option"

datatype go_error = Micro sentinel | StatusError api_status | Opaque string

type_synonym 'a res = "('a, go_error) outcome"

text \<open>\<open>microerror.Cause(err) == x\<close>, which every \<open>IsXxx\<close> function of the error files computes.\<close>

definition is_cause :: "sentinel \<Rightarrow> go_error \<Rightarrow> bool" where
  "is_cause x err \<longleftrightarrow> err = Micro x"

text \<open>\<open>apierrors.IsNotFound\<close>: the reason of the status is NotFound.\<close>

definition IsNotFound :: "go_error \<Rightarrow> bool" where
  "IsNotFound err = (case err of StatusError s \<Rightarrow> st_Reason s = ''NotFound'' | _ \<Rightarrow> False)"

lemma is_cause_simps [simp]:
  "is_cause x (Micro y) \<longleftrightarrow> y = x" "\<not> is_cause x (StatusError s)" "\<not> is_cause x (Opaque t)"
  by (auto simp: is_cause_def)

section \<open>The message pattern\<close>

text \<open>
  \<open>capiErrorMessageRegexp\<close> is \<^verbatim>\<open>(.*is invalid:\s)(\[)?(.*?)(\]|$)\<close> and only its first group is
  used. The leftmost start wins; from a start the dot-star takes as much of the line as it can, so
  the group ends after the last marker of the line after which the rest of the pattern still
  matches: a closing bracket on the same line, or the end of the text with no line break before it.
\<close>

definition is_invalid_marker :: string where
  "is_invalid_marker = ''is invalid:''"

definition newline :: char where
  "newline = char_of (10::nat)"

text \<open>\<^verbatim>\<open>\s\<close> of RE2: tab, line feed, form feed, carriage return, space.\<close>

definition re_space :: "char \<Rightarrow> bool" where
  "re_space c \<longleftrightarrow> (of_char c :: nat) \<in> {9, 10, 12, 13, 32}"

definition re_tail :: "string \<Rightarrow> bool" where
  "re_tail r \<longleftrightarrow> newline \<notin> set r \<or> CHR '']'' \<in> set (takeWhile (\<lambda>c. c \<noteq> newline) r)"

text \<open>The first group can consist of the first \<open>k\<close> bytes, the marker and one white space.\<close>

definition re_group1_at :: "string \<Rightarrow> nat \<Rightarrow> bool" where
  "re_group1_at s k \<longleftrightarrow>
     newline \<notin> set (take k s) \<and> HasPrefix (drop k s) is_invalid_marker \<and>
     (case drop (k + length is_invalid_marker) s of
        [] \<Rightarrow> False
      | c # r \<Rightarrow> re_space c \<and> re_tail r)"

fun re_group1 :: "string \<Rightarrow> string option" where
  "re_group1 [] = None"
| "re_group1 (c # s) =
     (case rev (List.filter (re_group1_at (c # s)) [0..<Suc (length s)]) of
        k # _ \<Rightarrow> Some (take (k + length is_invalid_marker + 1) (c # s))
      | [] \<Rightarrow> re_group1 s)"

section \<open>IgnoreCAPIErrorForField\<close>

fun render_causes :: "status_cause list \<Rightarrow> string" where
  "render_causes [] = ''''"
| "render_causes [c] = sc_Field c @ '': '' @ sc_Message c"
| "render_causes (c # cs) = sc_Field c @ '': '' @ sc_Message c @ '', '' @ render_causes cs"

definition keep_causes :: "string \<Rightarrow> status_cause list \<Rightarrow> status_cause list" where
  "keep_causes field cs = List.filter (\<lambda>c. \<not> HasPrefix (sc_Field c) field) cs"

text \<open>
  The result is the new value of the variable \<open>err\<close> (\<open>None\<close> for nil). Indexing the empty list of
  matches panics.
\<close>

definition IgnoreCAPIErrorForField :: "string \<Rightarrow> go_error option \<Rightarrow> (go_error option) res" where
  "IgnoreCAPIErrorForField field err =
     (case err of
        Some (StatusError s) \<Rightarrow>
          if st_Reason s \<noteq> ''Invalid'' then Ok err
          else (case st_Details s of
              None \<Rightarrow> Ok err
            | Some d \<Rightarrow>
                let causes = keep_causes field (sd_Causes d) in
                if causes = [] then Ok None
                else (case re_group1 (st_Message s) of
                    None \<Rightarrow> Panic
                  | Some g \<Rightarrow>
                      Ok (Some (StatusError (s\<lparr>
                        st_Details := Some (d\<lparr>sd_Causes := causes\<rparr>),
                        st_Message := g @ ''['' @ render_causes causes @ '']''\<rparr>)))))
      | _ \<Rightarrow> Ok err)"

text \<open>The handlers run it once per ignored field, in order.\<close>

fun ignore_fields :: "string list \<Rightarrow> go_error option \<Rightarrow> (go_error option) res" where
  "ignore_fields [] err = Ok err"
| "ignore_fields (f # fs) err = bind_res (IgnoreCAPIErrorForField f err) (ignore_fields fs)"

lemma IgnoreCAPIErrorForField_None [simp]: "IgnoreCAPIErrorForField field None = Ok None"
  by (simp add: IgnoreCAPIErrorForField_def)

lemma ignore_fields_None [simp]: "ignore_fields fs None = Ok None"
  by (induction fs) simp_all

end
