(* ===== verification/Objects.thy ===== *)
theory Objects
  imports Errors "HOL-Library.Word"
begin

text \<open>
  The custom resources the admission controller decides on, with the fields its sources read, and
  the JSON patch operations it answers with (\<^verbatim>\<open>pkg/mutator/patch.go\<close>).

  The Go types of the resources are declared in third-party modules. A record holds each field the
  sources name; the field called \<open>rest\<close> stands for everything else in the object (the empty string
  for its zero value), so that the library functions that are parameters of the model can depend on
  it. A pointer is an \<open>option\<close>. A Go slice is a list, except where the sources can tell a nil slice
  from an empty one. 32-bit fields are 32-bit words.
\<close>

section \<open>Metadata\<close>

record object_meta =
  om_name :: string
  om_namespace :: string
  om_labels :: str_map
  om_annotations :: str_map
  om_deletionTimestamp :: "int option"
  om_rest :: string

text \<open>\<open>GetDeletionTimestamp().IsZero()\<close>: nil, or the zero time.\<close>

definition ts_IsZero :: "int option \<Rightarrow> bool" where
  "ts_IsZero t \<longleftrightarrow> t = None \<or> t = Some 0"

definition being_deleted :: "object_meta \<Rightarrow> bool" where
  "being_deleted m \<longleftrightarrow> \<not> ts_IsZero (om_deletionTimestamp m)"

text \<open>The label and annotation names, which the sources take from library constants.\<close>

definition label_ReleaseVersion :: string where
  "label_ReleaseVersion = ''release.giantswarm.io/version''"
definition label_Cluster :: string where
  "label_Cluster = ''giantswarm.io/cluster''"
definition label_Organization :: string where
  "label_Organization = ''giantswarm.io/organization''"
definition label_AzureOperatorVersion :: string where
  "label_AzureOperatorVersion = ''azure-operator.giantswarm.io/version''"
definition label_ClusterOperatorVersion :: string where
  "label_ClusterOperatorVersion = ''cluster-operator.giantswarm.io/version''"
definition capi_ClusterLabelName :: string where
  "capi_ClusterLabelName = ''cluster.x-k8s.io/cluster-name''"
definition annotation_NodePoolMinSize :: string where
  "annotation_NodePoolMinSize = ''cluster.k8s.io/cluster-api-autoscaler-node-group-min-size''"
definition annotation_NodePoolMaxSize :: string where
  "annotation_NodePoolMaxSize = ''cluster.k8s.io/cluster-api-autoscaler-node-group-max-size''"
definition annotation_UpdateScheduleTargetTime :: string where
  "annotation_UpdateScheduleTargetTime = ''alpha.giantswarm.io/update-schedule-target-time''"
definition annotation_UpdateScheduleTargetRelease :: string where
  "annotation_UpdateScheduleTargetRelease = ''alpha.giantswarm.io/update-schedule-target-release''"

section \<open>Cluster and AzureCluster\<close>

record network_ranges =
  nr_CIDRBlocks :: "string list option"

record cluster_network =
  cn_APIServerPort :: "32 word option"
  cn_ServiceDomain :: string
  cn_Services :: "network_ranges option"
  cn_rest :: string

record api_endpoint =
  ep_Host :: string
  ep_Port :: "32 word"

record condition =
  co_Type :: string
  co_Status :: string

record cluster =
  cl_meta :: object_meta
  cl_ClusterNetwork :: "cluster_network option"
  cl_ControlPlaneEndpoint :: api_endpoint
  cl_Conditions :: "condition list"
  cl_rest :: string

record frontend_ip =
  fi_Name :: string
  fi_rest :: string

record lb_spec =
  lb_Name :: string
  lb_SKU :: string
  lb_Type :: string
  lb_FrontendIPs :: "frontend_ip list"
  lb_rest :: string

record azure_cluster =
  ac_meta :: object_meta
  ac_Location :: string
  ac_ControlPlaneEndpoint :: api_endpoint
  ac_APIServerLB :: lb_spec
  ac_rest :: string

section \<open>Machines and node pools\<close>

record azure_machine =
  am_meta :: object_meta
  am_Location :: string
  am_VMSize :: string
  am_FailureDomain :: "string option"
  am_SSHPublicKey :: string
  am_OSDiskCachingType :: string
  am_rest :: string

record data_disk =
  dd_NameSuffix :: string
  dd_DiskSizeGB :: "32 word"
  dd_Lun :: "32 word option"
  dd_rest :: string

text \<open>
  \<open>SpotVMOptions.MaxPrice\<close> is a pointer to a quantity, which the sources compare with the built-in
  operator on the struct: the string stands for that representation.
\<close>

record spot_vm_options =
  spot_MaxPrice :: "string option"

record azure_machine_pool =
  amp_meta :: object_meta
  amp_Location :: string
  amp_VMSize :: string
  amp_SSHPublicKey :: string
  amp_AcceleratedNetworking :: "bool option"
  amp_SpotVMOptions :: "spot_vm_options option"
  amp_StorageAccountType :: string
  amp_DataDisks :: "data_disk list"
  amp_rest :: string

record machine_pool =
  mp_meta :: object_meta
  mp_Replicas :: "32 word option"
  mp_FailureDomains :: "string list"
  mp_InfraNamespace :: string
  mp_InfraName :: string
  mp_rest :: string

section \<open>Legacy resources, releases\<close>

record spark =
  sp_meta :: object_meta
  sp_rest :: string

record azure_config =
  azc_meta :: object_meta
  azc_MasterSubnetCIDR :: string
  azc_AvailabilityZones :: "int list"
  azc_rest :: string

record azure_cluster_config =
  acc_meta :: object_meta
  acc_ReleaseVersion :: string
  acc_rest :: string

record component =
  cmp_Name :: string
  cmp_Version :: string

record release =
  rel_Name :: string
  rel_Annotations :: str_map
  rel_State :: string
  rel_Components :: "component list"

text \<open>A value of type \<open>interface{}\<close>, by its dynamic type.\<close>

datatype object =
    ObjNil
  | ObjCluster cluster
  | ObjAzureCluster azure_cluster
  | ObjAzureMachine azure_machine
  | ObjAzureMachinePool azure_machine_pool
  | ObjMachinePool machine_pool
  | ObjSpark spark
  | ObjAzureConfig azure_config
  | ObjAzureClusterConfig azure_cluster_config
  | ObjOther string

text \<open>\<open>GetObjectMeta()\<close> of the decoded objects.\<close>

fun object_metadata :: "object \<Rightarrow> object_meta option" where
  "object_metadata (ObjCluster c) = Some (cl_meta c)"
| "object_metadata (ObjAzureCluster c) = Some (ac_meta c)"
| "object_metadata (ObjAzureMachine c) = Some (am_meta c)"
| "object_metadata (ObjAzureMachinePool c) = Some (amp_meta c)"
| "object_metadata (ObjMachinePool c) = Some (mp_meta c)"
| "object_metadata (ObjSpark c) = Some (sp_meta c)"
| "object_metadata (ObjAzureConfig c) = Some (azc_meta c)"
| "object_metadata (ObjAzureClusterConfig c) = Some (acc_meta c)"
| "object_metadata ObjNil = None"
| "object_metadata (ObjOther t) = None"

section \<open>Patch operations\<close>

datatype patch_value =
    PV_string string
  | PV_int int
  | PV_ClusterNetwork cluster_network
  | PV_LoadBalancer lb_spec
  | PV_DataDisks "data_disk list"
  | PV_json string

record patch_operation =
  po_Operation :: string
  po_Path :: string
  po_Value :: patch_value

definition PatchReplace :: "string \<Rightarrow> patch_value \<Rightarrow> patch_operation" where
  "PatchReplace path v = \<lparr>po_Operation = ''replace'', po_Path = path, po_Value = v\<rparr>"

definition PatchAdd :: "string \<Rightarrow> patch_value \<Rightarrow> patch_operation" where
  "PatchAdd path v = \<lparr>po_Operation = ''add'', po_Path = path, po_Value = v\<rparr>"

end
