(* ===== verification/Library.thy ===== *)
theory Library
  imports Objects
begin

text \<open>
  The code the program calls and does not contain, as arguments of the model: the semantic-version
  library, the Kubernetes clients, the defaulting, validation and serialisation of the resource
  types, the JSON diff, the decoders. A library call returns an error or a value (\<open>Inl\<close> or \<open>Inr\<close>)
  and does not panic. One admission request sees one snapshot of the API server: a client is a
  function of the query.
\<close>

definition of_lib :: "go_error + 'a \<Rightarrow> 'a res" where
  "of_lib r = (case r of Inl e \<Rightarrow> Err e | Inr x \<Rightarrow> Ok x)"

lemma of_lib_Ok_iff [outcome_simps]: "of_lib r = Ok x \<longleftrightarrow> r = Inr x"
  by (cases r) (auto simp: of_lib_def)

lemma of_lib_Err_iff: "of_lib r = Err e \<longleftrightarrow> r = Inl e"
  by (cases r) (auto simp: of_lib_def)

lemma of_lib_simps [simp]: "of_lib (Inl e) = Err e" "of_lib (Inr x) = Ok x"
  by (simp_all add: of_lib_def)

lemma of_lib_not_Panic [simp]: "of_lib r \<noteq> Panic"
  by (cases r) simp_all

section \<open>Semantic versions\<close>

text \<open>
  \<open>semver.Version\<close>: the sources read the major and minor number; patch, pre-release and build
  parts are read by the library only.
\<close>

record version =
  Major :: "64 word"
  Minor :: "64 word"
  ver_rest :: string

record semver_api =
  sv_ParseTolerant :: "string \<Rightarrow> go_error + version"
  sv_Parse :: "string \<Rightarrow> go_error + version"
  sv_New :: "string \<Rightarrow> go_error + version"
  sv_Compare :: "version \<Rightarrow> version \<Rightarrow> int"
  sv_String :: "version \<Rightarrow> string"

text \<open>
  The comparison methods, by the documented result of \<open>Compare\<close>: negative, zero or positive as the
  receiver is less than, equal to or greater than the argument.
\<close>

definition sv_EQ :: "semver_api \<Rightarrow> version \<Rightarrow> version \<Rightarrow> bool" where
  "sv_EQ S v w \<longleftrightarrow> sv_Compare S v w = 0"
definition sv_LT :: "semver_api \<Rightarrow> version \<Rightarrow> version \<Rightarrow> bool" where
  "sv_LT S v w \<longleftrightarrow> sv_Compare S v w < 0"
definition sv_GT :: "semver_api \<Rightarrow> version \<Rightarrow> version \<Rightarrow> bool" where
  "sv_GT S v w \<longleftrightarrow> 0 < sv_Compare S v w"
definition sv_GE :: "semver_api \<Rightarrow> version \<Rightarrow> version \<Rightarrow> bool" where
  "sv_GE S v w \<longleftrightarrow> 0 \<le> sv_Compare S v w"

text \<open>
  What Semantic Versioning documents about precedence: it is a total preorder, decided first by the
  major and then by the minor number.
\<close>

definition semver_precedence :: "semver_api \<Rightarrow> bool" where
  "semver_precedence S \<longleftrightarrow>
     (\<forall>v w. sgn (sv_Compare S v w) = - sgn (sv_Compare S w v)) \<and>
     (\<forall>u v w. sv_Compare S u v \<le> 0 \<longrightarrow> sv_Compare S v w \<le> 0 \<longrightarrow> sv_Compare S u w \<le> 0) \<and>
     (\<forall>v w. sv_Compare S v w \<le> 0 \<longrightarrow> Major v < Major w \<or> Major v = Major w \<and> Minor v \<le> Minor w)"

lemma sv_Compare_flip: "semver_precedence S \<Longrightarrow> 0 < sv_Compare S v w \<longleftrightarrow> sv_Compare S w v < 0"
  unfolding semver_precedence_def by (metis neg_0_less_iff_less sgn_greater sgn_less)

lemma sv_Compare_trans:
  "semver_precedence S \<Longrightarrow> sv_Compare S u v \<le> 0 \<Longrightarrow> sv_Compare S v w \<le> 0 \<Longrightarrow> sv_Compare S u w \<le> 0"
  unfolding semver_precedence_def by blast

lemma sv_Compare_minor:
  "semver_precedence S \<Longrightarrow> sv_Compare S v w \<le> 0 \<Longrightarrow>
     Major v < Major w \<or> Major v = Major w \<and> Minor v \<le> Minor w"
  unfolding semver_precedence_def by blast

lemma sv_EQ_refl: "semver_precedence S \<Longrightarrow> sv_EQ S v v"
  unfolding semver_precedence_def sv_EQ_def by (metis neg_equal_zero sgn_0_0)

lemma sv_LT_iff_GT: "semver_precedence S \<Longrightarrow> sv_LT S v w \<longleftrightarrow> sv_GT S w v"
  unfolding semver_precedence_def sv_LT_def sv_GT_def
  by (metis neg_0_less_iff_less sgn_greater sgn_less)

lemma sv_not_LT_iff: "semver_precedence S \<Longrightarrow> \<not> sv_LT S v w \<longleftrightarrow> sv_Compare S w v \<le> 0"
  by (simp add: sv_LT_iff_GT sv_GT_def not_less)

lemma sv_not_LT_trans:
  "semver_precedence S \<Longrightarrow> \<not> sv_LT S v u \<Longrightarrow> \<not> sv_LT S w v \<Longrightarrow> \<not> sv_LT S w u"
  using semver_precedence_def sv_not_LT_iff by metis

lemma sv_EQ_not_LT: "semver_precedence S \<Longrightarrow> sv_EQ S v w \<Longrightarrow> \<not> sv_LT S w v"
  by (simp add: sv_not_LT_iff sv_EQ_def)

lemma sv_LT_if_neither: "semver_precedence S \<Longrightarrow> \<not> sv_EQ S v w \<Longrightarrow> \<not> sv_LT S w v \<Longrightarrow> sv_LT S v w"
  unfolding sv_not_LT_iff by (simp add: sv_EQ_def sv_LT_def)

section \<open>Kubernetes clients\<close>

text \<open>
  One record per \<open>client.Reader\<close> or \<open>client.Client\<close>: \<open>Get\<close> by namespace and name (cluster-scoped
  resources by name), \<open>List\<close> of the clusters with a given value of the cluster label, and of all
  releases.
\<close>

record kube_api =
  kube_getCluster :: "string \<Rightarrow> string \<Rightarrow> go_error + cluster"
  kube_getAzureCluster :: "string \<Rightarrow> string \<Rightarrow> go_error + azure_cluster"
  kube_getAzureMachinePool :: "string \<Rightarrow> string \<Rightarrow> go_error + azure_machine_pool"
  kube_getRelease :: "string \<Rightarrow> go_error + release"
  kube_getOrganization :: "string \<Rightarrow> go_error + unit"
  kube_listClusters :: "string \<Rightarrow> go_error + cluster list"
  kube_listReleases :: "go_error + release list"

section \<open>Resource types\<close>

text \<open>\<open>runtime.Decoder\<close>, at each of the types it is asked to decode into.\<close>

record decoder =
  dec_Cluster :: "string \<Rightarrow> go_error + cluster"
  dec_AzureCluster :: "string \<Rightarrow> go_error + azure_cluster"
  dec_AzureMachine :: "string \<Rightarrow> go_error + azure_machine"
  dec_AzureMachinePool :: "string \<Rightarrow> go_error + azure_machine_pool"
  dec_MachinePool :: "string \<Rightarrow> go_error + machine_pool"
  dec_Spark :: "string \<Rightarrow> go_error + spark"
  dec_AzureConfig :: "string \<Rightarrow> go_error + azure_config"
  dec_AzureClusterConfig :: "string \<Rightarrow> go_error + azure_cluster_config"

text \<open>
  The webhook methods of a resource type (\<open>Default\<close> changes the object in place) and its JSON form.
\<close>

record 'a crd_api =
  crd_Default :: "'a \<Rightarrow> 'a"
  crd_ValidateCreate :: "'a \<Rightarrow> go_error option"
  crd_ValidateUpdate :: "'a \<Rightarrow> 'a \<Rightarrow> go_error option"
  crd_Marshal :: "'a \<Rightarrow> go_error + string"

text \<open>Unicode tables, used on characters beyond ASCII only.\<close>

record unicode_tables =
  uni_ToLower :: "nat \<Rightarrow> nat"
  uni_IsDigit :: "nat \<Rightarrow> bool"

text \<open>The packages \<open>validator\<close> and \<open>mutator\<close> each have a deserializer of their own.\<close>

record lib =
  lib_semver :: semver_api
  lib_unicode :: unicode_tables
  lib_condGet :: "cluster \<Rightarrow> string \<Rightarrow> condition option"
  lib_condIsTrue :: "cluster \<Rightarrow> string \<Rightarrow> bool"
  lib_GetOwnerCluster :: "kube_api \<Rightarrow> object_meta \<Rightarrow> go_error + cluster option"
  lib_CreatePatch :: "string \<Rightarrow> string \<Rightarrow> go_error + patch_operation list"
  lib_Deserializer :: decoder
  lib_mutator_Deserializer :: decoder
  lib_Cluster :: "cluster crd_api"
  lib_AzureCluster :: "azure_cluster crd_api"
  lib_AzureMachine :: "azure_machine crd_api"
  lib_AzureMachinePool :: "azure_machine_pool crd_api"
  lib_MachinePool :: "machine_pool crd_api"

end
