(* ===== verification/Key.thy ===== *)
theory Key
  imports Library
begin

text \<open>
  \<^verbatim>\<open>pkg/key/key.go\<close>: the fixed values the resources must carry, and the type assertions that
  turn the \<open>interface{}\<close> argument of a handler into the resource it expects.
\<close>

definition ControlPlaneEndpointPort :: "32 word" where
  "ControlPlaneEndpointPort = 443"

definition ClusterNetworkServiceCIDR :: string where
  "ClusterNetworkServiceCIDR = ''172.31.0.0/16''"

definition GetControlPlaneEndpointHost :: "string \<Rightarrow> string \<Rightarrow> string" where
  "GetControlPlaneEndpointHost clusterName baseDomain = ''api.'' @ clusterName @ ''.'' @ baseDomain"

definition ServiceDomain :: string where
  "ServiceDomain = ''cluster.local''"

definition APIServerLBName :: "string \<Rightarrow> string" where
  "APIServerLBName clusterName = clusterName @ ''-'' @ ''API'' @ ''-'' @ ''PublicLoadBalancer''"

definition APIServerLBSKU :: string where
  "APIServerLBSKU = ''Standard''"

definition APIServerLBType :: string where
  "APIServerLBType = ''Public''"

definition APIServerLBFrontendIPName :: "string \<Rightarrow> string" where
  "APIServerLBFrontendIPName clusterName = APIServerLBName clusterName @ ''-'' @ ''Frontend''"

definition OSDiskCachingType :: string where
  "OSDiskCachingType = ''ReadWrite''"

definition MasterSubnetName :: "string \<Rightarrow> string" where
  "MasterSubnetName clusterName = clusterName @ ''-'' @ ''VirtualNetwork'' @ ''-'' @ ''MasterSubnet''"

definition wrong_type :: "'a res" where
  "wrong_type = Err (Micro (E_errors Errors_WrongTypeError))"

definition ToClusterPtr :: "object \<Rightarrow> cluster res" where
  "ToClusterPtr v = (case v of ObjCluster c \<Rightarrow> Ok c | _ \<Rightarrow> wrong_type)"

definition ToAzureClusterPtr :: "object \<Rightarrow> azure_cluster res" where
  "ToAzureClusterPtr v = (case v of ObjAzureCluster c \<Rightarrow> Ok c | _ \<Rightarrow> wrong_type)"

definition ToMachinePoolPtr :: "object \<Rightarrow> machine_pool res" where
  "ToMachinePoolPtr v = (case v of ObjMachinePool c \<Rightarrow> Ok c | _ \<Rightarrow> wrong_type)"

definition ToAzureMachinePoolPtr :: "object \<Rightarrow> azure_machine_pool res" where
  "ToAzureMachinePoolPtr v = (case v of ObjAzureMachinePool c \<Rightarrow> Ok c | _ \<Rightarrow> wrong_type)"

definition ToAzureMachinePtr :: "object \<Rightarrow> azure_machine res" where
  "ToAzureMachinePtr v = (case v of ObjAzureMachine c \<Rightarrow> Ok c | _ \<Rightarrow> wrong_type)"

definition ToSparkPtr :: "object \<Rightarrow> spark res" where
  "ToSparkPtr v = (case v of ObjSpark c \<Rightarrow> Ok c | _ \<Rightarrow> wrong_type)"

definition ToAzureClusterConfigPtr :: "object \<Rightarrow> azure_cluster_config res" where
  "ToAzureClusterConfigPtr v = (case v of ObjAzureClusterConfig c \<Rightarrow> Ok c | _ \<Rightarrow> wrong_type)"

definition ToAzureConfigPtr :: "object \<Rightarrow> azure_config res" where
  "ToAzureConfigPtr v = (case v of ObjAzureConfig c \<Rightarrow> Ok c | _ \<Rightarrow> wrong_type)"

lemma To_Ptr_Ok_iff [outcome_simps]:
  "ToClusterPtr v = Ok c \<longleftrightarrow> v = ObjCluster c"
  "ToAzureClusterPtr v = Ok ac \<longleftrightarrow> v = ObjAzureCluster ac"
  "ToMachinePoolPtr v = Ok mp \<longleftrightarrow> v = ObjMachinePool mp"
  "ToAzureMachinePoolPtr v = Ok amp \<longleftrightarrow> v = ObjAzureMachinePool amp"
  "ToAzureMachinePtr v = Ok am \<longleftrightarrow> v = ObjAzureMachine am"
  "ToSparkPtr v = Ok sp \<longleftrightarrow> v = ObjSpark sp"
  "ToAzureClusterConfigPtr v = Ok acc \<longleftrightarrow> v = ObjAzureClusterConfig acc"
  "ToAzureConfigPtr v = Ok azc \<longleftrightarrow> v = ObjAzureConfig azc"
  by (auto simp: ToClusterPtr_def ToAzureClusterPtr_def ToMachinePoolPtr_def
      ToAzureMachinePoolPtr_def ToAzureMachinePtr_def ToSparkPtr_def ToAzureClusterConfigPtr_def
      ToAzureConfigPtr_def wrong_type_def split: object.splits)

lemma To_Ptr_simps [simp]:
  "ToClusterPtr (ObjCluster c) = Ok c"
  "ToAzureClusterPtr (ObjAzureCluster ac) = Ok ac"
  "ToMachinePoolPtr (ObjMachinePool mp) = Ok mp"
  "ToAzureMachinePoolPtr (ObjAzureMachinePool amp) = Ok amp"
  "ToAzureMachinePtr (ObjAzureMachine am) = Ok am"
  "ToSparkPtr (ObjSpark sp) = Ok sp"
  "ToAzureClusterConfigPtr (ObjAzureClusterConfig acc) = Ok acc"
  "ToAzureConfigPtr (ObjAzureConfig azc) = Ok azc"
  by (simp_all add: outcome_simps)

end
