(* ===== verification/Strconv.thy ===== *)
theory Strconv
  imports Prelude "HOL-Library.Word"
begin

text \<open>
  The parts of the Go standard library that turn integers into text and back:
  \<open>fmt.Sprintf("%d", n)\<close>, \<open>strconv.ParseInt(s, 10, w)\<close> and \<open>strconv.Atoi\<close> (a 64-bit
  \<open>ParseInt\<close>), with their range checks; and the round trip between them, on which the autoscaling
  annotations of a machine pool rest.
\<close>

definition digit_char :: "nat \<Rightarrow> char" where
  "digit_char n = char_of (48 + n)"

definition digit_val :: "char \<Rightarrow> nat option" where
  "digit_val c = (let n = of_char c in if 48 \<le> n \<and> n \<le> 57 then Some (n - 48) else None)"

fun nat_digits :: "nat \<Rightarrow> string" where
  "nat_digits n = (if n < 10 then [digit_char n] else nat_digits (n div 10) @ [digit_char (n mod 10)])"

declare nat_digits.simps [simp del]

text \<open>\<open>fmt.Sprintf("%d", i)\<close>\<close>

definition format_int :: "int \<Rightarrow> string" where
  "format_int i = (if i < 0 then CHR ''-'' # nat_digits (nat (- i)) else nat_digits (nat i))"

fun parse_digits :: "nat \<Rightarrow> string \<Rightarrow> nat option" where
  "parse_digits acc [] = Some acc"
| "parse_digits acc (c # cs) =
     (case digit_val c of None \<Rightarrow> None | Some d \<Rightarrow> parse_digits (10 * acc + d) cs)"

definition parse_uint :: "string \<Rightarrow> nat option" where
  "parse_uint s = (if s = [] then None else parse_digits 0 s)"

text \<open>
  \<open>strconv.ParseInt(s, 10, bits)\<close>: an optional sign, at least one decimal digit, and a value that
  fits in \<open>bits\<close> bits; every other text is an error (\<open>None\<close>).
\<close>

definition ParseInt :: "nat \<Rightarrow> string \<Rightarrow> int option" where
  "ParseInt bits s = (case s of
      [] \<Rightarrow> None
    | c # cs \<Rightarrow>
        (let neg = (c = CHR ''-'');
             digits = (if c = CHR ''+'' \<or> c = CHR ''-'' then cs else s)
         in case parse_uint digits of
              None \<Rightarrow> None
            | Some n \<Rightarrow>
                if neg then (if n \<le> 2 ^ (bits - 1) then Some (- int n) else None)
                else (if n < 2 ^ (bits - 1) then Some (int n) else None)))"

definition Atoi :: "string \<Rightarrow> int option" where
  "Atoi s = ParseInt 64 s"

section \<open>Round trip\<close>

lemma of_char_digit_char: "n < 10 \<Longrightarrow> of_char (digit_char n) = (48 + n :: nat)"
  by (simp add: digit_char_def)

lemma digit_val_digit_char [simp]: "n < 10 \<Longrightarrow> digit_val (digit_char n) = Some n"
  by (simp add: digit_val_def of_char_digit_char)

lemma digit_char_not_sign: "n < 10 \<Longrightarrow> digit_char n \<noteq> CHR ''-'' \<and> digit_char n \<noteq> CHR ''+''"
  using of_char_digit_char [of n] by auto

lemma parse_digits_append:
  "parse_digits acc (s @ t) = (case parse_digits acc s of None \<Rightarrow> None | Some n \<Rightarrow> parse_digits n t)"
  by (induction s arbitrary: acc) (auto split: option.splits)

lemma nat_digits_not_Nil [simp]: "nat_digits n \<noteq> []"
  by (subst nat_digits.simps) simp

lemma parse_nat_digits: "parse_digits 0 (nat_digits n) = Some n"
proof (induction n rule: nat_digits.induct)
  case (1 n)
  show ?case
  proof (cases "n < 10")
    case True
    then show ?thesis by (subst nat_digits.simps) simp
  next
    case False
    then have "parse_digits 0 (nat_digits (n div 10)) = Some (n div 10)"
      by (rule "1.IH")
    with False show ?thesis
      by (subst nat_digits.simps) (simp add: parse_digits_append)
  qed
qed

lemma hd_nat_digits: "hd (nat_digits n) \<noteq> CHR ''-'' \<and> hd (nat_digits n) \<noteq> CHR ''+''"
proof (induction n rule: nat_digits.induct)
  case (1 n)
  show ?case
  proof (cases "n < 10")
    case True
    then show ?thesis by (subst (1 2) nat_digits.simps) (simp add: digit_char_not_sign)
  next
    case False
    with "1.IH" show ?thesis by (subst (1 2) nat_digits.simps) simp
  qed
qed

lemma parse_uint_nat_digits [simp]: "parse_uint (nat_digits n) = Some n"
  by (simp add: parse_uint_def parse_nat_digits)

lemma ParseInt_nat_digits: "ParseInt bits (nat_digits n) = (if n < 2 ^ (bits - 1) then Some (int n) else None)"
proof -
  obtain c cs where s: "nat_digits n = c # cs" by (cases "nat_digits n") auto
  with hd_nat_digits [of n] have "c \<noteq> CHR ''-''" "c \<noteq> CHR ''+''" by auto
  with s show ?thesis
    using parse_uint_nat_digits [of n] by (simp add: ParseInt_def)
qed

theorem ParseInt_format_int:
  "- (2 ^ (bits - 1)) \<le> i \<Longrightarrow> i < 2 ^ (bits - 1) \<Longrightarrow> ParseInt bits (format_int i) = Some i"
proof (cases "i < 0")
  case True
  assume "- (2 ^ (bits - 1)) \<le> i"
  then have "nat (- i) \<le> 2 ^ (bits - 1)" by (simp add: nat_le_iff)
  with True show ?thesis by (simp add: format_int_def ParseInt_def)
next
  case False
  assume "i < 2 ^ (bits - 1)"
  with False have "nat i < 2 ^ (bits - 1)" by (simp add: nat_less_iff)
  with False show ?thesis by (simp add: format_int_def ParseInt_nat_digits)
qed

lemma ParseInt_range:
  assumes "ParseInt bits s = Some i"
  shows "- (2 ^ (bits - 1)) \<le> i \<and> i < 2 ^ (bits - 1)"
proof -
  obtain n where "i = - int n \<and> n \<le> 2 ^ (bits - 1) \<or> i = int n \<and> n < 2 ^ (bits - 1)"
    using assms by (auto simp: ParseInt_def Let_def split: list.splits option.splits if_splits)
  then have "i = - int n \<and> int n \<le> 2 ^ (bits - 1) \<or> i = int n \<and> int n < 2 ^ (bits - 1)"
    by (metis of_nat_le_iff of_nat_less_iff of_nat_numeral of_nat_power)
  moreover have "(0::int) < 2 ^ (bits - 1)" by simp
  ultimately show ?thesis by linarith
qed

lemma format_int_not_Nil [simp]: "format_int i \<noteq> []"
  by (simp add: format_int_def)

end
