(* ===== verification/Fixtures.thy ===== *)
theory Fixtures
  imports Key Strconv
begin

text \<open>
  Concrete values for the arguments that stand for library code, on which the witnesses of the
  properties are evaluated: a small version library that reads \<open>M.m.rest\<close> with one-digit numbers,
  a client that serves fixed objects, resource types whose webhooks accept everything. They model
  no code of the program.
\<close>

definition demo_ver :: "nat \<Rightarrow> nat \<Rightarrow> string \<Rightarrow> version" where
  "demo_ver a b r = \<lparr>Major = of_nat a, Minor = of_nat b, ver_rest = r\<rparr>"

definition demo_parse :: "string \<Rightarrow> go_error + version" where
  "demo_parse s = (case TrimPrefix s ''v'' of
      a # d # b # e # r \<Rightarrow>
        (case (digit_val a, digit_val b) of
           (Some m, Some n) \<Rightarrow>
             if d = CHR ''.'' \<and> e = CHR ''.'' then Inr (demo_ver m n r) else Inl (Opaque ''parse'')
         | _ \<Rightarrow> Inl (Opaque ''parse''))
    | _ \<Rightarrow> Inl (Opaque ''parse''))"

definition demo_compare :: "version \<Rightarrow> version \<Rightarrow> int" where
  "demo_compare v w =
     (if Major v \<noteq> Major w then (if Major v < Major w then -1 else 1)
      else if Minor v \<noteq> Minor w then (if Minor v < Minor w then -1 else 1)
      else int (length (ver_rest v)) - int (length (ver_rest w)))"

definition demo_semver :: semver_api where
  "demo_semver = \<lparr>sv_ParseTolerant = demo_parse, sv_Parse = demo_parse, sv_New = demo_parse,
     sv_Compare = demo_compare, sv_String = ver_rest\<rparr>"

lemma demo_semver_precedence: "semver_precedence demo_semver"
  unfolding semver_precedence_def demo_semver_def
proof (simp, intro conjI allI impI)
  fix v w show "sgn (demo_compare v w) = - sgn (demo_compare w v)"
    by (auto simp: demo_compare_def sgn_if)
next
  fix u v w assume "demo_compare u v \<le> 0" "demo_compare v w \<le> 0"
  then show "demo_compare u w \<le> 0"
    unfolding demo_compare_def by (auto split: if_splits)
next
  fix v w assume "demo_compare v w \<le> 0"
  then show "Major v < Major w \<or> Major v = Major w \<and> Minor v \<le> Minor w"
    unfolding demo_compare_def by (auto split: if_splits)
qed

lemma demo_semver_simps [simp]:
  "sv_ParseTolerant demo_semver = demo_parse" "sv_Parse demo_semver = demo_parse"
  "sv_New demo_semver = demo_parse" "sv_Compare demo_semver = demo_compare"
  "sv_String demo_semver = ver_rest"
  by (simp_all add: demo_semver_def)

definition demo_meta :: "string \<Rightarrow> str_map \<Rightarrow> str_map \<Rightarrow> object_meta" where
  "demo_meta n ls as = \<lparr>om_name = n, om_namespace = ''org'', om_labels = ls, om_annotations = as,
     om_deletionTimestamp = None, om_rest = ''''\<rparr>"

definition demo_release :: "string \<Rightarrow> string \<Rightarrow> component list \<Rightarrow> release" where
  "demo_release n st cs = \<lparr>rel_Name = n, rel_Annotations = Map.empty, rel_State = st, rel_Components = cs\<rparr>"

definition not_found :: go_error where
  "not_found = StatusError \<lparr>st_Reason = ''NotFound'', st_Message = '''', st_Details = None\<rparr>"

text \<open>A client that knows the given releases and nothing else.\<close>

definition demo_kube :: "release list \<Rightarrow> kube_api" where
  "demo_kube rs = \<lparr>
     kube_getCluster = (\<lambda>ns n. Inl not_found),
     kube_getAzureCluster = (\<lambda>ns n. Inl not_found),
     kube_getAzureMachinePool = (\<lambda>ns n. Inl not_found),
     kube_getRelease = (\<lambda>n. case List.find (\<lambda>r. rel_Name r = n) rs of
        None \<Rightarrow> Inl not_found | Some r \<Rightarrow> Inr r),
     kube_getOrganization = (\<lambda>n. Inr ()),
     kube_listClusters = (\<lambda>v. Inr []),
     kube_listReleases = Inr rs\<rparr>"

text \<open>An AzureCluster with the given labels, and a client that also serves it under every name.\<close>

definition demo_azure_cluster :: "str_map \<Rightarrow> azure_cluster" where
  "demo_azure_cluster ls = \<lparr>ac_meta = demo_meta ''c'' ls Map.empty, ac_Location = ''westeurope'',
     ac_ControlPlaneEndpoint = \<lparr>ep_Host = ''api.c.k8s.io'', ep_Port = 443\<rparr>,
     ac_APIServerLB = \<lparr>lb_Name = '''', lb_SKU = '''', lb_Type = '''', lb_FrontendIPs = [], lb_rest = ''''\<rparr>,
     ac_rest = ''''\<rparr>"

definition demo_installation :: "release list \<Rightarrow> str_map \<Rightarrow> kube_api" where
  "demo_installation rs ls =
     (demo_kube rs)\<lparr>kube_getAzureCluster := (\<lambda>ns n. Inr (demo_azure_cluster ls))\<rparr>"

text \<open>The same client in an installation with one cluster, of the organization acme.\<close>

definition demo_org_cluster :: cluster where
  "demo_org_cluster = \<lparr>cl_meta = demo_meta ''c'' [label_Organization \<mapsto> ''acme''] Map.empty,
     cl_ClusterNetwork = None, cl_ControlPlaneEndpoint = \<lparr>ep_Host = '''', ep_Port = 0\<rparr>,
     cl_Conditions = [], cl_rest = ''''\<rparr>"

definition demo_org_kube :: "release list \<Rightarrow> str_map \<Rightarrow> kube_api" where
  "demo_org_kube rs ls = (demo_installation rs ls)\<lparr>kube_listClusters := (\<lambda>v. Inr [demo_org_cluster])\<rparr>"

definition demo_labels :: str_map where
  "demo_labels = [label_Organization \<mapsto> ''acme'', label_Cluster \<mapsto> ''c'', label_ReleaseVersion \<mapsto> ''v1.0.0'']"

lemma demo_labels_simps [simp]:
  "demo_labels label_Organization = Some ''acme''" "demo_labels label_Cluster = Some ''c''"
  "demo_labels label_ReleaseVersion = Some ''v1.0.0''" "demo_labels label_AzureOperatorVersion = None"
  by (simp_all add: demo_labels_def label_Organization_def label_Cluster_def label_ReleaseVersion_def
      label_AzureOperatorVersion_def)

definition demo_crd :: "'a crd_api" where
  "demo_crd = \<lparr>crd_Default = (\<lambda>x. x), crd_ValidateCreate = (\<lambda>x. None),
     crd_ValidateUpdate = (\<lambda>x y. None), crd_Marshal = (\<lambda>x. Inr '''')\<rparr>"

definition demo_decoder :: decoder where
  "demo_decoder = \<lparr>dec_Cluster = (\<lambda>s. Inl (Opaque s)), dec_AzureCluster = (\<lambda>s. Inl (Opaque s)),
     dec_AzureMachine = (\<lambda>s. Inl (Opaque s)), dec_AzureMachinePool = (\<lambda>s. Inl (Opaque s)),
     dec_MachinePool = (\<lambda>s. Inl (Opaque s)), dec_Spark = (\<lambda>s. Inl (Opaque s)),
     dec_AzureConfig = (\<lambda>s. Inl (Opaque s)), dec_AzureClusterConfig = (\<lambda>s. Inl (Opaque s))\<rparr>"

definition demo_condGet :: "cluster \<Rightarrow> string \<Rightarrow> condition option" where
  "demo_condGet c t = List.find (\<lambda>k. co_Type k = t) (cl_Conditions c)"

definition demo_lib :: lib where
  "demo_lib = \<lparr>
     lib_semver = demo_semver,
     lib_unicode = \<lparr>uni_ToLower = (\<lambda>r. r), uni_IsDigit = (\<lambda>r. False)\<rparr>,
     lib_condGet = demo_condGet,
     lib_condIsTrue = (\<lambda>c t. case demo_condGet c t of None \<Rightarrow> False | Some k \<Rightarrow> co_Status k = ''True''),
     lib_GetOwnerCluster = (\<lambda>k m. Inr None),
     lib_CreatePatch = (\<lambda>a b. Inr []),
     lib_Deserializer = demo_decoder, lib_mutator_Deserializer = demo_decoder,
     lib_Cluster = demo_crd, lib_AzureCluster = demo_crd, lib_AzureMachine = demo_crd,
     lib_AzureMachinePool = demo_crd, lib_MachinePool = demo_crd\<rparr>"

lemma demo_lib_simps [simp]:
  "lib_semver demo_lib = demo_semver" "lib_condGet demo_lib = demo_condGet"
  "lib_CreatePatch demo_lib a b = Inr []" "lib_Cluster demo_lib = demo_crd"
  "lib_AzureCluster demo_lib = demo_crd" "lib_AzureMachine demo_lib = demo_crd"
  "lib_AzureMachinePool demo_lib = demo_crd" "lib_MachinePool demo_lib = demo_crd"
  "lib_GetOwnerCluster demo_lib k m = Inr None" "lib_Deserializer demo_lib = demo_decoder"
  by (simp_all add: demo_lib_def)

lemma demo_condIsTrue [simp]:
  "lib_condIsTrue demo_lib c t = (case demo_condGet c t of None \<Rightarrow> False | Some k \<Rightarrow> co_Status k = ''True'')"
  by (simp add: demo_lib_def)

lemma demo_crd_simps [simp]:
  "crd_Default demo_crd x = x" "crd_ValidateCreate demo_crd x = None"
  "crd_ValidateUpdate demo_crd x y = None" "crd_Marshal demo_crd x = Inr ''''"
  by (simp_all add: demo_crd_def)

lemma demo_meta_simps [simp]:
  "om_name (demo_meta n ls as) = n" "om_labels (demo_meta n ls as) = ls"
  "om_annotations (demo_meta n ls as) = as" "om_deletionTimestamp (demo_meta n ls as) = None"
  "\<not> being_deleted (demo_meta n ls as)"
  by (simp_all add: demo_meta_def being_deleted_def ts_IsZero_def)

end
