(* ===== verification/Normalize.thy ===== *)
theory Normalize
  imports Fixtures
begin

text \<open>
  \<^verbatim>\<open>internal/normalize/normalize.go\<close>: turning an organization name into the name of the
  Organization resource. The loops of the source range over the characters of the string, so its
  bytes are decoded first, as Go decodes UTF-8: a byte that starts no valid sequence counts as the
  replacement character. Characters beyond ASCII are lowered and classified by the Unicode tables,
  which are a parameter.
\<close>

section \<open>Characters of a Go string\<close>

definition replacement_rune :: nat where
  "replacement_rune = 0xFFFD"

definition cont_byte :: "nat \<Rightarrow> bool" where
  "cont_byte b \<longleftrightarrow> 0x80 \<le> b \<and> b \<le> 0xBF"

text \<open>The first character of a non-empty byte sequence and the number of bytes it takes.\<close>

fun decode_rune :: "nat list \<Rightarrow> nat \<times> nat" where
  "decode_rune [] = (replacement_rune, 1)"
| "decode_rune (b # bs) =
     (if b < 0x80 then (b, 1)
      else if 0xC2 \<le> b \<and> b \<le> 0xDF then
        (case bs of c # _ \<Rightarrow> if cont_byte c then ((b mod 32) * 64 + c mod 64, 2) else (replacement_rune, 1)
                  | [] \<Rightarrow> (replacement_rune, 1))
      else if 0xE0 \<le> b \<and> b \<le> 0xEF then
        (case bs of c # d # _ \<Rightarrow>
            if (if b = 0xE0 then 0xA0 \<le> c \<and> c \<le> 0xBF else if b = 0xED then 0x80 \<le> c \<and> c \<le> 0x9F
                else cont_byte c) \<and> cont_byte d
            then ((b mod 16) * 4096 + (c mod 64) * 64 + d mod 64, 3) else (replacement_rune, 1)
         | _ \<Rightarrow> (replacement_rune, 1))
      else if 0xF0 \<le> b \<and> b \<le> 0xF4 then
        (case bs of c # d # e # _ \<Rightarrow>
            if (if b = 0xF0 then 0x90 \<le> c \<and> c \<le> 0xBF else if b = 0xF4 then 0x80 \<le> c \<and> c \<le> 0x8F
                else cont_byte c) \<and> cont_byte d \<and> cont_byte e
            then ((b mod 8) * 262144 + (c mod 64) * 4096 + (d mod 64) * 64 + e mod 64, 4)
            else (replacement_rune, 1)
         | _ \<Rightarrow> (replacement_rune, 1))
      else (replacement_rune, 1))"

fun runes :: "nat list \<Rightarrow> nat list" where
  "runes [] = []"
| "runes (b # bs) = (let (r, w) = decode_rune (b # bs) in r # runes (drop (w - 1) bs))"

definition encode_rune :: "nat \<Rightarrow> nat list" where
  "encode_rune r =
     (if r < 0x80 then [r]
      else if r < 0x800 then [0xC0 + r div 64, 0x80 + r mod 64]
      else if (0xD800 \<le> r \<and> r \<le> 0xDFFF) \<or> 0x10FFFF < r then [0xEF, 0xBF, 0xBD]
      else if r < 0x10000 then [0xE0 + r div 4096, 0x80 + (r div 64) mod 64, 0x80 + r mod 64]
      else [0xF0 + r div 262144, 0x80 + (r div 4096) mod 64, 0x80 + (r div 64) mod 64, 0x80 + r mod 64])"

definition string_of_runes :: "nat list \<Rightarrow> string" where
  "string_of_runes rs = map char_of (concat (map encode_rune rs))"

definition runes_of_string :: "string \<Rightarrow> nat list" where
  "runes_of_string s = runes (map of_char s)"

definition rune_ToLower :: "unicode_tables \<Rightarrow> nat \<Rightarrow> nat" where
  "rune_ToLower U r = (if r < 0x80 then (if 65 \<le> r \<and> r \<le> 90 then r + 32 else r) else uni_ToLower U r)"

definition rune_IsDigit :: "unicode_tables \<Rightarrow> nat \<Rightarrow> bool" where
  "rune_IsDigit U r = (if r < 0x80 then 48 \<le> r \<and> r \<le> 57 else uni_IsDigit U r)"

section \<open>AsDNSLabelName\<close>

definition maxDNSLabelLength :: nat where
  "maxDNSLabelLength = 63"

definition dash :: nat where
  "dash = 45"

definition rune_allowed :: "unicode_tables \<Rightarrow> nat \<Rightarrow> bool" where
  "rune_allowed U x \<longleftrightarrow> x = dash \<or> rune_IsDigit U x \<or> (97 \<le> x \<and> x \<le> 122)"

text \<open>The first loop; \<open>xs\<close> is the slice built so far.\<close>

fun collect_runes :: "unicode_tables \<Rightarrow> nat list \<Rightarrow> nat list \<Rightarrow> nat list" where
  "collect_runes U xs [] = xs"
| "collect_runes U xs (x # rest) =
     (if rune_allowed U x then collect_runes U (xs @ [x]) rest
      else if xs \<noteq> [] \<and> last xs \<noteq> dash then collect_runes U (xs @ [dash]) rest
      else collect_runes U xs rest)"

text \<open>The second loop: strip dashes from both ends.\<close>

function trim_dashes :: "nat list \<Rightarrow> nat list" where
  "trim_dashes xs =
     (if xs = [] then []
      else if hd xs = dash then trim_dashes (tl xs)
      else if last xs = dash then trim_dashes (butlast xs)
      else xs)"
  by pat_completeness auto
termination
  by (relation "measure length") auto

declare trim_dashes.simps [simp del]

definition AsDNSLabelName :: "unicode_tables \<Rightarrow> string \<Rightarrow> string" where
  "AsDNSLabelName U v =
     (let xs = trim_dashes (collect_runes U [] (map (rune_ToLower U) (runes_of_string v)))
      in string_of_runes (if length xs > maxDNSLabelLength then take maxDNSLabelLength xs else xs))"

section \<open>ASCII strings\<close>

text \<open>Label values are ASCII; on them the byte and the character view coincide.\<close>

definition is_ascii :: "string \<Rightarrow> bool" where
  "is_ascii s \<longleftrightarrow> (\<forall>c\<in>set s. of_char c < (128::nat))"

text \<open>The characters of a DNS label, and a DNS label itself (RFC 1123).\<close>

definition label_rune :: "nat \<Rightarrow> bool" where
  "label_rune r \<longleftrightarrow> r = dash \<or> (48 \<le> r \<and> r \<le> 57) \<or> (97 \<le> r \<and> r \<le> 122)"

definition dns_label :: "string \<Rightarrow> bool" where
  "dns_label s \<longleftrightarrow> s \<noteq> [] \<and> length s \<le> maxDNSLabelLength \<and>
     (\<forall>c\<in>set s. label_rune (of_char c)) \<and> hd s \<noteq> CHR ''-'' \<and> last s \<noteq> CHR ''-''"

lemma runes_ascii: "\<forall>b\<in>set bs. b < 128 \<Longrightarrow> runes bs = bs"
  by (induction bs) auto

lemma runes_of_string_ascii: "is_ascii s \<Longrightarrow> runes_of_string s = map of_char s"
  unfolding runes_of_string_def is_ascii_def by (rule runes_ascii) auto

lemma string_of_runes_ascii: "\<forall>r\<in>set rs. r < 128 \<Longrightarrow> string_of_runes rs = map char_of rs"
  by (induction rs) (auto simp: string_of_runes_def encode_rune_def)

lemma rune_allowed_ascii: "r < 128 \<Longrightarrow> rune_allowed U r \<longleftrightarrow> label_rune r"
  by (auto simp: rune_allowed_def label_rune_def rune_IsDigit_def)

lemma label_rune_ascii: "label_rune r \<Longrightarrow> r < 128"
  by (auto simp: label_rune_def dash_def)

lemma label_rune_lower: "label_rune r \<Longrightarrow> rune_ToLower U r = r"
  by (auto simp: label_rune_def rune_ToLower_def dash_def)

lemma rune_ToLower_ascii: "r < 128 \<Longrightarrow> rune_ToLower U r < 128"
  by (auto simp: rune_ToLower_def)

section \<open>The loops\<close>

lemma set_collect_runes:
  "set (collect_runes U xs rs) \<subseteq> set xs \<union> {dash} \<union> {x \<in> set rs. rune_allowed U x}"
proof (induction U xs rs rule: collect_runes.induct)
  case (1 U xs)
  then show ?case by auto
next
  case (2 U xs x rest)
  then show ?case by (cases "rune_allowed U x"; cases "xs \<noteq> [] \<and> last xs \<noteq> dash") auto
qed

lemma collect_runes_allowed:
  "\<forall>x\<in>set rs. rune_allowed U x \<Longrightarrow> collect_runes U xs rs = xs @ rs"
  by (induction rs arbitrary: xs) auto

lemma trim_dashes_no_dash_ends:
  "trim_dashes xs = [] \<or> (hd (trim_dashes xs) \<noteq> dash \<and> last (trim_dashes xs) \<noteq> dash)"
proof (induction xs rule: trim_dashes.induct)
  case (1 xs)
  then show ?case by (subst (1 2 3) trim_dashes.simps) auto
qed

lemma set_trim_dashes: "set (trim_dashes xs) \<subseteq> set xs"
proof (induction xs rule: trim_dashes.induct)
  case (1 xs)
  then show ?case
    by (subst trim_dashes.simps) (auto dest: list.set_sel(2) in_set_butlastD)
qed

lemma trim_dashes_id: "xs \<noteq> [] \<Longrightarrow> hd xs \<noteq> dash \<Longrightarrow> last xs \<noteq> dash \<Longrightarrow> trim_dashes xs = xs"
  by (subst trim_dashes.simps) simp

lemma of_char_eq_dash: "of_char c = dash \<longleftrightarrow> c = CHR ''-''"
proof -
  have "dash = of_char CHR ''-''" by (simp add: dash_def)
  then show ?thesis by (metis of_char_eq_iff)
qed

text \<open>The slice before it is cut to length, on an ASCII string.\<close>

definition normalized_runes :: "unicode_tables \<Rightarrow> string \<Rightarrow> nat list" where
  "normalized_runes U v = trim_dashes (collect_runes U [] (map (rune_ToLower U) (runes_of_string v)))"

lemma normalized_runes_label:
  assumes "is_ascii v"
  shows "\<forall>r\<in>set (normalized_runes U v). label_rune r"
proof
  fix r assume "r \<in> set (normalized_runes U v)"
  then have "r \<in> set (collect_runes U [] (map (rune_ToLower U) (runes_of_string v)))"
    unfolding normalized_runes_def using set_trim_dashes by blast
  then have "r = dash \<or> (r \<in> rune_ToLower U ` of_char ` set v \<and> rune_allowed U r)"
    using set_collect_runes [of U "[]"] by (force simp: runes_of_string_ascii [OF assms])
  moreover have "r < 128" if "r \<in> rune_ToLower U ` of_char ` set v"
    using that assms by (auto simp: is_ascii_def intro: rune_ToLower_ascii)
  ultimately show "label_rune r"
    by (auto simp: rune_allowed_ascii label_rune_def)
qed

lemma AsDNSLabelName_ascii:
  assumes "is_ascii v"
  shows "AsDNSLabelName U v = map char_of (take maxDNSLabelLength (normalized_runes U v))"
proof -
  have "\<forall>r\<in>set (take maxDNSLabelLength (normalized_runes U v)). r < 128"
    using normalized_runes_label [OF assms] label_rune_ascii by (meson in_set_takeD)
  then show ?thesis
    unfolding AsDNSLabelName_def normalized_runes_def [symmetric] Let_def
    by (auto simp: string_of_runes_ascii)
qed

section \<open>What the normalization guarantees\<close>

text \<open>C36. On an ASCII name, as the values of labels are, the result of the normalization is at most 63 bytes of
  lower-case letters, digits and dashes and does not start with a dash; if it is not empty and shorter than 63
  bytes it is a valid DNS label. (At 63 bytes it may have been cut off after a dash.)\<close>

theorem AsDNSLabelName_shape:
  assumes "is_ascii v"
  shows "length (AsDNSLabelName U v) \<le> 63 \<and>
         (\<forall>c\<in>set (AsDNSLabelName U v). label_rune (of_char c)) \<and>
         (AsDNSLabelName U v \<noteq> [] \<longrightarrow> hd (AsDNSLabelName U v) \<noteq> CHR ''-'') \<and>
         (AsDNSLabelName U v \<noteq> [] \<and> length (AsDNSLabelName U v) < 63 \<longrightarrow> dns_label (AsDNSLabelName U v))"
proof -
  let ?xs = "normalized_runes U v"
  have eq: "AsDNSLabelName U v = map char_of (take 63 ?xs)"
    using AsDNSLabelName_ascii [OF assms] by (simp add: maxDNSLabelLength_def)
  have lab: "\<forall>r\<in>set ?xs. label_rune r" by (rule normalized_runes_label [OF assms])
  have char: "of_char (char_of r) = r" if "r \<in> set ?xs" for r
    using lab label_rune_ascii that by fastforce
  have ends: "?xs = [] \<or> hd ?xs \<noteq> dash \<and> last ?xs \<noteq> dash"
    unfolding normalized_runes_def by (rule trim_dashes_no_dash_ends)
  have labels: "\<forall>c\<in>set (AsDNSLabelName U v). label_rune (of_char c)"
    using lab char by (auto simp: eq dest!: in_set_takeD)
  have first: "hd (AsDNSLabelName U v) \<noteq> CHR ''-''" if "AsDNSLabelName U v \<noteq> []"
  proof -
    have "?xs \<noteq> []" using that by (auto simp: eq)
    then have "hd (AsDNSLabelName U v) = char_of (hd ?xs)" by (simp add: eq hd_map)
    with ends \<open>?xs \<noteq> []\<close> char [of "hd ?xs"] show ?thesis
      by (metis hd_in_set of_char_eq_dash)
  qed
  have last: "last (AsDNSLabelName U v) \<noteq> CHR ''-''"
    if "AsDNSLabelName U v \<noteq> []" "length (AsDNSLabelName U v) < 63"
  proof -
    have "?xs \<noteq> []" "take 63 ?xs = ?xs" using that by (auto simp: eq)
    then have "last (AsDNSLabelName U v) = char_of (last ?xs)" by (simp add: eq last_map)
    with ends \<open>?xs \<noteq> []\<close> char [of "last ?xs"] show ?thesis
      by (metis last_in_set of_char_eq_dash)
  qed
  show ?thesis
    using labels first last by (auto simp: dns_label_def maxDNSLabelLength_def eq)
qed

theorem AsDNSLabelName_shape_witness:
  "is_ascii ''Giant..Swarm!'' \<and> dns_label (AsDNSLabelName (lib_unicode demo_lib) ''Giant..Swarm!'')"
proof -
  have a: "is_ascii ''Giant..Swarm!''" by (simp add: is_ascii_def)
  have "AsDNSLabelName (lib_unicode demo_lib) ''Giant..Swarm!'' = ''giant-swarm''"
    by (simp add: AsDNSLabelName_ascii [OF a] normalized_runes_def runes_of_string_ascii [OF a]
        rune_ToLower_def rune_allowed_def rune_IsDigit_def dash_def trim_dashes.simps maxDNSLabelLength_def char_of_def bit_0)
  with AsDNSLabelName_shape [OF a, of "lib_unicode demo_lib"] a show ?thesis by simp
qed

text \<open>A name that already is a valid DNS label is left as it is, so the lookup by normalized name
  finds the organizations whose names are DNS labels.\<close>

theorem AsDNSLabelName_fixes_labels:
  assumes "dns_label s"
  shows "AsDNSLabelName U s = s"
proof -
  have lab: "\<forall>c\<in>set s. label_rune (of_char c)" and len: "length s \<le> 63" and ne: "s \<noteq> []"
    and ends: "hd s \<noteq> CHR ''-''" "last s \<noteq> CHR ''-''"
    using assms by (auto simp: dns_label_def maxDNSLabelLength_def)
  have asc: "is_ascii s" using lab label_rune_ascii by (auto simp: is_ascii_def)
  have low: "map (rune_ToLower U) (map of_char s) = map of_char s"
    using lab by (auto simp: label_rune_lower)
  have "collect_runes U [] (map of_char s) = map of_char s"
    using lab asc by (subst collect_runes_allowed) (auto simp: rune_allowed_ascii is_ascii_def)
  then have "normalized_runes U s = map of_char s"
    using ne ends by (simp only: normalized_runes_def runes_of_string_ascii [OF asc] low)
      (simp add: trim_dashes_id hd_map last_map of_char_eq_dash)
  then show ?thesis
    using len by (simp add: AsDNSLabelName_ascii [OF asc] maxDNSLabelLength_def comp_def)
qed

theorem AsDNSLabelName_fixes_labels_witness:
  "dns_label ''giantswarm-1'' \<and> AsDNSLabelName (lib_unicode demo_lib) ''giantswarm-1'' = ''giantswarm-1''"
proof -
  have "dns_label ''giantswarm-1''"
    by (simp add: dns_label_def label_rune_def dash_def maxDNSLabelLength_def)
  with AsDNSLabelName_fixes_labels [OF this] show ?thesis by simp
qed

text \<open>The result is cut to length after its dashes are stripped, so a long name can be normalized
  to a name that ends in a dash, which is no DNS label.\<close>

theorem AsDNSLabelName_can_end_in_dash:
  "AsDNSLabelName U (replicate 62 CHR ''a'' @ ''.b'') = replicate 62 CHR ''a'' @ ''-'' \<and>
   \<not> dns_label (AsDNSLabelName U (replicate 62 CHR ''a'' @ ''.b''))"
proof -
  let ?v = "replicate 62 CHR ''a'' @ ''.b''"
  have a: "is_ascii ?v" by (simp add: is_ascii_def)
  have r: "map (rune_ToLower U) (runes_of_string ?v) = replicate 62 97 @ [46, 98]"
    by (simp add: runes_of_string_ascii [OF a] rune_ToLower_def)
  have split: "collect_runes U xs (replicate n 97 @ rs) = collect_runes U (xs @ replicate n 97) rs" for xs n rs
    by (induction n arbitrary: xs) (simp_all add: rune_allowed_def replicate_app_Cons_same)
  have "collect_runes U [] (replicate 62 97 @ [46, 98]) = replicate 62 97 @ [dash, 98]"
    by (subst split) (simp add: rune_allowed_def rune_IsDigit_def dash_def)
  then have "normalized_runes U ?v = replicate 62 97 @ [dash, 98]"
    unfolding normalized_runes_def r by (simp add: trim_dashes_id dash_def)
  then have eq: "AsDNSLabelName U ?v = replicate 62 CHR ''a'' @ ''-''"
    by (simp add: AsDNSLabelName_ascii [OF a] maxDNSLabelLength_def dash_def char_of_def bit_0)
  then show ?thesis by (simp add: dns_label_def)
qed

end
