(* ===== verification/Guards.thy ===== *)
theory Guards
  imports Prelude
begin

text \<open>
  The contract of an \<open>...Unchanged\<close> check, as the update handlers rely on it: a check compares the
  old and the new object, and an accepted update leaves a view of the object as it was. What
  follows for a whole history of accepted updates is proved here once, and every check of the
  handlers is an instance.
\<close>

locale conserved_view =
  fixes check :: "'a \<Rightarrow> 'a \<Rightarrow> (unit, 'e) outcome"
    and view :: "'a \<Rightarrow> 'v"
  assumes conserves: "check old new = Ok () \<Longrightarrow> view old = view new"
begin

lemma history_conserves:
  assumes "\<And>old new. step old new \<Longrightarrow> check old new = Ok ()" and "step\<^sup>*\<^sup>* old new"
  shows "view old = view new"
  using assms(2)
proof (induction rule: rtranclp_induct)
  case base
  show ?case ..
next
  case (step y z)
  from step.hyps(2) have "view y = view z" by (intro conserves assms(1))
  with step.IH show ?case by simp
qed

lemma refuses_change: "view old \<noteq> view new \<Longrightarrow> check old new \<noteq> Ok ()"
  using conserves by blast

end

text \<open>A check that looks at nothing else: it accepts every update that leaves the view unchanged.\<close>

locale unchanged_check = conserved_view +
  assumes accepts: "view old = view new \<Longrightarrow> check old new = Ok ()"
begin

lemma accepts_iff: "check old new = Ok () \<longleftrightarrow> view old = view new"
  using accepts conserves by blast

lemma reflexive: "check x x = Ok ()"
  by (simp add: accepts)

lemma symmetric: "check x y = Ok () \<Longrightarrow> check y x = Ok ()"
  by (simp add: accepts_iff)

lemma composes: "check x y = Ok () \<Longrightarrow> check y z = Ok () \<Longrightarrow> check x z = Ok ()"
  by (simp add: accepts_iff)

lemma history_accepts:
  assumes "\<And>old new. step old new \<Longrightarrow> check old new = Ok ()" and "step\<^sup>*\<^sup>* old new"
  shows "check old new = Ok ()"
  by (rule accepts) (rule history_conserves [OF assms])

end

end
