(* ===== verification/ReleaseVersion.thy ===== *)
theory ReleaseVersion
  imports Fixtures
begin

text \<open>
  The release policy: \<^verbatim>\<open>internal/releaseversion\<close> and \<^verbatim>\<open>internal/semverhelper\<close>. Every update
  handler ends here: a change of the release version of a cluster, a node pool or a machine is
  accepted only if the new release exists and is reached without a downgrade, without an alpha
  release at either end, and without skipping a minor release.
\<close>

section \<open>Reading a version off the labels\<close>

definition GetSemverFromString :: "semver_api \<Rightarrow> string \<Rightarrow> version res" where
  "GetSemverFromString S v = of_lib (sv_ParseTolerant S v)"

definition GetSemverFromLabels :: "semver_api \<Rightarrow> str_map \<Rightarrow> version res" where
  "GetSemverFromLabels S labels = (case labels label_ReleaseVersion of
      None \<Rightarrow> Err (Micro (E_errors Errors_ParsingFailedError))
    | Some v \<Rightarrow> GetSemverFromString S v)"

section \<open>The releases of the installation\<close>

record release_entry =
  re_Version :: version
  re_CR :: release

definition ignoreReleaseAnnotation :: string where
  "ignoreReleaseAnnotation = ''release.giantswarm.io/ignore''"

definition isAlphaRelease :: "string \<Rightarrow> bool" where
  "isAlphaRelease r = Contains r ''alpha''"

definition isIgnoredRelease :: "release \<Rightarrow> bool" where
  "isIgnoredRelease cr = (case rel_Annotations cr ignoreReleaseAnnotation of
      None \<Rightarrow> False
    | Some v \<Rightarrow> map ascii_lower v = ''true'')"

definition isDeprecatedRelease :: "release \<Rightarrow> bool" where
  "isDeprecatedRelease cr \<longleftrightarrow> rel_State cr = ''deprecated''"

fun parse_releases :: "semver_api \<Rightarrow> release list \<Rightarrow> release_entry list res" where
  "parse_releases S [] = Ok []"
| "parse_releases S (cr # crs) =
     bind_res (replace_err (of_lib (sv_ParseTolerant S (rel_Name cr)))
                           (Micro (E_errors Errors_InvalidReleaseError)))
       (\<lambda>parsed. bind_res (parse_releases S crs)
         (\<lambda>es. Ok (\<lparr>re_Version = parsed, re_CR = cr\<rparr> # es)))"

definition availableReleases :: "semver_api \<Rightarrow> kube_api \<Rightarrow> release_entry list res" where
  "availableReleases S ctrlClient =
     bind_res (of_lib (kube_listReleases ctrlClient)) (parse_releases S)"

definition filterOutAlphaAndIgnoredAndDeprecatedReleases ::
    "semver_api \<Rightarrow> release_entry list \<Rightarrow> release_entry list" where
  "filterOutAlphaAndIgnoredAndDeprecatedReleases S es =
     List.filter (\<lambda>e. \<not> isAlphaRelease (sv_String S (re_Version e)) \<and>
                      \<not> isIgnoredRelease (re_CR e) \<and> \<not> isDeprecatedRelease (re_CR e)) es"

definition isOldOrNewReleaseIgnored ::
    "semver_api \<Rightarrow> release_entry list \<Rightarrow> version \<Rightarrow> version \<Rightarrow> bool" where
  "isOldOrNewReleaseIgnored S es old new =
     list_ex (\<lambda>e. (sv_EQ S (re_Version e) old \<or> sv_EQ S (re_Version e) new) \<and>
                  isIgnoredRelease (re_CR e)) es"

definition included :: "semver_api \<Rightarrow> release_entry list \<Rightarrow> version \<Rightarrow> bool" where
  "included S es v = list_ex (\<lambda>e. sv_EQ S (re_Version e) v) es"

text \<open>The body of the search loop: the release is skipped when going from old to new.\<close>

definition skipped_release :: "semver_api \<Rightarrow> version \<Rightarrow> version \<Rightarrow> release_entry \<Rightarrow> bool" where
  "skipped_release S old new e \<longleftrightarrow>
     \<not> (sv_EQ S (re_Version e) old \<or> sv_EQ S (re_Version e) new) \<and>
     sv_GT S (re_Version e) old \<and> sv_LT S (re_Version e) new \<and>
     (Major old \<noteq> Major (re_Version e) \<or> Minor old \<noteq> Minor (re_Version e)) \<and>
     (Major new \<noteq> Major (re_Version e) \<or> Minor new \<noteq> Minor (re_Version e))"

definition Validate :: "semver_api \<Rightarrow> kube_api \<Rightarrow> version \<Rightarrow> version \<Rightarrow> unit res" where
  "Validate S ctrlClient old new =
     (if sv_EQ S old new then Ok ()
      else bind_res (availableReleases S ctrlClient) (\<lambda>es.
        if \<not> included S es new then Err (Micro (E_releaseversion ReleaseVersion_releaseNotFoundError))
        else if isOldOrNewReleaseIgnored S es old new then Ok ()
        else if sv_LT S new old then Err (Micro (E_releaseversion ReleaseVersion_downgradingIsNotAllowedError))
        else if isAlphaRelease (sv_String S old) \<or> isAlphaRelease (sv_String S new)
          then Err (Micro (E_releaseversion ReleaseVersion_upgradingToOrFromAlphaReleaseError))
        else if Major old \<noteq> Major new \<or> Minor old \<noteq> Minor new
          then (case List.find (skipped_release S old new)
                       (filterOutAlphaAndIgnoredAndDeprecatedReleases S es) of
                  Some e \<Rightarrow> Err (Micro (E_releaseversion ReleaseVersion_skippingReleaseError))
                | None \<Rightarrow> Ok ())
        else Ok ()))"

section \<open>The policy, stated abstractly\<close>

definition same_minor :: "version \<Rightarrow> version \<Rightarrow> bool" where
  "same_minor v w \<longleftrightarrow> Major v = Major w \<and> Minor v = Minor w"

text \<open>A release that counts when steps are checked for gaps.\<close>

definition active_release :: "semver_api \<Rightarrow> release_entry \<Rightarrow> bool" where
  "active_release S e \<longleftrightarrow> \<not> isAlphaRelease (sv_String S (re_Version e)) \<and>
     \<not> isIgnoredRelease (re_CR e) \<and> \<not> isDeprecatedRelease (re_CR e)"

definition strictly_between :: "semver_api \<Rightarrow> version \<Rightarrow> version \<Rightarrow> version \<Rightarrow> bool" where
  "strictly_between S old v new \<longleftrightarrow> sv_GT S v old \<and> sv_LT S v new"

definition touches_ignored :: "semver_api \<Rightarrow> release_entry list \<Rightarrow> version \<Rightarrow> version \<Rightarrow> bool" where
  "touches_ignored S es old new \<longleftrightarrow>
     (\<exists>e\<in>set es. isIgnoredRelease (re_CR e) \<and>
        (sv_EQ S (re_Version e) old \<or> sv_EQ S (re_Version e) new))"

text \<open>Going up, between stable releases, through the next minor release only.\<close>

definition regular_upgrade :: "semver_api \<Rightarrow> release_entry list \<Rightarrow> version \<Rightarrow> version \<Rightarrow> bool" where
  "regular_upgrade S es old new \<longleftrightarrow>
     \<not> sv_LT S new old \<and>
     \<not> isAlphaRelease (sv_String S old) \<and> \<not> isAlphaRelease (sv_String S new) \<and>
     (same_minor old new \<or>
      (\<forall>e\<in>set es. active_release S e \<and> strictly_between S old (re_Version e) new \<longrightarrow>
         same_minor old (re_Version e) \<or> same_minor new (re_Version e)))"

definition upgrade_permitted :: "semver_api \<Rightarrow> release_entry list \<Rightarrow> version \<Rightarrow> version \<Rightarrow> bool" where
  "upgrade_permitted S es old new \<longleftrightarrow>
     (\<exists>e\<in>set es. sv_EQ S (re_Version e) new) \<and>
     (touches_ignored S es old new \<or> regular_upgrade S es old new)"

lemma included_iff: "included S es v \<longleftrightarrow> (\<exists>e\<in>set es. sv_EQ S (re_Version e) v)"
  by (simp add: included_def list_ex_iff)

lemma isOldOrNewReleaseIgnored_iff: "isOldOrNewReleaseIgnored S es old new \<longleftrightarrow> touches_ignored S es old new"
  by (auto simp: isOldOrNewReleaseIgnored_def touches_ignored_def list_ex_iff)

lemma skipped_release_iff:
  "skipped_release S old new e \<longleftrightarrow>
     strictly_between S old (re_Version e) new \<and>
     \<not> same_minor old (re_Version e) \<and> \<not> same_minor new (re_Version e)"
  by (auto simp: skipped_release_def strictly_between_def same_minor_def sv_EQ_def sv_GT_def sv_LT_def)

lemma find_skipped_None_iff:
  "List.find (skipped_release S old new) (filterOutAlphaAndIgnoredAndDeprecatedReleases S es) = None \<longleftrightarrow>
     (\<forall>e\<in>set es. active_release S e \<and> strictly_between S old (re_Version e) new \<longrightarrow>
         same_minor old (re_Version e) \<or> same_minor new (re_Version e))"
  by (auto simp: find_None_iff filterOutAlphaAndIgnoredAndDeprecatedReleases_def active_release_def
      skipped_release_iff)

text \<open>The reasons for a refusal once the releases are known, in the order the code checks them.\<close>

definition refusal :: "semver_api \<Rightarrow> release_entry list \<Rightarrow> version \<Rightarrow> version \<Rightarrow> releaseversion_error option" where
  "refusal S es old new =
     (if \<not> (\<exists>e\<in>set es. sv_EQ S (re_Version e) new) then Some ReleaseVersion_releaseNotFoundError
      else if touches_ignored S es old new then None
      else if sv_LT S new old then Some ReleaseVersion_downgradingIsNotAllowedError
      else if isAlphaRelease (sv_String S old) \<or> isAlphaRelease (sv_String S new)
        then Some ReleaseVersion_upgradingToOrFromAlphaReleaseError
      else if regular_upgrade S es old new then None
      else Some ReleaseVersion_skippingReleaseError)"

lemma find_skipped_cases:
  "(case List.find (skipped_release S old new) (filterOutAlphaAndIgnoredAndDeprecatedReleases S es) of
      Some e \<Rightarrow> x | None \<Rightarrow> y) =
   (if \<forall>e\<in>set es. active_release S e \<and> strictly_between S old (re_Version e) new \<longrightarrow>
         same_minor old (re_Version e) \<or> same_minor new (re_Version e) then y else x)"
  unfolding find_skipped_None_iff [symmetric] by (simp split: option.split)

lemma Validate_eq_refusal:
  "Validate S k old new =
     (if sv_EQ S old new then Ok ()
      else bind_res (availableReleases S k) (\<lambda>es.
        case refusal S es old new of None \<Rightarrow> Ok () | Some e \<Rightarrow> Err (Micro (E_releaseversion e))))"
  unfolding Validate_def find_skipped_cases included_iff isOldOrNewReleaseIgnored_iff
  by (rule if_cong [OF refl refl], rule arg_cong [where f = "bind_res _"], rule ext)
    (auto simp: refusal_def regular_upgrade_def same_minor_def)

lemma refusal_None_iff: "refusal S es old new = None \<longleftrightarrow> upgrade_permitted S es old new"
  by (auto simp: refusal_def upgrade_permitted_def regular_upgrade_def)

lemma GetSemverFromLabels_not_Panic [simp]: "GetSemverFromLabels S labels \<noteq> Panic"
  by (simp add: GetSemverFromLabels_def GetSemverFromString_def split: option.split)

lemma parse_releases_not_Panic [simp]: "parse_releases S crs \<noteq> Panic"
  by (induction crs) (auto simp: bind_res_Panic_iff)

lemma Validate_not_Panic [simp]: "Validate S k old new \<noteq> Panic"
  by (auto simp: Validate_eq_refusal bind_res_Panic_iff availableReleases_def split: option.split)

section \<open>What the policy guarantees\<close>

text \<open>C3. A version change is accepted exactly when the version is unchanged or the releases of the
  installation can be listed and parsed and the abstract policy permits the change.\<close>

theorem Validate_accepts_iff:
  "Validate S k old new = Ok () \<longleftrightarrow>
     sv_EQ S old new \<or> (\<exists>es. availableReleases S k = Ok es \<and> upgrade_permitted S es old new)"
  by (auto simp: Validate_eq_refusal outcome_simps refusal_None_iff split: option.splits)

section \<open>A small installation for the witnesses\<close>

definition demo_releases :: "release list" where
  "demo_releases = [demo_release ''v1.0.0'' ''active'' [], demo_release ''v1.0.00'' ''active'' [],
     demo_release ''v1.1.0'' ''active'' [], demo_release ''v1.2.0'' ''active'' []]"

definition demo_entries :: "release_entry list" where
  "demo_entries = [
     \<lparr>re_Version = demo_ver 1 0 ''0'', re_CR = demo_release ''v1.0.0'' ''active'' []\<rparr>,
     \<lparr>re_Version = demo_ver 1 0 ''00'', re_CR = demo_release ''v1.0.00'' ''active'' []\<rparr>,
     \<lparr>re_Version = demo_ver 1 1 ''0'', re_CR = demo_release ''v1.1.0'' ''active'' []\<rparr>,
     \<lparr>re_Version = demo_ver 1 2 ''0'', re_CR = demo_release ''v1.2.0'' ''active'' []\<rparr>]"

lemma demo_available: "availableReleases demo_semver (demo_kube demo_releases) = Ok demo_entries"
  by (simp add: availableReleases_def demo_kube_def demo_releases_def demo_entries_def
      demo_release_def demo_parse_def TrimPrefix_def HasPrefix_def digit_val_def demo_ver_def)

lemma demo_installation_available:
  "availableReleases demo_semver (demo_installation demo_releases ls) = Ok demo_entries"
  using demo_available by (simp add: availableReleases_def demo_installation_def)

lemma demo_labels_version:
  "ls label_ReleaseVersion = Some ''v1.0.0'' \<Longrightarrow> GetSemverFromLabels demo_semver ls = Ok (demo_ver 1 0 ''0'')"
  "ls label_ReleaseVersion = Some ''v1.1.0'' \<Longrightarrow> GetSemverFromLabels demo_semver ls = Ok (demo_ver 1 1 ''0'')"
  by (simp_all add: GetSemverFromLabels_def GetSemverFromString_def demo_parse_def TrimPrefix_def HasPrefix_def
      digit_val_def)

lemmas demo_version_simps = demo_ver_def demo_compare_def sv_EQ_def sv_LT_def sv_GT_def
  same_minor_def strictly_between_def

lemmas demo_entry_simps = demo_entries_def demo_release_def active_release_def touches_ignored_def
  isIgnoredRelease_def isDeprecatedRelease_def isAlphaRelease_def HasPrefix_def

text \<open>An upgrade this installation permits.\<close>

lemma demo_upgrade_valid:
  assumes "availableReleases demo_semver k = Ok demo_entries"
  shows "Validate demo_semver k (demo_ver 1 0 ''0'') (demo_ver 1 1 ''0'') = Ok ()"
  using assms
  by (simp add: Validate_eq_refusal outcome_simps refusal_def regular_upgrade_def)
    (simp add: demo_version_simps demo_entry_simps)

section \<open>Refusals\<close>

text \<open>C4. The error of a refused change names its reason: the new release is missing; else, unless an
  ignored release is at either end, a downgrade; else an alpha release at either end; else a skipped
  minor release. These are all the refusals once the releases are listed.\<close>

theorem Validate_refusals:
  assumes "\<not> sv_EQ S old new" and "availableReleases S k = Ok es"
  shows "(Validate S k old new = Err (Micro (E_releaseversion ReleaseVersion_releaseNotFoundError)) \<longleftrightarrow>
           (\<forall>e\<in>set es. \<not> sv_EQ S (re_Version e) new)) \<and>
         (Validate S k old new = Err (Micro (E_releaseversion ReleaseVersion_downgradingIsNotAllowedError)) \<longleftrightarrow>
           (\<exists>e\<in>set es. sv_EQ S (re_Version e) new) \<and> \<not> touches_ignored S es old new \<and> sv_LT S new old) \<and>
         (Validate S k old new = Err (Micro (E_releaseversion ReleaseVersion_upgradingToOrFromAlphaReleaseError)) \<longleftrightarrow>
           (\<exists>e\<in>set es. sv_EQ S (re_Version e) new) \<and> \<not> touches_ignored S es old new \<and> \<not> sv_LT S new old \<and>
           (isAlphaRelease (sv_String S old) \<or> isAlphaRelease (sv_String S new))) \<and>
         (Validate S k old new = Err (Micro (E_releaseversion ReleaseVersion_skippingReleaseError)) \<longleftrightarrow>
           (\<exists>e\<in>set es. sv_EQ S (re_Version e) new) \<and> \<not> touches_ignored S es old new \<and> \<not> sv_LT S new old \<and>
           \<not> isAlphaRelease (sv_String S old) \<and> \<not> isAlphaRelease (sv_String S new) \<and>
           \<not> same_minor old new \<and>
           (\<exists>e\<in>set es. active_release S e \<and> strictly_between S old (re_Version e) new \<and>
              \<not> same_minor old (re_Version e) \<and> \<not> same_minor new (re_Version e))) \<and>
         (Validate S k old new \<noteq> Ok () \<longrightarrow> (\<exists>e. Validate S k old new = Err (Micro (E_releaseversion e))))"
  using assms by (auto simp: Validate_eq_refusal refusal_def regular_upgrade_def)

theorem Validate_refusals_witness:
  "Validate demo_semver (demo_kube demo_releases) (demo_ver 1 0 ''0'') (demo_ver 1 2 ''0'') =
     Err (Micro (E_releaseversion ReleaseVersion_skippingReleaseError))"
proof -
  have "\<not> sv_EQ demo_semver (demo_ver 1 0 ''0'') (demo_ver 1 2 ''0'')"
    by (simp add: demo_version_simps)
  from Validate_refusals [OF this demo_available] show ?thesis
    by (simp add: demo_version_simps demo_entry_simps)
qed

lemma strictly_betweenD:
  assumes "semver_precedence S" and "strictly_between S old v new"
  shows "sv_Compare S old v < 0" and "sv_Compare S v new < 0"
  using assms by (simp_all add: strictly_between_def sv_GT_def sv_LT_def sv_Compare_flip)

lemma strictly_between_same_minor:
  assumes "semver_precedence S" and "strictly_between S old v new" and "same_minor old new"
  shows "same_minor old v"
proof -
  have "sv_Compare S old v \<le> 0" "sv_Compare S v new \<le> 0"
    using strictly_betweenD [OF assms(1,2)] by simp_all
  then have
    "Major old < Major v \<or> Major old = Major v \<and> Minor old \<le> Minor v"
    "Major v < Major new \<or> Major v = Major new \<and> Minor v \<le> Minor new"
    by (simp_all add: sv_Compare_minor [OF assms(1)])
  with assms(3) show ?thesis
    unfolding same_minor_def by (metis leD order_antisym order_less_imp_le)
qed

lemma strictly_between_not_EQ:
  assumes "semver_precedence S" and "strictly_between S old v new"
  shows "\<not> sv_EQ S old new"
proof
  assume "sv_EQ S old new"
  then have "sv_Compare S new old \<le> 0"
    using sv_Compare_flip [OF assms(1), of new old] by (simp add: sv_EQ_def)
  moreover have "sv_Compare S old v \<le> 0"
    using strictly_betweenD [OF assms] by simp
  ultimately have "sv_Compare S new v \<le> 0"
    by (rule sv_Compare_trans [OF assms(1)])
  with strictly_betweenD(2) [OF assms] show False
    using sv_Compare_flip [OF assms(1), of new v] by simp
qed

text \<open>No minor release is skipped: when an accepted change touches no ignored release, every active
  release that lies strictly between the two versions belongs to the minor line of one of them.\<close>

theorem Validate_skips_no_minor:
  assumes "semver_precedence S" and "availableReleases S k = Ok es"
    and "Validate S k old new = Ok ()" and "\<not> touches_ignored S es old new"
    and "e \<in> set es" and "active_release S e" and "strictly_between S old (re_Version e) new"
  shows "same_minor old (re_Version e) \<or> same_minor new (re_Version e)"
proof -
  have "\<not> sv_EQ S old new"
    by (rule strictly_between_not_EQ [OF assms(1,7)])
  with assms(2-4) have "regular_upgrade S es old new"
    by (auto simp: Validate_eq_refusal outcome_simps refusal_None_iff upgrade_permitted_def split: if_splits option.splits)
  with assms(5-7) strictly_between_same_minor [OF assms(1,7)] show ?thesis
    by (auto simp: regular_upgrade_def)
qed

theorem Validate_skips_no_minor_witness:
  "Validate demo_semver (demo_kube demo_releases) (demo_ver 1 0 ''0'') (demo_ver 1 1 ''0'') = Ok () \<and>
   (same_minor (demo_ver 1 0 ''0'') (demo_ver 1 0 ''00'') \<or>
    same_minor (demo_ver 1 1 ''0'') (demo_ver 1 0 ''00''))"
proof -
  let ?old = "demo_ver 1 0 ''0''" and ?new = "demo_ver 1 1 ''0''" and ?e = "demo_entries ! 1"
  have unign: "\<not> touches_ignored demo_semver demo_entries ?old ?new"
    by (simp add: demo_entry_simps)
  have ok: "Validate demo_semver (demo_kube demo_releases) ?old ?new = Ok ()"
    by (simp add: Validate_eq_refusal demo_available refusal_def regular_upgrade_def
        demo_version_simps demo_entry_simps)
  have e: "?e \<in> set demo_entries" "active_release demo_semver ?e"
    "strictly_between demo_semver ?old (re_Version ?e) ?new"
    by (simp_all add: demo_version_simps demo_entry_simps)
  from Validate_skips_no_minor [OF demo_semver_precedence demo_available ok unign e] ok
  show ?thesis by (simp add: demo_entries_def)
qed

section \<open>Histories of accepted changes\<close>

text \<open>
  A history is a sequence of accepted changes; the list of releases may differ at each step, but none
  of its releases is marked as ignored.
\<close>

definition no_ignored_release :: "semver_api \<Rightarrow> kube_api \<Rightarrow> bool" where
  "no_ignored_release S k \<longleftrightarrow>
     (\<forall>es. availableReleases S k = Ok es \<longrightarrow> (\<forall>e\<in>set es. \<not> isIgnoredRelease (re_CR e)))"

inductive upgrade_history :: "semver_api \<Rightarrow> version \<Rightarrow> version \<Rightarrow> bool" where
  start: "upgrade_history S v v"
| change: "upgrade_history S v w \<Longrightarrow> Validate S k w x = Ok () \<Longrightarrow> no_ignored_release S k \<Longrightarrow>
    upgrade_history S v x"

lemma Validate_no_downgrade:
  assumes "semver_precedence S" and "Validate S k w x = Ok ()" and "no_ignored_release S k"
  shows "\<not> sv_LT S x w"
proof (cases "sv_EQ S w x")
  case True
  with assms(1) show ?thesis by (rule sv_EQ_not_LT)
next
  case False
  with assms(2) obtain es where es: "availableReleases S k = Ok es" "upgrade_permitted S es w x"
    by (auto simp: Validate_eq_refusal outcome_simps refusal_None_iff split: if_splits option.splits)
  with assms(3) have "\<not> touches_ignored S es w x"
    by (auto simp: no_ignored_release_def touches_ignored_def)
  with es(2) show ?thesis by (simp add: upgrade_permitted_def regular_upgrade_def)
qed

text \<open>Along any history of accepted changes that involves no ignored release, the version never
  falls below an earlier one.\<close>

theorem upgrade_history_never_downgrades:
  assumes "semver_precedence S" and "upgrade_history S v w"
  shows "\<not> sv_LT S w v"
  using assms(2,1)
proof (induction rule: upgrade_history.induct)
  case (start S v)
  then show ?case by (simp add: sv_EQ_not_LT sv_EQ_refl)
next
  case (change S v w k x)
  have "\<not> sv_LT S w v" by (rule change.IH [OF change.prems])
  moreover have "\<not> sv_LT S x w"
    by (rule Validate_no_downgrade [OF change.prems change.hyps(2,3)])
  ultimately show ?case by (rule sv_not_LT_trans [OF change.prems])
qed

theorem upgrade_history_never_downgrades_witness:
  "upgrade_history demo_semver (demo_ver 1 0 ''0'') (demo_ver 1 1 ''0'') \<and>
   \<not> sv_LT demo_semver (demo_ver 1 1 ''0'') (demo_ver 1 0 ''0'')"
proof -
  have "Validate demo_semver (demo_kube demo_releases) (demo_ver 1 0 ''0'') (demo_ver 1 1 ''0'') = Ok ()"
    by (simp add: Validate_eq_refusal demo_available refusal_def regular_upgrade_def
        demo_version_simps demo_entry_simps)
  moreover have "no_ignored_release demo_semver (demo_kube demo_releases)"
    by (simp add: no_ignored_release_def demo_available demo_entry_simps)
  ultimately have "upgrade_history demo_semver (demo_ver 1 0 ''0'') (demo_ver 1 1 ''0'')"
    by (rule upgrade_history.change [OF upgrade_history.start])
  with upgrade_history_never_downgrades [OF demo_semver_precedence this] show ?thesis by simp
qed

end
