(* ===== verification/Generic.thy ===== *)
theory Generic
  imports Normalize Guards ReleaseVersion
begin

text \<open>
  \<^verbatim>\<open>pkg/generic\<close>: the cluster an object belongs to, the organization label rules shared by the
  handlers, and the test for releases that run on Cluster API controllers.
\<close>

section \<open>The owner cluster (meta.go)\<close>

text \<open>The result \<open>(name, ok)\<close> of the source; \<open>None\<close> stands for a nil \<open>GetObjectMeta()\<close>.\<close>

definition TryGetClusterName :: "object_meta option \<Rightarrow> string \<times> bool" where
  "TryGetClusterName om = (case om of
      None \<Rightarrow> ('''', False)
    | Some m \<Rightarrow>
        (let labels = om_labels m;
             clusterName = (let n = mget labels capi_ClusterLabelName
                            in if n = '''' then mget labels label_Cluster else n)
         in (clusterName, clusterName \<noteq> '''')))"

definition TryGetOwnerCluster :: "kube_api \<Rightarrow> object_meta option \<Rightarrow> (cluster option) res" where
  "TryGetOwnerCluster ctrlReader om =
     (let (clusterName, ok) = TryGetClusterName om in
      if \<not> ok then Ok None
      else (case om of
          None \<Rightarrow> Ok None
        | Some m \<Rightarrow>
            (case kube_getCluster ctrlReader (om_namespace m) clusterName of
               Inl err \<Rightarrow> if IsNotFound err then Ok None else Err err
             | Inr c \<Rightarrow> Ok (Some c))))"

section \<open>The organization label (validate\_organization\_label.go)\<close>

definition generic_err :: "generic_error \<Rightarrow> go_error" where
  "generic_err e = Micro (E_generic e)"

definition ValidateOrganizationLabelUnchanged :: "object_meta \<Rightarrow> object_meta \<Rightarrow> unit res" where
  "ValidateOrganizationLabelUnchanged old new =
     (if om_labels old label_Organization = None then Err (generic_err Generic_organizationLabelNotFoundError)
      else if om_labels new label_Organization = None then Err (generic_err Generic_organizationLabelNotFoundError)
      else if mget (om_labels old) label_Organization \<noteq> mget (om_labels new) label_Organization
        then Err (generic_err Generic_organizationLabelWasChangedError)
      else Ok ())"

definition ValidateOrganizationLabelContainsExistingOrganization ::
    "unicode_tables \<Rightarrow> kube_api \<Rightarrow> object_meta \<Rightarrow> unit res" where
  "ValidateOrganizationLabelContainsExistingOrganization U ctrlClient obj =
     (case om_labels obj label_Organization of
        None \<Rightarrow> Err (generic_err Generic_organizationLabelNotFoundError)
      | Some organizationName \<Rightarrow>
          (case kube_getOrganization ctrlClient (AsDNSLabelName U organizationName) of
             Inl err \<Rightarrow> if IsNotFound err then Err (generic_err Generic_organizationNotFoundError) else Err err
           | Inr _ \<Rightarrow> Ok ()))"

definition ValidateOrganizationLabelMatchesCluster :: "kube_api \<Rightarrow> object_meta \<Rightarrow> unit res" where
  "ValidateOrganizationLabelMatchesCluster ctrlClient obj =
     (case om_labels obj label_Organization of
        None \<Rightarrow> Err (generic_err Generic_organizationLabelNotFoundError)
      | Some organizationName \<Rightarrow>
     (case om_labels obj label_Cluster of
        None \<Rightarrow> Err (generic_err Generic_clusterLabelNotFoundError)
      | Some clusterName \<Rightarrow>
     (case kube_listClusters ctrlClient clusterName of
        Inl err \<Rightarrow> Err err
      | Inr [cluster] \<Rightarrow>
          (case om_labels (cl_meta cluster) label_Organization of
             None \<Rightarrow> Err (generic_err Generic_organizationLabelNotFoundError)
           | Some clusterOrg \<Rightarrow>
               if clusterOrg \<noteq> organizationName
               then Err (generic_err Generic_nodepoolOrgDoesNotMatchClusterOrgError) else Ok ())
      | Inr _ \<Rightarrow> Err (generic_err Generic_clusterNotFoundError))))"

section \<open>Cluster API releases (capi.go)\<close>

definition FirstCAPIRelease :: string where
  "FirstCAPIRelease = ''20.0.0-v1alpha3''"

definition IsCAPIVersion :: "semver_api \<Rightarrow> version \<Rightarrow> bool res" where
  "IsCAPIVersion S releaseVersion = (case sv_New S FirstCAPIRelease of
      Inl e \<Rightarrow> Err (generic_err Generic_parsingFailedError)
    | Inr capiVersion \<Rightarrow> Ok (sv_GE S releaseVersion capiVersion))"

definition ReleaseVersion_of :: "semver_api \<Rightarrow> object_meta \<Rightarrow> version res" where
  "ReleaseVersion_of S m = (case om_labels m label_ReleaseVersion of
      None \<Rightarrow> Err (generic_err Generic_parsingFailedError)
    | Some v \<Rightarrow> of_lib (sv_New S (TrimPrefix v ''v'')))"

definition IsCAPIRelease :: "semver_api \<Rightarrow> object_meta \<Rightarrow> bool res" where
  "IsCAPIRelease S m =
     (if mget (om_labels m) label_ReleaseVersion = '''' then Ok False
      else bind_res (replace_err (ReleaseVersion_of S m) (generic_err Generic_parsingFailedError))
             (IsCAPIVersion S))"

section \<open>Facts\<close>

interpretation org_label: conserved_view ValidateOrganizationLabelUnchanged
    "\<lambda>m. om_labels m label_Organization"
  by unfold_locales
    (auto simp: ValidateOrganizationLabelUnchanged_def mget_def split: if_splits option.splits)

text \<open>The organization label check accepts exactly the updates that keep an existing label.\<close>

lemma organization_label_check [outcome_simps]:
  "ValidateOrganizationLabelUnchanged old new = Ok () \<longleftrightarrow>
     (\<exists>org. om_labels old label_Organization = Some org \<and> om_labels new label_Organization = Some org)"
  by (auto simp: ValidateOrganizationLabelUnchanged_def mget_def split: option.splits)

text \<open>A node pool is accepted only next to its cluster: exactly one Cluster carries the cluster
  label's value, and both carry the same organization.\<close>

lemma organization_matches_cluster [outcome_simps]:
  "ValidateOrganizationLabelMatchesCluster k m = Ok () \<longleftrightarrow>
     (\<exists>org name c. om_labels m label_Organization = Some org \<and> om_labels m label_Cluster = Some name \<and>
        kube_listClusters k name = Inr [c] \<and> om_labels (cl_meta c) label_Organization = Some org)"
  unfolding ValidateOrganizationLabelMatchesCluster_def
  by (auto split: option.splits sum.splits list.splits if_splits)

text \<open>The organization named by the label exists, up to normalization; in particular a label
  that already is a DNS label names an existing Organization resource.\<close>

lemma organization_exists [outcome_simps]:
  "ValidateOrganizationLabelContainsExistingOrganization U k m = Ok () \<longleftrightarrow>
     (\<exists>org. om_labels m label_Organization = Some org \<and>
        kube_getOrganization k (AsDNSLabelName U org) = Inr ())"
  unfolding ValidateOrganizationLabelContainsExistingOrganization_def
  by (auto split: option.splits sum.splits if_splits)

lemma TryGetOwnerCluster_cases:
  "TryGetOwnerCluster k (Some m) =
     (if mget (om_labels m) capi_ClusterLabelName = '''' \<and> mget (om_labels m) label_Cluster = '''' then Ok None
      else (case kube_getCluster k (om_namespace m)
               (if mget (om_labels m) capi_ClusterLabelName \<noteq> '''' then mget (om_labels m) capi_ClusterLabelName
                else mget (om_labels m) label_Cluster) of
          Inl err \<Rightarrow> if IsNotFound err then Ok None else Err err
        | Inr c \<Rightarrow> Ok (Some c)))"
  by (simp add: TryGetOwnerCluster_def TryGetClusterName_def Let_def)

lemma checks_not_Panic [simp]:
  "ValidateOrganizationLabelUnchanged old new \<noteq> Panic"
  "ValidateOrganizationLabelContainsExistingOrganization U k m \<noteq> Panic"
  "ValidateOrganizationLabelMatchesCluster k m \<noteq> Panic"
  "TryGetOwnerCluster k om \<noteq> Panic"
  by (auto simp: ValidateOrganizationLabelUnchanged_def Let_def TryGetOwnerCluster_def
      ValidateOrganizationLabelContainsExistingOrganization_def ValidateOrganizationLabelMatchesCluster_def
      split: option.splits sum.splits list.splits prod.splits)

end
