(* ===== verification/ReleaseLookup.thy ===== *)
theory ReleaseLookup
  imports Generic
begin

text \<open>
  \<^verbatim>\<open>pkg/release/release.go\<close> and \<^verbatim>\<open>pkg/filter/filter.go\<close>: which Release resource an object
  belongs to, the component versions that release fixes, and the filter in front of every handler:
  only objects of a legacy release (one with an azure-operator component) are looked at.
\<close>

definition azureOperatorComponentName :: string where
  "azureOperatorComponentName = ''azure-operator''"

text \<open>Release CR always starts with a "v".\<close>

definition release_cr_name :: "string \<Rightarrow> string" where
  "release_cr_name releaseVersion =
     (if \<not> HasPrefix releaseVersion ''v'' then ''v'' @ releaseVersion else releaseVersion)"

definition FindRelease :: "kube_api \<Rightarrow> string \<Rightarrow> release res" where
  "FindRelease ctrlReader releaseVersion =
     (case kube_getRelease ctrlReader (release_cr_name releaseVersion) of
        Inl err \<Rightarrow> if IsNotFound err then Err (Micro (E_release Release_ReleaseNotFoundError)) else Err err
      | Inr r \<Rightarrow> Ok r)"

text \<open>The owner-cluster getter is an argument, as in the source.\<close>

definition TryFindReleaseForObject ::
    "kube_api \<Rightarrow> object_meta \<Rightarrow> (cluster option) res \<Rightarrow> (release option) res" where
  "TryFindReleaseForObject ctrlReader m ownerCluster =
     bind_res
       (if mget (om_labels m) label_ReleaseVersion \<noteq> '''' then Ok (mget (om_labels m) label_ReleaseVersion)
        else bind_res ownerCluster (\<lambda>c. case c of
            None \<Rightarrow> Ok ''''
          | Some cluster \<Rightarrow> Ok (mget (om_labels (cl_meta cluster)) label_ReleaseVersion)))
       (\<lambda>releaseVersionLabel.
          if releaseVersionLabel = '''' then Ok None
          else bind_res (FindRelease ctrlReader releaseVersionLabel) (\<lambda>r. Ok (Some r)))"

text \<open>The loop over the components; a later entry for the same name overwrites an earlier one.\<close>

definition GetComponentVersionsFromReleaseCR :: "release \<Rightarrow> str_map" where
  "GetComponentVersionsFromReleaseCR r =
     foldl (\<lambda>m c. m(cmp_Name c \<mapsto> cmp_Version c)) Map.empty (rel_Components r)"

definition GetComponentVersionsFromRelease :: "kube_api \<Rightarrow> string \<Rightarrow> str_map res" where
  "GetComponentVersionsFromRelease ctrlReader releaseVersion =
     bind_res (FindRelease ctrlReader releaseVersion) (\<lambda>r. Ok (GetComponentVersionsFromReleaseCR r))"

definition ContainsAzureOperator :: "release \<Rightarrow> bool" where
  "ContainsAzureOperator r \<longleftrightarrow>
     mget (GetComponentVersionsFromReleaseCR r) azureOperatorComponentName \<noteq> ''''"

definition IsLegacy :: "release \<Rightarrow> bool" where
  "IsLegacy r = ContainsAzureOperator r"

definition IsObjectReconciledByLegacyRelease ::
    "kube_api \<Rightarrow> object_meta \<Rightarrow> (cluster option) res \<Rightarrow> bool res" where
  "IsObjectReconciledByLegacyRelease ctrlReader m ownerCluster =
     (case TryFindReleaseForObject ctrlReader m ownerCluster of
        Err err \<Rightarrow> if is_cause (E_release Release_ReleaseNotFoundError) err then Ok False else Err err
      | Panic \<Rightarrow> Panic
      | Ok None \<Rightarrow> Ok False
      | Ok (Some r) \<Rightarrow> Ok (IsLegacy r))"

section \<open>Facts\<close>

lemma FindRelease_Ok_iff [outcome_simps]:
  "FindRelease k v = Ok r \<longleftrightarrow> kube_getRelease k (release_cr_name v) = Inr r"
  by (auto simp: FindRelease_def split: sum.splits if_splits)

text \<open>C11. A release is found under the same name whether or not the version starts with \<open>v\<close>.\<close>

theorem FindRelease_ignores_missing_v:
  "FindRelease k (release_cr_name v) = FindRelease k v \<and>
   FindRelease k (''v'' @ TrimPrefix v ''v'') = FindRelease k v"
proof -
  have "release_cr_name (release_cr_name v) = release_cr_name v"
    by (simp add: release_cr_name_def HasPrefix_def)
  moreover have "release_cr_name (''v'' @ TrimPrefix v ''v'') = release_cr_name v"
    by (cases v) (auto simp: release_cr_name_def TrimPrefix_def HasPrefix_def)
  ultimately show ?thesis by (simp add: FindRelease_def)
qed

lemma foldl_components:
  "foldl (\<lambda>m c. m(cmp_Name c \<mapsto> cmp_Version c)) m0 cs n =
     (case map_of (map (\<lambda>c. (cmp_Name c, cmp_Version c)) (rev cs)) n of None \<Rightarrow> m0 n | Some v \<Rightarrow> Some v)"
proof (induction cs arbitrary: m0)
  case Nil
  then show ?case by simp
next
  case (Cons c cs)
  then show ?case by (auto simp: map_add_Some_iff split: option.splits)
qed

lemma GetComponentVersions_lookup:
  "GetComponentVersionsFromReleaseCR r n =
     map_of (map (\<lambda>c. (cmp_Name c, cmp_Version c)) (rev (rel_Components r))) n"
  by (simp add: GetComponentVersionsFromReleaseCR_def foldl_components split: option.splits)

text \<open>The release label that decides: the object's own, else its owner cluster's.\<close>

definition deciding_label :: "object_meta \<Rightarrow> (cluster option) res \<Rightarrow> string option" where
  "deciding_label m oc =
     (if mget (om_labels m) label_ReleaseVersion \<noteq> '''' then Some (mget (om_labels m) label_ReleaseVersion)
      else (case oc of
          Ok (Some c) \<Rightarrow>
            if mget (om_labels (cl_meta c)) label_ReleaseVersion = '''' then None
            else Some (mget (om_labels (cl_meta c)) label_ReleaseVersion)
        | _ \<Rightarrow> None))"

lemma TryFindReleaseForObject_Some_iff:
  "TryFindReleaseForObject k m oc = Ok (Some r) \<longleftrightarrow>
     (\<exists>l. deciding_label m oc = Some l \<and> FindRelease k l = Ok r)"
  by (cases oc) (auto simp: TryFindReleaseForObject_def deciding_label_def bind_res_Ok_iff
      split: option.splits if_splits)

text \<open>C21. The filter takes an object to be reconciled by a legacy release exactly when the label that decides, its own
  release label or else its owner cluster's, names an existing Release whose components give a version of
  azure-operator.\<close>

theorem legacy_filter_iff:
  "IsObjectReconciledByLegacyRelease k m oc = Ok True \<longleftrightarrow>
     (\<exists>l r. deciding_label m oc = Some l \<and>
        kube_getRelease k (release_cr_name l) = Inr r \<and>
        (\<exists>v. v \<noteq> '''' \<and> GetComponentVersionsFromReleaseCR r azureOperatorComponentName = Some v))"
proof -
  have "IsObjectReconciledByLegacyRelease k m oc = Ok True \<longleftrightarrow>
      (\<exists>r. TryFindReleaseForObject k m oc = Ok (Some r) \<and> IsLegacy r)"
    by (auto simp: IsObjectReconciledByLegacyRelease_def split: outcome.splits option.splits if_splits)
  moreover have "IsLegacy r \<longleftrightarrow> (\<exists>v. v \<noteq> '''' \<and> GetComponentVersionsFromReleaseCR r azureOperatorComponentName = Some v)" for r
    by (auto simp: IsLegacy_def ContainsAzureOperator_def mget_def split: option.splits)
  ultimately show ?thesis
    unfolding TryFindReleaseForObject_Some_iff FindRelease_Ok_iff by blast
qed

text \<open>The filter fails, rather than letting the object pass unchecked, when the release or the
  owner cluster cannot be read for another reason than that it does not exist.\<close>

theorem legacy_filter_errors:
  "IsObjectReconciledByLegacyRelease k m oc = Err e \<longleftrightarrow>
     (mget (om_labels m) label_ReleaseVersion = '''' \<and> oc = Err e \<and>
        e \<noteq> Micro (E_release Release_ReleaseNotFoundError)) \<or>
     (\<exists>l. deciding_label m oc = Some l \<and>
        kube_getRelease k (release_cr_name l) = Inl e \<and> \<not> IsNotFound e \<and>
        e \<noteq> Micro (E_release Release_ReleaseNotFoundError))"
  by (cases "mget (om_labels m) label_ReleaseVersion = ''''"; cases oc)
    (auto simp: IsObjectReconciledByLegacyRelease_def TryFindReleaseForObject_def deciding_label_def
      FindRelease_def is_cause_def split: sum.splits option.splits if_splits)

lemma IsObjectReconciledByLegacyRelease_not_Panic:
  "oc \<noteq> Panic \<Longrightarrow> IsObjectReconciledByLegacyRelease k m oc \<noteq> Panic"
  by (cases oc) (auto simp: IsObjectReconciledByLegacyRelease_def TryFindReleaseForObject_def
      FindRelease_def split: sum.splits option.splits if_splits)

end
