(* ===== verification/Mutator.thy ===== *)
theory Mutator
  imports ReleaseLookup "HOL-Library.Multiset"
begin

text \<open>
  The mutations shared by the handlers: the version labels (\<^verbatim>\<open>pkg/mutator/ensure_release_label.go\<close>
  and \<^verbatim>\<open>pkg/mutator/component_version_label.go\<close>) and the patches that carry the library's defaults
  (\<^verbatim>\<open>internal/patches/patches.go\<close>), with the effect a JSON patch has on labels and annotations.
\<close>

section \<open>JSON pointers\<close>

definition escapeJSONPatchString :: "string \<Rightarrow> string" where
  "escapeJSONPatchString input =
     (let input1 = ReplaceAll1 input (CHR ''~'') ''~0'' in ReplaceAll1 input1 (CHR ''/'') ''~1'')"

text \<open>Reading a reference token back, as RFC 6901 prescribes.\<close>

fun unescape_token :: "string \<Rightarrow> string" where
  "unescape_token [] = []"
| "unescape_token [c] = [c]"
| "unescape_token (c # d # s) =
     (if c = CHR ''~'' \<and> d = CHR ''1'' then CHR ''/'' # unescape_token s
      else if c = CHR ''~'' \<and> d = CHR ''0'' then CHR ''~'' # unescape_token s
      else c # unescape_token (d # s))"

lemma escape_Nil [simp]: "escapeJSONPatchString [] = []"
  by (simp add: escapeJSONPatchString_def)

lemma escape_Cons:
  "escapeJSONPatchString (c # s) =
     (if c = CHR ''~'' then ''~0'' else if c = CHR ''/'' then ''~1'' else [c]) @ escapeJSONPatchString s"
  by (simp add: escapeJSONPatchString_def)

lemma unescape_token_Cons_other: "c \<noteq> CHR ''~'' \<Longrightarrow> unescape_token (c # s) = c # unescape_token s"
  by (cases s) auto

text \<open>Escaping a label name for a JSON pointer is undone by the pointer's evaluation, and leaves
  no separator in the token, so the pointer addresses the member of that name.\<close>

theorem escape_round_trip:
  "unescape_token (escapeJSONPatchString s) = s \<and> CHR ''/'' \<notin> set (escapeJSONPatchString s)"
proof (induction s)
  case Nil
  then show ?case by simp
next
  case (Cons c s)
  then show ?case by (auto simp: escape_Cons unescape_token_Cons_other)
qed

section \<open>The effect of a patch on a string map\<close>

text \<open>
  An \<open>add\<close> or \<open>replace\<close> on a member of \<open>metadata.labels\<close> or \<open>metadata.annotations\<close> sets that
  member; other operations do not concern the map.
\<close>

definition labels_prefix :: string where
  "labels_prefix = ''/metadata/labels/''"

definition annotations_prefix :: string where
  "annotations_prefix = ''/metadata/annotations/''"

fun apply_map_patch :: "string \<Rightarrow> str_map \<Rightarrow> patch_operation \<Rightarrow> str_map" where
  "apply_map_patch pre m p =
     (if HasPrefix (po_Path p) pre \<and> po_Operation p \<in> {''add'', ''replace''} then
        (case po_Value p of
           PV_string v \<Rightarrow> m(unescape_token (drop (length pre) (po_Path p)) \<mapsto> v)
         | _ \<Rightarrow> m)
      else m)"

definition apply_map_patches :: "string \<Rightarrow> str_map \<Rightarrow> patch_operation list \<Rightarrow> str_map" where
  "apply_map_patches pre m ps = foldl (apply_map_patch pre) m ps"

lemma apply_map_patches_simps [simp]:
  "apply_map_patches pre m [] = m"
  "apply_map_patches pre m (p # ps) = apply_map_patches pre (apply_map_patch pre m p) ps"
  by (simp_all add: apply_map_patches_def)

lemma apply_map_patch_add [simp]:
  "apply_map_patch pre m (PatchAdd (pre @ escapeJSONPatchString k) (PV_string v)) = m(k \<mapsto> v)"
  by (simp add: PatchAdd_def escape_round_trip)

lemma apply_map_patch_replace [simp]:
  "apply_map_patch pre m (PatchReplace (pre @ escapeJSONPatchString k) (PV_string v)) = m(k \<mapsto> v)"
  by (simp add: PatchReplace_def escape_round_trip)

section \<open>Version labels\<close>

definition label_path :: "string \<Rightarrow> string" where
  "label_path l = ''/metadata/labels/'' @ escapeJSONPatchString l"

definition mutator_err :: "mutator_error \<Rightarrow> go_error" where
  "mutator_err e = Micro (E_mutator e)"

definition getLabelValueFromAzureCluster :: "kube_api \<Rightarrow> object_meta \<Rightarrow> string \<Rightarrow> string res" where
  "getLabelValueFromAzureCluster ctrlClient m labelName =
     (let clusterID = mget (om_labels m) label_Cluster in
      if clusterID = '''' then Err (mutator_err Mutator_clusterLabelNotFoundError)
      else (case kube_getAzureCluster ctrlClient (om_namespace m) clusterID of
          Inl err \<Rightarrow> if IsNotFound err then Err (Micro (E_errors Errors_NotFoundError)) else Err err
        | Inr c \<Rightarrow> Ok (mget (om_labels (ac_meta c)) labelName)))"

definition getReleaseLabelValueFromAzureCluster :: "kube_api \<Rightarrow> object_meta \<Rightarrow> string res" where
  "getReleaseLabelValueFromAzureCluster ctrlClient m =
     getLabelValueFromAzureCluster ctrlClient m label_ReleaseVersion"

definition EnsureReleaseVersionLabel :: "kube_api \<Rightarrow> object_meta \<Rightarrow> (patch_operation option) res" where
  "EnsureReleaseVersionLabel ctrlClient m =
     (if mget (om_labels m) label_ReleaseVersion = '''' then
        bind_res (getReleaseLabelValueFromAzureCluster ctrlClient m) (\<lambda>release.
          if release = '''' then Err (mutator_err Mutator_releaseLabelNotFoundError)
          else Ok (Some (PatchAdd (label_path label_ReleaseVersion) (PV_string release))))
      else Ok None)"

definition CopyAzureOperatorVersionLabelFromAzureClusterCR ::
    "kube_api \<Rightarrow> object_meta \<Rightarrow> (patch_operation option) res" where
  "CopyAzureOperatorVersionLabelFromAzureClusterCR ctrlClient m =
     (if mget (om_labels m) label_AzureOperatorVersion = '''' then
        bind_res (getLabelValueFromAzureCluster ctrlClient m label_AzureOperatorVersion) (\<lambda>v.
          if v = '''' then Err (mutator_err Mutator_azureOperatorVersionLabelNotFoundError)
          else Ok (Some (PatchAdd (label_path label_AzureOperatorVersion) (PV_string v))))
      else Ok None)"

definition EnsureComponentVersionLabelFromRelease ::
    "kube_api \<Rightarrow> object_meta \<Rightarrow> string \<Rightarrow> string \<Rightarrow> (patch_operation option) res" where
  "EnsureComponentVersionLabelFromRelease ctrlReader m componentName labelName =
     (let releaseVersion = mget (om_labels m) label_ReleaseVersion in
      if releaseVersion = '''' then Err (mutator_err Mutator_releaseLabelNotFoundError)
      else bind_res (GetComponentVersionsFromRelease ctrlReader releaseVersion) (\<lambda>componentVersions.
        if mget componentVersions componentName = '''' then Err (mutator_err Mutator_componentNotFoundInReleaseError)
        else if mget (om_labels m) labelName \<noteq> mget componentVersions componentName
          then Ok (Some (PatchAdd (label_path labelName) (PV_string (mget componentVersions componentName))))
        else Ok None))"

text \<open>\<open>if patch != nil { result = append(result, *patch) }\<close>\<close>

definition opt_patch :: "patch_operation option \<Rightarrow> patch_operation list" where
  "opt_patch p = (case p of None \<Rightarrow> [] | Some x \<Rightarrow> [x])"

lemma opt_patch_simps [simp]: "opt_patch None = []" "opt_patch (Some p) = [p]"
  by (simp_all add: opt_patch_def)

section \<open>The contract of a label mutation\<close>

text \<open>
  A label mutation answers with no patch when the label is there, and otherwise with one patch that
  sets it to a non-empty value with which the mutation is satisfied.
\<close>

locale label_ensurer =
  fixes ensure :: "object_meta \<Rightarrow> (patch_operation option) res"
    and lbl :: string
  assumes kept: "ensure m = Ok None \<Longrightarrow> mget (om_labels m) lbl \<noteq> ''''"
    and added: "ensure m = Ok (Some p) \<Longrightarrow>
      \<exists>v. v \<noteq> '''' \<and> p = PatchAdd (label_path lbl) (PV_string v) \<and>
          ensure (m\<lparr>om_labels := (om_labels m)(lbl \<mapsto> v)\<rparr>) = Ok None"
begin

lemma patched_labels:
  assumes "ensure m = Ok r"
  shows "\<exists>v. v \<noteq> '''' \<and> apply_map_patches labels_prefix (om_labels m) (opt_patch r) = (om_labels m)(lbl \<mapsto> v)"
proof (cases r)
  case None
  with assms kept [of m] have "mget (om_labels m) lbl \<noteq> ''''" by simp
  then have "(om_labels m)(lbl \<mapsto> mget (om_labels m) lbl) = om_labels m"
    by (intro map_upd_triv mget_nonempty)
  with None \<open>mget (om_labels m) lbl \<noteq> ''''\<close> show ?thesis
    by (intro exI [of _ "mget (om_labels m) lbl"]) simp
next
  case (Some p)
  with assms added obtain v where v: "v \<noteq> ''''" "p = PatchAdd (label_path lbl) (PV_string v)" by blast
  then have "apply_map_patch labels_prefix (om_labels m) p = (om_labels m)(lbl \<mapsto> v)"
    using apply_map_patch_add [of labels_prefix "om_labels m" lbl v]
    by (simp add: label_path_def labels_prefix_def del: apply_map_patch.simps)
  with Some v(1) show ?thesis by (auto simp del: apply_map_patch.simps)
qed

lemma second_run_quiet:
  assumes "ensure m = Ok r"
  shows "ensure (m\<lparr>om_labels := apply_map_patches labels_prefix (om_labels m) (opt_patch r)\<rparr>) = Ok None"
proof (cases r)
  case None
  with assms show ?thesis by simp
next
  case (Some p)
  with assms added obtain v where v: "p = PatchAdd (label_path lbl) (PV_string v)"
    "ensure (m\<lparr>om_labels := (om_labels m)(lbl \<mapsto> v)\<rparr>) = Ok None" by blast
  then have "apply_map_patch labels_prefix (om_labels m) p = (om_labels m)(lbl \<mapsto> v)"
    using apply_map_patch_add [of labels_prefix "om_labels m" lbl v]
    by (simp add: label_path_def labels_prefix_def del: apply_map_patch.simps)
  with Some v(2) show ?thesis by (simp del: apply_map_patch.simps)
qed

end

lemma operator_labels_differ:
  "label_AzureOperatorVersion \<noteq> label_ReleaseVersion" "label_ClusterOperatorVersion \<noteq> label_ReleaseVersion"
  "label_AzureOperatorVersion \<noteq> label_ClusterOperatorVersion"
  "label_AzureOperatorVersion \<noteq> label_Cluster" "label_ReleaseVersion \<noteq> label_Cluster"
  by (simp_all add: label_AzureOperatorVersion_def label_ReleaseVersion_def label_ClusterOperatorVersion_def
      label_Cluster_def)

interpretation release_label: label_ensurer "EnsureReleaseVersionLabel k" label_ReleaseVersion for k
  by unfold_locales
    (auto simp: EnsureReleaseVersionLabel_def bind_res_Ok_iff split: if_splits)

interpretation operator_label: label_ensurer
    "CopyAzureOperatorVersionLabelFromAzureClusterCR k" label_AzureOperatorVersion for k
  by unfold_locales
    (auto simp: CopyAzureOperatorVersionLabelFromAzureClusterCR_def bind_res_Ok_iff split: if_splits)

lemma component_label_ensurer:
  assumes "l \<noteq> label_ReleaseVersion"
  shows "label_ensurer (\<lambda>m. EnsureComponentVersionLabelFromRelease k m c l) l"
proof
  fix m assume "EnsureComponentVersionLabelFromRelease k m c l = Ok None"
  then show "mget (om_labels m) l \<noteq> ''''"
    by (auto simp: EnsureComponentVersionLabelFromRelease_def Let_def bind_res_Ok_iff split: if_splits)
next
  fix m p assume "EnsureComponentVersionLabelFromRelease k m c l = Ok (Some p)"
  then show "\<exists>v. v \<noteq> '''' \<and> p = PatchAdd (label_path l) (PV_string v) \<and>
      EnsureComponentVersionLabelFromRelease k (m\<lparr>om_labels := (om_labels m)(l \<mapsto> v)\<rparr>) c l = Ok None"
    using assms
    by (auto simp: EnsureComponentVersionLabelFromRelease_def Let_def bind_res_Ok_iff split: if_splits)
qed

interpretation azure_operator_component: label_ensurer
    "\<lambda>m. EnsureComponentVersionLabelFromRelease k m ''azure-operator'' label_AzureOperatorVersion"
    label_AzureOperatorVersion for k
  by (rule component_label_ensurer) (simp add: operator_labels_differ)

interpretation cluster_operator_component: label_ensurer
    "\<lambda>m. EnsureComponentVersionLabelFromRelease k m ''cluster-operator'' label_ClusterOperatorVersion"
    label_ClusterOperatorVersion for k
  by (rule component_label_ensurer) (simp add: operator_labels_differ)

text \<open>When a missing release or operator label is copied from the AzureCluster, the patched object
  carries a non-empty label and nothing else changes; a second run then has nothing to add.\<close>

theorem copied_labels_set_and_stable:
  "(case EnsureReleaseVersionLabel k m of
      Ok r \<Rightarrow> (\<exists>v. v \<noteq> '''' \<and> apply_map_patches labels_prefix (om_labels m) (opt_patch r) =
                 (om_labels m)(label_ReleaseVersion \<mapsto> v)) \<and>
        EnsureReleaseVersionLabel k
          (m\<lparr>om_labels := apply_map_patches labels_prefix (om_labels m) (opt_patch r)\<rparr>) = Ok None
    | _ \<Rightarrow> True) \<and>
   (case CopyAzureOperatorVersionLabelFromAzureClusterCR k m of
      Ok r \<Rightarrow> (\<exists>v. v \<noteq> '''' \<and> apply_map_patches labels_prefix (om_labels m) (opt_patch r) =
                 (om_labels m)(label_AzureOperatorVersion \<mapsto> v)) \<and>
        CopyAzureOperatorVersionLabelFromAzureClusterCR k
          (m\<lparr>om_labels := apply_map_patches labels_prefix (om_labels m) (opt_patch r)\<rparr>) = Ok None
    | _ \<Rightarrow> True)"
  using release_label.patched_labels [of k m] release_label.second_run_quiet [of k m]
    operator_label.patched_labels [of k m] operator_label.second_run_quiet [of k m]
  by (simp split: outcome.splits)

text \<open>The operator label a release fixes: after the patch the label is the version of the component
  in the release the object names, and a second run is quiet.\<close>

theorem component_label_from_release:
  assumes "l \<noteq> label_ReleaseVersion"
    and "EnsureComponentVersionLabelFromRelease k m c l = Ok r"
    and "apply_map_patches labels_prefix (om_labels m) (opt_patch r) = labels"
  shows "\<exists>rel v. FindRelease k (mget (om_labels m) label_ReleaseVersion) = Ok rel \<and>
           GetComponentVersionsFromReleaseCR rel c = Some v \<and> v \<noteq> '''' \<and> labels = (om_labels m)(l \<mapsto> v) \<and>
           EnsureComponentVersionLabelFromRelease k (m\<lparr>om_labels := labels\<rparr>) c l = Ok None"
proof -
  note ensurer = component_label_ensurer [OF assms(1), of k c]
  obtain v where v: "v \<noteq> ''''" "labels = (om_labels m)(l \<mapsto> v)"
    using label_ensurer.patched_labels [OF ensurer assms(2)] assms(3) by auto
  have quiet: "EnsureComponentVersionLabelFromRelease k (m\<lparr>om_labels := labels\<rparr>) c l = Ok None"
    using label_ensurer.second_run_quiet [OF ensurer assms(2)] assms(3) by simp
  with v assms(1) obtain rel where rel:
      "FindRelease k (mget (om_labels m) label_ReleaseVersion) = Ok rel"
      "mget (GetComponentVersionsFromReleaseCR rel) c = v"
    by (auto simp: EnsureComponentVersionLabelFromRelease_def GetComponentVersionsFromRelease_def
        Let_def bind_res_Ok_iff split: if_splits)
  with v(1) have "GetComponentVersionsFromReleaseCR rel c = Some v"
    by (auto dest: mget_nonempty)
  with rel(1) v quiet show ?thesis by blast
qed

section \<open>Default patches (internal/patches)\<close>

definition sort_patches :: "patch_operation list \<Rightarrow> patch_operation list" where
  "sort_patches ps = sort_key po_Path ps"

definition GenerateFrom :: "lib \<Rightarrow> 'a crd_api \<Rightarrow> string \<Rightarrow> 'a \<Rightarrow> (patch_operation list) res" where
  "GenerateFrom L api originalJSON current =
     bind_res (of_lib (crd_Marshal api current)) (\<lambda>currentJSON.
     bind_res (of_lib (lib_CreatePatch L originalJSON currentJSON)) (\<lambda>jsonPatches.
     Ok (sort_patches jsonPatches)))"

definition GenerateFromObjectDiff :: "lib \<Rightarrow> 'a crd_api \<Rightarrow> 'a \<Rightarrow> 'a \<Rightarrow> (patch_operation list) res" where
  "GenerateFromObjectDiff L api original current =
     bind_res (of_lib (crd_Marshal api original)) (\<lambda>originalJSON.
     bind_res (of_lib (crd_Marshal api current)) (\<lambda>currentJSON.
     bind_res (of_lib (lib_CreatePatch L originalJSON currentJSON)) (\<lambda>jsonPatches.
     Ok (sort_patches jsonPatches))))"

definition SkipForPath :: "string \<Rightarrow> patch_operation list \<Rightarrow> patch_operation list" where
  "SkipForPath path patches = List.filter (\<lambda>p. \<not> HasPrefix (po_Path p) path) patches"

text \<open>The generated patches are the library's, ordered by path; operations on one path keep their
  order. What the order means for the result is the subject of the theory \<open>Json\<close>.\<close>

theorem GenerateFromObjectDiff_sorted_stable:
  "GenerateFromObjectDiff L api x y = Ok ps \<longleftrightarrow>
     (\<exists>a b js. crd_Marshal api x = Inr a \<and> crd_Marshal api y = Inr b \<and> lib_CreatePatch L a b = Inr js \<and>
        sorted (map po_Path ps) \<and> mset ps = mset js \<and>
        (\<forall>path. List.filter (\<lambda>p. po_Path p = path) ps = List.filter (\<lambda>p. po_Path p = path) js))"
proof -
  have uniq: "sort_patches js = ps \<longleftrightarrow> sorted (map po_Path ps) \<and> mset ps = mset js \<and>
      (\<forall>path. List.filter (\<lambda>p. po_Path p = path) ps = List.filter (\<lambda>p. po_Path p = path) js)" for js
  proof
    assume "sort_patches js = ps"
    then show "sorted (map po_Path ps) \<and> mset ps = mset js \<and>
        (\<forall>path. List.filter (\<lambda>p. po_Path p = path) ps = List.filter (\<lambda>p. po_Path p = path) js)"
      by (auto simp: sort_patches_def sort_key_stable)
  next
    assume *: "sorted (map po_Path ps) \<and> mset ps = mset js \<and>
        (\<forall>path. List.filter (\<lambda>p. po_Path p = path) ps = List.filter (\<lambda>p. po_Path p = path) js)"
    then have "List.filter (\<lambda>x. po_Path k = po_Path x) ps = List.filter (\<lambda>x. po_Path k = po_Path x) js" for k
      unfolding eq_commute [of "po_Path k"] by blast
    with * have "sort_key po_Path js = ps"
      by (intro properties_for_sort_key) blast+
    then show "sort_patches js = ps" by (simp add: sort_patches_def)
  qed
  show ?thesis
    unfolding GenerateFromObjectDiff_def bind_res_Ok_iff of_lib_Ok_iff by (auto simp: uniq)
qed

end
