(* ===== verification/Webhook.thy ===== *)
theory Webhook
  imports Mutator Guards
begin

text \<open>
  What the handlers of all resources have in common: the required members of a configuration, the
  collection of the patches of a mutation, the decoding of a raw object, and the effect of the
  patches a handler produces on the object.
\<close>

section \<open>Configurations\<close>

text \<open>\<open>if config.X == nil { return nil, invalidConfigError }\<close>\<close>

definition need :: "'a option \<Rightarrow> go_error \<Rightarrow> 'a res" where
  "need p err = (case p of None \<Rightarrow> Err err | Some x \<Rightarrow> Ok x)"

lemma need_Ok_iff [outcome_simps]: "need p err = Ok x \<longleftrightarrow> p = Some x"
  by (cases p) (auto simp: need_def)

lemma need_simps [simp]: "need None err = Err err" "need (Some x) err = Ok x"
  by (simp_all add: need_def)

section \<open>Patches\<close>

text \<open>
  The sequence of \<open>patch, err := ensure(...)\<close>, \<open>if err != nil { return err }\<close>,
  \<open>if patch != nil { result = append(result, *patch) }\<close>.
\<close>

fun collect_patches :: "(patch_operation option) res list \<Rightarrow> (patch_operation list) res" where
  "collect_patches [] = Ok []"
| "collect_patches (m # ms) =
     bind_res m (\<lambda>patch. bind_res (collect_patches ms) (\<lambda>result. Ok (opt_patch patch @ result)))"

lemma collect_patches_Ok_iff [outcome_simps]:
  "collect_patches ms = Ok ps \<longleftrightarrow> (\<exists>qs. ms = map Ok qs \<and> ps = concat (map opt_patch qs))"
proof (induction ms arbitrary: ps)
  case Nil
  then show ?case by auto
next
  case (Cons m ms)
  have "collect_patches (m # ms) = Ok ps \<longleftrightarrow>
      (\<exists>q qs. m = Ok q \<and> ms = map Ok qs \<and> ps = opt_patch q @ concat (map opt_patch qs))"
    by (auto simp: outcome_simps Cons.IH)
  also have "\<dots> \<longleftrightarrow> (\<exists>qs. m # ms = map Ok qs \<and> ps = concat (map opt_patch qs))"
    by (fastforce simp: Cons_eq_map_conv)
  finally show ?case .
qed

text \<open>The same sequence where a mutation asks a stateful service.\<close>

fun collect_patches_st ::
    "('s, patch_operation option, go_error) prog list \<Rightarrow> ('s, patch_operation list, go_error) prog" where
  "collect_patches_st [] = lift_st (Ok [])"
| "collect_patches_st (m # ms) =
     bind_st m (\<lambda>patch. bind_st (collect_patches_st ms) (\<lambda>result. lift_st (Ok (opt_patch patch @ result))))"

text \<open>\<open>if cond { return PatchAdd(...), nil }\<close> and \<open>return nil, nil\<close>.\<close>

definition patch_if :: "bool \<Rightarrow> patch_operation \<Rightarrow> (patch_operation option) res" where
  "patch_if b p = Ok (if b then Some p else None)"

lemma patch_if_Ok_iff [outcome_simps]: "patch_if b p = Ok q \<longleftrightarrow> q = (if b then Some p else None)"
  by (auto simp: patch_if_def)

text \<open>
  The tail of a mutation: the resource type's defaults, as the difference between the object and its
  defaulted copy, after the patches of the program itself.
\<close>

definition with_defaults ::
    "lib \<Rightarrow> 'a crd_api \<Rightarrow> 'a \<Rightarrow> string list \<Rightarrow> patch_operation list \<Rightarrow> (patch_operation list) res" where
  "with_defaults L api cr skipped result =
     bind_res (GenerateFromObjectDiff L api cr (crd_Default api cr)) (\<lambda>capiPatches.
       Ok (result @ foldl (\<lambda>ps path. SkipForPath path ps) capiPatches skipped))"

lemma with_defaults_Ok_iff [outcome_simps]:
  "with_defaults L api cr skipped result = Ok ps \<longleftrightarrow>
     (\<exists>capi. GenerateFromObjectDiff L api cr (crd_Default api cr) = Ok capi \<and>
        ps = result @ foldl (\<lambda>ps path. SkipForPath path ps) capi skipped)"
  by (auto simp: with_defaults_def outcome_simps)

section \<open>The effect of a handler's own patches\<close>

text \<open>
  An \<open>add\<close> or \<open>replace\<close> on one member of an object. The handlers write strings, the port of an
  endpoint, the labels, and a few whole structures.
\<close>

definition patch_sets :: "patch_operation \<Rightarrow> string \<Rightarrow> bool" where
  "patch_sets p path \<longleftrightarrow> po_Path p = path \<and> po_Operation p \<in> {''add'', ''replace''}"

definition patch_string :: "string \<Rightarrow> string \<Rightarrow> patch_operation \<Rightarrow> string" where
  "patch_string path s p = (case po_Value p of PV_string v \<Rightarrow> if patch_sets p path then v else s | _ \<Rightarrow> s)"

definition patch_word :: "string \<Rightarrow> 32 word \<Rightarrow> patch_operation \<Rightarrow> 32 word" where
  "patch_word path w p = (case po_Value p of PV_int v \<Rightarrow> if patch_sets p path then word_of_int v else w | _ \<Rightarrow> w)"

definition patch_endpoint :: "api_endpoint \<Rightarrow> patch_operation \<Rightarrow> api_endpoint" where
  "patch_endpoint ep p = \<lparr>ep_Host = patch_string ''/spec/controlPlaneEndpoint/host'' (ep_Host ep) p,
     ep_Port = patch_word ''/spec/controlPlaneEndpoint/port'' (ep_Port ep) p\<rparr>"

definition patch_meta :: "object_meta \<Rightarrow> patch_operation \<Rightarrow> object_meta" where
  "patch_meta m p = m\<lparr>om_labels := apply_map_patch labels_prefix (om_labels m) p,
     om_annotations := apply_map_patch annotations_prefix (om_annotations m) p\<rparr>"

lemma patch_string_add [simp]:
  "patch_string path s (PatchAdd path' (PV_string v)) = (if path' = path then v else s)"
  "patch_string path s (PatchAdd path' (PV_int i)) = s"
  "patch_string path s (PatchAdd path' (PV_ClusterNetwork n)) = s"
  "patch_string path s (PatchAdd path' (PV_LoadBalancer lb)) = s"
  "patch_string path s (PatchAdd path' (PV_DataDisks d)) = s"
  by (simp_all add: patch_string_def patch_sets_def PatchAdd_def)

lemma patch_word_add [simp]:
  "patch_word path w (PatchAdd path' (PV_int i)) = (if path' = path then word_of_int i else w)"
  "patch_word path w (PatchAdd path' (PV_string v)) = w"
  "patch_word path w (PatchAdd path' (PV_ClusterNetwork n)) = w"
  "patch_word path w (PatchAdd path' (PV_LoadBalancer lb)) = w"
  "patch_word path w (PatchAdd path' (PV_DataDisks d)) = w"
  by (simp_all add: patch_word_def patch_sets_def PatchAdd_def)

lemma apply_map_patch_other:
  "\<not> HasPrefix path pre \<Longrightarrow> apply_map_patch pre m (PatchAdd path v) = m"
  by (simp add: PatchAdd_def)

lemma patch_meta_label [simp]:
  "patch_meta m (PatchAdd (label_path l) (PV_string v)) = m\<lparr>om_labels := (om_labels m)(l \<mapsto> v)\<rparr>"
  using apply_map_patch_add [of labels_prefix "om_labels m" l v]
    apply_map_patch_other [of "label_path l" annotations_prefix "om_annotations m" "PV_string v"]
  by (simp add: patch_meta_def label_path_def labels_prefix_def annotations_prefix_def HasPrefix_def
      del: apply_map_patch.simps)

text \<open>The other members the handlers write lie under \<^verbatim>\<open>/spec\<close>, never among the labels.\<close>

lemma patch_meta_spec [simp]: "patch_meta m (PatchAdd (CHR ''/'' # CHR ''s'' # path) v) = m"
  by (simp add: patch_meta_def labels_prefix_def annotations_prefix_def HasPrefix_def PatchAdd_def)

lemma label_path_not_spec [simp]:
  "label_path l \<noteq> CHR ''/'' # CHR ''s'' # path" "CHR ''/'' # CHR ''s'' # path \<noteq> label_path l"
  by (simp_all add: label_path_def)

lemma patch_endpoint_simps [simp]:
  "patch_endpoint ep (PatchAdd ''/spec/controlPlaneEndpoint/host'' (PV_string s)) = ep\<lparr>ep_Host := s\<rparr>"
  "patch_endpoint ep (PatchAdd ''/spec/controlPlaneEndpoint/port'' (PV_int i)) = ep\<lparr>ep_Port := word_of_int i\<rparr>"
  "patch_endpoint ep (PatchAdd (label_path l) v) = ep"
  by (cases ep; simp add: patch_endpoint_def; simp add: patch_string_def patch_word_def patch_sets_def
      PatchAdd_def split: patch_value.split)+

lemma operator_label_patch_cases:
  assumes "CopyAzureOperatorVersionLabelFromAzureClusterCR k m = Ok r"
  obtains "r = None" "mget (om_labels m) label_AzureOperatorVersion \<noteq> ''''"
  | v where "r = Some (PatchAdd (label_path label_AzureOperatorVersion) (PV_string v))" "v \<noteq> ''''"
  using assms operator_label.kept [of k m] operator_label.added [of k m] by (cases r) auto

lemma component_label_patch_cases:
  assumes "EnsureComponentVersionLabelFromRelease k m ''azure-operator'' label_AzureOperatorVersion = Ok r"
  obtains "r = None" "mget (om_labels m) label_AzureOperatorVersion \<noteq> ''''"
  | v where "r = Some (PatchAdd (label_path label_AzureOperatorVersion) (PV_string v))" "v \<noteq> ''''"
  using assms azure_operator_component.kept [of k m] azure_operator_component.added [of k m] by (cases r) auto

section \<open>Decoding\<close>

definition decode_with :: "('a \<Rightarrow> object) \<Rightarrow> (string \<Rightarrow> go_error + 'a) \<Rightarrow> string \<Rightarrow> object res" where
  "decode_with obj dec raw =
     bind_res (replace_err (of_lib (dec raw)) (Micro (E_errors Errors_ParsingFailedError))) (\<lambda>cr. Ok (obj cr))"

section \<open>Versions of an updated object\<close>

text \<open>The two labels every release check of an update starts from.\<close>

definition parsed_versions :: "semver_api \<Rightarrow> str_map \<Rightarrow> str_map \<Rightarrow> (version \<times> version) res" where
  "parsed_versions S oldLabels newLabels =
     bind_res (replace_err (GetSemverFromLabels S oldLabels) (Micro (E_errors Errors_ParsingFailedError)))
       (\<lambda>oldVersion.
     bind_res (replace_err (GetSemverFromLabels S newLabels) (Micro (E_errors Errors_ParsingFailedError)))
       (\<lambda>newVersion. Ok (oldVersion, newVersion)))"

lemma parsed_versions_Ok_iff [outcome_simps]:
  "parsed_versions S ls ls' = Ok p \<longleftrightarrow>
     GetSemverFromLabels S ls = Ok (fst p) \<and> GetSemverFromLabels S ls' = Ok (snd p)"
  by (cases p) (auto simp: parsed_versions_def outcome_simps)

section \<open>A handler that guards an immutable view\<close>

text \<open>
  An update handler refuses, for objects that are not being deleted, whatever changes a view of the
  object. The view is then constant over every history of accepted updates.
\<close>

locale guarded_update =
  fixes upd :: "'a \<Rightarrow> 'a \<Rightarrow> bool"
    and deleting :: "'a \<Rightarrow> bool"
    and view :: "'a \<Rightarrow> 'v"
  assumes guards: "upd old new \<Longrightarrow> \<not> deleting new \<Longrightarrow> view old = view new"

text \<open>As a check of live objects, the handler is an instance of the general contract.\<close>

sublocale guarded_update \<subseteq> live: conserved_view "\<lambda>old new. fail_if (\<not> (upd old new \<and> \<not> deleting new)) ()" view
  by unfold_locales (auto simp: outcome_simps dest: guards)

context guarded_update begin

lemma view_constant:
  assumes "(\<lambda>old new. upd old new \<and> \<not> deleting new)\<^sup>*\<^sup>* a b"
  shows "view a = view b"
  by (rule live.history_conserves [OF _ assms]) (simp add: outcome_simps)

end

end
