(* ===== verification/HttpHandler.thy ===== *)
theory HttpHandler
  imports Webhook
begin

text \<open>
  The HTTP layer (\<^verbatim>\<open>pkg/validator\<close>, \<^verbatim>\<open>pkg/mutator\<close>): from an HTTP request to an
  admission review, through the filter for legacy releases to a method of a webhook handler, and back
  to an admission response. Reading the body, the JSON form of reviews and patches and the decoding
  of a review are library code; texts of errors are represented by the errors themselves.
\<close>

section \<open>Requests and responses\<close>

record admission_request =
  ar_UID :: string
  ar_Kind :: string
  ar_Namespace :: string
  ar_Name :: string
  ar_Object :: string
  ar_OldObject :: string
  ar_DryRun :: "bool option"

text \<open>\<open>AdmissionReview\<close>, of which the sources read the request, a pointer.\<close>

record admission_review =
  rv_Request :: "admission_request option"

record response_status =
  rst_Reason :: string
  rst_Code :: nat
  rst_Error :: go_error

record admission_response =
  rs_Allowed :: bool
  rs_UID :: string
  rs_Result :: "response_status option"
  rs_Patch :: "string option"
  rs_PatchType :: "string option"

record http_request =
  rq_ContentType :: string
  rq_Body :: "go_error + string"

text \<open>What is written: a bare status code, or a review (with its kind and version) and status 200.\<close>

datatype http_reply =
    StatusOnly nat
  | ReviewReply string string admission_response

record http_lib =
  hl_DecodeReview :: "string \<Rightarrow> go_error + admission_review"
  hl_DecodeNames :: "string \<Rightarrow> go_error + (string \<times> string)"
  hl_MarshalReview :: "string \<Rightarrow> string \<Rightarrow> admission_response \<Rightarrow> go_error + string"
  hl_MarshalPatch :: "patch_operation list \<Rightarrow> go_error + string"

definition StatusOK :: nat where "StatusOK = 200"
definition StatusBadRequest :: nat where "StatusBadRequest = 400"
definition StatusInternalServerError :: nat where "StatusInternalServerError = 500"

definition InternalError :: go_error where
  "InternalError = Opaque ''internal admission controller error''"

section \<open>Names for the log\<close>

definition extractName :: "http_lib \<Rightarrow> admission_request \<Rightarrow> string" where
  "extractName H request =
     (if ar_Name request \<noteq> '''' then ar_Name request
      else (case hl_DecodeNames H (ar_Object request) of
          Inl err \<Rightarrow> ''<unknown>''
        | Inr (name, generateName) \<Rightarrow>
            if name \<noteq> '''' then name
            else if generateName \<noteq> '''' then generateName @ ''<generated>''
            else ''<unknown>''))"

section \<open>Responses\<close>

text \<open>The response of a review that cannot be serialised is a status 500 with an empty body.\<close>

definition writeResponse :: "http_lib \<Rightarrow> admission_response \<Rightarrow> http_reply" where
  "writeResponse H response =
     (case hl_MarshalReview H ''AdmissionReview'' ''admission.k8s.io/v1'' response of
        Inl err \<Rightarrow> StatusOnly StatusInternalServerError
      | Inr resp \<Rightarrow> ReviewReply ''AdmissionReview'' ''admission.k8s.io/v1'' response)"

text \<open>The mutator has a copy of its own.\<close>

definition mutator_writeResponse :: "http_lib \<Rightarrow> admission_response \<Rightarrow> http_reply" where
  "mutator_writeResponse H response =
     (case hl_MarshalReview H ''AdmissionReview'' ''admission.k8s.io/v1'' response of
        Inl err \<Rightarrow> StatusOnly StatusInternalServerError
      | Inr resp \<Rightarrow> ReviewReply ''AdmissionReview'' ''admission.k8s.io/v1'' response)"

lemma mutator_writeResponse_eq [simp]: "mutator_writeResponse = writeResponse"
  by (simp add: mutator_writeResponse_def writeResponse_def fun_eq_iff)

definition validator_errorResponse :: "string \<Rightarrow> go_error \<Rightarrow> admission_response" where
  "validator_errorResponse uid err = \<lparr>rs_Allowed = False, rs_UID = uid,
     rs_Result = Some \<lparr>rst_Reason = ''BadRequest'', rst_Code = StatusBadRequest, rst_Error = err\<rparr>,
     rs_Patch = None, rs_PatchType = None\<rparr>"

definition mutator_errorResponse :: "string \<Rightarrow> go_error \<Rightarrow> admission_response" where
  "mutator_errorResponse uid err = \<lparr>rs_Allowed = False, rs_UID = uid,
     rs_Result = Some \<lparr>rst_Reason = '''', rst_Code = 0, rst_Error = err\<rparr>,
     rs_Patch = None, rs_PatchType = None\<rparr>"

definition validator_allowed :: "string \<Rightarrow> admission_response" where
  "validator_allowed uid = \<lparr>rs_Allowed = True, rs_UID = uid, rs_Result = None, rs_Patch = None, rs_PatchType = None\<rparr>"

definition mutator_allowed :: "string \<Rightarrow> string \<Rightarrow> admission_response" where
  "mutator_allowed uid patchData = \<lparr>rs_Allowed = True, rs_UID = uid, rs_Result = None,
     rs_Patch = Some patchData, rs_PatchType = Some ''JSONPatch''\<rparr>"

section \<open>The common frame of the handlers\<close>

text \<open>\<open>if err != nil { writeResponse(..., errorResponse(...)); return }\<close> around a call.\<close>

definition on_error ::
    "('s, 'a, go_error) prog \<Rightarrow> (go_error \<Rightarrow> http_reply res) \<Rightarrow> ('a \<Rightarrow> http_reply res) \<Rightarrow> ('s, http_reply, go_error) prog" where
  "on_error m failed k = (\<lambda>s. case m s of
      (Ok x, s') \<Rightarrow> (k x, s')
    | (Err e, s') \<Rightarrow> (failed e, s')
    | (Panic, s') \<Rightarrow> (Panic, s'))"

text \<open>Content type, body and review, in the order of the code, before \<open>k\<close> sees the review.\<close>

definition with_review ::
    "http_lib \<Rightarrow> (admission_review \<Rightarrow> ('s, http_reply, go_error) prog) \<Rightarrow> http_request \<Rightarrow> ('s, http_reply, go_error) prog" where
  "with_review H k request =
     (if rq_ContentType request \<noteq> ''application/json'' then lift_st (Ok (StatusOnly StatusBadRequest))
      else (case rq_Body request of
          Inl err \<Rightarrow> lift_st (Ok (StatusOnly StatusInternalServerError))
        | Inr data \<Rightarrow>
            (case hl_DecodeReview H data of
               Inl err \<Rightarrow> lift_st (Ok (StatusOnly StatusBadRequest))
             | Inr review \<Rightarrow> k review)))"

text \<open>Serialising the patches and admitting the request.\<close>

definition patch_reply :: "http_lib \<Rightarrow> (admission_response \<Rightarrow> http_reply) \<Rightarrow> string \<Rightarrow> patch_operation list \<Rightarrow> http_reply" where
  "patch_reply H write uid patch =
     (case hl_MarshalPatch H patch of
        Inl err \<Rightarrow> write (mutator_errorResponse uid InternalError)
      | Inr patchData \<Rightarrow> write (mutator_allowed uid patchData))"

section \<open>The plain handlers\<close>

definition validator_Handler ::
    "http_lib \<Rightarrow> (admission_request option \<Rightarrow> ('s, unit, go_error) prog) \<Rightarrow> http_request \<Rightarrow> ('s, http_reply, go_error) prog" where
  "validator_Handler H validate =
     with_review H (\<lambda>review.
       on_error (validate (rv_Request review))
         (\<lambda>err. bind_res (deref (rv_Request review)) (\<lambda>rq. Ok (writeResponse H (validator_errorResponse (ar_UID rq) err))))
         (\<lambda>_. bind_res (deref (rv_Request review)) (\<lambda>rq. Ok (writeResponse H (validator_allowed (ar_UID rq))))))"

text \<open>The mutating handler touches the request before it calls the mutation, for the log.\<close>

definition mutator_Handler ::
    "http_lib \<Rightarrow> (admission_request \<Rightarrow> ('s, patch_operation list, go_error) prog) \<Rightarrow> http_request \<Rightarrow> ('s, http_reply, go_error) prog" where
  "mutator_Handler H mutate =
     with_review H (\<lambda>review.
       bind_st (lift_st (deref (rv_Request review))) (\<lambda>rq.
       on_error (mutate rq)
         (\<lambda>err. Ok (mutator_writeResponse H (mutator_errorResponse (ar_UID rq) err)))
         (\<lambda>patch. Ok (patch_reply H (mutator_writeResponse H) (ar_UID rq) patch))))"

section \<open>The factories\<close>

record http_handler_factory =
  hf_ctrlReader :: kube_api
  hf_ctrlClient :: kube_api

type_synonym mutator_http_handler_factory = http_handler_factory

record http_handler_factory_config =
  hfc_CtrlReader :: "kube_api option"
  hfc_CtrlClient :: "kube_api option"
  hfc_Logger :: "unit option"

type_synonym mutator_http_handler_factory_config = http_handler_factory_config

definition validator_NewHttpHandlerFactory :: "http_handler_factory_config \<Rightarrow> http_handler_factory res" where
  "validator_NewHttpHandlerFactory config =
     (let invalid = Micro (E_validator Validator_invalidConfigError) in
      bind_res (need (hfc_CtrlReader config) invalid) (\<lambda>ctrlReader.
      bind_res (need (hfc_CtrlClient config) invalid) (\<lambda>ctrlClient.
      bind_res (need (hfc_Logger config) invalid) (\<lambda>logger.
      Ok \<lparr>hf_ctrlReader = ctrlReader, hf_ctrlClient = ctrlClient\<rparr>))))"

definition mutator_NewHttpHandlerFactory :: "mutator_http_handler_factory_config \<Rightarrow> mutator_http_handler_factory res" where
  "mutator_NewHttpHandlerFactory config =
     (let invalid = Micro (E_mutator Mutator_invalidConfigError) in
      bind_res (need (hfc_CtrlReader config) invalid) (\<lambda>ctrlReader.
      bind_res (need (hfc_CtrlClient config) invalid) (\<lambda>ctrlClient.
      bind_res (need (hfc_Logger config) invalid) (\<lambda>logger.
      Ok \<lparr>hf_ctrlReader = ctrlReader, hf_ctrlClient = ctrlClient\<rparr>))))"

text \<open>The filter as the factories call it: the owner cluster is read through the client, the release
  through the reader; an object without metadata cannot be asked.\<close>

definition reconciled_by_legacy :: "http_handler_factory \<Rightarrow> object \<Rightarrow> bool res" where
  "reconciled_by_legacy f ob =
     bind_res (deref (object_metadata ob)) (\<lambda>m.
       IsObjectReconciledByLegacyRelease (hf_ctrlReader f) m
         (TryGetOwnerCluster (hf_ctrlClient f) (object_metadata ob)))"

definition validator_newHttpHandler ::
    "http_lib \<Rightarrow> (admission_review \<Rightarrow> ('s, unit, go_error) prog) \<Rightarrow> http_request \<Rightarrow> ('s, http_reply, go_error) prog" where
  "validator_newHttpHandler H validateFunc =
     with_review H (\<lambda>review.
       on_error (validateFunc review)
         (\<lambda>err. bind_res (deref (rv_Request review)) (\<lambda>rq. Ok (writeResponse H (validator_errorResponse (ar_UID rq) err))))
         (\<lambda>_. bind_res (deref (rv_Request review)) (\<lambda>rq. Ok (writeResponse H (validator_allowed (ar_UID rq))))))"

definition validate_created ::
    "http_handler_factory \<Rightarrow> (string \<Rightarrow> object res) \<Rightarrow> (object \<Rightarrow> ('s, unit, go_error) prog) \<Rightarrow>
     admission_review \<Rightarrow> ('s, unit, go_error) prog" where
  "validate_created f decode onCreateValidate review =
     bind_st (lift_st (deref (rv_Request review))) (\<lambda>rq.
     bind_st (lift_st (decode (ar_Object rq))) (\<lambda>ob.
     bind_st (lift_st (reconciled_by_legacy f ob)) (\<lambda>ok.
     if ok then onCreateValidate ob else lift_st (Ok ()))))"

definition validate_updated ::
    "http_handler_factory \<Rightarrow> (string \<Rightarrow> object res) \<Rightarrow> (object \<Rightarrow> object \<Rightarrow> ('s, unit, go_error) prog) \<Rightarrow>
     admission_review \<Rightarrow> ('s, unit, go_error) prog" where
  "validate_updated f decode onUpdateValidate review =
     bind_st (lift_st (deref (rv_Request review))) (\<lambda>rq.
     bind_st (lift_st (decode (ar_Object rq))) (\<lambda>ob.
     bind_st (lift_st (reconciled_by_legacy f ob)) (\<lambda>ok.
     if ok then
       bind_st (lift_st (decode (ar_OldObject rq))) (\<lambda>oldOb. onUpdateValidate oldOb ob)
     else lift_st (Ok ()))))"

definition validator_NewCreateHandler ::
    "http_lib \<Rightarrow> http_handler_factory \<Rightarrow> (string \<Rightarrow> object res) \<Rightarrow> (object \<Rightarrow> ('s, unit, go_error) prog) \<Rightarrow>
     http_request \<Rightarrow> ('s, http_reply, go_error) prog" where
  "validator_NewCreateHandler H f decode onCreateValidate =
     validator_newHttpHandler H (validate_created f decode onCreateValidate)"

definition validator_NewUpdateHandler ::
    "http_lib \<Rightarrow> http_handler_factory \<Rightarrow> (string \<Rightarrow> object res) \<Rightarrow> (object \<Rightarrow> object \<Rightarrow> ('s, unit, go_error) prog) \<Rightarrow>
     http_request \<Rightarrow> ('s, http_reply, go_error) prog" where
  "validator_NewUpdateHandler H f decode onUpdateValidate =
     validator_newHttpHandler H (validate_updated f decode onUpdateValidate)"

text \<open>A dry run is admitted without patches and without calling the mutation.\<close>

definition mutator_newHttpHandler ::
    "http_lib \<Rightarrow> (admission_request \<Rightarrow> ('s, patch_operation list, go_error) prog) \<Rightarrow> http_request \<Rightarrow> ('s, http_reply, go_error) prog" where
  "mutator_newHttpHandler H mutateFunc =
     with_review H (\<lambda>review.
       bind_st (lift_st (deref (rv_Request review))) (\<lambda>rq.
       on_error (if ar_DryRun rq = Some True then lift_st (Ok []) else mutateFunc rq)
         (\<lambda>err. Ok (mutator_writeResponse H (mutator_errorResponse (ar_UID rq) err)))
         (\<lambda>patch. Ok (patch_reply H (mutator_writeResponse H) (ar_UID rq) patch))))"

definition mutate_created ::
    "mutator_http_handler_factory \<Rightarrow> (string \<Rightarrow> object res) \<Rightarrow> (object \<Rightarrow> ('s, patch_operation list, go_error) prog) \<Rightarrow>
     admission_request \<Rightarrow> ('s, patch_operation list, go_error) prog" where
  "mutate_created f decode onCreateMutate rq =
     bind_st (lift_st (decode (ar_Object rq))) (\<lambda>ob.
     bind_st (lift_st (reconciled_by_legacy f ob)) (\<lambda>ok.
     if ok then onCreateMutate ob else lift_st (Ok [])))"

definition mutate_updated ::
    "mutator_http_handler_factory \<Rightarrow> (string \<Rightarrow> object res) \<Rightarrow>
     (object \<Rightarrow> object \<Rightarrow> ('s, patch_operation list, go_error) prog) \<Rightarrow>
     admission_request \<Rightarrow> ('s, patch_operation list, go_error) prog" where
  "mutate_updated f decode onUpdateMutate rq =
     bind_st (lift_st (decode (ar_Object rq))) (\<lambda>ob.
     bind_st (lift_st (reconciled_by_legacy f ob)) (\<lambda>ok.
     if ok then
       bind_st (lift_st (decode (ar_OldObject rq))) (\<lambda>oldOb. onUpdateMutate oldOb ob)
     else lift_st (Ok [])))"

definition mutator_NewCreateHandler ::
    "http_lib \<Rightarrow> mutator_http_handler_factory \<Rightarrow> (string \<Rightarrow> object res) \<Rightarrow> (object \<Rightarrow> ('s, patch_operation list, go_error) prog) \<Rightarrow>
     http_request \<Rightarrow> ('s, http_reply, go_error) prog" where
  "mutator_NewCreateHandler H f decode onCreateMutate =
     mutator_newHttpHandler H (mutate_created f decode onCreateMutate)"

definition mutator_NewUpdateHandler ::
    "http_lib \<Rightarrow> mutator_http_handler_factory \<Rightarrow> (string \<Rightarrow> object res) \<Rightarrow>
     (object \<Rightarrow> object \<Rightarrow> ('s, patch_operation list, go_error) prog) \<Rightarrow>
     http_request \<Rightarrow> ('s, http_reply, go_error) prog" where
  "mutator_NewUpdateHandler H f decode onUpdateMutate =
     mutator_newHttpHandler H (mutate_updated f decode onUpdateMutate)"

section \<open>The contract of a handler's decoder\<close>

text \<open>A webhook handler decodes to objects of its own type, which have metadata.\<close>

locale webhook_decoder =
  fixes decode :: "string \<Rightarrow> object res"
    and obj :: "'a \<Rightarrow> object"
    and meta :: "'a \<Rightarrow> object_meta"
  assumes typed: "decode raw = Ok ob \<Longrightarrow> \<exists>c. ob = obj c"
    and metadata: "object_metadata (obj c) = Some (meta c)"
    and total: "decode raw \<noteq> Panic"
begin

text \<open>The filter of a decoded object is a question about its metadata.\<close>

lemma filter_decoded:
  assumes "decode raw = Ok ob"
  obtains c where "ob = obj c" "reconciled_by_legacy f ob =
    IsObjectReconciledByLegacyRelease (hf_ctrlReader f) (meta c) (TryGetOwnerCluster (hf_ctrlClient f) (Some (meta c)))"
  using typed [OF assms] metadata by (force simp: reconciled_by_legacy_def)

end

lemma decode_with_Ok_iff: "decode_with mk dec raw = Ok ob \<longleftrightarrow> (\<exists>c. dec raw = Inr c \<and> ob = mk c)"
  by (auto simp: decode_with_def outcome_simps)

lemma decode_with_not_Panic: "decode_with mk dec raw \<noteq> Panic"
  by (simp add: decode_with_def bind_res_Panic_iff)

text \<open>Every decoder of the program is built by \<open>decode_with\<close>.\<close>

lemma decode_with_decoder:
  assumes "\<And>c. object_metadata (mk c) = Some (mt c)"
  shows "webhook_decoder (decode_with mk dec) mk mt"
  by unfold_locales (auto simp: decode_with_Ok_iff decode_with_not_Panic assms)

section \<open>Requests that carry a review\<close>

definition carries :: "http_lib \<Rightarrow> http_request \<Rightarrow> admission_request \<Rightarrow> bool" where
  "carries H request rq \<longleftrightarrow> rq_ContentType request = ''application/json'' \<and>
     (\<exists>data. rq_Body request = Inr data \<and> hl_DecodeReview H data = Inr \<lparr>rv_Request = Some rq\<rparr>)"

lemma with_review_carries: "carries H request rq \<Longrightarrow> with_review H k request = k \<lparr>rv_Request = Some rq\<rparr>"
  by (auto simp: carries_def with_review_def)

text \<open>The reply a verdict becomes.\<close>

definition validator_reply :: "http_lib \<Rightarrow> admission_request \<Rightarrow> unit res \<Rightarrow> http_reply res" where
  "validator_reply H rq verdict = (case verdict of
      Ok _ \<Rightarrow> Ok (writeResponse H (validator_allowed (ar_UID rq)))
    | Err e \<Rightarrow> Ok (writeResponse H (validator_errorResponse (ar_UID rq) e))
    | Panic \<Rightarrow> Panic)"

definition mutator_reply :: "http_lib \<Rightarrow> admission_request \<Rightarrow> (patch_operation list) res \<Rightarrow> http_reply res" where
  "mutator_reply H rq verdict = (case verdict of
      Ok patch \<Rightarrow> Ok (patch_reply H (writeResponse H) (ar_UID rq) patch)
    | Err e \<Rightarrow> Ok (writeResponse H (mutator_errorResponse (ar_UID rq) e))
    | Panic \<Rightarrow> Panic)"

lemma on_error_eq:
  "on_error m failed k s =
     ((case fst (m s) of Ok x \<Rightarrow> k x | Err e \<Rightarrow> failed e | Panic \<Rightarrow> Panic), snd (m s))"
  by (auto simp: on_error_def split: prod.split outcome.split)

lemma validator_newHttpHandler_carries:
  "carries H request rq \<Longrightarrow> validator_newHttpHandler H v request s =
     (validator_reply H rq (fst (v \<lparr>rv_Request = Some rq\<rparr> s)), snd (v \<lparr>rv_Request = Some rq\<rparr> s))"
  by (auto simp: validator_newHttpHandler_def with_review_carries on_error_eq validator_reply_def split: outcome.split)

lemma mutator_newHttpHandler_carries:
  "carries H request rq \<Longrightarrow> ar_DryRun rq \<noteq> Some True \<Longrightarrow> mutator_newHttpHandler H m request s =
     (mutator_reply H rq (fst (m rq s)), snd (m rq s))"
  by (auto simp: mutator_newHttpHandler_def with_review_carries on_error_eq mutator_reply_def split: outcome.split)

text \<open>Reviews admit, deny, or are refused.\<close>

definition admits :: "http_reply \<Rightarrow> string \<Rightarrow> bool" where
  "admits r uid \<longleftrightarrow> (\<exists>kind ver rs. r = ReviewReply kind ver rs \<and> rs_Allowed rs \<and> rs_UID rs = uid)"

definition denies :: "http_reply \<Rightarrow> string \<Rightarrow> go_error \<Rightarrow> bool" where
  "denies r uid e \<longleftrightarrow> (\<exists>kind ver rs st. r = ReviewReply kind ver rs \<and> \<not> rs_Allowed rs \<and> rs_UID rs = uid \<and>
     rs_Patch rs = None \<and> rs_Result rs = Some st \<and> rst_Error st = e)"

definition serialises :: "http_lib \<Rightarrow> bool" where
  "serialises H \<longleftrightarrow> (\<forall>kind ver rs. \<exists>out. hl_MarshalReview H kind ver rs = Inr out)"

lemma writeResponse_serialises: "serialises H \<Longrightarrow> writeResponse H rs = ReviewReply ''AdmissionReview'' ''admission.k8s.io/v1'' rs"
  unfolding serialises_def writeResponse_def by (metis sum.simps(6))

lemma validator_reply_iff:
  assumes "serialises H"
  shows "(\<exists>r. validator_reply H rq verdict = Ok r \<and> admits r uid) \<longleftrightarrow> verdict = Ok () \<and> uid = ar_UID rq"
    and "(\<exists>r. validator_reply H rq verdict = Ok r \<and> denies r uid e) \<longleftrightarrow> verdict = Err e \<and> uid = ar_UID rq"
  using assms
  by (auto simp: validator_reply_def writeResponse_serialises admits_def denies_def validator_allowed_def
      validator_errorResponse_def split: outcome.split)

lemma endpoint_admits_iff:
  assumes "carries H request rq" and "serialises H"
  shows "(\<exists>r s'. validator_newHttpHandler H u request s = (Ok r, s') \<and> admits r uid) \<longleftrightarrow>
      uid = ar_UID rq \<and> (\<exists>s'. u \<lparr>rv_Request = Some rq\<rparr> s = (Ok (), s'))"
  using validator_reply_iff(1) [OF assms(2), of rq "fst (u \<lparr>rv_Request = Some rq\<rparr> s)" uid]
  by (cases "u \<lparr>rv_Request = Some rq\<rparr> s") (auto simp: validator_newHttpHandler_carries [OF assms(1)])

lemma validate_created_Ok_iff:
  "validate_created f decode v \<lparr>rv_Request = Some rq\<rparr> s = (Ok (), s') \<longleftrightarrow>
     (\<exists>ob ok. decode (ar_Object rq) = Ok ob \<and> reconciled_by_legacy f ob = Ok ok \<and>
        (if ok then v ob s = (Ok (), s') else s' = s))"
  by (auto simp: validate_created_def outcome_simps split: if_splits)

lemma validate_updated_Ok_iff:
  "validate_updated f decode v \<lparr>rv_Request = Some rq\<rparr> s = (Ok (), s') \<longleftrightarrow>
     (\<exists>ob ok. decode (ar_Object rq) = Ok ob \<and> reconciled_by_legacy f ob = Ok ok \<and>
        (if ok then \<exists>old. decode (ar_OldObject rq) = Ok old \<and> v old ob s = (Ok (), s') else s' = s))"
  by (auto simp: validate_updated_def outcome_simps split: if_splits)

text \<open>C20. What the validating endpoints answer to a review: it is admitted, under its own UID, exactly when
  the new object decodes and is either outside the legacy releases or accepted by the handler (for an
  update, against the decoded old object).\<close>

theorem validating_endpoint_admits_iff:
  assumes "carries H request rq" and "serialises H"
  shows "((\<exists>r s'. validator_NewCreateHandler H f decode v request s = (Ok r, s') \<and> admits r uid) \<longleftrightarrow>
      uid = ar_UID rq \<and> (\<exists>ob ok s'. decode (ar_Object rq) = Ok ob \<and> reconciled_by_legacy f ob = Ok ok \<and>
        (if ok then v ob s = (Ok (), s') else s' = s))) \<and>
    ((\<exists>r s'. validator_NewUpdateHandler H f decode w request s = (Ok r, s') \<and> admits r uid) \<longleftrightarrow>
      uid = ar_UID rq \<and> (\<exists>ob ok s'. decode (ar_Object rq) = Ok ob \<and> reconciled_by_legacy f ob = Ok ok \<and>
        (if ok then \<exists>old. decode (ar_OldObject rq) = Ok old \<and> w old ob s = (Ok (), s') else s' = s)))"
  unfolding validator_NewCreateHandler_def validator_NewUpdateHandler_def endpoint_admits_iff [OF assms]
    validate_created_Ok_iff validate_updated_Ok_iff
  by (rule conjI; blast)

lemma mutate_created_eq:
  "mutate_created f decode m rq s =
     (case decode (ar_Object rq) of
        Err e \<Rightarrow> (Err e, s)
      | Panic \<Rightarrow> (Panic, s)
      | Ok ob \<Rightarrow> (case reconciled_by_legacy f ob of
          Err e \<Rightarrow> (Err e, s)
        | Panic \<Rightarrow> (Panic, s)
        | Ok ok \<Rightarrow> if ok then m ob s else (Ok [], s)))"
  by (simp add: mutate_created_def bind_st_def lift_st_def split: outcome.split)

text \<open>A mutating endpoint admits a dry run, and an object outside the legacy releases, with the empty
  list of patches and without asking the handler; the mutation's own patches are answered for a
  legacy object, and its error is a denial.\<close>

theorem mutating_endpoint_replies:
  assumes "carries H request rq"
  shows "mutator_NewCreateHandler H f decode m request s =
     (if ar_DryRun rq = Some True then (mutator_reply H rq (Ok []), s)
      else case decode (ar_Object rq) of
          Err e \<Rightarrow> (mutator_reply H rq (Err e), s)
        | Panic \<Rightarrow> (Panic, s)
        | Ok ob \<Rightarrow> (case reconciled_by_legacy f ob of
            Err e \<Rightarrow> (mutator_reply H rq (Err e), s)
          | Panic \<Rightarrow> (Panic, s)
          | Ok ok \<Rightarrow>
              if ok then (mutator_reply H rq (fst (m ob s)), snd (m ob s)) else (mutator_reply H rq (Ok []), s)))"
proof (cases "ar_DryRun rq = Some True")
  case True
  then show ?thesis
    using assms
    by (simp add: mutator_NewCreateHandler_def mutator_newHttpHandler_def with_review_carries)
      (simp add: on_error_eq mutator_reply_def lift_st_def)
next
  case False
  then show ?thesis
    unfolding mutator_NewCreateHandler_def mutator_newHttpHandler_carries [OF assms False] mutate_created_eq
    by (simp add: mutator_reply_def split: outcome.split)
qed

text \<open>The status codes of a request that carries no review, in the order the code checks, for every
  endpoint: wrong content type and an undecodable review are bad requests, an unreadable body is an
  internal error; a review without a request makes the factories' handlers panic.\<close>

theorem malformed_requests:
  "validator_newHttpHandler H v request s =
     (if rq_ContentType request \<noteq> ''application/json'' then (Ok (StatusOnly StatusBadRequest), s)
      else case rq_Body request of
          Inl e \<Rightarrow> (Ok (StatusOnly StatusInternalServerError), s)
        | Inr data \<Rightarrow> (case hl_DecodeReview H data of
            Inl e \<Rightarrow> (Ok (StatusOnly StatusBadRequest), s)
          | Inr review \<Rightarrow> validator_newHttpHandler H v request s)) \<and>
   mutator_newHttpHandler H m request s =
     (if rq_ContentType request \<noteq> ''application/json'' then (Ok (StatusOnly StatusBadRequest), s)
      else case rq_Body request of
          Inl e \<Rightarrow> (Ok (StatusOnly StatusInternalServerError), s)
        | Inr data \<Rightarrow> (case hl_DecodeReview H data of
            Inl e \<Rightarrow> (Ok (StatusOnly StatusBadRequest), s)
          | Inr review \<Rightarrow>
              if rv_Request review = None then (Panic, s) else mutator_newHttpHandler H m request s))"
  by (auto simp: validator_newHttpHandler_def mutator_newHttpHandler_def with_review_def bind_st_def lift_st_def
      split: sum.split)

section \<open>Requests for the witnesses\<close>

definition demo_review_request :: admission_request where
  "demo_review_request = \<lparr>ar_UID = ''u1'', ar_Kind = ''Cluster'', ar_Namespace = ''org'', ar_Name = ''c'',
     ar_Object = ''new'', ar_OldObject = ''old'', ar_DryRun = None\<rparr>"

definition demo_http :: http_lib where
  "demo_http = \<lparr>hl_DecodeReview = (\<lambda>s. Inr \<lparr>rv_Request = Some demo_review_request\<rparr>),
     hl_DecodeNames = (\<lambda>s. Inr ('''', '''')), hl_MarshalReview = (\<lambda>kind ver rs. Inr ''''),
     hl_MarshalPatch = (\<lambda>ps. Inr ''[]'')\<rparr>"

definition demo_http_request :: http_request where
  "demo_http_request = \<lparr>rq_ContentType = ''application/json'', rq_Body = Inr ''review''\<rparr>"

lemma demo_carries: "carries demo_http demo_http_request demo_review_request"
  by (simp add: carries_def demo_http_def demo_http_request_def)

lemma demo_serialises: "serialises demo_http"
  by (simp add: serialises_def demo_http_def)

definition demo_legacy_kube :: kube_api where
  "demo_legacy_kube = demo_org_kube
     [demo_release ''v1.0.0'' ''active'' [\<lparr>cmp_Name = ''azure-operator'', cmp_Version = ''5.0.0''\<rparr>]] demo_labels"

definition demo_factory :: http_handler_factory where
  "demo_factory = \<lparr>hf_ctrlReader = demo_legacy_kube, hf_ctrlClient = demo_legacy_kube\<rparr>"

lemma demo_legacy:
  assumes "object_metadata ob = Some m" "om_labels m label_ReleaseVersion \<in> {Some ''v1.0.0'', Some ''1.0.0''}"
  shows "reconciled_by_legacy demo_factory ob = Ok True"
  using assms
  by (auto simp: reconciled_by_legacy_def IsObjectReconciledByLegacyRelease_def TryFindReleaseForObject_def
      FindRelease_def demo_factory_def demo_legacy_kube_def demo_org_kube_def demo_installation_def demo_kube_def
      demo_release_def release_cr_name_def HasPrefix_def mget_def IsLegacy_def ContainsAzureOperator_def
      GetComponentVersionsFromReleaseCR_def azureOperatorComponentName_def outcome_simps)

lemma demo_azure_cluster_legacy: "reconciled_by_legacy demo_factory (ObjAzureCluster (demo_azure_cluster demo_labels)) = Ok True"
  by (rule demo_legacy [where m = "demo_meta ''c'' demo_labels Map.empty"]) (simp_all add: demo_azure_cluster_def)

theorem validating_endpoint_admits_iff_witness:
  "\<exists>r s'. validator_NewUpdateHandler demo_http demo_factory (\<lambda>raw. Ok (ObjAzureCluster (demo_azure_cluster demo_labels)))
     (\<lambda>old ob n. (if old = ob then Ok () else Err (Opaque ''changed''), Suc n)) demo_http_request (0::nat) = (Ok r, s') \<and>
     admits r ''u1''"
  by (rule validating_endpoint_admits_iff [OF demo_carries demo_serialises, where v = undefined, THEN conjunct2, THEN iffD2])
    (auto simp: demo_review_request_def intro!: demo_azure_cluster_legacy exI [of _ True])

theorem mutating_endpoint_replies_witness:
  "mutator_NewCreateHandler demo_http demo_factory (\<lambda>raw. Ok (ObjAzureCluster (demo_azure_cluster demo_labels)))
     (\<lambda>ob n. (Err (Opaque ''refused''), Suc n)) demo_http_request (0::nat) =
     (mutator_reply demo_http demo_review_request (Err (Opaque ''refused'')), 1)"
  using mutating_endpoint_replies [OF demo_carries, of demo_factory
      "\<lambda>raw. Ok (ObjAzureCluster (demo_azure_cluster demo_labels))" "\<lambda>ob n. (Err (Opaque ''refused''), Suc n)" "0::nat"]
    demo_azure_cluster_legacy
  by (simp add: demo_review_request_def)

end
