(* ===== verification/Conditions.thy ===== *)
theory Conditions
  imports Fixtures Guards
begin

text \<open>
  The condition checks of an updated cluster (\<^verbatim>\<open>internal/conditions\<close>): the three validations that
  concern any condition, and the two conditions they are run on.
\<close>

section \<open>Validations of a single condition\<close>

definition conditionTrue :: string where "conditionTrue = ''True''"
definition conditionFalse :: string where "conditionFalse = ''False''"
definition conditionUnknown :: string where "conditionUnknown = ''Unknown''"

definition invalidConditionModification :: go_error where
  "invalidConditionModification = Micro (E_errors Errors_InvalidConditionModificationError)"

type_synonym conditionChangeValidation = "condition option \<Rightarrow> condition option \<Rightarrow> unit res"

fun validateAll ::
    "condition option \<Rightarrow> condition option \<Rightarrow> conditionChangeValidation list \<Rightarrow> unit res" where
  "validateAll oldCondition newCondition [] = Ok ()"
| "validateAll oldCondition newCondition (validation # validations) =
     bind_res (validation oldCondition newCondition) (\<lambda>_. validateAll oldCondition newCondition validations)"

definition validateNewStatusUnknownIsNotAllowed :: conditionChangeValidation where
  "validateNewStatusUnknownIsNotAllowed oldCondition newCondition =
     fail_if (case newCondition of None \<Rightarrow> False | Some c \<Rightarrow> co_Status c = conditionUnknown)
       invalidConditionModification"

definition validateNewStatusMustBeEitherTrueOrFalse :: conditionChangeValidation where
  "validateNewStatusMustBeEitherTrueOrFalse oldCondition newCondition =
     (case newCondition of
        None \<Rightarrow> Ok ()
      | Some c \<Rightarrow>
          fail_if (co_Status c \<noteq> conditionTrue \<and> co_Status c \<noteq> conditionFalse) invalidConditionModification)"

definition validateRemovingConditionIsNotAllowed :: conditionChangeValidation where
  "validateRemovingConditionIsNotAllowed oldCondition newCondition =
     fail_if (oldCondition \<noteq> None \<and> newCondition = None) invalidConditionModification"

definition conditionValidations :: "conditionChangeValidation list" where
  "conditionValidations =
     [validateNewStatusUnknownIsNotAllowed, validateNewStatusMustBeEitherTrueOrFalse,
      validateRemovingConditionIsNotAllowed]"

section \<open>Creating and Upgrading\<close>

definition CreatingCondition :: string where "CreatingCondition = ''Creating''"
definition UpgradingCondition :: string where "UpgradingCondition = ''Upgrading''"

definition ValidateCreatingCondition :: "lib \<Rightarrow> cluster \<Rightarrow> cluster \<Rightarrow> unit res" where
  "ValidateCreatingCondition L oldClusterCR newClusterCR =
     (let oldCreatingCondition = lib_condGet L oldClusterCR CreatingCondition;
          newCreatingCondition = lib_condGet L newClusterCR CreatingCondition in
      bind_res (validateAll oldCreatingCondition newCreatingCondition conditionValidations) (\<lambda>_.
      let creationWasCompleted =
            (case oldCreatingCondition of None \<Rightarrow> False | Some c \<Rightarrow> co_Status c = conditionFalse);
          nowIsInCreation =
            (case newCreatingCondition of None \<Rightarrow> False | Some c \<Rightarrow> co_Status c = conditionTrue) in
      fail_if (creationWasCompleted \<and> nowIsInCreation) invalidConditionModification))"

definition ValidateUpgradingCondition :: "lib \<Rightarrow> cluster \<Rightarrow> cluster \<Rightarrow> unit res" where
  "ValidateUpgradingCondition L oldClusterCR newClusterCR =
     (let oldUpgradingCondition = lib_condGet L oldClusterCR UpgradingCondition;
          newUpgradingCondition = lib_condGet L newClusterCR UpgradingCondition in
      validateAll oldUpgradingCondition newUpgradingCondition conditionValidations)"

definition ValidateClusterConditions :: "lib \<Rightarrow> cluster \<Rightarrow> cluster \<Rightarrow> unit res" where
  "ValidateClusterConditions L oldClusterCR newClusterCR =
     bind_res (ValidateCreatingCondition L oldClusterCR newClusterCR) (\<lambda>_.
       ValidateUpgradingCondition L oldClusterCR newClusterCR)"

section \<open>What they allow\<close>

text \<open>
  The status of a condition as the rules see it; a legal transition never loses the condition,
  never leaves the two legal values, and (for Creating) never restarts the creation.
\<close>

definition status_of :: "lib \<Rightarrow> string \<Rightarrow> cluster \<Rightarrow> string option" where
  "status_of L ty c = map_option co_Status (lib_condGet L c ty)"

definition legal_change :: "string option \<Rightarrow> string option \<Rightarrow> bool" where
  "legal_change old new \<longleftrightarrow>
     (case new of None \<Rightarrow> old = None | Some s \<Rightarrow> s = conditionTrue \<or> s = conditionFalse)"

definition legal_creating_change :: "string option \<Rightarrow> string option \<Rightarrow> bool" where
  "legal_creating_change old new \<longleftrightarrow>
     legal_change old new \<and> \<not> (old = Some conditionFalse \<and> new = Some conditionTrue)"

lemma status_values [simp]: "conditionUnknown \<noteq> conditionTrue" "conditionUnknown \<noteq> conditionFalse"
  "conditionTrue \<noteq> conditionUnknown" "conditionFalse \<noteq> conditionUnknown"
  "conditionTrue \<noteq> conditionFalse" "conditionFalse \<noteq> conditionTrue"
  by (simp_all add: conditionUnknown_def conditionTrue_def conditionFalse_def)

lemma validateAll_conditionValidations [outcome_simps]:
  "validateAll old new conditionValidations = Ok u \<longleftrightarrow>
     legal_change (map_option co_Status old) (map_option co_Status new)"
  by (auto simp: conditionValidations_def validateNewStatusUnknownIsNotAllowed_def
      validateNewStatusMustBeEitherTrueOrFalse_def validateRemovingConditionIsNotAllowed_def
      legal_change_def outcome_simps split: option.splits)

lemma ValidateCreatingCondition_Ok_iff [outcome_simps]:
  "ValidateCreatingCondition L old new = Ok u \<longleftrightarrow>
     legal_creating_change (status_of L CreatingCondition old) (status_of L CreatingCondition new)"
  by (auto simp: ValidateCreatingCondition_def Let_def legal_creating_change_def status_of_def
      outcome_simps split: option.splits)

lemma ValidateUpgradingCondition_Ok_iff [outcome_simps]:
  "ValidateUpgradingCondition L old new = Ok u \<longleftrightarrow>
     legal_change (status_of L UpgradingCondition old) (status_of L UpgradingCondition new)"
  by (simp add: ValidateUpgradingCondition_def status_of_def outcome_simps)

lemma validateAll_result:
  "validateAll old new conditionValidations \<in> {Ok (), Err invalidConditionModification}"
  by (auto simp: conditionValidations_def validateNewStatusUnknownIsNotAllowed_def
      validateNewStatusMustBeEitherTrueOrFalse_def validateRemovingConditionIsNotAllowed_def
      fail_if_def split: option.splits)

lemma ValidateCreatingCondition_result:
  "ValidateCreatingCondition L old new \<in> {Ok (), Err invalidConditionModification}"
  using validateAll_result [of "lib_condGet L old CreatingCondition" "lib_condGet L new CreatingCondition"]
  by (auto simp: ValidateCreatingCondition_def Let_def fail_if_def)

text \<open>C32. The update of a cluster's conditions is accepted exactly when the Creating and Upgrading
  conditions change legally; every refusal carries the one error for condition changes.\<close>

theorem ValidateClusterConditions_spec:
  "ValidateClusterConditions L old new =
     (if legal_creating_change (status_of L CreatingCondition old) (status_of L CreatingCondition new) \<and>
         legal_change (status_of L UpgradingCondition old) (status_of L UpgradingCondition new)
      then Ok () else Err invalidConditionModification)"
  using ValidateCreatingCondition_result [of L old new]
    validateAll_result [of "lib_condGet L old UpgradingCondition" "lib_condGet L new UpgradingCondition"]
    ValidateCreatingCondition_Ok_iff [of L old new "()"] ValidateUpgradingCondition_Ok_iff [of L old new "()"]
  by (auto simp: ValidateClusterConditions_def ValidateUpgradingCondition_def)

lemma ValidateClusterConditions_Ok_iff:
  "ValidateClusterConditions L old new = Ok u \<longleftrightarrow>
     legal_creating_change (status_of L CreatingCondition old) (status_of L CreatingCondition new) \<and>
     legal_change (status_of L UpgradingCondition old) (status_of L UpgradingCondition new)"
  by (auto simp: ValidateClusterConditions_def outcome_simps)

section \<open>Histories of a cluster\<close>

text \<open>The states a cluster goes through when every update passes the condition check.\<close>

inductive condition_history :: "lib \<Rightarrow> cluster \<Rightarrow> cluster \<Rightarrow> bool" for L where
  start: "condition_history L c c"
| update: "condition_history L a b \<Longrightarrow> ValidateClusterConditions L b c = Ok () \<Longrightarrow> condition_history L a c"

lemma created_step:
  assumes "ValidateClusterConditions L b c = Ok ()" and "status_of L CreatingCondition b = Some conditionFalse"
  shows "status_of L CreatingCondition c = Some conditionFalse"
  using assms
  by (auto simp: ValidateClusterConditions_def legal_creating_change_def legal_change_def outcome_simps
      split: option.splits)

text \<open>C33. A cluster whose creation has completed stays created: over any sequence of accepted updates
  the Creating condition remains there with status False.\<close>

theorem created_cluster_stays_created:
  assumes "condition_history L a b" and "status_of L CreatingCondition a = Some conditionFalse"
  shows "status_of L CreatingCondition b = Some conditionFalse"
  using assms by (induction) (auto dest: created_step)

definition demo_cluster :: "string \<Rightarrow> condition list \<Rightarrow> cluster" where
  "demo_cluster n conds = \<lparr>cl_meta = demo_meta n Map.empty Map.empty, cl_ClusterNetwork = None,
     cl_ControlPlaneEndpoint = \<lparr>ep_Host = '''', ep_Port = 0\<rparr>, cl_Conditions = conds, cl_rest = ''''\<rparr>"

theorem created_cluster_stays_created_witness:
  "status_of demo_lib CreatingCondition
     (demo_cluster ''c'' [\<lparr>co_Type = ''Upgrading'', co_Status = ''True''\<rparr>,
        \<lparr>co_Type = ''Creating'', co_Status = ''False''\<rparr>]) = Some conditionFalse"
proof (rule created_cluster_stays_created
    [of demo_lib "demo_cluster ''c'' [\<lparr>co_Type = ''Creating'', co_Status = ''False''\<rparr>]"])
  show "condition_history demo_lib (demo_cluster ''c'' [\<lparr>co_Type = ''Creating'', co_Status = ''False''\<rparr>])
     (demo_cluster ''c'' [\<lparr>co_Type = ''Upgrading'', co_Status = ''True''\<rparr>,
        \<lparr>co_Type = ''Creating'', co_Status = ''False''\<rparr>])"
    by (rule condition_history.update [OF condition_history.start])
      (simp add: ValidateClusterConditions_Ok_iff legal_creating_change_def legal_change_def status_of_def
        demo_lib_def demo_condGet_def demo_cluster_def CreatingCondition_def UpgradingCondition_def
        conditionTrue_def conditionFalse_def)
  show "status_of demo_lib CreatingCondition
      (demo_cluster ''c'' [\<lparr>co_Type = ''Creating'', co_Status = ''False''\<rparr>]) = Some conditionFalse"
    by (simp add: status_of_def demo_lib_def demo_condGet_def demo_cluster_def CreatingCondition_def
        conditionFalse_def)
qed

end
