(* ===== verification/GoTime.thy ===== *)
theory GoTime
  imports Strconv
begin

text \<open>
  The part of Go's \<open>time\<close> package the scheduled upgrades use: \<open>time.Parse\<close> with the layout
  \<open>RFC822\<close>, which is \<^verbatim>\<open>02 Jan 06 15:04 MST\<close>, for texts that name the zone UTC; instants as
  nanoseconds since 1970; \<open>Add\<close>, \<open>Before\<close> and the saturating \<open>Sub\<close>. The parser reads the layout
  chunk by chunk, as the library does, with its leniency about spaces, letter case and the sign of a
  year.
\<close>

section \<open>Chunks\<close>

fun cutspace :: "string \<Rightarrow> string" where
  "cutspace [] = []"
| "cutspace (c # s) = (if c = CHR '' '' then cutspace s else c # s)"

text \<open>\<open>skip(value, " ")\<close>: spaces, or the end of the text.\<close>

definition skip_space :: "string \<Rightarrow> string option" where
  "skip_space v = (case v of
      [] \<Rightarrow> Some []
    | c # s \<Rightarrow> if c = CHR '' '' then Some (cutspace s) else None)"

definition skip_colon :: "string \<Rightarrow> string option" where
  "skip_colon v = (case v of
      [] \<Rightarrow> None
    | c # s \<Rightarrow> if c = CHR '':'' then Some s else None)"

definition getnum :: "bool \<Rightarrow> string \<Rightarrow> (nat \<times> string) option" where
  "getnum fixed s = (case s of
      [] \<Rightarrow> None
    | c # s1 \<Rightarrow>
       (case digit_val c of
          None \<Rightarrow> None
        | Some a \<Rightarrow>
           (case s1 of
              [] \<Rightarrow> if fixed then None else Some (a, [])
            | d # s2 \<Rightarrow>
               (case digit_val d of
                  None \<Rightarrow> if fixed then None else Some (a, s1)
                | Some b \<Rightarrow> Some (10 * a + b, s2)))))"

definition shortMonthNames :: "string list" where
  "shortMonthNames = [''Jan'', ''Feb'', ''Mar'', ''Apr'', ''May'', ''Jun'', ''Jul'', ''Aug'', ''Sep'',
     ''Oct'', ''Nov'', ''Dec'']"

text \<open>The package's \<open>match\<close>: bytes are equal, or equal letters once the case bit is set.\<close>

definition fold_bit :: "char \<Rightarrow> nat" where
  "fold_bit c = (let n = of_char c in if n div 32 mod 2 = 0 then n + 32 else n)"

definition match_char :: "char \<Rightarrow> char \<Rightarrow> bool" where
  "match_char c d \<longleftrightarrow> c = d \<or> fold_bit c = fold_bit d \<and> 97 \<le> fold_bit c \<and> fold_bit c \<le> 122"

definition match_word :: "string \<Rightarrow> string \<Rightarrow> bool" where
  "match_word v w \<longleftrightarrow> length w \<le> length v \<and> list_all2 match_char (take (length w) v) w"

fun lookup_name :: "nat \<Rightarrow> string list \<Rightarrow> string \<Rightarrow> (nat \<times> string) option" where
  "lookup_name i [] v = None"
| "lookup_name i (w # ws) v =
     (if match_word v w then Some (i, drop (length w) v) else lookup_name (Suc i) ws v)"

text \<open>The package's own \<open>atoi\<close>, on the two bytes of the year: a sign may take the place of a digit.\<close>

definition year_atoi :: "char \<Rightarrow> char \<Rightarrow> int option" where
  "year_atoi c d =
     (if c = CHR ''-'' then map_option (\<lambda>n. - int n) (digit_val d)
      else if c = CHR ''+'' then map_option int (digit_val d)
      else (case (digit_val c, digit_val d) of
          (Some a, Some b) \<Rightarrow> Some (int (10 * a + b))
        | _ \<Rightarrow> None))"

definition get_year :: "string \<Rightarrow> (int \<times> string) option" where
  "get_year v = (case v of
      c # d # s \<Rightarrow>
        (case year_atoi c d of
           None \<Rightarrow> None
         | Some y \<Rightarrow> Some (if 69 \<le> y then y + 1900 else y + 2000, s))
    | _ \<Rightarrow> None)"

section \<open>The calendar\<close>

definition is_leap :: "int \<Rightarrow> bool" where
  "is_leap y \<longleftrightarrow> y mod 4 = 0 \<and> (y mod 100 \<noteq> 0 \<or> y mod 400 = 0)"

definition month_lengths :: "nat list" where
  "month_lengths = [31, 28, 31, 30, 31, 30, 31, 31, 30, 31, 30, 31]"

text \<open>Months count from 0 here.\<close>

definition daysIn :: "nat \<Rightarrow> int \<Rightarrow> nat" where
  "daysIn m y = (if m = 1 \<and> is_leap y then 29 else month_lengths ! m)"

definition days_before_year :: "int \<Rightarrow> int" where
  "days_before_year y =
     365 * (y - 1970) + ((y - 1) div 4 - 492) - ((y - 1) div 100 - 19) + ((y - 1) div 400 - 4)"

definition days_before_month :: "nat \<Rightarrow> int \<Rightarrow> int" where
  "days_before_month m y = sum_list (map (\<lambda>k. int (daysIn k y)) [0..<m])"

text \<open>\<open>time.Date\<close> in UTC, in seconds since 1970.\<close>

definition unix_seconds :: "int \<Rightarrow> nat \<Rightarrow> nat \<Rightarrow> nat \<Rightarrow> nat \<Rightarrow> int" where
  "unix_seconds y m d h mi =
     86400 * (days_before_year y + days_before_month m y + int d - 1) + 3600 * int h + 60 * int mi"

section \<open>time.Parse\<close>

text \<open>
  Only texts whose zone is the literal UTC are placed in the zone called UTC; for every other text
  the result is \<open>None\<close>, whether parsing fails or the instant lies in another zone.
\<close>

definition parse_rfc822_utc :: "string \<Rightarrow> int option" where
  "parse_rfc822_utc v0 =
     Option.bind (getnum True v0) (\<lambda>(day, v1).
     Option.bind (skip_space v1) (\<lambda>v2.
     Option.bind (lookup_name 0 shortMonthNames v2) (\<lambda>(month, v3).
     Option.bind (skip_space v3) (\<lambda>v4.
     Option.bind (get_year v4) (\<lambda>(year, v5).
     Option.bind (skip_space v5) (\<lambda>v6.
     Option.bind (getnum False v6) (\<lambda>(hour, v7).
     if 24 \<le> hour then None else
     Option.bind (skip_colon v7) (\<lambda>v8.
     Option.bind (getnum True v8) (\<lambda>(minute, v9).
     if 60 \<le> minute then None else
     Option.bind (skip_space v9) (\<lambda>v10.
     if v10 \<noteq> ''UTC'' then None
     else if day < 1 \<or> daysIn month year < day then None
     else Some (1000000000 * unix_seconds year month day hour minute)))))))))))"

text \<open>Writing the same layout, the reference for the round trip.\<close>

definition two_digits :: "nat \<Rightarrow> string" where
  "two_digits n = [digit_char (n div 10), digit_char (n mod 10)]"

definition format_rfc822_utc :: "int \<Rightarrow> nat \<Rightarrow> nat \<Rightarrow> nat \<Rightarrow> nat \<Rightarrow> string" where
  "format_rfc822_utc y m d h mi =
     two_digits d @ '' '' @ shortMonthNames ! m @ '' '' @ two_digits (nat (y mod 100)) @ '' '' @
     two_digits h @ '':'' @ two_digits mi @ '' UTC''"

section \<open>Durations\<close>

definition Minute :: int where "Minute = 60 * 1000000000"
definition Hour :: int where "Hour = 3600 * 1000000000"

text \<open>\<open>t.Sub(u)\<close> is a 64-bit number of nanoseconds, clamped at both ends.\<close>

definition time_Sub :: "int \<Rightarrow> int \<Rightarrow> int" where
  "time_Sub t u = max (- (2 ^ 63)) (min (2 ^ 63 - 1) (t - u))"

definition time_Before :: "int \<Rightarrow> int \<Rightarrow> bool" where
  "time_Before t u \<longleftrightarrow> t < u"

lemma time_Sub_gt_iff: "- (2 ^ 63) \<le> d \<Longrightarrow> d < 2 ^ 63 - 1 \<Longrightarrow> d < time_Sub t u \<longleftrightarrow> d < t - u"
  by (auto simp: time_Sub_def)

section \<open>Facts\<close>

lemma digit_char_visible: "n < 10 \<Longrightarrow> digit_char n \<noteq> CHR ''-'' \<and> digit_char n \<noteq> CHR ''+'' \<and> digit_char n \<noteq> CHR '' ''"
  using of_char_digit_char [of n] by (auto simp: of_char_def)

lemma getnum_two_digits [simp]: "n < 100 \<Longrightarrow> getnum f (two_digits n @ s) = Some (n, s)"
  by (simp add: getnum_def two_digits_def)

lemma getnum_two_digits_Cons [simp]:
  "n < 100 \<Longrightarrow> getnum f (two_digits n) = Some (n, [])"
  using getnum_two_digits [of n f "[]"] by simp

lemma cutspace_two_digits [simp]: "n < 100 \<Longrightarrow> cutspace (two_digits n @ s) = two_digits n @ s"
  using digit_char_visible [of "n div 10"] by (simp add: two_digits_def)

lemma get_year_two_digits:
  assumes "1969 \<le> y" "y < 2069"
  shows "get_year (two_digits (nat (y mod 100)) @ s) = Some (y, s)"
proof -
  define n where "n = nat (y mod 100)"
  have n: "n < 100" "int n = y mod 100" by (simp_all add: n_def)
  from n(1) have "year_atoi (digit_char (n div 10)) (digit_char (n mod 10)) = Some (int n)"
    using digit_char_visible [of "n div 10"] by (simp add: year_atoi_def)
  moreover have "(if 69 \<le> int n then int n + 1900 else int n + 2000) = y"
    using assms unfolding n(2) by presburger
  ultimately show ?thesis by (simp add: get_year_def two_digits_def flip: n_def)
qed

lemma month_range: "m < 12 \<Longrightarrow> m \<in> {0, 1, 2, 3, 4, 5, 6, 7, 8, 9, 10, 11::nat}"
  by (simp, arith)

lemma lookup_month:
  assumes "m < 12"
  shows "lookup_name 0 shortMonthNames (shortMonthNames ! m @ s) = Some (m, s) \<and>
         cutspace (shortMonthNames ! m @ s) = shortMonthNames ! m @ s"
proof -
  from month_range [OF assms] show ?thesis
    by (elim insertE; simp add: shortMonthNames_def match_word_def match_char_def fold_bit_def)
qed

lemma daysIn_le_31: "m < 12 \<Longrightarrow> daysIn m y \<le> 31"
proof -
  assume "m < 12"
  from month_range [OF this] show "daysIn m y \<le> 31" by (elim insertE; simp add: daysIn_def month_lengths_def)
qed

text \<open>The round trip: a formatted instant of the years the two digits can mean parses to itself.\<close>

lemma parse_format_rfc822:
  assumes "1969 \<le> y" "y < 2069" "m < 12" "1 \<le> d" "d \<le> daysIn m y" "h < 24" "mi < 60"
  shows "parse_rfc822_utc (format_rfc822_utc y m d h mi) = Some (1000000000 * unix_seconds y m d h mi)"
proof -
  have "d < 100" using assms(5) daysIn_le_31 [OF assms(3), of y] by simp
  then show ?thesis
    using assms lookup_month [OF assms(3)]
    by (simp add: parse_rfc822_utc_def format_rfc822_utc_def skip_space_def skip_colon_def
        get_year_two_digits)
qed

lemma parse_rfc822_utc_minutes: "parse_rfc822_utc s = Some t \<Longrightarrow> t mod Minute = 0"
  by (auto simp: parse_rfc822_utc_def Minute_def unix_seconds_def bind_eq_Some_conv split: if_splits prod.splits)

end
