(* ===== verification/ScheduledUpgrades.thy ===== *)
theory ScheduledUpgrades
  imports ReleaseVersion GoTime
begin

text \<open>
  The checks of the two annotations that schedule an upgrade of a cluster
  (\<^verbatim>\<open>internal/scheduledupgrades/scheduledupgrades.go\<close>). The code reads the clock twice; the two
  readings are arguments, in nanoseconds since 1970.
\<close>

definition notAllowed :: go_error where
  "notAllowed = Micro (E_scheduledupgrades Sched_notAllowedError)"

definition ValidateUpgradeScheduleTime :: "int \<Rightarrow> int \<Rightarrow> string \<Rightarrow> bool" where
  "ValidateUpgradeScheduleTime now1 now2 updateTime =
     (case parse_rfc822_utc updateTime of
        None \<Rightarrow> False
      | Some t \<Rightarrow>
          if time_Before t (now1 + 16 * Minute) then False
          else if 4380 * Hour < time_Sub t now2 then False
          else True)"

definition ValidateClusterAnnotationUpgradeTime :: "int \<Rightarrow> int \<Rightarrow> cluster option \<Rightarrow> cluster \<Rightarrow> unit res" where
  "ValidateClusterAnnotationUpgradeTime now1 now2 oldCluster newCluster =
     (case om_annotations (cl_meta newCluster) annotation_UpdateScheduleTargetTime of
        None \<Rightarrow> Ok ()
      | Some updateTime \<Rightarrow>
          if (case oldCluster of
                None \<Rightarrow> False
              | Some c \<Rightarrow> (case om_annotations (cl_meta c) annotation_UpdateScheduleTargetTime of
                  None \<Rightarrow> False
                | Some updateTimeOld \<Rightarrow> updateTime = updateTimeOld))
          then Ok ()
          else fail_if (\<not> ValidateUpgradeScheduleTime now1 now2 updateTime) notAllowed)"

definition ValidateClusterAnnotationUpgradeRelease :: "semver_api \<Rightarrow> kube_api \<Rightarrow> cluster \<Rightarrow> unit res" where
  "ValidateClusterAnnotationUpgradeRelease S client c =
     (case om_annotations (cl_meta c) annotation_UpdateScheduleTargetRelease of
        None \<Rightarrow> Ok ()
      | Some targetRelease \<Rightarrow>
          bind_res (replace_err (GetSemverFromLabels S (om_labels (cl_meta c)))
                      (Micro (E_errors Errors_ParsingFailedError))) (\<lambda>oldVersion.
          bind_res (of_lib (sv_Parse S targetRelease)) (\<lambda>newVersion.
          bind_res (replace_err (Validate S client oldVersion newVersion) notAllowed) (\<lambda>_.
          fail_if (sv_EQ S oldVersion newVersion) notAllowed))))"

section \<open>The schedule\<close>

text \<open>The window an upgrade can be scheduled in.\<close>

definition in_schedule_window :: "int \<Rightarrow> int \<Rightarrow> int \<Rightarrow> bool" where
  "in_schedule_window now1 now2 t \<longleftrightarrow> now1 + 16 * Minute \<le> t \<and> t \<le> now2 + 4380 * Hour"

lemma ValidateUpgradeScheduleTime_iff:
  "ValidateUpgradeScheduleTime now1 now2 s \<longleftrightarrow>
     (\<exists>t. parse_rfc822_utc s = Some t \<and> in_schedule_window now1 now2 t)"
proof -
  have "- (2 ^ 63) \<le> 4380 * Hour" "4380 * Hour < 2 ^ 63 - 1"
    by (simp_all add: Hour_def)
  from time_Sub_gt_iff [OF this] have "4380 * Hour < time_Sub t now2 \<longleftrightarrow> now2 + 4380 * Hour < t" for t
    by (simp add: less_diff_eq add.commute)
  then show ?thesis
    by (simp add: ValidateUpgradeScheduleTime_def in_schedule_window_def time_Before_def not_less
        split: option.split) blast
qed

definition target_time :: "cluster \<Rightarrow> string option" where
  "target_time c = om_annotations (cl_meta c) annotation_UpdateScheduleTargetTime"

lemma ValidateClusterAnnotationUpgradeTime_eq:
  "ValidateClusterAnnotationUpgradeTime now1 now2 old new =
     fail_if (\<exists>s. target_time new = Some s \<and> Option.bind old target_time \<noteq> Some s \<and>
        \<not> ValidateUpgradeScheduleTime now1 now2 s) notAllowed"
  by (auto simp: ValidateClusterAnnotationUpgradeTime_def target_time_def fail_if_def split: option.splits)

text \<open>C34. The target time of a scheduled upgrade is accepted exactly when it is absent, unchanged, or a
  text of the layout RFC822 in UTC for an instant from 16 minutes to 4380 hours ahead of the clock.\<close>

theorem schedule_time_accepted_iff:
  "ValidateClusterAnnotationUpgradeTime now1 now2 old new = Ok () \<longleftrightarrow>
     target_time new = None \<or>
     (\<exists>c. old = Some c \<and> target_time c = target_time new) \<or>
     (\<exists>s t. target_time new = Some s \<and> parse_rfc822_utc s = Some t \<and> in_schedule_window now1 now2 t)"
  by (cases old; cases "target_time new")
    (auto simp: ValidateClusterAnnotationUpgradeTime_eq fail_if_Ok_iff ValidateUpgradeScheduleTime_iff)

text \<open>C35. Every minute of the window can be scheduled: the RFC822 text of a calendar minute is accepted
  if and only if the minute lies in the window, whatever the cluster's annotation was.\<close>

theorem schedule_time_complete:
  assumes "1969 \<le> y" "y < 2069" "m < 12" "1 \<le> d" "d \<le> daysIn m y" "h < 24" "mi < 60"
  shows "ValidateUpgradeScheduleTime now1 now2 (format_rfc822_utc y m d h mi) \<longleftrightarrow>
     in_schedule_window now1 now2 (1000000000 * unix_seconds y m d h mi)"
  by (simp add: ValidateUpgradeScheduleTime_iff parse_format_rfc822 [OF assms])

theorem schedule_time_complete_witness:
  "ValidateUpgradeScheduleTime (1000000000 * 1612018000) (1000000000 * 1612018001) ''30 Jan 21 15:04 UTC'' =
     in_schedule_window (1000000000 * 1612018000) (1000000000 * 1612018001)
       (1000000000 * unix_seconds 2021 0 30 15 4)"
proof -
  have "format_rfc822_utc 2021 0 30 15 4 = ''30 Jan 21 15:04 UTC''"
    by (simp add: format_rfc822_utc_def two_digits_def digit_char_def shortMonthNames_def char_of_def bit_0)
  then show ?thesis
    using schedule_time_complete [of 2021 0 30 15 4 "1000000000 * 1612018000" "1000000000 * 1612018001"]
    by (simp add: daysIn_def month_lengths_def)
qed

section \<open>The target release\<close>

lemma upgrade_release_Ok_iff [outcome_simps]:
  "ValidateClusterAnnotationUpgradeRelease S k c = Ok u \<longleftrightarrow>
     (case om_annotations (cl_meta c) annotation_UpdateScheduleTargetRelease of
        None \<Rightarrow> True
      | Some target \<Rightarrow> \<exists>old new es. GetSemverFromLabels S (om_labels (cl_meta c)) = Ok old \<and>
          sv_Parse S target = Inr new \<and> \<not> sv_EQ S old new \<and>
          availableReleases S k = Ok es \<and> upgrade_permitted S es old new)"
  by (auto simp: ValidateClusterAnnotationUpgradeRelease_def outcome_simps Validate_eq_refusal
      refusal_None_iff split: option.splits)

lemma upgrade_release_not_Panic: "ValidateClusterAnnotationUpgradeRelease S k c \<noteq> Panic"
  by (auto simp: ValidateClusterAnnotationUpgradeRelease_def bind_res_Panic_iff Validate_not_Panic
      GetSemverFromLabels_not_Panic split: option.split)

text \<open>An accepted target release is a strictly newer release that is installed, to which the cluster
  could be upgraded at once, unless an ignored release is at either end.\<close>

theorem schedule_release_is_upgrade:
  assumes "semver_precedence S"
    and "ValidateClusterAnnotationUpgradeRelease S k c = Ok ()"
    and "om_annotations (cl_meta c) annotation_UpdateScheduleTargetRelease = Some target"
  shows "\<exists>old new es. GetSemverFromLabels S (om_labels (cl_meta c)) = Ok old \<and> sv_Parse S target = Inr new \<and>
     availableReleases S k = Ok es \<and> (\<exists>e\<in>set es. sv_EQ S (re_Version e) new) \<and>
     Validate S k old new = Ok () \<and> (touches_ignored S es old new \<or> sv_LT S old new)"
proof -
  obtain old new es where
    *: "GetSemverFromLabels S (om_labels (cl_meta c)) = Ok old" "sv_Parse S target = Inr new"
       "\<not> sv_EQ S old new" "availableReleases S k = Ok es" "upgrade_permitted S es old new"
    using assms(2,3) by (auto simp: outcome_simps)
  then have "Validate S k old new = Ok ()"
    by (simp add: Validate_eq_refusal refusal_None_iff [THEN iffD2])
  moreover have "touches_ignored S es old new \<or> sv_LT S old new"
    using *(3,5) sv_LT_if_neither [OF assms(1)]
    by (auto simp: upgrade_permitted_def regular_upgrade_def)
  ultimately show ?thesis using * by (auto simp: upgrade_permitted_def)
qed

definition scheduled_demo_cluster :: cluster where
  "scheduled_demo_cluster = \<lparr>cl_meta = demo_meta ''c'' [label_ReleaseVersion \<mapsto> ''v1.0.0'']
       [annotation_UpdateScheduleTargetRelease \<mapsto> ''1.1.0''],
     cl_ClusterNetwork = None, cl_ControlPlaneEndpoint = \<lparr>ep_Host = '''', ep_Port = 0\<rparr>,
     cl_Conditions = [], cl_rest = ''''\<rparr>"

lemma scheduled_demo_accepted:
  "ValidateClusterAnnotationUpgradeRelease demo_semver (demo_kube demo_releases) scheduled_demo_cluster = Ok ()"
  by (simp add: scheduled_demo_cluster_def outcome_simps demo_available demo_meta_def GetSemverFromLabels_def
      GetSemverFromString_def demo_parse_def TrimPrefix_def HasPrefix_def digit_val_def upgrade_permitted_def
      regular_upgrade_def)
    (simp add: demo_version_simps demo_entry_simps)

theorem schedule_release_is_upgrade_witness:
  "\<exists>old new es. GetSemverFromLabels demo_semver (om_labels (cl_meta scheduled_demo_cluster)) = Ok old \<and>
     sv_Parse demo_semver ''1.1.0'' = Inr new \<and>
     availableReleases demo_semver (demo_kube demo_releases) = Ok es \<and>
     (\<exists>e\<in>set es. sv_EQ demo_semver (re_Version e) new) \<and>
     Validate demo_semver (demo_kube demo_releases) old new = Ok () \<and>
     (touches_ignored demo_semver es old new \<or> sv_LT demo_semver old new)"
  by (rule schedule_release_is_upgrade [OF demo_semver_precedence scheduled_demo_accepted])
    (simp add: scheduled_demo_cluster_def demo_meta_def)

end
