(* ===== verification/Cluster.thy ===== *)
theory Cluster
  imports Webhook Conditions ScheduledUpgrades
begin

text \<open>
  The webhooks of the Cluster resource (\<^verbatim>\<open>pkg/cluster\<close>): the handler and its configuration, the
  mutations on create and update, the validations on create and update. The two readings of the
  clock a validation makes are an argument.
\<close>

section \<open>The handler\<close>

record cluster_handler =
  clh_baseDomain :: string
  clh_decoder :: decoder
  clh_ctrlReader :: kube_api
  clh_ctrlClient :: kube_api

record cluster_handler_config =
  clc_BaseDomain :: string
  clc_Decoder :: "decoder option"
  clc_CtrlReader :: "kube_api option"
  clc_CtrlClient :: "kube_api option"
  clc_Logger :: "unit option"

definition cluster_err :: "cluster_error \<Rightarrow> go_error" where
  "cluster_err e = Micro (E_cluster e)"

definition Cluster_NewWebhookHandler :: "cluster_handler_config \<Rightarrow> cluster_handler res" where
  "Cluster_NewWebhookHandler config =
     (let invalid = cluster_err Cluster_invalidConfigError in
      bind_res (fail_if (clc_BaseDomain config = '''') invalid) (\<lambda>_.
      bind_res (need (clc_Decoder config) invalid) (\<lambda>decoder.
      bind_res (need (clc_CtrlReader config) invalid) (\<lambda>ctrlReader.
      bind_res (need (clc_CtrlClient config) invalid) (\<lambda>ctrlClient.
      bind_res (need (clc_Logger config) invalid) (\<lambda>logger.
      Ok \<lparr>clh_baseDomain = clc_BaseDomain config, clh_decoder = decoder,
         clh_ctrlReader = ctrlReader, clh_ctrlClient = ctrlClient\<rparr>))))))"

definition Cluster_Resource :: string where
  "Cluster_Resource = ''cluster''"

definition Cluster_Decode :: "cluster_handler \<Rightarrow> string \<Rightarrow> object res" where
  "Cluster_Decode h raw = decode_with ObjCluster (dec_Cluster (clh_decoder h)) raw"

section \<open>Mutation\<close>

definition defaultClusterNetwork :: cluster_network where
  "defaultClusterNetwork = \<lparr>cn_APIServerPort = Some ControlPlaneEndpointPort,
     cn_ServiceDomain = ServiceDomain,
     cn_Services = Some \<lparr>nr_CIDRBlocks = Some [ClusterNetworkServiceCIDR]\<rparr>,
     cn_rest = ''''\<rparr>"

definition Cluster_ensureClusterNetwork :: "cluster \<Rightarrow> (patch_operation option) res" where
  "Cluster_ensureClusterNetwork cr =
     patch_if (cl_ClusterNetwork cr = None)
       (PatchAdd ''/spec/clusterNetwork'' (PV_ClusterNetwork defaultClusterNetwork))"

definition Cluster_ensureControlPlaneEndpointHost :: "cluster_handler \<Rightarrow> cluster \<Rightarrow> (patch_operation option) res" where
  "Cluster_ensureControlPlaneEndpointHost h cr =
     patch_if (ep_Host (cl_ControlPlaneEndpoint cr) = '''')
       (PatchAdd ''/spec/controlPlaneEndpoint/host''
         (PV_string (GetControlPlaneEndpointHost (om_name (cl_meta cr)) (clh_baseDomain h))))"

definition Cluster_ensureControlPlaneEndpointPort :: "cluster \<Rightarrow> (patch_operation option) res" where
  "Cluster_ensureControlPlaneEndpointPort cr =
     patch_if (ep_Port (cl_ControlPlaneEndpoint cr) = 0)
       (PatchAdd ''/spec/controlPlaneEndpoint/port'' (PV_int (uint ControlPlaneEndpointPort)))"

definition Cluster_OnCreateMutate :: "lib \<Rightarrow> cluster_handler \<Rightarrow> object \<Rightarrow> (patch_operation list) res" where
  "Cluster_OnCreateMutate L h object =
     bind_res (ToClusterPtr object) (\<lambda>cr.
     bind_res (collect_patches
        [Cluster_ensureClusterNetwork cr,
         Cluster_ensureControlPlaneEndpointHost h cr,
         Cluster_ensureControlPlaneEndpointPort cr,
         CopyAzureOperatorVersionLabelFromAzureClusterCR (clh_ctrlClient h) (cl_meta cr)]) (\<lambda>result.
     with_defaults L (lib_Cluster L) cr [] result))"

definition Cluster_OnUpdateMutate :: "lib \<Rightarrow> cluster_handler \<Rightarrow> object \<Rightarrow> object \<Rightarrow> (patch_operation list) res" where
  "Cluster_OnUpdateMutate L h oldObject object =
     bind_res (ToClusterPtr object) (\<lambda>cr.
     bind_res (collect_patches
        [EnsureComponentVersionLabelFromRelease (clh_ctrlReader h) (cl_meta cr)
           ''azure-operator'' label_AzureOperatorVersion,
         EnsureComponentVersionLabelFromRelease (clh_ctrlReader h) (cl_meta cr)
           ''cluster-operator'' label_ClusterOperatorVersion]) (\<lambda>result.
     with_defaults L (lib_Cluster L) cr [] result))"

section \<open>Validation of a new cluster\<close>

definition Cluster_validateClusterNetwork :: "cluster \<Rightarrow> unit res" where
  "Cluster_validateClusterNetwork cr =
     (case cl_ClusterNetwork cr of
        None \<Rightarrow> Err (cluster_err Cluster_emptyClusterNetworkError)
      | Some cn \<Rightarrow>
          bind_res (deref (cn_APIServerPort cn)) (\<lambda>port.
          bind_res (fail_if (port \<noteq> ControlPlaneEndpointPort)
            (cluster_err Cluster_unexpectedAPIServerPortError)) (\<lambda>_.
          bind_res (fail_if (cn_ServiceDomain cn \<noteq> ServiceDomain)
            (cluster_err Cluster_unexpectedServiceDomainError)) (\<lambda>_.
          case cn_Services cn of
            None \<Rightarrow> Err (cluster_err Cluster_emptyClusterNetworkServicesError)
          | Some services \<Rightarrow>
              fail_if (nr_CIDRBlocks services \<noteq> Some [ClusterNetworkServiceCIDR])
                (cluster_err Cluster_unexpectedCIDRBlocksError)))))"

definition Cluster_validateControlPlaneEndpoint :: "cluster \<Rightarrow> string \<Rightarrow> unit res" where
  "Cluster_validateControlPlaneEndpoint cr baseDomain =
     (let host = GetControlPlaneEndpointHost (om_name (cl_meta cr)) baseDomain in
      bind_res (fail_if (ep_Host (cl_ControlPlaneEndpoint cr) \<noteq> host)
        (cluster_err Cluster_invalidControlPlaneEndpointHostError)) (\<lambda>_.
      fail_if (ep_Port (cl_ControlPlaneEndpoint cr) \<noteq> ControlPlaneEndpointPort)
        (cluster_err Cluster_invalidControlPlaneEndpointPortError)))"

type_synonym clock = "int \<times> int"

definition Cluster_OnCreateValidate :: "lib \<Rightarrow> cluster_handler \<Rightarrow> clock \<Rightarrow> object \<Rightarrow> unit res" where
  "Cluster_OnCreateValidate L h now object =
     bind_res (ToClusterPtr object) (\<lambda>cr.
     bind_res (of_error (crd_ValidateCreate (lib_Cluster L) cr)) (\<lambda>_.
     bind_res (ValidateOrganizationLabelContainsExistingOrganization (lib_unicode L) (clh_ctrlClient h) (cl_meta cr)) (\<lambda>_.
     bind_res (Cluster_validateClusterNetwork cr) (\<lambda>_.
     bind_res (Cluster_validateControlPlaneEndpoint cr (clh_baseDomain h)) (\<lambda>_.
     bind_res (ValidateClusterAnnotationUpgradeTime (fst now) (snd now) None cr) (\<lambda>_.
     ValidateClusterAnnotationUpgradeRelease (lib_semver L) (clh_ctrlClient h) cr))))))"

section \<open>Validation of an update\<close>

definition Cluster_validateClusterNetworkUnchanged :: "cluster \<Rightarrow> cluster \<Rightarrow> unit res" where
  "Cluster_validateClusterNetworkUnchanged old new =
     (let changed = cluster_err Cluster_clusterNetworkWasChangedError in
      case (cl_ClusterNetwork old, cl_ClusterNetwork new) of
        (None, None) \<Rightarrow> Ok ()
      | (None, Some n) \<Rightarrow> Err changed
      | (Some p, None) \<Rightarrow> Err changed
      | (Some p, Some n) \<Rightarrow>
          bind_res (deref (cn_APIServerPort p)) (\<lambda>oldPort.
          bind_res (deref (cn_APIServerPort n)) (\<lambda>newPort.
          bind_res (fail_if (oldPort \<noteq> newPort \<or> cn_ServiceDomain p \<noteq> cn_ServiceDomain n) changed) (\<lambda>_.
          case (cn_Services p, cn_Services n) of
            (None, None) \<Rightarrow> Ok ()
          | (None, Some t) \<Rightarrow> Err changed
          | (Some s, None) \<Rightarrow> Err changed
          | (Some s, Some t) \<Rightarrow> fail_if (s \<noteq> t) changed))))"

definition Cluster_validateControlPlaneEndpointUnchanged :: "cluster \<Rightarrow> cluster \<Rightarrow> unit res" where
  "Cluster_validateControlPlaneEndpointUnchanged old new =
     fail_if (cl_ControlPlaneEndpoint old \<noteq> cl_ControlPlaneEndpoint new)
       (cluster_err Cluster_controlPlaneEndpointWasChangedError)"

definition Cluster_validateRelease :: "lib \<Rightarrow> cluster_handler \<Rightarrow> cluster \<Rightarrow> cluster \<Rightarrow> unit res" where
  "Cluster_validateRelease L h old new =
     bind_res (parsed_versions (lib_semver L) (om_labels (cl_meta old)) (om_labels (cl_meta new)))
       (\<lambda>(oldVersion, newVersion).
     bind_res
       (if \<not> sv_EQ (lib_semver L) newVersion oldVersion then
          (if lib_condIsTrue L old CreatingCondition
             then Err (Micro (E_errors Errors_InvalidOperationError))
           else if lib_condIsTrue L old UpgradingCondition
             then Err (Micro (E_errors Errors_InvalidOperationError))
           else Ok ())
        else Ok ()) (\<lambda>_.
     Validate (lib_semver L) (clh_ctrlClient h) oldVersion newVersion))"

definition Cluster_OnUpdateValidate ::
    "lib \<Rightarrow> cluster_handler \<Rightarrow> clock \<Rightarrow> object \<Rightarrow> object \<Rightarrow> unit res" where
  "Cluster_OnUpdateValidate L h now oldObject object =
     bind_res (ToClusterPtr object) (\<lambda>new.
     if being_deleted (cl_meta new) then Ok ()
     else
       bind_res (ToClusterPtr oldObject) (\<lambda>old.
       bind_res (of_error (crd_ValidateUpdate (lib_Cluster L) old new)) (\<lambda>_.
       bind_res (ValidateOrganizationLabelUnchanged (cl_meta old) (cl_meta new)) (\<lambda>_.
       bind_res (Cluster_validateClusterNetworkUnchanged old new) (\<lambda>_.
       bind_res (Cluster_validateControlPlaneEndpointUnchanged old new) (\<lambda>_.
       bind_res (ValidateClusterConditions L old new) (\<lambda>_.
       bind_res (ValidateClusterAnnotationUpgradeTime (fst now) (snd now) (Some old) new) (\<lambda>_.
       bind_res (ValidateClusterAnnotationUpgradeRelease (lib_semver L) (clh_ctrlClient h) new) (\<lambda>_.
       Cluster_validateRelease L h old new)))))))))"

section \<open>What the checks of a new cluster amount to\<close>

definition canonical_network :: "cluster \<Rightarrow> bool" where
  "canonical_network c \<longleftrightarrow>
     (\<exists>cn. cl_ClusterNetwork c = Some cn \<and> cn_APIServerPort cn = Some ControlPlaneEndpointPort \<and>
        cn_ServiceDomain cn = ServiceDomain \<and>
        cn_Services cn = Some \<lparr>nr_CIDRBlocks = Some [ClusterNetworkServiceCIDR]\<rparr>)"

definition canonical_endpoint :: "string \<Rightarrow> cluster \<Rightarrow> bool" where
  "canonical_endpoint baseDomain c \<longleftrightarrow>
     cl_ControlPlaneEndpoint c =
       \<lparr>ep_Host = GetControlPlaneEndpointHost (om_name (cl_meta c)) baseDomain, ep_Port = ControlPlaneEndpointPort\<rparr>"

definition nil_port :: "cluster \<Rightarrow> bool" where
  "nil_port c \<longleftrightarrow> (\<exists>cn. cl_ClusterNetwork c = Some cn \<and> cn_APIServerPort cn = None)"

lemma validateClusterNetwork_Ok_iff [outcome_simps]:
  "Cluster_validateClusterNetwork c = Ok u \<longleftrightarrow> canonical_network c"
  by (auto simp: Cluster_validateClusterNetwork_def canonical_network_def outcome_simps split: option.splits)

lemma validateClusterNetwork_Panic_iff:
  "Cluster_validateClusterNetwork c = Panic \<longleftrightarrow> nil_port c"
  by (auto simp: Cluster_validateClusterNetwork_def nil_port_def bind_res_Panic_iff deref_def outcome_simps
      split: option.splits)

lemma validateControlPlaneEndpoint_Ok_iff [outcome_simps]:
  "Cluster_validateControlPlaneEndpoint c baseDomain = Ok u \<longleftrightarrow> canonical_endpoint baseDomain c"
  by (cases "cl_ControlPlaneEndpoint c")
    (auto simp: Cluster_validateControlPlaneEndpoint_def canonical_endpoint_def Let_def outcome_simps)

lemma ToClusterPtr_ObjCluster [simp]: "ToClusterPtr (ObjCluster c) = Ok c"
  by (simp add: ToClusterPtr_def)

text \<open>A new Cluster is admitted exactly when its type accepts it, its organization exists, its
  network and its endpoint have the canonical values, and the scheduled upgrade, if there is one, lies
  in the window and targets a release it may be upgraded to.\<close>

theorem cluster_create_accepted_iff:
  "Cluster_OnCreateValidate L h now (ObjCluster c) = Ok () \<longleftrightarrow>
     crd_ValidateCreate (lib_Cluster L) c = None \<and>
     (\<exists>org. om_labels (cl_meta c) label_Organization = Some org \<and>
        kube_getOrganization (clh_ctrlClient h) (AsDNSLabelName (lib_unicode L) org) = Inr ()) \<and>
     canonical_network c \<and> canonical_endpoint (clh_baseDomain h) c \<and>
     (\<forall>s. target_time c = Some s \<longrightarrow> ValidateUpgradeScheduleTime (fst now) (snd now) s) \<and>
     (case om_annotations (cl_meta c) annotation_UpdateScheduleTargetRelease of
        None \<Rightarrow> True
      | Some target \<Rightarrow> \<exists>old new es. GetSemverFromLabels (lib_semver L) (om_labels (cl_meta c)) = Ok old \<and>
          sv_Parse (lib_semver L) target = Inr new \<and> \<not> sv_EQ (lib_semver L) old new \<and>
          availableReleases (lib_semver L) (clh_ctrlClient h) = Ok es \<and>
          upgrade_permitted (lib_semver L) es old new)"
  by (auto simp: Cluster_OnCreateValidate_def outcome_simps ValidateClusterAnnotationUpgradeTime_eq)

theorem cluster_create_accepted_iff_witness:
  "Cluster_OnCreateValidate demo_lib \<lparr>clh_baseDomain = ''k8s.io'', clh_decoder = demo_decoder,
       clh_ctrlReader = demo_kube [], clh_ctrlClient = demo_kube []\<rparr> (0, 0)
     (ObjCluster \<lparr>cl_meta = demo_meta ''c'' [label_Organization \<mapsto> ''acme''] Map.empty,
        cl_ClusterNetwork = Some defaultClusterNetwork,
        cl_ControlPlaneEndpoint = \<lparr>ep_Host = ''api.c.k8s.io'', ep_Port = 443\<rparr>,
        cl_Conditions = [], cl_rest = ''''\<rparr>) = Ok ()"
  by (rule cluster_create_accepted_iff [THEN iffD2])
    (simp add: demo_lib_def demo_crd_def demo_meta_def demo_kube_def canonical_network_def
      canonical_endpoint_def defaultClusterNetwork_def GetControlPlaneEndpointHost_def
      ControlPlaneEndpointPort_def target_time_def)

text \<open>The handler of new clusters dereferences the port of the network: it panics exactly on a
  cluster that gives a network without a port and passes the checks made before.\<close>

theorem cluster_create_panics_iff:
  "Cluster_OnCreateValidate L h now (ObjCluster c) = Panic \<longleftrightarrow>
     crd_ValidateCreate (lib_Cluster L) c = None \<and>
     is_ok (ValidateOrganizationLabelContainsExistingOrganization (lib_unicode L) (clh_ctrlClient h) (cl_meta c)) \<and>
     nil_port c"
proof -
  have "Cluster_validateControlPlaneEndpoint c b \<noteq> Panic" for b
    by (simp add: Cluster_validateControlPlaneEndpoint_def Let_def bind_res_Panic_iff)
  moreover have "ValidateClusterAnnotationUpgradeTime n1 n2 None c \<noteq> Panic" for n1 n2
    by (simp add: ValidateClusterAnnotationUpgradeTime_eq)
  moreover have "ValidateClusterAnnotationUpgradeRelease S k c \<noteq> Panic" for S k
    by (rule upgrade_release_not_Panic)
  ultimately show ?thesis
    by (auto simp: Cluster_OnCreateValidate_def bind_res_Panic_iff is_ok_iff of_error_Ok_iff
        validateClusterNetwork_Panic_iff)
qed

section \<open>The effect of a creation's patches\<close>

text \<open>A JSON patch on a cluster, for the members the handler itself writes.\<close>

definition apply_cluster_patch :: "cluster \<Rightarrow> patch_operation \<Rightarrow> cluster" where
  "apply_cluster_patch c p =
     c\<lparr>cl_meta := patch_meta (cl_meta c) p,
       cl_ClusterNetwork := (case po_Value p of
          PV_ClusterNetwork n \<Rightarrow> if patch_sets p ''/spec/clusterNetwork'' then Some n else cl_ClusterNetwork c
        | _ \<Rightarrow> cl_ClusterNetwork c),
       cl_ControlPlaneEndpoint := patch_endpoint (cl_ControlPlaneEndpoint c) p\<rparr>"

definition apply_cluster_patches :: "cluster \<Rightarrow> patch_operation list \<Rightarrow> cluster" where
  "apply_cluster_patches c ps = foldl apply_cluster_patch c ps"

lemma apply_cluster_patch_simps [simp]:
  "apply_cluster_patch c (PatchAdd (label_path l) (PV_string v)) =
     c\<lparr>cl_meta := (cl_meta c)\<lparr>om_labels := (om_labels (cl_meta c))(l \<mapsto> v)\<rparr>\<rparr>"
  "apply_cluster_patch c (PatchAdd ''/spec/clusterNetwork'' (PV_ClusterNetwork n)) = c\<lparr>cl_ClusterNetwork := Some n\<rparr>"
  "apply_cluster_patch c (PatchAdd ''/spec/controlPlaneEndpoint/host'' (PV_string s)) =
     c\<lparr>cl_ControlPlaneEndpoint := (cl_ControlPlaneEndpoint c)\<lparr>ep_Host := s\<rparr>\<rparr>"
  "apply_cluster_patch c (PatchAdd ''/spec/controlPlaneEndpoint/port'' (PV_int i)) =
     c\<lparr>cl_ControlPlaneEndpoint := (cl_ControlPlaneEndpoint c)\<lparr>ep_Port := word_of_int i\<rparr>\<rparr>"
  by (cases c; simp add: apply_cluster_patch_def;
      simp add: PatchAdd_def patch_sets_def patch_endpoint_def patch_string_def patch_word_def)+

text \<open>A cluster that leaves its network, host or port unset, or gives the canonical value, passes the
  network and endpoint checks once the handler's own patches are applied, and it then carries an
  operator version; the default patches of the resource type follow.\<close>

theorem cluster_create_mutation_makes_valid:
  assumes "Cluster_OnCreateMutate L h (ObjCluster c) = Ok ps"
    and "cl_ClusterNetwork c = None \<or> canonical_network c"
    and "ep_Host (cl_ControlPlaneEndpoint c) \<in>
           {'''', GetControlPlaneEndpointHost (om_name (cl_meta c)) (clh_baseDomain h)}"
    and "ep_Port (cl_ControlPlaneEndpoint c) \<in> {0, ControlPlaneEndpointPort}"
  shows "\<exists>own capi c'. ps = own @ capi \<and> c' = apply_cluster_patches c own \<and>
     Cluster_validateClusterNetwork c' = Ok () \<and>
     Cluster_validateControlPlaneEndpoint c' (clh_baseDomain h) = Ok () \<and>
     mget (om_labels (cl_meta c')) label_AzureOperatorVersion \<noteq> '''' \<and>
     GenerateFromObjectDiff L (lib_Cluster L) c (crd_Default (lib_Cluster L) c) = Ok capi"
proof -
  obtain r capi where
    r: "CopyAzureOperatorVersionLabelFromAzureClusterCR (clh_ctrlClient h) (cl_meta c) = Ok r" and
    capi: "GenerateFromObjectDiff L (lib_Cluster L) c (crd_Default (lib_Cluster L) c) = Ok capi" and
    ps: "ps = (opt_patch (if cl_ClusterNetwork c = None
            then Some (PatchAdd ''/spec/clusterNetwork'' (PV_ClusterNetwork defaultClusterNetwork)) else None) @
       opt_patch (if ep_Host (cl_ControlPlaneEndpoint c) = ''''
            then Some (PatchAdd ''/spec/controlPlaneEndpoint/host''
              (PV_string (GetControlPlaneEndpointHost (om_name (cl_meta c)) (clh_baseDomain h)))) else None) @
       opt_patch (if ep_Port (cl_ControlPlaneEndpoint c) = 0
            then Some (PatchAdd ''/spec/controlPlaneEndpoint/port'' (PV_int (uint ControlPlaneEndpointPort)))
            else None) @ opt_patch r) @ capi" (is "_ = ?own @ _")
    using assms(1)
    by (auto simp: Cluster_OnCreateMutate_def outcome_simps Cluster_ensureClusterNetwork_def
        Cluster_ensureControlPlaneEndpointHost_def Cluster_ensureControlPlaneEndpointPort_def
        patch_if_def Cons_eq_map_conv simp del: collect_patches.simps)
  let ?c' = "apply_cluster_patches c ?own"
  have "canonical_network ?c' \<and> canonical_endpoint (clh_baseDomain h) ?c' \<and>
      mget (om_labels (cl_meta ?c')) label_AzureOperatorVersion \<noteq> ''''"
    using r assms(2-4)
    by (elim operator_label_patch_cases; cases "cl_ControlPlaneEndpoint c")
      (auto simp: apply_cluster_patches_def canonical_network_def canonical_endpoint_def
        defaultClusterNetwork_def)
  with ps capi show ?thesis by (auto simp: outcome_simps)
qed

definition demo_cluster_handler :: cluster_handler where
  "demo_cluster_handler = \<lparr>clh_baseDomain = ''k8s.io'', clh_decoder = demo_decoder,
     clh_ctrlReader = demo_kube demo_releases,
     clh_ctrlClient = demo_installation demo_releases [label_AzureOperatorVersion \<mapsto> ''5.0.0'']\<rparr>"

definition demo_new_cluster :: cluster where
  "demo_new_cluster = \<lparr>cl_meta = demo_meta ''c'' [label_Organization \<mapsto> ''acme'', label_Cluster \<mapsto> ''c''] Map.empty,
     cl_ClusterNetwork = None, cl_ControlPlaneEndpoint = \<lparr>ep_Host = '''', ep_Port = 0\<rparr>,
     cl_Conditions = [], cl_rest = ''''\<rparr>"

lemma demo_mutation_succeeds:
  "\<exists>ps. Cluster_OnCreateMutate demo_lib demo_cluster_handler (ObjCluster demo_new_cluster) = Ok ps"
  by (simp add: Cluster_OnCreateMutate_def Cluster_ensureClusterNetwork_def
      Cluster_ensureControlPlaneEndpointHost_def Cluster_ensureControlPlaneEndpointPort_def patch_if_def
      CopyAzureOperatorVersionLabelFromAzureClusterCR_def getLabelValueFromAzureCluster_def
      demo_cluster_handler_def demo_installation_def demo_azure_cluster_def demo_new_cluster_def demo_meta_def
      demo_lib_def demo_crd_def with_defaults_def GenerateFromObjectDiff_def
      label_Organization_def label_AzureOperatorVersion_def label_Cluster_def)

theorem cluster_create_mutation_makes_valid_witness:
  "\<exists>ps own capi c'.
     Cluster_OnCreateMutate demo_lib demo_cluster_handler (ObjCluster demo_new_cluster) = Ok ps \<and>
     ps = own @ capi \<and> c' = apply_cluster_patches demo_new_cluster own \<and>
     Cluster_validateClusterNetwork c' = Ok () \<and> Cluster_validateControlPlaneEndpoint c' ''k8s.io'' = Ok ()"
proof -
  obtain ps where ps: "Cluster_OnCreateMutate demo_lib demo_cluster_handler (ObjCluster demo_new_cluster) = Ok ps"
    using demo_mutation_succeeds by blast
  have "cl_ClusterNetwork demo_new_cluster = None" "ep_Host (cl_ControlPlaneEndpoint demo_new_cluster) = ''''"
    "ep_Port (cl_ControlPlaneEndpoint demo_new_cluster) = 0" "clh_baseDomain demo_cluster_handler = ''k8s.io''"
    by (simp_all add: demo_new_cluster_def demo_cluster_handler_def)
  with cluster_create_mutation_makes_valid [OF ps] ps show ?thesis by auto
qed

section \<open>Updates\<close>

text \<open>What an update must leave alone.\<close>

definition cluster_network_view :: "cluster \<Rightarrow> (32 word option \<times> string \<times> network_ranges option) option" where
  "cluster_network_view c =
     map_option (\<lambda>n. (cn_APIServerPort n, cn_ServiceDomain n, cn_Services n)) (cl_ClusterNetwork c)"

interpretation cluster_network: conserved_view Cluster_validateClusterNetworkUnchanged cluster_network_view
  by unfold_locales
    (auto simp: Cluster_validateClusterNetworkUnchanged_def cluster_network_view_def Let_def outcome_simps
      split: option.splits)

interpretation cluster_endpoint: unchanged_check Cluster_validateControlPlaneEndpointUnchanged cl_ControlPlaneEndpoint
  by unfold_locales (auto simp: Cluster_validateControlPlaneEndpointUnchanged_def outcome_simps)

lemma validateClusterNetworkUnchanged_Ok_iff [outcome_simps]:
  "Cluster_validateClusterNetworkUnchanged old new = Ok u \<longleftrightarrow>
     cluster_network_view old = cluster_network_view new \<and> \<not> nil_port old"
  by (auto simp: Cluster_validateClusterNetworkUnchanged_def cluster_network_view_def nil_port_def Let_def
      outcome_simps split: option.splits)

lemma validateRelease_Ok_iff [outcome_simps]:
  "Cluster_validateRelease L h old new = Ok u \<longleftrightarrow>
     (\<exists>v w. GetSemverFromLabels (lib_semver L) (om_labels (cl_meta old)) = Ok v \<and>
        GetSemverFromLabels (lib_semver L) (om_labels (cl_meta new)) = Ok w \<and>
        (sv_EQ (lib_semver L) w v \<or>
          \<not> lib_condIsTrue L old CreatingCondition \<and> \<not> lib_condIsTrue L old UpgradingCondition) \<and>
        Validate (lib_semver L) (clh_ctrlClient h) v w = Ok ())"
  by (auto simp: Cluster_validateRelease_def outcome_simps split: if_splits)

lemma OnUpdateValidate_Ok_iff [outcome_simps]:
  "Cluster_OnUpdateValidate L h now (ObjCluster old) (ObjCluster new) = Ok u \<longleftrightarrow>
     being_deleted (cl_meta new) \<or>
     crd_ValidateUpdate (lib_Cluster L) old new = None \<and>
     ValidateOrganizationLabelUnchanged (cl_meta old) (cl_meta new) = Ok () \<and>
     cluster_network_view old = cluster_network_view new \<and> \<not> nil_port old \<and>
     cl_ControlPlaneEndpoint old = cl_ControlPlaneEndpoint new \<and>
     ValidateClusterConditions L old new = Ok () \<and>
     ValidateClusterAnnotationUpgradeTime (fst now) (snd now) (Some old) new = Ok () \<and>
     ValidateClusterAnnotationUpgradeRelease (lib_semver L) (clh_ctrlClient h) new = Ok () \<and>
     Cluster_validateRelease L h old new = Ok ()"
  unfolding Cluster_OnUpdateValidate_def bind_res_Ok_iff cluster_endpoint.accepts_iff
  by (auto simp: outcome_simps cluster_endpoint.accepts_iff simp del: organization_label_check)

definition demo_running_cluster :: "string \<Rightarrow> cluster" where
  "demo_running_cluster v = \<lparr>cl_meta = demo_meta ''c'' [label_Organization \<mapsto> ''acme'', label_ReleaseVersion \<mapsto> v] Map.empty,
     cl_ClusterNetwork = Some defaultClusterNetwork, cl_ControlPlaneEndpoint = \<lparr>ep_Host = ''api.c.k8s.io'', ep_Port = 443\<rparr>,
     cl_Conditions = [\<lparr>co_Type = ''Creating'', co_Status = ''False''\<rparr>], cl_rest = ''''\<rparr>"

lemma demo_upgrade_accepted_by:
  assumes "availableReleases demo_semver (clh_ctrlClient h) = Ok demo_entries"
  shows "Cluster_OnUpdateValidate demo_lib h (0, 0)
     (ObjCluster (demo_running_cluster ''v1.0.0'')) (ObjCluster (demo_running_cluster ''v1.1.0'')) = Ok ()"
proof -
  let ?a = "demo_running_cluster ''v1.0.0''" and ?b = "demo_running_cluster ''v1.1.0''"
  have versions:
    "GetSemverFromLabels demo_semver (om_labels (cl_meta ?a)) = Ok (demo_ver 1 0 ''0'')"
    "GetSemverFromLabels demo_semver (om_labels (cl_meta ?b)) = Ok (demo_ver 1 1 ''0'')"
    by (rule demo_labels_version; simp add: demo_running_cluster_def)+
  have "\<not> lib_condIsTrue demo_lib ?a CreatingCondition" "\<not> lib_condIsTrue demo_lib ?a UpgradingCondition"
    by (simp_all add: demo_condGet_def demo_running_cluster_def CreatingCondition_def UpgradingCondition_def)
  then have "Cluster_validateRelease demo_lib h ?a ?b = Ok ()"
    using versions demo_upgrade_valid [OF assms] by (simp add: validateRelease_Ok_iff)
  moreover have "ValidateClusterConditions demo_lib ?a ?b = Ok ()"
    by (simp add: ValidateClusterConditions_Ok_iff demo_running_cluster_def demo_condGet_def status_of_def
        legal_creating_change_def legal_change_def CreatingCondition_def UpgradingCondition_def
        conditionFalse_def conditionTrue_def)
  moreover have "ValidateClusterAnnotationUpgradeTime 0 0 (Some ?a) ?b = Ok ()"
    by (simp add: ValidateClusterAnnotationUpgradeTime_eq target_time_def demo_running_cluster_def)
  moreover have "ValidateClusterAnnotationUpgradeRelease demo_semver k ?b = Ok ()" for k
    by (simp add: upgrade_release_Ok_iff demo_running_cluster_def)
  moreover have "cluster_network_view ?a = cluster_network_view ?b" "\<not> nil_port ?a"
    "cl_ControlPlaneEndpoint ?a = cl_ControlPlaneEndpoint ?b"
    by (simp_all add: cluster_network_view_def nil_port_def demo_running_cluster_def defaultClusterNetwork_def)
  moreover have "ValidateOrganizationLabelUnchanged (cl_meta ?a) (cl_meta ?b) = Ok ()"
    by (simp add: organization_label_check demo_running_cluster_def label_Organization_def label_ReleaseVersion_def)
  ultimately show ?thesis
    by (simp only: OnUpdateValidate_Ok_iff demo_lib_simps demo_crd_simps fst_conv snd_conv simp_thms)
qed

lemma demo_upgrade_accepted:
  "Cluster_OnUpdateValidate demo_lib demo_cluster_handler (0, 0)
     (ObjCluster (demo_running_cluster ''v1.0.0'')) (ObjCluster (demo_running_cluster ''v1.1.0'')) = Ok ()"
  by (rule demo_upgrade_accepted_by) (simp add: demo_cluster_handler_def demo_installation_available)

lemma demo_running_not_deleted [simp]: "\<not> being_deleted (cl_meta (demo_running_cluster v))"
  by (simp add: being_deleted_def ts_IsZero_def demo_running_cluster_def demo_meta_def)

text \<open>C23. An accepted update of a Cluster that is not being deleted changes its release version only when the
  stored Cluster is neither being created nor being upgraded, and only to a release the policy permits from the
  old one. (When it is being deleted, every update is accepted.)\<close>

theorem cluster_upgrade_gate:
  assumes "Cluster_OnUpdateValidate L h now (ObjCluster old) (ObjCluster new) = Ok ()"
    and "\<not> being_deleted (cl_meta new)"
  shows "\<exists>v w. GetSemverFromLabels (lib_semver L) (om_labels (cl_meta old)) = Ok v \<and>
     GetSemverFromLabels (lib_semver L) (om_labels (cl_meta new)) = Ok w \<and>
     (sv_EQ (lib_semver L) w v \<or>
      \<not> lib_condIsTrue L old CreatingCondition \<and> \<not> lib_condIsTrue L old UpgradingCondition) \<and>
     (sv_EQ (lib_semver L) v w \<or>
      (\<exists>es. availableReleases (lib_semver L) (clh_ctrlClient h) = Ok es \<and>
        upgrade_permitted (lib_semver L) es v w))"
  using assms
  by (auto simp: OnUpdateValidate_Ok_iff validateRelease_Ok_iff Validate_eq_refusal outcome_simps
      refusal_None_iff split: if_splits option.splits)

theorem cluster_upgrade_gate_witness:
  "\<exists>v w. GetSemverFromLabels demo_semver (om_labels (cl_meta (demo_running_cluster ''v1.0.0''))) = Ok v \<and>
     GetSemverFromLabels demo_semver (om_labels (cl_meta (demo_running_cluster ''v1.1.0''))) = Ok w \<and>
     \<not> lib_condIsTrue demo_lib (demo_running_cluster ''v1.0.0'') CreatingCondition"
proof -
  have "lib_semver demo_lib = demo_semver" by (simp add: demo_lib_def)
  moreover have "\<not> lib_condIsTrue demo_lib (demo_running_cluster ''v1.0.0'') CreatingCondition"
    by (simp add: demo_lib_def demo_condGet_def demo_running_cluster_def CreatingCondition_def)
  ultimately show ?thesis
    using cluster_upgrade_gate [OF demo_upgrade_accepted demo_running_not_deleted] by auto
qed

text \<open>The states of a cluster under accepted updates, at any times, while it is not being deleted.\<close>

definition cluster_step :: "lib \<Rightarrow> cluster_handler \<Rightarrow> cluster \<Rightarrow> cluster \<Rightarrow> bool" where
  "cluster_step L h old new \<longleftrightarrow>
     (\<exists>now. Cluster_OnUpdateValidate L h now (ObjCluster old) (ObjCluster new) = Ok ())"

text \<open>Of the network only the port of the API server, the service domain and the services are compared: the
  rest, such as the ranges of the pods, may change.\<close>

theorem cluster_update_ignores_pods:
  assumes "Cluster_validateClusterNetworkUnchanged old new = Ok ()" and "cl_ClusterNetwork new = Some cn"
  shows "Cluster_validateClusterNetworkUnchanged old (new\<lparr>cl_ClusterNetwork := Some (cn\<lparr>cn_rest := pods\<rparr>)\<rparr>) = Ok ()"
  using assms by (simp add: validateClusterNetworkUnchanged_Ok_iff cluster_network_view_def)

definition cluster_identity :: "cluster \<Rightarrow> (32 word option \<times> string \<times> network_ranges option) option \<times>
    api_endpoint \<times> string option" where
  "cluster_identity c =
     (cluster_network_view c, cl_ControlPlaneEndpoint c, om_labels (cl_meta c) label_Organization)"

interpretation cluster_update: guarded_update "cluster_step L h" "\<lambda>c. being_deleted (cl_meta c)" cluster_identity
  for L h
  by unfold_locales (auto simp: cluster_step_def cluster_identity_def outcome_simps)

text \<open>Over any history of accepted updates a cluster keeps its network, its endpoint and its
  organization.\<close>

theorem cluster_identity_is_constant:
  assumes "(\<lambda>old new. cluster_step L h old new \<and> \<not> being_deleted (cl_meta new))\<^sup>*\<^sup>* a b"
  shows "cluster_network_view a = cluster_network_view b \<and>
     cl_ControlPlaneEndpoint a = cl_ControlPlaneEndpoint b \<and>
     om_labels (cl_meta a) label_Organization = om_labels (cl_meta b) label_Organization"
  using cluster_update.view_constant [OF assms] by (simp add: cluster_identity_def)

theorem cluster_identity_is_constant_witness:
  "cluster_network_view (demo_running_cluster ''v1.0.0'') = cluster_network_view (demo_running_cluster ''v1.1.0'')"
proof -
  have "cluster_step demo_lib demo_cluster_handler (demo_running_cluster ''v1.0.0'') (demo_running_cluster ''v1.1.0'')"
    unfolding cluster_step_def using demo_upgrade_accepted by blast
  then have "(\<lambda>old new. cluster_step demo_lib demo_cluster_handler old new \<and> \<not> being_deleted (cl_meta new))\<^sup>*\<^sup>*
      (demo_running_cluster ''v1.0.0'') (demo_running_cluster ''v1.1.0'')"
    by (intro r_into_rtranclp) simp
  from cluster_identity_is_constant [OF this] show ?thesis by blast
qed

end
