(* ===== verification/AzureCluster.thy ===== *)
theory AzureCluster
  imports Webhook
begin

text \<open>
  The webhooks of the AzureCluster resource (\<^verbatim>\<open>pkg/azurecluster\<close>): the endpoint, the location and
  the load balancer of the API server on creation, and an update that follows the release of the
  Cluster that owns it.
\<close>

section \<open>The handler\<close>

record azurecluster_handler =
  ach_baseDomain :: string
  ach_ctrlReader :: kube_api
  ach_ctrlClient :: kube_api
  ach_decoder :: decoder
  ach_location :: string

record azurecluster_handler_config =
  achc_BaseDomain :: string
  achc_CtrlReader :: "kube_api option"
  achc_CtrlClient :: "kube_api option"
  achc_Decoder :: "decoder option"
  achc_Location :: string
  achc_Logger :: "unit option"

definition azurecluster_err :: "azurecluster_error \<Rightarrow> go_error" where
  "azurecluster_err e = Micro (E_azurecluster e)"

definition AzureCluster_NewWebhookHandler :: "azurecluster_handler_config \<Rightarrow> azurecluster_handler res" where
  "AzureCluster_NewWebhookHandler config =
     (let invalid = azurecluster_err AzureCluster_invalidConfigError in
      bind_res (fail_if (achc_BaseDomain config = '''') invalid) (\<lambda>_.
      bind_res (need (achc_CtrlReader config) invalid) (\<lambda>ctrlReader.
      bind_res (need (achc_CtrlClient config) invalid) (\<lambda>ctrlClient.
      bind_res (need (achc_Decoder config) invalid) (\<lambda>decoder.
      bind_res (need (achc_Logger config) invalid) (\<lambda>logger.
      bind_res (fail_if (achc_Location config = '''') invalid) (\<lambda>_.
      Ok \<lparr>ach_baseDomain = achc_BaseDomain config, ach_ctrlReader = ctrlReader,
         ach_ctrlClient = ctrlClient, ach_decoder = decoder, ach_location = achc_Location config\<rparr>)))))))"

definition AzureCluster_Resource :: string where
  "AzureCluster_Resource = ''azurecluster''"

text \<open>This handler decodes with the package-level deserializer, not with its own decoder.\<close>

definition AzureCluster_Decode :: "lib \<Rightarrow> string \<Rightarrow> object res" where
  "AzureCluster_Decode L raw = decode_with ObjAzureCluster (dec_AzureCluster (lib_Deserializer L)) raw"

section \<open>Mutation\<close>

definition standardAPIServerLB :: "string \<Rightarrow> lb_spec" where
  "standardAPIServerLB name = \<lparr>lb_Name = APIServerLBName name, lb_SKU = APIServerLBSKU,
     lb_Type = APIServerLBType,
     lb_FrontendIPs = [\<lparr>fi_Name = APIServerLBFrontendIPName name, fi_rest = ''''\<rparr>],
     lb_rest = ''''\<rparr>"

definition ensureAPIServerLB :: "azure_cluster \<Rightarrow> (patch_operation option) res" where
  "ensureAPIServerLB cr =
     (let apiServerLB = standardAPIServerLB (om_name (ac_meta cr)) in
      if apiServerLB = ac_APIServerLB cr then Ok None
      else Ok (Some (PatchAdd ''/spec/networkSpec/apiServerLB'' (PV_LoadBalancer apiServerLB))))"

definition AzureCluster_ensureControlPlaneEndpointHost ::
    "azurecluster_handler \<Rightarrow> azure_cluster \<Rightarrow> (patch_operation option) res" where
  "AzureCluster_ensureControlPlaneEndpointHost h cr =
     patch_if (ep_Host (ac_ControlPlaneEndpoint cr) = '''')
       (PatchAdd ''/spec/controlPlaneEndpoint/host''
         (PV_string (GetControlPlaneEndpointHost (om_name (ac_meta cr)) (ach_baseDomain h))))"

definition AzureCluster_ensureControlPlaneEndpointPort :: "azure_cluster \<Rightarrow> (patch_operation option) res" where
  "AzureCluster_ensureControlPlaneEndpointPort cr =
     patch_if (ep_Port (ac_ControlPlaneEndpoint cr) = 0)
       (PatchAdd ''/spec/controlPlaneEndpoint/port'' (PV_int (uint ControlPlaneEndpointPort)))"

definition AzureCluster_ensureLocation :: "azurecluster_handler \<Rightarrow> azure_cluster \<Rightarrow> (patch_operation option) res" where
  "AzureCluster_ensureLocation h cr =
     patch_if (ac_Location cr = '''') (PatchAdd ''/spec/location'' (PV_string (ach_location h)))"

definition skipped_network_paths :: "string list" where
  "skipped_network_paths = [''/spec/networkSpec/vnet'', ''/spec/networkSpec/subnets'']"

definition AzureCluster_OnCreateMutate ::
    "lib \<Rightarrow> azurecluster_handler \<Rightarrow> object \<Rightarrow> (patch_operation list) res" where
  "AzureCluster_OnCreateMutate L h object =
     bind_res (ToAzureClusterPtr object) (\<lambda>cr.
     bind_res (collect_patches
        [AzureCluster_ensureControlPlaneEndpointHost h cr,
         AzureCluster_ensureControlPlaneEndpointPort cr,
         AzureCluster_ensureLocation h cr,
         ensureAPIServerLB cr,
         EnsureComponentVersionLabelFromRelease (ach_ctrlReader h) (ac_meta cr)
           ''azure-operator'' label_AzureOperatorVersion]) (\<lambda>result.
     with_defaults L (lib_AzureCluster L) cr skipped_network_paths result))"

definition AzureCluster_OnUpdateMutate ::
    "lib \<Rightarrow> azurecluster_handler \<Rightarrow> object \<Rightarrow> object \<Rightarrow> (patch_operation list) res" where
  "AzureCluster_OnUpdateMutate L h oldObject object =
     bind_res (ToAzureClusterPtr object) (\<lambda>cr.
     bind_res (collect_patches
        [ensureAPIServerLB cr,
         EnsureComponentVersionLabelFromRelease (ach_ctrlReader h) (ac_meta cr)
           ''azure-operator'' label_AzureOperatorVersion,
         EnsureComponentVersionLabelFromRelease (ach_ctrlReader h) (ac_meta cr)
           ''cluster-operator'' label_ClusterOperatorVersion]) (\<lambda>result.
     with_defaults L (lib_AzureCluster L) cr skipped_network_paths result))"

section \<open>Validation\<close>

definition AzureCluster_validateControlPlaneEndpoint :: "azure_cluster \<Rightarrow> string \<Rightarrow> unit res" where
  "AzureCluster_validateControlPlaneEndpoint cr baseDomain =
     (let host = GetControlPlaneEndpointHost (om_name (ac_meta cr)) baseDomain in
      bind_res (fail_if (ep_Host (ac_ControlPlaneEndpoint cr) \<noteq> host)
        (azurecluster_err AzureCluster_invalidControlPlaneEndpointHostError)) (\<lambda>_.
      fail_if (ep_Port (ac_ControlPlaneEndpoint cr) \<noteq> ControlPlaneEndpointPort)
        (azurecluster_err AzureCluster_invalidControlPlaneEndpointPortError)))"

definition AzureCluster_validateLocation :: "azure_cluster \<Rightarrow> string \<Rightarrow> unit res" where
  "AzureCluster_validateLocation cr expectedLocation =
     fail_if (ac_Location cr \<noteq> expectedLocation) (azurecluster_err AzureCluster_unexpectedLocationError)"

definition AzureCluster_OnCreateValidate :: "lib \<Rightarrow> azurecluster_handler \<Rightarrow> object \<Rightarrow> unit res" where
  "AzureCluster_OnCreateValidate L h object =
     bind_res (ToAzureClusterPtr object) (\<lambda>cr.
     bind_res (ignore_fields [''metadata.Name'', ''spec.networkSpec.subnets'', ''spec.SubscriptionID'']
        (crd_ValidateCreate (lib_AzureCluster L) cr)) (\<lambda>err.
     bind_res (of_error err) (\<lambda>_.
     bind_res (ValidateOrganizationLabelContainsExistingOrganization (lib_unicode L) (ach_ctrlClient h) (ac_meta cr)) (\<lambda>_.
     bind_res (AzureCluster_validateControlPlaneEndpoint cr (ach_baseDomain h)) (\<lambda>_.
     AzureCluster_validateLocation cr (ach_location h))))))"

definition AzureCluster_validateControlPlaneEndpointUnchanged :: "azure_cluster \<Rightarrow> azure_cluster \<Rightarrow> unit res" where
  "AzureCluster_validateControlPlaneEndpointUnchanged old new =
     fail_if (ac_ControlPlaneEndpoint old \<noteq> ac_ControlPlaneEndpoint new)
       (azurecluster_err AzureCluster_controlPlaneEndpointWasChangedError)"

text \<open>The owner is dereferenced without a nil check.\<close>

definition AzureCluster_validateRelease ::
    "lib \<Rightarrow> azurecluster_handler \<Rightarrow> azure_cluster \<Rightarrow> azure_cluster \<Rightarrow> unit res" where
  "AzureCluster_validateRelease L h old new =
     bind_res (parsed_versions (lib_semver L) (om_labels (ac_meta old)) (om_labels (ac_meta new)))
       (\<lambda>(oldVersion, newVersion).
     bind_res
       (if \<not> sv_EQ (lib_semver L) newVersion oldVersion then
          bind_res (of_lib (lib_GetOwnerCluster L (ach_ctrlClient h) (ac_meta new))) (\<lambda>owner.
          bind_res (deref owner) (\<lambda>cluster.
          bind_res (GetSemverFromLabels (lib_semver L) (om_labels (cl_meta cluster))) (\<lambda>clusterVersion.
          fail_if (\<not> sv_EQ (lib_semver L) newVersion clusterVersion)
            (Micro (E_errors Errors_InvalidOperationError)))))
        else Ok ()) (\<lambda>_.
     Validate (lib_semver L) (ach_ctrlClient h) oldVersion newVersion))"

definition AzureCluster_OnUpdateValidate ::
    "lib \<Rightarrow> azurecluster_handler \<Rightarrow> object \<Rightarrow> object \<Rightarrow> unit res" where
  "AzureCluster_OnUpdateValidate L h oldObject object =
     bind_res (ToAzureClusterPtr object) (\<lambda>new.
     if being_deleted (ac_meta new) then Ok ()
     else
       bind_res (ToAzureClusterPtr oldObject) (\<lambda>old.
       bind_res (ignore_fields [''metadata.Name'', ''spec.networkSpec.subnets'',
            ''spec.networkSpec.apiServerLB'', ''spec.SubscriptionID'']
          (crd_ValidateUpdate (lib_AzureCluster L) old new)) (\<lambda>err.
       bind_res (of_error err) (\<lambda>_.
       bind_res (ValidateOrganizationLabelUnchanged (ac_meta old) (ac_meta new)) (\<lambda>_.
       bind_res (AzureCluster_validateControlPlaneEndpointUnchanged old new) (\<lambda>_.
       AzureCluster_validateRelease L h old new))))))"

section \<open>New clusters\<close>

definition azurecluster_canonical_endpoint :: "string \<Rightarrow> azure_cluster \<Rightarrow> bool" where
  "azurecluster_canonical_endpoint baseDomain c \<longleftrightarrow>
     ac_ControlPlaneEndpoint c =
       \<lparr>ep_Host = GetControlPlaneEndpointHost (om_name (ac_meta c)) baseDomain, ep_Port = ControlPlaneEndpointPort\<rparr>"

lemma ToAzureClusterPtr_ObjAzureCluster [simp]: "ToAzureClusterPtr (ObjAzureCluster c) = Ok c"
  by (simp add: ToAzureClusterPtr_def)

lemma azurecluster_endpoint_Ok_iff [outcome_simps]:
  "AzureCluster_validateControlPlaneEndpoint c baseDomain = Ok u \<longleftrightarrow> azurecluster_canonical_endpoint baseDomain c"
  by (cases "ac_ControlPlaneEndpoint c")
    (auto simp: AzureCluster_validateControlPlaneEndpoint_def azurecluster_canonical_endpoint_def Let_def outcome_simps)

lemma azurecluster_location_Ok_iff [outcome_simps]:
  "AzureCluster_validateLocation c l = Ok u \<longleftrightarrow> ac_Location c = l"
  by (auto simp: AzureCluster_validateLocation_def outcome_simps)

text \<open>A new AzureCluster is admitted exactly when its type's complaints are all about the ignored
  fields, its organization exists, and endpoint and location are the installation's.\<close>

theorem azurecluster_create_accepted_iff:
  "AzureCluster_OnCreateValidate L h (ObjAzureCluster c) = Ok () \<longleftrightarrow>
     ignore_fields [''metadata.Name'', ''spec.networkSpec.subnets'', ''spec.SubscriptionID'']
       (crd_ValidateCreate (lib_AzureCluster L) c) = Ok None \<and>
     (\<exists>org. om_labels (ac_meta c) label_Organization = Some org \<and>
        kube_getOrganization (ach_ctrlClient h) (AsDNSLabelName (lib_unicode L) org) = Inr ()) \<and>
     azurecluster_canonical_endpoint (ach_baseDomain h) c \<and> ac_Location c = ach_location h"
  by (auto simp: AzureCluster_OnCreateValidate_def outcome_simps simp del: ignore_fields.simps)

definition apply_azurecluster_patch :: "azure_cluster \<Rightarrow> patch_operation \<Rightarrow> azure_cluster" where
  "apply_azurecluster_patch c p =
     c\<lparr>ac_meta := patch_meta (ac_meta c) p,
       ac_Location := patch_string ''/spec/location'' (ac_Location c) p,
       ac_ControlPlaneEndpoint := patch_endpoint (ac_ControlPlaneEndpoint c) p,
       ac_APIServerLB := (case po_Value p of
          PV_LoadBalancer lb \<Rightarrow> if patch_sets p ''/spec/networkSpec/apiServerLB'' then lb else ac_APIServerLB c
        | _ \<Rightarrow> ac_APIServerLB c)\<rparr>"

definition apply_azurecluster_patches :: "azure_cluster \<Rightarrow> patch_operation list \<Rightarrow> azure_cluster" where
  "apply_azurecluster_patches c ps = foldl apply_azurecluster_patch c ps"

lemma apply_azurecluster_patch_simps [simp]:
  "apply_azurecluster_patch c (PatchAdd (label_path l) (PV_string v)) =
     c\<lparr>ac_meta := (ac_meta c)\<lparr>om_labels := (om_labels (ac_meta c))(l \<mapsto> v)\<rparr>\<rparr>"
  "apply_azurecluster_patch c (PatchAdd ''/spec/location'' (PV_string s)) = c\<lparr>ac_Location := s\<rparr>"
  "apply_azurecluster_patch c (PatchAdd ''/spec/networkSpec/apiServerLB'' (PV_LoadBalancer lb)) = c\<lparr>ac_APIServerLB := lb\<rparr>"
  "apply_azurecluster_patch c (PatchAdd ''/spec/controlPlaneEndpoint/host'' (PV_string s)) =
     c\<lparr>ac_ControlPlaneEndpoint := (ac_ControlPlaneEndpoint c)\<lparr>ep_Host := s\<rparr>\<rparr>"
  "apply_azurecluster_patch c (PatchAdd ''/spec/controlPlaneEndpoint/port'' (PV_int i)) =
     c\<lparr>ac_ControlPlaneEndpoint := (ac_ControlPlaneEndpoint c)\<lparr>ep_Port := word_of_int i\<rparr>\<rparr>"
  by (cases c; simp add: apply_azurecluster_patch_def;
      simp add: PatchAdd_def patch_sets_def patch_endpoint_def patch_string_def patch_word_def)+

lemma ensureAPIServerLB_cases:
  assumes "ensureAPIServerLB c = Ok r"
  obtains "r = None" "ac_APIServerLB c = standardAPIServerLB (om_name (ac_meta c))"
  | "r = Some (PatchAdd ''/spec/networkSpec/apiServerLB''
        (PV_LoadBalancer (standardAPIServerLB (om_name (ac_meta c)))))"
  using assms by (auto simp: ensureAPIServerLB_def Let_def split: if_splits)

text \<open>An AzureCluster that leaves host, port or location unset, or gives the expected value,
  passes the endpoint and location checks once the handler's own patches are applied; it then has the
  standard load balancer for its API server and an operator version.\<close>

theorem azurecluster_create_mutation_makes_valid:
  assumes "AzureCluster_OnCreateMutate L h (ObjAzureCluster c) = Ok ps"
    and "ep_Host (ac_ControlPlaneEndpoint c) \<in>
           {'''', GetControlPlaneEndpointHost (om_name (ac_meta c)) (ach_baseDomain h)}"
    and "ep_Port (ac_ControlPlaneEndpoint c) \<in> {0, ControlPlaneEndpointPort}"
    and "ac_Location c \<in> {'''', ach_location h}"
  shows "\<exists>own capi c'. ps = own @ foldl (\<lambda>ps path. SkipForPath path ps) capi skipped_network_paths \<and>
     c' = apply_azurecluster_patches c own \<and>
     AzureCluster_validateControlPlaneEndpoint c' (ach_baseDomain h) = Ok () \<and>
     AzureCluster_validateLocation c' (ach_location h) = Ok () \<and>
     ensureAPIServerLB c' = Ok None \<and>
     mget (om_labels (ac_meta c')) label_AzureOperatorVersion \<noteq> '''' \<and>
     GenerateFromObjectDiff L (lib_AzureCluster L) c (crd_Default (lib_AzureCluster L) c) = Ok capi"
proof -
  obtain q r capi where
    q: "ensureAPIServerLB c = Ok q" and
    r: "EnsureComponentVersionLabelFromRelease (ach_ctrlReader h) (ac_meta c)
          ''azure-operator'' label_AzureOperatorVersion = Ok r" and
    capi: "GenerateFromObjectDiff L (lib_AzureCluster L) c (crd_Default (lib_AzureCluster L) c) = Ok capi" and
    ps: "ps = (opt_patch (if ep_Host (ac_ControlPlaneEndpoint c) = ''''
            then Some (PatchAdd ''/spec/controlPlaneEndpoint/host''
              (PV_string (GetControlPlaneEndpointHost (om_name (ac_meta c)) (ach_baseDomain h)))) else None) @
       opt_patch (if ep_Port (ac_ControlPlaneEndpoint c) = 0
            then Some (PatchAdd ''/spec/controlPlaneEndpoint/port'' (PV_int (uint ControlPlaneEndpointPort)))
            else None) @
       opt_patch (if ac_Location c = '''' then Some (PatchAdd ''/spec/location'' (PV_string (ach_location h)))
            else None) @ opt_patch q @ opt_patch r) @
       foldl (\<lambda>ps path. SkipForPath path ps) capi skipped_network_paths" (is "_ = ?own @ _")
    using assms(1)
    by (auto simp: AzureCluster_OnCreateMutate_def outcome_simps AzureCluster_ensureLocation_def
        AzureCluster_ensureControlPlaneEndpointHost_def AzureCluster_ensureControlPlaneEndpointPort_def
        patch_if_def Cons_eq_map_conv simp del: collect_patches.simps)
  let ?c' = "apply_azurecluster_patches c ?own"
  have "azurecluster_canonical_endpoint (ach_baseDomain h) ?c' \<and> ac_Location ?c' = ach_location h \<and>
      ac_APIServerLB ?c' = standardAPIServerLB (om_name (ac_meta ?c')) \<and>
      mget (om_labels (ac_meta ?c')) label_AzureOperatorVersion \<noteq> ''''"
    using r q assms(2-4)
    by (elim component_label_patch_cases ensureAPIServerLB_cases; cases "ac_ControlPlaneEndpoint c")
      (auto simp: apply_azurecluster_patches_def azurecluster_canonical_endpoint_def)
  with ps capi show ?thesis by (auto simp: outcome_simps ensureAPIServerLB_def)
qed

section \<open>Updates\<close>

interpretation azurecluster_endpoint: unchanged_check
    AzureCluster_validateControlPlaneEndpointUnchanged ac_ControlPlaneEndpoint
  by unfold_locales (auto simp: AzureCluster_validateControlPlaneEndpointUnchanged_def outcome_simps)

lemma azurecluster_release_Ok_iff [outcome_simps]:
  "AzureCluster_validateRelease L h old new = Ok u \<longleftrightarrow>
     (\<exists>v w. GetSemverFromLabels (lib_semver L) (om_labels (ac_meta old)) = Ok v \<and>
        GetSemverFromLabels (lib_semver L) (om_labels (ac_meta new)) = Ok w \<and>
        (sv_EQ (lib_semver L) w v \<or>
          (\<exists>cluster cv. lib_GetOwnerCluster L (ach_ctrlClient h) (ac_meta new) = Inr (Some cluster) \<and>
             GetSemverFromLabels (lib_semver L) (om_labels (cl_meta cluster)) = Ok cv \<and>
             sv_EQ (lib_semver L) w cv)) \<and>
        Validate (lib_semver L) (ach_ctrlClient h) v w = Ok ())"
  by (auto simp: AzureCluster_validateRelease_def outcome_simps split: if_splits)

lemma azurecluster_update_Ok_iff [outcome_simps]:
  "AzureCluster_OnUpdateValidate L h (ObjAzureCluster old) (ObjAzureCluster new) = Ok u \<longleftrightarrow>
     being_deleted (ac_meta new) \<or>
     ignore_fields [''metadata.Name'', ''spec.networkSpec.subnets'', ''spec.networkSpec.apiServerLB'',
         ''spec.SubscriptionID''] (crd_ValidateUpdate (lib_AzureCluster L) old new) = Ok None \<and>
     ValidateOrganizationLabelUnchanged (ac_meta old) (ac_meta new) = Ok () \<and>
     ac_ControlPlaneEndpoint old = ac_ControlPlaneEndpoint new \<and>
     AzureCluster_validateRelease L h old new = Ok ()"
  unfolding AzureCluster_OnUpdateValidate_def
  by (auto simp: outcome_simps azurecluster_endpoint.accepts_iff simp del: ignore_fields.simps)

text \<open>C28. An AzureCluster that is not being deleted follows its Cluster: an accepted update changes its release
  version only to the version the owning Cluster already carries, and only along the upgrade policy. (When it is
  being deleted, every update is accepted.)\<close>

theorem azurecluster_follows_cluster_release:
  assumes "AzureCluster_OnUpdateValidate L h (ObjAzureCluster old) (ObjAzureCluster new) = Ok ()"
    and "\<not> being_deleted (ac_meta new)"
    and "GetSemverFromLabels (lib_semver L) (om_labels (ac_meta old)) = Ok v"
    and "GetSemverFromLabels (lib_semver L) (om_labels (ac_meta new)) = Ok w"
    and "\<not> sv_EQ (lib_semver L) w v" and "\<not> sv_EQ (lib_semver L) v w"
  shows "\<exists>cluster cv es. lib_GetOwnerCluster L (ach_ctrlClient h) (ac_meta new) = Inr (Some cluster) \<and>
     GetSemverFromLabels (lib_semver L) (om_labels (cl_meta cluster)) = Ok cv \<and> sv_EQ (lib_semver L) w cv \<and>
     availableReleases (lib_semver L) (ach_ctrlClient h) = Ok es \<and> upgrade_permitted (lib_semver L) es v w"
  using assms
  by (auto simp: azurecluster_update_Ok_iff azurecluster_release_Ok_iff Validate_eq_refusal outcome_simps
      refusal_None_iff split: if_splits option.splits)

text \<open>An AzureCluster without an owning Cluster whose release version is changed makes the release
  check panic: the missing owner is dereferenced.\<close>

theorem azurecluster_missing_owner_panics:
  "AzureCluster_validateRelease L h old new = Panic \<longleftrightarrow>
     (\<exists>v w. GetSemverFromLabels (lib_semver L) (om_labels (ac_meta old)) = Ok v \<and>
        GetSemverFromLabels (lib_semver L) (om_labels (ac_meta new)) = Ok w \<and>
        \<not> sv_EQ (lib_semver L) w v \<and>
        lib_GetOwnerCluster L (ach_ctrlClient h) (ac_meta new) = Inr None)"
proof -
  have "parsed_versions S ls ls' \<noteq> Panic" for S ls ls'
    by (auto simp: parsed_versions_def bind_res_Panic_iff)
  then show ?thesis
    by (auto simp: AzureCluster_validateRelease_def bind_res_Panic_iff outcome_simps deref_def
        split: option.splits)
qed

text \<open>The location is left to the type's own validation: an accepted update is accepted with any other
  location as well, unless the type refuses that one.\<close>

theorem azurecluster_update_ignores_location:
  assumes "AzureCluster_OnUpdateValidate L h (ObjAzureCluster old) (ObjAzureCluster new) = Ok ()"
    and "ignore_fields [''metadata.Name'', ''spec.networkSpec.subnets'', ''spec.networkSpec.apiServerLB'',
         ''spec.SubscriptionID''] (crd_ValidateUpdate (lib_AzureCluster L) old (new\<lparr>ac_Location := l\<rparr>)) = Ok None"
  shows "AzureCluster_OnUpdateValidate L h (ObjAzureCluster old) (ObjAzureCluster (new\<lparr>ac_Location := l\<rparr>)) = Ok ()"
  using assms by (auto simp: azurecluster_update_Ok_iff azurecluster_release_Ok_iff simp del: ignore_fields.simps)

definition azurecluster_step :: "lib \<Rightarrow> azurecluster_handler \<Rightarrow> azure_cluster \<Rightarrow> azure_cluster \<Rightarrow> bool" where
  "azurecluster_step L h old new \<longleftrightarrow>
     AzureCluster_OnUpdateValidate L h (ObjAzureCluster old) (ObjAzureCluster new) = Ok ()"

interpretation azurecluster_update: guarded_update "azurecluster_step L h" "\<lambda>c. being_deleted (ac_meta c)"
    "\<lambda>c. (ac_ControlPlaneEndpoint c, om_labels (ac_meta c) label_Organization)"
  for L h
  by unfold_locales (auto simp: azurecluster_step_def outcome_simps)

text \<open>Over any history of accepted updates an AzureCluster keeps its endpoint and its organization.\<close>

theorem azurecluster_identity_is_constant:
  assumes "(\<lambda>old new. azurecluster_step L h old new \<and> \<not> being_deleted (ac_meta new))\<^sup>*\<^sup>* a b"
  shows "ac_ControlPlaneEndpoint a = ac_ControlPlaneEndpoint b \<and>
     om_labels (ac_meta a) label_Organization = om_labels (ac_meta b) label_Organization"
  using azurecluster_update.view_constant [OF assms] by simp

section \<open>An installation for the witnesses\<close>

definition demo_azurecluster_handler :: "kube_api \<Rightarrow> azurecluster_handler" where
  "demo_azurecluster_handler k = \<lparr>ach_baseDomain = ''k8s.io'', ach_ctrlReader = k, ach_ctrlClient = k,
     ach_decoder = demo_decoder, ach_location = ''westeurope''\<rparr>"

definition demo_release_labels :: "string \<Rightarrow> str_map" where
  "demo_release_labels v = demo_labels(label_ReleaseVersion \<mapsto> v)"

lemma demo_release_labels_simps [simp]:
  "demo_release_labels v label_ReleaseVersion = Some v" "demo_release_labels v label_Organization = Some ''acme''"
  using demo_labels_simps(1) by (simp_all add: demo_release_labels_def label_Organization_def label_ReleaseVersion_def)

text \<open>A library in which the owning Cluster is already on release 1.1.0.\<close>

definition demo_owned_lib :: lib where
  "demo_owned_lib = demo_lib\<lparr>lib_GetOwnerCluster := (\<lambda>k m. Inr (Some
     (demo_org_cluster\<lparr>cl_meta := demo_meta ''c'' (demo_release_labels ''v1.1.0'') Map.empty\<rparr>)))\<rparr>"

lemma demo_owned_lib_simps [simp]:
  "lib_semver demo_owned_lib = demo_semver" "lib_AzureCluster demo_owned_lib = demo_crd"
  "lib_GetOwnerCluster demo_owned_lib k m =
     Inr (Some (demo_org_cluster\<lparr>cl_meta := demo_meta ''c'' (demo_release_labels ''v1.1.0'') Map.empty\<rparr>))"
  by (simp_all add: demo_owned_lib_def)

lemma demo_azure_cluster_simps [simp]:
  "om_labels (ac_meta (demo_azure_cluster ls)) = ls" "\<not> being_deleted (ac_meta (demo_azure_cluster ls))"
  "ac_ControlPlaneEndpoint (demo_azure_cluster ls) = ac_ControlPlaneEndpoint (demo_azure_cluster ls') \<longleftrightarrow> True"
  by (simp_all add: demo_azure_cluster_def)

lemma demo_versions_differ:
  "\<not> sv_EQ demo_semver (demo_ver 1 1 ''0'') (demo_ver 1 0 ''0'')" "\<not> sv_EQ demo_semver (demo_ver 1 0 ''0'') (demo_ver 1 1 ''0'')"
  "sv_EQ demo_semver (demo_ver 1 1 ''0'') (demo_ver 1 1 ''0'')"
  by (simp_all add: demo_version_simps)

lemma demo_azurecluster_update:
  "AzureCluster_OnUpdateValidate demo_owned_lib
     (demo_azurecluster_handler (demo_installation demo_releases demo_labels))
     (ObjAzureCluster (demo_azure_cluster (demo_release_labels ''v1.0.0'')))
     (ObjAzureCluster (demo_azure_cluster (demo_release_labels ''v1.1.0''))) = Ok ()"
  using demo_upgrade_valid [OF demo_installation_available]
  by (simp add: azurecluster_update_Ok_iff azurecluster_release_Ok_iff organization_label_check
      demo_labels_version demo_versions_differ demo_azurecluster_handler_def del: One_nat_def)

theorem azurecluster_follows_cluster_release_witness:
  "\<exists>cluster. lib_GetOwnerCluster demo_owned_lib (demo_installation demo_releases demo_labels)
       (ac_meta (demo_azure_cluster (demo_release_labels ''v1.1.0''))) = Inr (Some cluster) \<and>
     GetSemverFromLabels demo_semver (om_labels (cl_meta cluster)) = Ok (demo_ver 1 1 ''0'')"
  using azurecluster_follows_cluster_release [OF demo_azurecluster_update, of "demo_ver 1 0 ''0''" "demo_ver 1 1 ''0''"]
  by (auto simp: demo_labels_version demo_versions_differ demo_azurecluster_handler_def del: One_nat_def)

theorem azurecluster_identity_is_constant_witness:
  "om_labels (ac_meta (demo_azure_cluster (demo_release_labels ''v1.0.0''))) label_Organization =
   om_labels (ac_meta (demo_azure_cluster (demo_release_labels ''v1.1.0''))) label_Organization"
proof -
  have "(\<lambda>old new. azurecluster_step demo_owned_lib
        (demo_azurecluster_handler (demo_installation demo_releases demo_labels)) old new \<and> \<not> being_deleted (ac_meta new))\<^sup>*\<^sup>*
      (demo_azure_cluster (demo_release_labels ''v1.0.0'')) (demo_azure_cluster (demo_release_labels ''v1.1.0''))"
    using demo_azurecluster_update by (intro r_into_rtranclp) (simp add: azurecluster_step_def)
  from azurecluster_identity_is_constant [OF this] show ?thesis by blast
qed

definition demo_operator_kube :: kube_api where
  "demo_operator_kube =
     demo_kube [demo_release ''v1.0.0'' ''active'' [\<lparr>cmp_Name = ''azure-operator'', cmp_Version = ''5.0.0''\<rparr>]]"

lemma demo_azurecluster_mutation:
  "\<exists>ps. AzureCluster_OnCreateMutate demo_lib (demo_azurecluster_handler demo_operator_kube)
     (ObjAzureCluster (demo_azure_cluster demo_labels)) = Ok ps"
proof -
  have "EnsureComponentVersionLabelFromRelease demo_operator_kube (ac_meta (demo_azure_cluster demo_labels))
      ''azure-operator'' label_AzureOperatorVersion =
      Ok (Some (PatchAdd (label_path label_AzureOperatorVersion) (PV_string ''5.0.0'')))"
    by (simp add: EnsureComponentVersionLabelFromRelease_def GetComponentVersionsFromRelease_def FindRelease_def
        demo_operator_kube_def demo_kube_def demo_release_def release_cr_name_def HasPrefix_def mget_def
        GetComponentVersionsFromReleaseCR_def outcome_simps Let_def)
  then show ?thesis
    by (simp add: AzureCluster_OnCreateMutate_def AzureCluster_ensureControlPlaneEndpointHost_def
        AzureCluster_ensureControlPlaneEndpointPort_def AzureCluster_ensureLocation_def ensureAPIServerLB_def
        patch_if_def Let_def demo_azurecluster_handler_def with_defaults_def GenerateFromObjectDiff_def)
qed

theorem azurecluster_create_mutation_makes_valid_witness:
  "\<exists>ps own rest. AzureCluster_OnCreateMutate demo_lib (demo_azurecluster_handler demo_operator_kube)
       (ObjAzureCluster (demo_azure_cluster demo_labels)) = Ok ps \<and> ps = own @ rest \<and>
     ensureAPIServerLB (apply_azurecluster_patches (demo_azure_cluster demo_labels) own) = Ok None"
proof -
  obtain ps where ps: "AzureCluster_OnCreateMutate demo_lib (demo_azurecluster_handler demo_operator_kube)
     (ObjAzureCluster (demo_azure_cluster demo_labels)) = Ok ps"
    using demo_azurecluster_mutation by blast
  have "ep_Host (ac_ControlPlaneEndpoint (demo_azure_cluster demo_labels)) =
      GetControlPlaneEndpointHost (om_name (ac_meta (demo_azure_cluster demo_labels))) ''k8s.io''"
    by (simp add: demo_azure_cluster_def GetControlPlaneEndpointHost_def)
  with azurecluster_create_mutation_makes_valid [OF ps] ps show ?thesis
    by (auto simp: demo_azurecluster_handler_def demo_azure_cluster_def ControlPlaneEndpointPort_def)
qed

end
