(* ===== verification/VMCaps.thy ===== *)
theory VMCaps
  imports Errors Strconv
begin

text \<open>
  The capabilities of the virtual machine types (\<^verbatim>\<open>internal/vmcapabilities\<close>): the listing of the
  resource SKUs of a location, the cache of these listings, and the questions asked of it. The
  listing of Azure can change from call to call, so the remote service is a function of the number
  of calls made so far, which the state counts; the code itself has no such counter.
\<close>

section \<open>Resource SKUs\<close>

record sku_capability =
  cap_Name :: "string option"
  cap_Value :: "string option"

record sku_location_info =
  li_Zones :: "string list option"

record resource_sku =
  sku_Name :: "string option"
  sku_Capabilities :: "sku_capability list option"
  sku_LocationInfo :: "sku_location_info list option"

definition vm_err :: "vmcapabilities_error \<Rightarrow> go_error" where
  "vm_err e = Micro (E_vmcapabilities e)"

section \<open>client.go\<close>

text \<open>
  The iterator \<open>ListComplete\<close> returns: done, a value followed by the rest, or a value after which
  \<open>NextWithContext\<close> fails.
\<close>

datatype sku_iterator =
    IterDone
  | IterValue resource_sku sku_iterator
  | IterFail resource_sku go_error

fun list_loop :: "(string \<rightharpoonup> resource_sku) \<Rightarrow> sku_iterator \<Rightarrow> (string \<rightharpoonup> resource_sku) res" where
  "list_loop m IterDone = Ok m"
| "list_loop m (IterValue sku rest) =
     bind_res (deref (sku_Name sku)) (\<lambda>name. list_loop (m(name \<mapsto> sku)) rest)"
| "list_loop m (IterFail sku err) = bind_res (deref (sku_Name sku)) (\<lambda>name. Err err)"

definition Azure_List :: "(string \<Rightarrow> go_error + sku_iterator) \<Rightarrow> string \<Rightarrow> (string \<rightharpoonup> resource_sku) res" where
  "Azure_List listComplete flt =
     (case listComplete flt of
        Inl err \<Rightarrow> Err err
      | Inr iterator \<Rightarrow> list_loop Map.empty iterator)"

section \<open>vmsku.go\<close>

definition CapabilitySupported :: string where "CapabilitySupported = ''True''"
definition CapabilityAcceleratedNetworking :: string where
  "CapabilityAcceleratedNetworking = ''AcceleratedNetworkingEnabled''"
definition CapabilityPremiumIO :: string where "CapabilityPremiumIO = ''PremiumIO''"
definition capabilityMemory :: string where "capabilityMemory = ''MemoryGB''"
definition capabilityCPUs :: string where "capabilityCPUs = ''vCPUs''"

type_synonym sku_cache = "string \<rightharpoonup> resource_sku"
type_synonym sku_api = "nat \<Rightarrow> string \<Rightarrow> sku_cache res"

record vmsku =
  skus :: "string \<rightharpoonup> sku_cache"
  calls :: nat

type_synonym 'a vm_prog = "(vmsku, 'a, go_error) prog"

record vmcapabilities_config =
  vmc_Azure :: "sku_api option"
  vmc_Logger :: "unit option"

definition VMSKU_New :: "vmcapabilities_config \<Rightarrow> (sku_api \<times> vmsku) res" where
  "VMSKU_New config =
     (case vmc_Logger config of
        None \<Rightarrow> Err (vm_err VM_invalidConfigError)
      | Some _ \<Rightarrow>
     (case vmc_Azure config of
        None \<Rightarrow> Err (vm_err VM_invalidConfigError)
      | Some azure \<Rightarrow> Ok (azure, \<lparr>skus = Map.empty, calls = 0\<rparr>)))"

definition sku_filter :: "string \<Rightarrow> string" where
  "sku_filter location = ''location eq '' @ [char_of (39::nat)] @ location @ [char_of (39::nat)]"

definition initCache :: "sku_api \<Rightarrow> string \<Rightarrow> unit vm_prog" where
  "initCache azure location = (\<lambda>v.
     let v' = v\<lparr>calls := Suc (calls v)\<rparr> in
     case azure (calls v) (sku_filter location) of
       Err e \<Rightarrow> (Err e, v')
     | Panic \<Rightarrow> (Panic, v')
     | Ok m \<Rightarrow> (Ok (), v'\<lparr>skus := (skus v)(location \<mapsto> m)\<rparr>))"

definition getSKU :: "sku_api \<Rightarrow> string \<Rightarrow> string \<Rightarrow> resource_sku vm_prog" where
  "getSKU azure location vmType =
     (if location = '''' then lift_st (Err (vm_err VM_invalidRequestError))
      else if vmType = '''' then lift_st (Err (vm_err VM_invalidRequestError))
      else bind_st
        (\<lambda>v. if skus v location = None then initCache azure location v else (Ok (), v)) (\<lambda>_ v.
        case Option.bind (skus v location) (\<lambda>m. m vmType) of
          None \<Rightarrow> (Err (vm_err VM_skuNotFoundError), v)
        | Some sku \<Rightarrow> (Ok sku, v)))"

definition capability_value :: "resource_sku \<Rightarrow> string \<Rightarrow> string option" where
  "capability_value sku name =
     (case sku_Capabilities sku of
        None \<Rightarrow> None
      | Some cs \<Rightarrow>
          (case List.find (\<lambda>c. cap_Name c = Some name) cs of
             None \<Rightarrow> None
           | Some c \<Rightarrow> cap_Value c))"

definition getCapability :: "sku_api \<Rightarrow> string \<Rightarrow> string \<Rightarrow> string \<Rightarrow> (string option) vm_prog" where
  "getCapability azure location vmType name =
     (if name = '''' then lift_st (Err (vm_err VM_invalidRequestError))
      else bind_st (getSKU azure location vmType) (\<lambda>sku. lift_st (Ok (capability_value sku name))))"

text \<open>\<open>strconv.Atoi(*capability)\<close>, where a nil or unreadable value is an invalid upstream response.\<close>

definition int_capability :: "string option \<Rightarrow> int res" where
  "int_capability capability =
     (case capability of
        None \<Rightarrow> Err (vm_err VM_invalidUpstreamResponseError)
      | Some s \<Rightarrow>
          (case Atoi s of
             None \<Rightarrow> Err (vm_err VM_invalidUpstreamResponseError)
           | Some n \<Rightarrow> Ok n))"

definition CPUs :: "sku_api \<Rightarrow> string \<Rightarrow> string \<Rightarrow> int vm_prog" where
  "CPUs azure location vmType =
     bind_st (getCapability azure location vmType capabilityCPUs) (\<lambda>c. lift_st (int_capability c))"

definition Memory :: "sku_api \<Rightarrow> string \<Rightarrow> string \<Rightarrow> int vm_prog" where
  "Memory azure location vmType =
     bind_st (getCapability azure location vmType capabilityMemory) (\<lambda>c. lift_st (int_capability c))"

definition HasCapability :: "sku_api \<Rightarrow> string \<Rightarrow> string \<Rightarrow> string \<Rightarrow> bool vm_prog" where
  "HasCapability azure location vmType name =
     bind_st (getCapability azure location vmType name) (\<lambda>c.
       lift_st (Ok (case c of None \<Rightarrow> False | Some s \<Rightarrow> EqualFold_true s)))"

text \<open>\<open>SupportedAZs\<close> swallows the error of the lookup; a SKU without location information panics.\<close>

definition zones_of :: "sku_location_info list \<Rightarrow> string list" where
  "zones_of ls = concat (map (\<lambda>l. case li_Zones l of None \<Rightarrow> [] | Some zs \<Rightarrow> zs) ls)"

definition SupportedAZs :: "sku_api \<Rightarrow> string \<Rightarrow> string \<Rightarrow> (string list) vm_prog" where
  "SupportedAZs azure location vmType = (\<lambda>v.
     case getSKU azure location vmType v of
       (Err e, v') \<Rightarrow> (Ok [], v')
     | (Panic, v') \<Rightarrow> (Panic, v')
     | (Ok sku, v') \<Rightarrow> (bind_res (deref (sku_LocationInfo sku)) (\<lambda>ls. Ok (zones_of ls)), v'))"

section \<open>The contract of a cached question\<close>

text \<open>
  What the handlers rely on when they ask one after the other: asking at once again gives the same answer and
  changes nothing, and what a state knows every extension of it knows; so, whatever else is asked in between, a
  question that was answered is answered alike.
\<close>

locale cached_question =
  fixes ask :: "'q \<Rightarrow> ('s, 'a, 'e) prog"
    and extends :: "'s \<Rightarrow> 's \<Rightarrow> bool"
    and reaches :: "'s \<Rightarrow> 's \<Rightarrow> bool"
  assumes grows: "reaches s t \<Longrightarrow> extends s t"
    and again: "ask q s = (Ok x, s') \<Longrightarrow> ask q s' = (Ok x, s')"
    and monotone: "ask q s = (Ok x, s) \<Longrightarrow> extends s t \<Longrightarrow> ask q t = (Ok x, t)"
begin

lemma settled: "ask q s = (Ok x, s') \<Longrightarrow> extends s' t \<Longrightarrow> ask q t = (Ok x, t)"
  by (blast intro: again monotone)

lemma stable: "ask q s = (Ok x, s') \<Longrightarrow> reaches s' t \<Longrightarrow> ask q t = (Ok x, t)"
  by (blast intro: settled grows)

lemma agree:
  assumes "ask q s = (Ok x, s')" "reaches s' t" "ask q t = (r, t')"
  shows "r = Ok x \<and> t' = t"
  using stable [OF assms(1,2)] assms(3) by simp

end

text \<open>Later states know every listing of the earlier ones.\<close>

definition vm_extends :: "vmsku \<Rightarrow> vmsku \<Rightarrow> bool" where
  "vm_extends s t \<longleftrightarrow> skus s \<subseteq>\<^sub>m skus t \<and> calls s \<le> calls t"

lemma vm_extends_refl [simp]: "vm_extends s s"
  by (simp add: vm_extends_def)

lemma vm_extends_trans: "vm_extends s t \<Longrightarrow> vm_extends t u \<Longrightarrow> vm_extends s u"
  unfolding vm_extends_def by (blast intro: map_le_trans order_trans)

lemma initCache_extends: "skus s l = None \<Longrightarrow> vm_extends s (snd (initCache azure l s))"
  by (auto simp: initCache_def vm_extends_def Let_def map_le_def dom_def split: outcome.split)

lemma getSKU_extends: "vm_extends s (snd (getSKU azure l ty s))"
  using initCache_extends [of s l azure]
  by (cases "initCache azure l s"; cases "fst (initCache azure l s)")
    (auto simp: getSKU_def bind_st_def lift_st_def split: option.split)

lemma getSKU_Ok_iff:
  "getSKU azure l ty s = (Ok sku, s') \<longleftrightarrow> l \<noteq> '''' \<and> ty \<noteq> '''' \<and>
     (\<exists>m. skus s' l = Some m \<and> m ty = Some sku) \<and>
     (if skus s l = None then initCache azure l s = (Ok (), s') else s' = s)"
  by (auto simp: getSKU_def outcome_simps split: option.splits bind_splits)

lemma getSKU_settled:
  assumes "getSKU azure l ty s = (Ok sku, s')" and "vm_extends s' t"
  shows "getSKU azure l ty t = (Ok sku, t)"
proof -
  from assms(1) obtain m where m: "l \<noteq> ''''" "ty \<noteq> ''''" "skus s' l = Some m" "m ty = Some sku"
    by (auto simp: getSKU_Ok_iff)
  with assms(2) have "skus t l = Some m"
    by (auto simp: vm_extends_def map_le_def dom_def)
  with m show ?thesis by (simp add: getSKU_Ok_iff)
qed

lemma getCapability_Ok_iff:
  "getCapability azure l ty n s = (Ok c, s') \<longleftrightarrow>
     n \<noteq> '''' \<and> (\<exists>sku. getSKU azure l ty s = (Ok sku, s') \<and> c = capability_value sku n)"
  by (auto simp: getCapability_def outcome_simps)

lemma CPUs_Ok_iff:
  "CPUs azure l ty s = (Ok n, s') \<longleftrightarrow>
     (\<exists>sku. getSKU azure l ty s = (Ok sku, s') \<and> int_capability (capability_value sku capabilityCPUs) = Ok n)"
  by (auto simp: CPUs_def getCapability_Ok_iff outcome_simps capabilityCPUs_def)

lemma Memory_Ok_iff:
  "Memory azure l ty s = (Ok n, s') \<longleftrightarrow>
     (\<exists>sku. getSKU azure l ty s = (Ok sku, s') \<and> int_capability (capability_value sku capabilityMemory) = Ok n)"
  by (auto simp: Memory_def getCapability_Ok_iff outcome_simps capabilityMemory_def)

lemma HasCapability_Ok_iff:
  "HasCapability azure l ty name s = (Ok b, s') \<longleftrightarrow> name \<noteq> '''' \<and>
     (\<exists>sku. getSKU azure l ty s = (Ok sku, s') \<and>
        b = (case capability_value sku name of None \<Rightarrow> False | Some v \<Rightarrow> EqualFold_true v))"
  by (auto simp: HasCapability_def getCapability_Ok_iff outcome_simps)

text \<open>Every question moves the state as the lookup of its SKU does, or not at all.\<close>

lemma bind_lift_snd [simp]: "snd (bind_st m (\<lambda>x. lift_st (f x)) s) = snd (m s)"
  by (cases "m s"; cases "fst (m s)") (auto simp: bind_st_def lift_st_def)

lemma lift_snd [simp]: "snd (lift_st r s) = s"
  by (simp add: lift_st_def)

lemma questions_state:
  "snd (CPUs azure l ty s) = snd (getSKU azure l ty s)"
  "snd (Memory azure l ty s) = snd (getSKU azure l ty s)"
  "snd (HasCapability azure l ty n s) = (if n = '''' then s else snd (getSKU azure l ty s))"
  "snd (SupportedAZs azure l ty s) = snd (getSKU azure l ty s)"
  by (simp_all add: CPUs_def Memory_def HasCapability_def getCapability_def capabilityCPUs_def
      capabilityMemory_def SupportedAZs_def split: prod.split outcome.split)

lemma questions_extend:
  "vm_extends s (snd (CPUs azure l ty s))" "vm_extends s (snd (Memory azure l ty s))"
  "vm_extends s (snd (HasCapability azure l ty n s))" "vm_extends s (snd (SupportedAZs azure l ty s))"
  by (simp_all add: questions_state getSKU_extends)

text \<open>All the ways the handlers change the cache.\<close>

inductive vm_reaches :: "sku_api \<Rightarrow> vmsku \<Rightarrow> vmsku \<Rightarrow> bool" for azure where
  here: "vm_reaches azure s s"
| cpus: "vm_reaches azure s t \<Longrightarrow> CPUs azure l ty t = (r, u) \<Longrightarrow> vm_reaches azure s u"
| memory: "vm_reaches azure s t \<Longrightarrow> Memory azure l ty t = (r, u) \<Longrightarrow> vm_reaches azure s u"
| capability: "vm_reaches azure s t \<Longrightarrow> HasCapability azure l ty n t = (r', u) \<Longrightarrow> vm_reaches azure s u"
| zones: "vm_reaches azure s t \<Longrightarrow> SupportedAZs azure l ty t = (r'', u) \<Longrightarrow> vm_reaches azure s u"

lemma vm_reaches_extends: "vm_reaches azure s t \<Longrightarrow> vm_extends s t"
proof (induction rule: vm_reaches.induct)
  case (cpus s t l ty r u)
  then show ?case using questions_extend(1) [of t azure l ty] by (auto intro: vm_extends_trans)
next
  case (memory s t l ty r u)
  then show ?case using questions_extend(2) [of t azure l ty] by (auto intro: vm_extends_trans)
next
  case (capability s t l ty n r' u)
  then show ?case using questions_extend(3) [of t azure l ty n] by (auto intro: vm_extends_trans)
next
  case (zones s t l ty r'' u)
  then show ?case using questions_extend(4) [of t azure l ty] by (auto intro: vm_extends_trans)
qed simp

interpretation cpus_question: cached_question "\<lambda>(l, ty). CPUs azure l ty" vm_extends "vm_reaches azure" for azure
proof
  show "vm_reaches azure s t \<Longrightarrow> vm_extends s t" for s t by (rule vm_reaches_extends)
  show "(case q of (l, ty) \<Rightarrow> CPUs azure l ty) s = (Ok x, s') \<Longrightarrow> (case q of (l, ty) \<Rightarrow> CPUs azure l ty) s' = (Ok x, s')" for q s x s'
    by (cases q; simp add: CPUs_Ok_iff; blast dest: getSKU_settled [OF _ vm_extends_refl])
  show "(case q of (l, ty) \<Rightarrow> CPUs azure l ty) s = (Ok x, s) \<Longrightarrow> vm_extends s t \<Longrightarrow> (case q of (l, ty) \<Rightarrow> CPUs azure l ty) t = (Ok x, t)" for q s x t
    by (cases q; simp add: CPUs_Ok_iff; blast dest: getSKU_settled)
qed

interpretation memory_question: cached_question "\<lambda>(l, ty). Memory azure l ty" vm_extends "vm_reaches azure" for azure
proof
  show "vm_reaches azure s t \<Longrightarrow> vm_extends s t" for s t by (rule vm_reaches_extends)
  show "(case q of (l, ty) \<Rightarrow> Memory azure l ty) s = (Ok x, s') \<Longrightarrow> (case q of (l, ty) \<Rightarrow> Memory azure l ty) s' = (Ok x, s')" for q s x s'
    by (cases q; simp add: Memory_Ok_iff; blast dest: getSKU_settled [OF _ vm_extends_refl])
  show "(case q of (l, ty) \<Rightarrow> Memory azure l ty) s = (Ok x, s) \<Longrightarrow> vm_extends s t \<Longrightarrow> (case q of (l, ty) \<Rightarrow> Memory azure l ty) t = (Ok x, t)" for q s x t
    by (cases q; simp add: Memory_Ok_iff; blast dest: getSKU_settled)
qed

interpretation capability_question: cached_question "\<lambda>(l, ty, n). HasCapability azure l ty n" vm_extends
    "vm_reaches azure" for azure
proof
  show "vm_reaches azure s t \<Longrightarrow> vm_extends s t" for s t by (rule vm_reaches_extends)
  show "(case q of (l, ty, n) \<Rightarrow> HasCapability azure l ty n) s = (Ok x, s') \<Longrightarrow> (case q of (l, ty, n) \<Rightarrow> HasCapability azure l ty n) s' = (Ok x, s')" for q s x s'
    by (cases q; simp add: HasCapability_Ok_iff; blast dest: getSKU_settled [OF _ vm_extends_refl])
  show "(case q of (l, ty, n) \<Rightarrow> HasCapability azure l ty n) s = (Ok x, s) \<Longrightarrow> vm_extends s t \<Longrightarrow> (case q of (l, ty, n) \<Rightarrow> HasCapability azure l ty n) t = (Ok x, t)" for q s x t
    by (cases q; simp add: HasCapability_Ok_iff; blast dest: getSKU_settled)
qed

lemma settled_questions:
  "CPUs azure l ty s = (Ok n, s') \<Longrightarrow> vm_extends s' t \<Longrightarrow> CPUs azure l ty t = (Ok n, t)"
  "Memory azure l ty s = (Ok n, s') \<Longrightarrow> vm_extends s' t \<Longrightarrow> Memory azure l ty t = (Ok n, t)"
  "HasCapability azure l ty name s = (Ok b, s') \<Longrightarrow> vm_extends s' t \<Longrightarrow>
     HasCapability azure l ty name t = (Ok b, t)"
  using cpus_question.settled [of azure "(l, ty)"] memory_question.settled [of azure "(l, ty)"]
    capability_question.settled [of azure "(l, ty, name)"]
  by auto

lemma question_extends:
  "CPUs azure l ty s = (r, t) \<Longrightarrow> vm_extends s t" "Memory azure l ty s = (r, t) \<Longrightarrow> vm_extends s t"
  "HasCapability azure l ty name s = (r', t) \<Longrightarrow> vm_extends s t"
  using questions_extend(1,2) [of s azure l ty] questions_extend(3) [of s azure l ty name] by auto

text \<open>A question about CPUs, memory or a capability of a machine type that was answered with a value is settled, as
  long as the questions follow each other: whatever is asked afterwards, and whatever Azure would list by then,
  it is answered alike and without a new listing. (\<open>SupportedAZs\<close> answers no zones after a failed look-up, and
  concurrent misses may list a location twice.)\<close>

theorem vm_answers_are_settled:
  assumes "vm_reaches azure s' t"
  shows "(CPUs azure l ty s = (Ok n, s') \<longrightarrow> CPUs azure l ty t = (Ok n, t)) \<and>
     (Memory azure l ty s = (Ok n, s') \<longrightarrow> Memory azure l ty t = (Ok n, t)) \<and>
     (HasCapability azure l ty name s = (Ok b, s') \<longrightarrow> HasCapability azure l ty name t = (Ok b, t))"
  using cpus_question.stable [of azure "(l, ty)" s n s' t] memory_question.stable [of azure "(l, ty)" s n s' t]
    capability_question.stable [of azure "(l, ty, name)" s b s' t] assms
  by auto

section \<open>What the cache holds\<close>

text \<open>Every cached listing is one that Azure gave for its location.\<close>

definition cache_honest :: "sku_api \<Rightarrow> vmsku \<Rightarrow> bool" where
  "cache_honest azure s \<longleftrightarrow>
     (\<forall>l m. skus s l = Some m \<longrightarrow> l \<noteq> '''' \<and> (\<exists>i<calls s. azure i (sku_filter l) = Ok m))"

lemma getSKU_honest: "cache_honest azure s \<Longrightarrow> cache_honest azure (snd (getSKU azure l ty s))"
  unfolding getSKU_def bind_st_def initCache_def lift_st_def
  by (auto simp: cache_honest_def Let_def less_Suc_eq split: outcome.split option.split)

lemma reaches_honest: "vm_reaches azure s t \<Longrightarrow> cache_honest azure s \<Longrightarrow> cache_honest azure t"
proof (induction rule: vm_reaches.induct)
  case (cpus s t l ty r u)
  then show ?case using getSKU_honest [of azure t l ty] questions_state(1) [of azure l ty t] by simp
next
  case (memory s t l ty r u)
  then show ?case using getSKU_honest [of azure t l ty] questions_state(2) [of azure l ty t] by simp
next
  case (capability s t l ty n r' u)
  then show ?case
    using getSKU_honest [of azure t l ty] questions_state(3) [of azure l ty n t] by (simp split: if_splits)
next
  case (zones s t l ty r'' u)
  then show ?case using getSKU_honest [of azure t l ty] questions_state(4) [of azure l ty t] by simp
qed

text \<open>C12. From an empty cache, an answer about the CPUs or the memory of a machine type is the number that a
  listing of Azure for that location gives for that very capability of that very machine type.\<close>

theorem vm_answers_come_from_listings:
  assumes "vm_reaches azure \<lparr>skus = Map.empty, calls = 0\<rparr> s"
    and "(question, name) \<in> {(CPUs, capabilityCPUs), (Memory, capabilityMemory)}"
    and "question azure l ty s = (Ok n, s')"
  shows "\<exists>i<calls s'. \<exists>m sku v. azure i (sku_filter l) = Ok m \<and> m ty = Some sku \<and>
     capability_value sku name = Some v \<and> Atoi v = Some n"
proof -
  from assms(2,3) obtain sku where sku: "getSKU azure l ty s = (Ok sku, s')"
    "int_capability (capability_value sku name) = Ok n"
    by (auto simp: CPUs_Ok_iff Memory_Ok_iff)
  have "cache_honest azure s"
    using reaches_honest [OF assms(1)] by (simp add: cache_honest_def)
  then have "cache_honest azure s'"
    using getSKU_honest [of azure s l ty] sku(1) by simp
  moreover from sku(1) obtain m where "skus s' l = Some m" "m ty = Some sku"
    by (auto simp: getSKU_Ok_iff)
  ultimately obtain i where "i < calls s'" "azure i (sku_filter l) = Ok m" "m ty = Some sku"
    by (auto simp: cache_honest_def)
  with sku(2) show ?thesis
    by (fastforce simp: int_capability_def split: option.splits)
qed

text \<open>A listing keeps, for every name, the last SKU that carries it; it panics on a nameless one.\<close>

fun iterated :: "sku_iterator \<Rightarrow> resource_sku list" where
  "iterated IterDone = []"
| "iterated (IterValue sku rest) = sku # iterated rest"
| "iterated (IterFail sku err) = [sku]"

fun iter_error :: "sku_iterator \<Rightarrow> go_error option" where
  "iter_error IterDone = None"
| "iter_error (IterValue sku rest) = iter_error rest"
| "iter_error (IterFail sku err) = Some err"

lemma list_loop_eq:
  "list_loop acc it =
     (if \<exists>sku\<in>set (iterated it). sku_Name sku = None then Panic
      else case iter_error it of
        Some err \<Rightarrow> Err err
      | None \<Rightarrow> Ok (acc ++ map_of (rev (map (\<lambda>sku. (the (sku_Name sku), sku)) (iterated it)))))"
  by (induction it arbitrary: acc) (auto simp: deref_def split: option.splits)

text \<open>The listing of a location: every SKU of the iteration under its name, the last one winning.\<close>

theorem Azure_List_spec:
  "Azure_List listComplete flt =
     (case listComplete flt of
        Inl err \<Rightarrow> Err err
      | Inr it \<Rightarrow>
          if \<exists>sku\<in>set (iterated it). sku_Name sku = None then Panic
          else case iter_error it of
            Some err \<Rightarrow> Err err
          | None \<Rightarrow> Ok (map_of (rev (map (\<lambda>sku. (the (sku_Name sku), sku)) (iterated it)))))"
  by (auto simp: Azure_List_def list_loop_eq split: sum.split option.split)

section \<open>A listing for the witnesses\<close>

definition demo_sku :: resource_sku where
  "demo_sku = \<lparr>sku_Name = Some ''D4'', sku_Capabilities = Some
     [\<lparr>cap_Name = Some ''MemoryGB'', cap_Value = Some ''16''\<rparr>, \<lparr>cap_Name = Some ''vCPUs'', cap_Value = Some ''4''\<rparr>,
      \<lparr>cap_Name = Some ''AcceleratedNetworkingEnabled'', cap_Value = Some ''True''\<rparr>,
      \<lparr>cap_Name = Some ''PremiumIO'', cap_Value = Some ''True''\<rparr>],
     sku_LocationInfo = Some [\<lparr>li_Zones = Some [''1'', ''2'', ''3'']\<rparr>]\<rparr>"

definition demo_sku_api :: sku_api where
  "demo_sku_api k flt = Ok [''D4'' \<mapsto> demo_sku]"

definition demo_vm_empty :: vmsku where
  "demo_vm_empty = \<lparr>skus = Map.empty, calls = 0\<rparr>"

definition demo_vm_cached :: vmsku where
  "demo_vm_cached = \<lparr>skus = [''westeurope'' \<mapsto> [''D4'' \<mapsto> demo_sku]], calls = 1\<rparr>"

lemma demo_getSKU:
  "getSKU demo_sku_api ''westeurope'' ''D4'' demo_vm_empty = (Ok demo_sku, demo_vm_cached)"
  "getSKU demo_sku_api ''westeurope'' ''D4'' demo_vm_cached = (Ok demo_sku, demo_vm_cached)"
  by (simp_all add: getSKU_Ok_iff initCache_def demo_sku_api_def demo_vm_empty_def demo_vm_cached_def)

lemma demo_capabilities:
  "capability_value demo_sku capabilityMemory = Some ''16''" "capability_value demo_sku capabilityCPUs = Some ''4''"
  "capability_value demo_sku CapabilityAcceleratedNetworking = Some ''True''"
  "capability_value demo_sku CapabilityPremiumIO = Some ''True''"
  by (simp_all add: capability_value_def demo_sku_def capabilityMemory_def capabilityCPUs_def
      CapabilityAcceleratedNetworking_def CapabilityPremiumIO_def)

lemma demo_capability_names:
  "CapabilityAcceleratedNetworking \<noteq> ''''" "CapabilityPremiumIO \<noteq> ''''"
  by (simp_all add: CapabilityAcceleratedNetworking_def CapabilityPremiumIO_def)

lemma demo_values:
  "Atoi ''16'' = Some 16" "Atoi ''4'' = Some 4" "EqualFold_true ''True''"
  by (simp_all add: Atoi_def ParseInt_def parse_uint_def digit_val_def EqualFold_true_def ascii_lower_def char_of_def bit_0)

lemma demo_answers:
  "Memory demo_sku_api ''westeurope'' ''D4'' demo_vm_cached = (Ok 16, demo_vm_cached)"
  "Memory demo_sku_api ''westeurope'' ''D4'' demo_vm_empty = (Ok 16, demo_vm_cached)"
  "CPUs demo_sku_api ''westeurope'' ''D4'' demo_vm_empty = (Ok 4, demo_vm_cached)"
  "CPUs demo_sku_api ''westeurope'' ''D4'' demo_vm_cached = (Ok 4, demo_vm_cached)"
  "HasCapability demo_sku_api ''westeurope'' ''D4'' CapabilityAcceleratedNetworking demo_vm_cached = (Ok True, demo_vm_cached)"
  "HasCapability demo_sku_api ''westeurope'' ''D4'' CapabilityPremiumIO demo_vm_cached = (Ok True, demo_vm_cached)"
  "HasCapability demo_sku_api ''westeurope'' ''D4'' CapabilityPremiumIO demo_vm_empty = (Ok True, demo_vm_cached)"
  by (simp_all add: Memory_Ok_iff CPUs_Ok_iff HasCapability_Ok_iff demo_getSKU demo_capabilities int_capability_def
      demo_values demo_capability_names)

theorem vm_answers_are_settled_witness:
  "CPUs demo_sku_api ''westeurope'' ''D4'' demo_vm_empty = (Ok 4, demo_vm_cached) \<and>
   vm_reaches demo_sku_api demo_vm_cached demo_vm_cached \<and>
   CPUs demo_sku_api ''westeurope'' ''D4'' demo_vm_cached = (Ok 4, demo_vm_cached)"
proof -
  have reach: "vm_reaches demo_sku_api demo_vm_cached demo_vm_cached"
    by (rule vm_reaches.memory [OF vm_reaches.here demo_answers(1)])
  show ?thesis
    using vm_answers_are_settled [OF reach, of "''westeurope''" "''D4''" demo_vm_empty 4] demo_answers(3) reach
    by blast
qed

theorem vm_answers_come_from_listings_witness:
  "\<exists>i<1. \<exists>m sku v. demo_sku_api i (sku_filter ''westeurope'') = Ok m \<and> m ''D4'' = Some sku \<and>
     capability_value sku capabilityMemory = Some v \<and> Atoi v = Some 16"
proof -
  have "vm_reaches demo_sku_api \<lparr>skus = Map.empty, calls = 0\<rparr> demo_vm_cached"
    using vm_reaches.cpus [OF vm_reaches.here demo_answers(3)] by (simp add: demo_vm_empty_def)
  from vm_answers_come_from_listings [OF this, of Memory capabilityMemory] demo_answers(1) show ?thesis
    by (fastforce simp: demo_vm_cached_def)
qed

end
