(* ===== verification/AzureMachine.thy ===== *)
theory AzureMachine
  imports Webhook VMCaps
begin

text \<open>
  The webhooks of the AzureMachine resource (\<^verbatim>\<open>pkg/azuremachine\<close>). The validation of a new machine
  asks the cache of machine types for the zones, so it is a program over that state.
\<close>

section \<open>The handler\<close>

record azuremachine_handler =
  amh_ctrlClient :: kube_api
  amh_decoder :: decoder
  amh_location :: string
  amh_vmcaps :: sku_api

record azuremachine_handler_config =
  amhc_CtrlClient :: "kube_api option"
  amhc_Decoder :: "decoder option"
  amhc_Location :: string
  amhc_Logger :: "unit option"
  amhc_VMcaps :: "sku_api option"

definition azuremachine_err :: "azuremachine_error \<Rightarrow> go_error" where
  "azuremachine_err e = Micro (E_azuremachine e)"

definition AzureMachine_NewWebhookHandler :: "azuremachine_handler_config \<Rightarrow> azuremachine_handler res" where
  "AzureMachine_NewWebhookHandler config =
     (let invalid = azuremachine_err AzureMachine_invalidConfigError in
      bind_res (need (amhc_CtrlClient config) invalid) (\<lambda>ctrlClient.
      bind_res (need (amhc_Decoder config) invalid) (\<lambda>decoder.
      bind_res (need (amhc_Logger config) invalid) (\<lambda>logger.
      bind_res (fail_if (amhc_Location config = '''') invalid) (\<lambda>_.
      bind_res (need (amhc_VMcaps config) invalid) (\<lambda>vmcaps.
      Ok \<lparr>amh_ctrlClient = ctrlClient, amh_decoder = decoder, amh_location = amhc_Location config,
         amh_vmcaps = vmcaps\<rparr>))))))"

definition AzureMachine_Resource :: string where
  "AzureMachine_Resource = ''azuremachine''"

definition AzureMachine_Decode :: "lib \<Rightarrow> string \<Rightarrow> object res" where
  "AzureMachine_Decode L raw = decode_with ObjAzureMachine (dec_AzureMachine (lib_Deserializer L)) raw"

section \<open>Mutation\<close>

definition AzureMachine_ensureLocation :: "azuremachine_handler \<Rightarrow> azure_machine \<Rightarrow> (patch_operation option) res" where
  "AzureMachine_ensureLocation h cr =
     patch_if (am_Location cr = '''') (PatchAdd ''/spec/location'' (PV_string (amh_location h)))"

definition AzureMachine_ensureOSDiskCachingType :: "azure_machine \<Rightarrow> (patch_operation option) res" where
  "AzureMachine_ensureOSDiskCachingType cr =
     patch_if (length (am_OSDiskCachingType cr) < 1)
       (PatchAdd ''/spec/osDisk/cachingType'' (PV_string OSDiskCachingType))"

definition AzureMachine_OnCreateMutate ::
    "lib \<Rightarrow> azuremachine_handler \<Rightarrow> object \<Rightarrow> (patch_operation list) res" where
  "AzureMachine_OnCreateMutate L h object =
     bind_res (ToAzureMachinePtr object) (\<lambda>cr.
     bind_res (collect_patches
        [AzureMachine_ensureLocation h cr,
         AzureMachine_ensureOSDiskCachingType cr,
         CopyAzureOperatorVersionLabelFromAzureClusterCR (amh_ctrlClient h) (am_meta cr)]) (\<lambda>result.
     with_defaults L (lib_AzureMachine L) cr [''/spec/sshPublicKey''] result))"

definition AzureMachine_OnUpdateMutate ::
    "lib \<Rightarrow> azuremachine_handler \<Rightarrow> object \<Rightarrow> object \<Rightarrow> (patch_operation list) res" where
  "AzureMachine_OnUpdateMutate L h oldObject object =
     bind_res (ToAzureMachinePtr object) (\<lambda>cr.
     bind_res (collect_patches [AzureMachine_ensureOSDiskCachingType cr]) (\<lambda>result.
     with_defaults L (lib_AzureMachine L) cr [''/spec/sshPublicKey''] result))"

section \<open>Single checks\<close>

definition AzureMachine_checkSSHKeyIsEmpty :: "azure_machine \<Rightarrow> unit res" where
  "AzureMachine_checkSSHKeyIsEmpty cr =
     fail_if (am_SSHPublicKey cr \<noteq> '''') (azuremachine_err AzureMachine_sshFieldIsSetError)"

definition AzureMachine_validateLocation :: "azure_machine \<Rightarrow> string \<Rightarrow> unit res" where
  "AzureMachine_validateLocation cr expectedLocation =
     fail_if (am_Location cr \<noteq> expectedLocation) (azuremachine_err AzureMachine_unexpectedLocationError)"

definition AzureMachine_validateLocationUnchanged :: "azure_machine \<Rightarrow> azure_machine \<Rightarrow> unit res" where
  "AzureMachine_validateLocationUnchanged old new =
     fail_if (am_Location old \<noteq> am_Location new) (azuremachine_err AzureMachine_locationWasChangedError)"

definition AzureMachine_validateFailureDomain :: "azure_machine \<Rightarrow> string list \<Rightarrow> unit res" where
  "AzureMachine_validateFailureDomain cr supportedAZs =
     (case am_FailureDomain cr of
        None \<Rightarrow> Ok ()
      | Some fd \<Rightarrow>
          if fd = '''' then Ok ()
          else if list_ex (\<lambda>az. fd = az) supportedAZs then Ok ()
          else if length supportedAZs = 0
            then Err (azuremachine_err AzureMachine_locationWithNoFailureDomainSupportError)
          else Err (azuremachine_err AzureMachine_unsupportedFailureDomainError))"

definition AzureMachine_validateFailureDomainUnchanged :: "azure_machine \<Rightarrow> azure_machine \<Rightarrow> unit res" where
  "AzureMachine_validateFailureDomainUnchanged old new =
     (let o1 = am_FailureDomain old; n1 = am_FailureDomain new in
      if o1 = None \<and> n1 = None then Ok ()
      else if o1 = None \<and> n1 = Some '''' \<or> o1 = Some '''' \<and> n1 = None then Ok ()
      else if o1 = None \<and> n1 \<noteq> None \<or> o1 \<noteq> None \<and> n1 = None \<or> o1 \<noteq> n1
        then Err (azuremachine_err AzureMachine_failureDomainWasChangedError)
      else Ok ())"

section \<open>Validation\<close>

definition AzureMachine_OnCreateValidate :: "lib \<Rightarrow> azuremachine_handler \<Rightarrow> object \<Rightarrow> unit vm_prog" where
  "AzureMachine_OnCreateValidate L h object =
     bind_st (lift_st (
       bind_res (ToAzureMachinePtr object) (\<lambda>cr.
       bind_res (ignore_fields [''sshPublicKey''] (crd_ValidateCreate (lib_AzureMachine L) cr)) (\<lambda>err.
       bind_res (of_error err) (\<lambda>_.
       bind_res (ValidateOrganizationLabelContainsExistingOrganization
         (lib_unicode L) (amh_ctrlClient h) (am_meta cr)) (\<lambda>_.
       bind_res (AzureMachine_checkSSHKeyIsEmpty cr) (\<lambda>_.
       bind_res (AzureMachine_validateLocation cr (amh_location h)) (\<lambda>_.
       Ok cr)))))))) (\<lambda>cr.
     bind_st (SupportedAZs (amh_vmcaps h) (am_Location cr) (am_VMSize cr)) (\<lambda>supportedAZs.
     lift_st (AzureMachine_validateFailureDomain cr supportedAZs)))"

definition AzureMachine_OnUpdateValidate ::
    "lib \<Rightarrow> azuremachine_handler \<Rightarrow> object \<Rightarrow> object \<Rightarrow> unit res" where
  "AzureMachine_OnUpdateValidate L h oldObject object =
     bind_res (ToAzureMachinePtr object) (\<lambda>new.
     if being_deleted (am_meta new) then Ok ()
     else
       bind_res (ToAzureMachinePtr oldObject) (\<lambda>old.
       bind_res (ignore_fields [''sshPublicKey''] (crd_ValidateUpdate (lib_AzureMachine L) old new)) (\<lambda>err.
       bind_res (of_error err) (\<lambda>_.
       bind_res (AzureMachine_checkSSHKeyIsEmpty new) (\<lambda>_.
       bind_res (ValidateOrganizationLabelUnchanged (am_meta old) (am_meta new)) (\<lambda>_.
       bind_res (AzureMachine_validateLocationUnchanged old new) (\<lambda>_.
       bind_res (AzureMachine_validateFailureDomainUnchanged old new) (\<lambda>_.
       bind_res (parsed_versions (lib_semver L) (om_labels (am_meta old)) (om_labels (am_meta new)))
         (\<lambda>(oldVersion, newVersion).
       Validate (lib_semver L) (amh_ctrlClient h) oldVersion newVersion)))))))))"

section \<open>What the checks amount to\<close>

text \<open>An empty failure domain and none mean the same.\<close>

definition failure_domain :: "azure_machine \<Rightarrow> string option" where
  "failure_domain c = (if am_FailureDomain c = Some '''' then None else am_FailureDomain c)"

interpretation machine_location: unchanged_check AzureMachine_validateLocationUnchanged am_Location
  by unfold_locales (auto simp: AzureMachine_validateLocationUnchanged_def outcome_simps)

interpretation machine_failure_domain: unchanged_check AzureMachine_validateFailureDomainUnchanged failure_domain
  by unfold_locales
    (auto simp: AzureMachine_validateFailureDomainUnchanged_def failure_domain_def Let_def split: if_splits)

lemma ToAzureMachinePtr_ObjAzureMachine [simp]: "ToAzureMachinePtr (ObjAzureMachine c) = Ok c"
  by (simp add: ToAzureMachinePtr_def)

lemma machine_failure_domain_Ok_iff [outcome_simps]:
  "AzureMachine_validateFailureDomain c zs = Ok u \<longleftrightarrow> failure_domain c = None \<or> (\<exists>z\<in>set zs. failure_domain c = Some z)"
  by (auto simp: AzureMachine_validateFailureDomain_def failure_domain_def list_ex_iff split: option.splits)

lemma machine_update_Ok_iff [outcome_simps]:
  "AzureMachine_OnUpdateValidate L h (ObjAzureMachine old) (ObjAzureMachine new) = Ok u \<longleftrightarrow>
     being_deleted (am_meta new) \<or>
     ignore_fields [''sshPublicKey''] (crd_ValidateUpdate (lib_AzureMachine L) old new) = Ok None \<and>
     am_SSHPublicKey new = '''' \<and>
     ValidateOrganizationLabelUnchanged (am_meta old) (am_meta new) = Ok () \<and>
     am_Location old = am_Location new \<and> failure_domain old = failure_domain new \<and>
     (\<exists>v w. GetSemverFromLabels (lib_semver L) (om_labels (am_meta old)) = Ok v \<and>
        GetSemverFromLabels (lib_semver L) (om_labels (am_meta new)) = Ok w \<and>
        Validate (lib_semver L) (amh_ctrlClient h) v w = Ok ())"
  unfolding AzureMachine_OnUpdateValidate_def
  by (auto simp: outcome_simps machine_location.accepts_iff machine_failure_domain.accepts_iff
      AzureMachine_checkSSHKeyIsEmpty_def simp del: ignore_fields.simps)

text \<open>Whether a new machine is admitted depends on its own fields, and, only when it names a failure
  domain, on the zones its location offers for its size.\<close>

theorem machine_create_accepted_iff:
  "AzureMachine_OnCreateValidate L h (ObjAzureMachine c) s = (Ok (), s') \<longleftrightarrow>
     ignore_fields [''sshPublicKey''] (crd_ValidateCreate (lib_AzureMachine L) c) = Ok None \<and>
     (\<exists>org. om_labels (am_meta c) label_Organization = Some org \<and>
        kube_getOrganization (amh_ctrlClient h) (AsDNSLabelName (lib_unicode L) org) = Inr ()) \<and>
     am_SSHPublicKey c = '''' \<and> am_Location c = amh_location h \<and>
     (\<exists>zs. SupportedAZs (amh_vmcaps h) (amh_location h) (am_VMSize c) s = (Ok zs, s') \<and>
        (failure_domain c = None \<or> (\<exists>z\<in>set zs. failure_domain c = Some z)))"
  by (auto simp: AzureMachine_OnCreateValidate_def AzureMachine_checkSSHKeyIsEmpty_def
      AzureMachine_validateLocation_def outcome_simps simp del: ignore_fields.simps)

text \<open>A lookup of the machine type that fails, for whatever reason, is read as a location without zones: a
  machine that names a failure domain is then refused for lack of zone support, and one that names
  none is admitted.\<close>

theorem machine_zone_lookup_failure:
  assumes "getSKU (amh_vmcaps h) (am_Location c) (am_VMSize c) s = (Err e, s')"
  shows "SupportedAZs (amh_vmcaps h) (am_Location c) (am_VMSize c) s = (Ok [], s') \<and>
     AzureMachine_validateFailureDomain c [] =
       (if failure_domain c = None then Ok ()
        else Err (azuremachine_err AzureMachine_locationWithNoFailureDomainSupportError))"
  using assms
  by (auto simp: SupportedAZs_def AzureMachine_validateFailureDomain_def failure_domain_def split: option.split)

definition machine_step :: "lib \<Rightarrow> azuremachine_handler \<Rightarrow> azure_machine \<Rightarrow> azure_machine \<Rightarrow> bool" where
  "machine_step L h old new \<longleftrightarrow> AzureMachine_OnUpdateValidate L h (ObjAzureMachine old) (ObjAzureMachine new) = Ok ()"

interpretation machine_update: guarded_update "machine_step L h" "\<lambda>c. being_deleted (am_meta c)"
    "\<lambda>c. (am_Location c, failure_domain c, om_labels (am_meta c) label_Organization)"
  for L h
  by unfold_locales (auto simp: machine_step_def outcome_simps)

text \<open>Over any history of accepted updates a machine keeps its location, its failure domain and its
  organization, where an empty failure domain counts as none.\<close>

theorem machine_identity_is_constant:
  assumes "(\<lambda>old new. machine_step L h old new \<and> \<not> being_deleted (am_meta new))\<^sup>*\<^sup>* a b"
  shows "am_Location a = am_Location b \<and> failure_domain a = failure_domain b \<and>
     om_labels (am_meta a) label_Organization = om_labels (am_meta b) label_Organization"
  using machine_update.view_constant [OF assms] by simp

section \<open>A machine for the witnesses\<close>

definition demo_machine :: "string option \<Rightarrow> azure_machine" where
  "demo_machine fd = \<lparr>am_meta = demo_meta ''m'' demo_labels Map.empty, am_Location = ''westeurope'', am_VMSize = ''D4'',
     am_FailureDomain = fd, am_SSHPublicKey = '''', am_OSDiskCachingType = ''ReadWrite'', am_rest = ''''\<rparr>"

definition demo_machine_handler :: azuremachine_handler where
  "demo_machine_handler = \<lparr>amh_ctrlClient = demo_org_kube [] demo_labels, amh_decoder = demo_decoder,
     amh_location = ''westeurope'', amh_vmcaps = demo_sku_api\<rparr>"

theorem machine_zone_lookup_failure_witness:
  "AzureMachine_validateFailureDomain (demo_machine (Some ''1'')) [] =
     Err (azuremachine_err AzureMachine_locationWithNoFailureDomainSupportError)"
proof -
  let ?h = "demo_machine_handler\<lparr>amh_vmcaps := (\<lambda>k flt. Err (Opaque ''down''))\<rparr>"
  have "getSKU (amh_vmcaps ?h) (am_Location (demo_machine (Some ''1''))) (am_VMSize (demo_machine (Some ''1'')))
      demo_vm_empty = (Err (Opaque ''down''), demo_vm_empty\<lparr>calls := 1\<rparr>)"
    by (simp add: getSKU_def initCache_def demo_machine_def demo_vm_empty_def bind_st_def)
  from machine_zone_lookup_failure [OF this] show ?thesis
    by (simp add: demo_machine_def failure_domain_def)
qed

theorem machine_identity_is_constant_witness:
  "failure_domain (demo_machine None) = failure_domain (demo_machine (Some ''''))"
proof -
  have "GetSemverFromLabels demo_semver demo_labels = Ok (demo_ver 1 0 ''0'')"
    by (rule demo_labels_version) simp
  then have "machine_step demo_lib demo_machine_handler (demo_machine None) (demo_machine (Some ''''))"
    by (simp add: machine_step_def outcome_simps demo_machine_def failure_domain_def)
      (auto simp: Validate_eq_refusal demo_semver_precedence sv_EQ_refl)
  then have "(\<lambda>old new. machine_step demo_lib demo_machine_handler old new \<and> \<not> being_deleted (am_meta new))\<^sup>*\<^sup>*
      (demo_machine None) (demo_machine (Some ''''))"
    by (intro r_into_rtranclp) (simp add: demo_machine_def)
  from machine_identity_is_constant [OF this] show ?thesis by blast
qed

end
