(* ===== verification/AzureMachinePool.thy ===== *)
theory AzureMachinePool
  imports Webhook VMCaps
begin

text \<open>
  The webhooks of the AzureMachinePool resource (\<^verbatim>\<open>pkg/azuremachinepool\<close>): node pools whose machine
  type must have memory and CPUs enough and the capabilities the pool asks for.
\<close>

section \<open>The handler\<close>

record azuremachinepool_handler =
  aph_ctrlClient :: kube_api
  aph_decoder :: decoder
  aph_location :: string
  aph_vmcaps :: sku_api

record azuremachinepool_handler_config =
  aphc_CtrlClient :: "kube_api option"
  aphc_Decoder :: "decoder option"
  aphc_Location :: string
  aphc_Logger :: "unit option"
  aphc_VMcaps :: "sku_api option"

definition amp_err :: "azuremachinepool_error \<Rightarrow> go_error" where
  "amp_err e = Micro (E_azuremachinepool e)"

definition AzureMachinePool_NewWebhookHandler ::
    "azuremachinepool_handler_config \<Rightarrow> azuremachinepool_handler res" where
  "AzureMachinePool_NewWebhookHandler config =
     (let invalid = amp_err AMP_invalidConfigError in
      bind_res (need (aphc_CtrlClient config) invalid) (\<lambda>ctrlClient.
      bind_res (need (aphc_Decoder config) invalid) (\<lambda>decoder.
      bind_res (fail_if (aphc_Location config = '''') invalid) (\<lambda>_.
      bind_res (need (aphc_Logger config) invalid) (\<lambda>logger.
      bind_res (need (aphc_VMcaps config) invalid) (\<lambda>vmcaps.
      Ok \<lparr>aph_ctrlClient = ctrlClient, aph_decoder = decoder, aph_location = aphc_Location config,
         aph_vmcaps = vmcaps\<rparr>))))))"

definition AzureMachinePool_Resource :: string where
  "AzureMachinePool_Resource = ''azuremachinepool''"

definition AzureMachinePool_Decode :: "azuremachinepool_handler \<Rightarrow> string \<Rightarrow> object res" where
  "AzureMachinePool_Decode h raw = decode_with ObjAzureMachinePool (dec_AzureMachinePool (aph_decoder h)) raw"

section \<open>Mutation\<close>

definition StandardLRS :: string where "StandardLRS = ''Standard_LRS''"
definition PremiumLRS :: string where "PremiumLRS = ''Premium_LRS''"

definition desiredDataDisks :: "data_disk list" where
  "desiredDataDisks =
     [\<lparr>dd_NameSuffix = ''docker'', dd_DiskSizeGB = 100, dd_Lun = Some 21, dd_rest = ''''\<rparr>,
      \<lparr>dd_NameSuffix = ''kubelet'', dd_DiskSizeGB = 100, dd_Lun = Some 22, dd_rest = ''''\<rparr>]"

definition AzureMachinePool_ensureStorageAccountType ::
    "azuremachinepool_handler \<Rightarrow> azure_machine_pool \<Rightarrow> (patch_operation option) vm_prog" where
  "AzureMachinePool_ensureStorageAccountType h cr =
     (if amp_StorageAccountType cr = '''' then
        (let location = (if amp_Location cr = '''' then aph_location h else amp_Location cr) in
         bind_st (HasCapability (aph_vmcaps h) location (amp_VMSize cr) CapabilityPremiumIO) (\<lambda>premium.
         lift_st (Ok (Some (PatchAdd ''/spec/template/osDisk/managedDisk/storageAccountType''
           (PV_string (if premium then PremiumLRS else StandardLRS)))))))
      else lift_st (Ok None))"

definition AzureMachinePool_ensureDataDisks :: "azure_machine_pool \<Rightarrow> (patch_operation option) res" where
  "AzureMachinePool_ensureDataDisks cr =
     (if 0 < length (amp_DataDisks cr) then Ok None
      else Ok (Some (PatchAdd ''/spec/template/dataDisks'' (PV_DataDisks desiredDataDisks))))"

definition AzureMachinePool_ensureLocation ::
    "azuremachinepool_handler \<Rightarrow> azure_machine_pool \<Rightarrow> (patch_operation option) res" where
  "AzureMachinePool_ensureLocation h cr =
     (if 0 < length (amp_Location cr) then Ok None
      else Ok (Some (PatchAdd ''/spec/location'' (PV_string (aph_location h)))))"

definition AzureMachinePool_OnCreateMutate ::
    "lib \<Rightarrow> azuremachinepool_handler \<Rightarrow> object \<Rightarrow> (patch_operation list) vm_prog" where
  "AzureMachinePool_OnCreateMutate L h object =
     bind_st (lift_st (ToAzureMachinePoolPtr object)) (\<lambda>cr.
     bind_st (collect_patches_st
        [lift_st (AzureMachinePool_ensureLocation h cr),
         AzureMachinePool_ensureStorageAccountType h cr,
         lift_st (AzureMachinePool_ensureDataDisks cr),
         lift_st (EnsureReleaseVersionLabel (aph_ctrlClient h) (amp_meta cr)),
         lift_st (CopyAzureOperatorVersionLabelFromAzureClusterCR (aph_ctrlClient h) (amp_meta cr))]) (\<lambda>result.
     lift_st (with_defaults L (lib_AzureMachinePool L) cr [''/spec/template/sshPublicKey''] result)))"

definition AzureMachinePool_OnUpdateMutate :: "lib \<Rightarrow> object \<Rightarrow> object \<Rightarrow> (patch_operation list) res" where
  "AzureMachinePool_OnUpdateMutate L oldObject object =
     bind_res (ToAzureMachinePoolPtr object) (\<lambda>cr.
     with_defaults L (lib_AzureMachinePool L) cr [''/spec/template/sshPublicKey''] [])"

section \<open>Single checks\<close>

definition minMemory :: int where "minMemory = 16"
definition minCPUs :: int where "minCPUs = 4"

definition checkInstanceTypeIsValid :: "sku_api \<Rightarrow> azure_machine_pool \<Rightarrow> unit vm_prog" where
  "checkInstanceTypeIsValid vmcaps cr =
     bind_st (Memory vmcaps (amp_Location cr) (amp_VMSize cr)) (\<lambda>memory.
     bind_st (CPUs vmcaps (amp_Location cr) (amp_VMSize cr)) (\<lambda>cpu.
     lift_st (bind_res (fail_if (memory < minMemory) (amp_err AMP_insufficientMemoryError)) (\<lambda>_.
       fail_if (cpu < minCPUs) (amp_err AMP_insufficientCPUError)))))"

definition isAcceleratedNetworkingSupportedOnVmSize :: "sku_api \<Rightarrow> azure_machine_pool \<Rightarrow> bool vm_prog" where
  "isAcceleratedNetworkingSupportedOnVmSize vmcaps cr =
     HasCapability vmcaps (amp_Location cr) (amp_VMSize cr) CapabilityAcceleratedNetworking"

definition checkAcceleratedNetworking :: "sku_api \<Rightarrow> azure_machine_pool \<Rightarrow> unit vm_prog" where
  "checkAcceleratedNetworking vmcaps cr =
     (if amp_AcceleratedNetworking cr = None \<or> amp_AcceleratedNetworking cr = Some False then lift_st (Ok ())
      else bind_st (isAcceleratedNetworkingSupportedOnVmSize vmcaps cr) (\<lambda>isSupported.
        lift_st (fail_if (\<not> isSupported) (amp_err AMP_vmsizeDoesNotSupportAcceleratedNetworkingError))))"

definition hasAcceleratedNetworkingPropertyChanged :: "azure_machine_pool \<Rightarrow> azure_machine_pool \<Rightarrow> bool" where
  "hasAcceleratedNetworkingPropertyChanged old new =
     (case amp_AcceleratedNetworking old of
        Some a \<Rightarrow> (case amp_AcceleratedNetworking new of Some b \<Rightarrow> a \<noteq> b | None \<Rightarrow> True)
      | None \<Rightarrow> (case amp_AcceleratedNetworking new of Some b \<Rightarrow> True | None \<Rightarrow> False))"

definition checkStorageAccountTypeIsValid :: "sku_api \<Rightarrow> azure_machine_pool \<Rightarrow> unit vm_prog" where
  "checkStorageAccountTypeIsValid vmcaps cr =
     (let selected = amp_StorageAccountType cr in
      if selected \<noteq> StandardLRS \<and> selected \<noteq> PremiumLRS
        then lift_st (Err (amp_err AMP_invalidStorageAccountTypeError))
      else if selected = PremiumLRS then
        bind_st (HasCapability vmcaps (amp_Location cr) (amp_VMSize cr) CapabilityPremiumIO) (\<lambda>supported.
        lift_st (fail_if (\<not> supported) (amp_err AMP_premiumStorageNotSupportedByVMSizeError)))
      else lift_st (Ok ()))"

definition AzureMachinePool_checkSSHKeyIsEmpty :: "azure_machine_pool \<Rightarrow> unit res" where
  "AzureMachinePool_checkSSHKeyIsEmpty cr =
     fail_if (amp_SSHPublicKey cr \<noteq> '''') (amp_err AMP_sshFieldIsSetError)"

definition checkDataDisks :: "azure_machine_pool \<Rightarrow> unit res" where
  "checkDataDisks cr = fail_if (amp_DataDisks cr \<noteq> desiredDataDisks) (amp_err AMP_datadisksFieldIsSetError)"

definition AzureMachinePool_checkLocation :: "azure_machine_pool \<Rightarrow> string \<Rightarrow> unit res" where
  "AzureMachinePool_checkLocation cr expectedLocation =
     fail_if (amp_Location cr \<noteq> expectedLocation) (amp_err AMP_unexpectedLocationError)"

definition AzureMachinePool_checkLocationUnchanged :: "azure_machine_pool \<Rightarrow> azure_machine_pool \<Rightarrow> unit res" where
  "AzureMachinePool_checkLocationUnchanged old new =
     fail_if (amp_Location old \<noteq> amp_Location new) (amp_err AMP_locationWasChangedError)"

definition checkAcceleratedNetworkingUpdateIsValid ::
    "sku_api \<Rightarrow> azure_machine_pool \<Rightarrow> azure_machine_pool \<Rightarrow> unit vm_prog" where
  "checkAcceleratedNetworkingUpdateIsValid vmcaps old new =
     (if hasAcceleratedNetworkingPropertyChanged old new
        then lift_st (Err (amp_err AMP_acceleratedNetworkingWasChangedError))
      else if amp_VMSize old = amp_VMSize new then lift_st (Ok ())
      else checkAcceleratedNetworking vmcaps new)"

text \<open>The refusal names accelerated networking, though the check is about premium storage.\<close>

definition checkInstanceTypeChangeIsValid ::
    "sku_api \<Rightarrow> azure_machine_pool \<Rightarrow> azure_machine_pool \<Rightarrow> unit vm_prog" where
  "checkInstanceTypeChangeIsValid vmcaps old new =
     (if amp_VMSize old \<noteq> amp_VMSize new then
        bind_st (HasCapability vmcaps (amp_Location old) (amp_VMSize old) CapabilityPremiumIO) (\<lambda>oldPremium.
        bind_st (HasCapability vmcaps (amp_Location new) (amp_VMSize new) CapabilityPremiumIO) (\<lambda>newPremium.
        lift_st (fail_if (oldPremium \<and> \<not> newPremium)
          (amp_err AMP_switchToVmSizeThatDoesNotSupportAcceleratedNetworkingError))))
      else lift_st (Ok ()))"

definition checkSpotVMOptionsUnchanged :: "azure_machine_pool \<Rightarrow> azure_machine_pool \<Rightarrow> unit res" where
  "checkSpotVMOptionsUnchanged old new =
     (let changed = Err (amp_err AMP_spotVMOptionsWasChangedError) in
      case (amp_SpotVMOptions old, amp_SpotVMOptions new) of
        (None, None) \<Rightarrow> Ok ()
      | (None, Some n) \<Rightarrow> changed
      | (Some p, None) \<Rightarrow> changed
      | (Some p, Some n) \<Rightarrow>
          (case (spot_MaxPrice p, spot_MaxPrice n) of
             (None, Some b) \<Rightarrow> changed
           | (Some a, None) \<Rightarrow> changed
           | (None, None) \<Rightarrow> Ok ()
           | (Some a, Some b) \<Rightarrow> if a \<noteq> b then changed else Ok ()))"

definition checkStorageAccountTypeUnchanged :: "azure_machine_pool \<Rightarrow> azure_machine_pool \<Rightarrow> unit res" where
  "checkStorageAccountTypeUnchanged old new =
     fail_if (amp_StorageAccountType old \<noteq> amp_StorageAccountType new) (amp_err AMP_storageAccountWasChangedError)"

section \<open>Validation\<close>

definition AzureMachinePool_OnCreateValidate ::
    "lib \<Rightarrow> azuremachinepool_handler \<Rightarrow> object \<Rightarrow> unit vm_prog" where
  "AzureMachinePool_OnCreateValidate L h object =
     bind_st (lift_st (ToAzureMachinePoolPtr object)) (\<lambda>cr.
     bind_st (lift_st (of_error (crd_ValidateCreate (lib_AzureMachinePool L) cr))) (\<lambda>_.
     bind_st (lift_st (ValidateOrganizationLabelMatchesCluster (aph_ctrlClient h) (amp_meta cr))) (\<lambda>_.
     bind_st (checkInstanceTypeIsValid (aph_vmcaps h) cr) (\<lambda>_.
     bind_st (checkAcceleratedNetworking (aph_vmcaps h) cr) (\<lambda>_.
     bind_st (checkStorageAccountTypeIsValid (aph_vmcaps h) cr) (\<lambda>_.
     bind_st (lift_st (AzureMachinePool_checkSSHKeyIsEmpty cr)) (\<lambda>_.
     bind_st (lift_st (checkDataDisks cr)) (\<lambda>_.
     lift_st (AzureMachinePool_checkLocation cr (aph_location h))))))))))"

definition AzureMachinePool_OnUpdateValidate ::
    "lib \<Rightarrow> azuremachinepool_handler \<Rightarrow> object \<Rightarrow> object \<Rightarrow> unit vm_prog" where
  "AzureMachinePool_OnUpdateValidate L h oldObject object =
     bind_st (lift_st (ToAzureMachinePoolPtr object)) (\<lambda>new.
     if being_deleted (amp_meta new) then lift_st (Ok ())
     else
       bind_st (lift_st (ToAzureMachinePoolPtr oldObject)) (\<lambda>old.
       bind_st (lift_st (IsCAPIRelease (lib_semver L) (amp_meta new))) (\<lambda>capi.
       if capi then lift_st (Ok ())
       else
         bind_st (lift_st (of_error (crd_ValidateUpdate (lib_AzureMachinePool L) old new))) (\<lambda>_.
         bind_st (lift_st (ValidateOrganizationLabelUnchanged (amp_meta old) (amp_meta new))) (\<lambda>_.
         bind_st (checkInstanceTypeIsValid (aph_vmcaps h) new) (\<lambda>_.
         bind_st (checkAcceleratedNetworkingUpdateIsValid (aph_vmcaps h) old new) (\<lambda>_.
         bind_st (checkInstanceTypeChangeIsValid (aph_vmcaps h) old new) (\<lambda>_.
         bind_st (lift_st (checkSpotVMOptionsUnchanged old new)) (\<lambda>_.
         bind_st (lift_st (checkStorageAccountTypeUnchanged old new)) (\<lambda>_.
         bind_st (lift_st (AzureMachinePool_checkSSHKeyIsEmpty new)) (\<lambda>_.
         bind_st (lift_st (checkDataDisks new)) (\<lambda>_.
         lift_st (AzureMachinePool_checkLocationUnchanged old new)))))))))))))"

section \<open>What a machine type must offer\<close>

text \<open>The answers about a machine type that a state of the cache has settled.\<close>

definition big_enough :: "sku_api \<Rightarrow> vmsku \<Rightarrow> azure_machine_pool \<Rightarrow> bool" where
  "big_enough azure s c \<longleftrightarrow>
     (\<exists>m. Memory azure (amp_Location c) (amp_VMSize c) s = (Ok m, s) \<and> 16 \<le> m) \<and>
     (\<exists>n. CPUs azure (amp_Location c) (amp_VMSize c) s = (Ok n, s) \<and> 4 \<le> n)"

definition supports :: "sku_api \<Rightarrow> vmsku \<Rightarrow> azure_machine_pool \<Rightarrow> string \<Rightarrow> bool" where
  "supports azure s c name \<longleftrightarrow> HasCapability azure (amp_Location c) (amp_VMSize c) name s = (Ok True, s)"

definition capabilities_fit :: "sku_api \<Rightarrow> vmsku \<Rightarrow> azure_machine_pool \<Rightarrow> bool" where
  "capabilities_fit azure s c \<longleftrightarrow> big_enough azure s c \<and>
     (amp_AcceleratedNetworking c = Some True \<longrightarrow> supports azure s c CapabilityAcceleratedNetworking) \<and>
     amp_StorageAccountType c \<in> {StandardLRS, PremiumLRS} \<and>
     (amp_StorageAccountType c = PremiumLRS \<longrightarrow> supports azure s c CapabilityPremiumIO)"

lemma LRS_simps [simp]: "StandardLRS \<noteq> PremiumLRS" "PremiumLRS \<noteq> StandardLRS" "PremiumLRS \<noteq> ''''" "StandardLRS \<noteq> ''''"
  by (simp_all add: StandardLRS_def PremiumLRS_def)

lemma ToAzureMachinePoolPtr_ObjAzureMachinePool [simp]: "ToAzureMachinePoolPtr (ObjAzureMachinePool c) = Ok c"
  by (simp add: ToAzureMachinePoolPtr_def)

lemma checkInstanceTypeIsValid_Ok:
  assumes "checkInstanceTypeIsValid azure c s = (Ok u, s')"
  shows "vm_extends s s'" and "vm_extends s' t \<Longrightarrow> big_enough azure t c"
proof -
  from assms obtain m n s1 where *: "Memory azure (amp_Location c) (amp_VMSize c) s = (Ok m, s1)"
    "CPUs azure (amp_Location c) (amp_VMSize c) s1 = (Ok n, s')" "16 \<le> m" "4 \<le> n"
    by (auto simp: checkInstanceTypeIsValid_def outcome_simps minMemory_def minCPUs_def)
  then show "vm_extends s s'" by (blast intro: vm_extends_trans question_extends)
  assume "vm_extends s' t"
  moreover from this *(2) have "vm_extends s1 t" by (blast intro: vm_extends_trans question_extends)
  ultimately show "big_enough azure t c"
    using *(3,4) settled_questions(1) [OF *(2)] settled_questions(2) [OF *(1)] by (auto simp: big_enough_def)
qed

lemma checkAcceleratedNetworking_Ok:
  assumes "checkAcceleratedNetworking azure c s = (Ok u, s')"
  shows "vm_extends s s'"
    and "vm_extends s' t \<Longrightarrow> amp_AcceleratedNetworking c = Some True \<Longrightarrow>
      supports azure t c CapabilityAcceleratedNetworking"
  using assms
  by (auto simp: checkAcceleratedNetworking_def isAcceleratedNetworkingSupportedOnVmSize_def outcome_simps
      supports_def split: if_splits dest: question_extends intro: settled_questions)

lemma checkStorageAccountTypeIsValid_Ok:
  assumes "checkStorageAccountTypeIsValid azure c s = (Ok u, s')"
  shows "vm_extends s s'" and "amp_StorageAccountType c \<in> {StandardLRS, PremiumLRS}"
    and "vm_extends s' t \<Longrightarrow> amp_StorageAccountType c = PremiumLRS \<Longrightarrow> supports azure t c CapabilityPremiumIO"
  using assms
  by (auto simp: checkStorageAccountTypeIsValid_def Let_def outcome_simps supports_def split: if_splits
      dest: question_extends intro: settled_questions)

lemma settled_checks:
  "big_enough azure s c \<Longrightarrow> checkInstanceTypeIsValid azure c s = (Ok (), s)"
  "(amp_AcceleratedNetworking c = Some True \<Longrightarrow> supports azure s c CapabilityAcceleratedNetworking) \<Longrightarrow>
     checkAcceleratedNetworking azure c s = (Ok (), s)"
  "amp_StorageAccountType c \<in> {StandardLRS, PremiumLRS} \<Longrightarrow>
     (amp_StorageAccountType c = PremiumLRS \<Longrightarrow> supports azure s c CapabilityPremiumIO) \<Longrightarrow>
     checkStorageAccountTypeIsValid azure c s = (Ok (), s)"
  by (auto simp: big_enough_def checkInstanceTypeIsValid_def checkAcceleratedNetworking_def
      isAcceleratedNetworkingSupportedOnVmSize_def checkStorageAccountTypeIsValid_def supports_def
      minMemory_def minCPUs_def outcome_simps Let_def split: if_splits)

definition pool_fields_fit :: "lib \<Rightarrow> azuremachinepool_handler \<Rightarrow> azure_machine_pool \<Rightarrow> bool" where
  "pool_fields_fit L h c \<longleftrightarrow> crd_ValidateCreate (lib_AzureMachinePool L) c = None \<and>
     ValidateOrganizationLabelMatchesCluster (aph_ctrlClient h) (amp_meta c) = Ok () \<and>
     amp_SSHPublicKey c = '''' \<and> amp_DataDisks c = desiredDataDisks \<and> amp_Location c = aph_location h"

text \<open>C9. A new node pool is admitted exactly when its fields fit and its machine type has the memory,
  the CPUs and the capabilities the pool asks for, by the answers the cache then holds; such a pool
  is admitted without any further question to Azure.\<close>

theorem pool_create_accepted:
  "(AzureMachinePool_OnCreateValidate L h (ObjAzureMachinePool c) s = (Ok (), s') \<longrightarrow>
      pool_fields_fit L h c \<and> capabilities_fit (aph_vmcaps h) s' c) \<and>
   (pool_fields_fit L h c \<and> capabilities_fit (aph_vmcaps h) s c \<longrightarrow>
      AzureMachinePool_OnCreateValidate L h (ObjAzureMachinePool c) s = (Ok (), s))"
proof (intro conjI impI)
  assume "AzureMachinePool_OnCreateValidate L h (ObjAzureMachinePool c) s = (Ok (), s')"
  then obtain s1 s2 where s: "checkInstanceTypeIsValid (aph_vmcaps h) c s = (Ok (), s1)"
    "checkAcceleratedNetworking (aph_vmcaps h) c s1 = (Ok (), s2)"
    "checkStorageAccountTypeIsValid (aph_vmcaps h) c s2 = (Ok (), s')" "pool_fields_fit L h c"
    by (auto simp: AzureMachinePool_OnCreateValidate_def pool_fields_fit_def outcome_simps
        AzureMachinePool_checkSSHKeyIsEmpty_def checkDataDisks_def AzureMachinePool_checkLocation_def
        simp del: organization_matches_cluster)
  then show "pool_fields_fit L h c" by simp
  have "vm_extends s2 s'" "vm_extends s1 s'"
    using checkStorageAccountTypeIsValid_Ok(1) [OF s(3)] checkAcceleratedNetworking_Ok(1) [OF s(2)]
    by (blast intro: vm_extends_trans)+
  then show "capabilities_fit (aph_vmcaps h) s' c"
    using checkInstanceTypeIsValid_Ok(2) [OF s(1)] checkAcceleratedNetworking_Ok(2) [OF s(2)]
      checkStorageAccountTypeIsValid_Ok(2,3) [OF s(3)]
    by (auto simp: capabilities_fit_def)
next
  assume "pool_fields_fit L h c \<and> capabilities_fit (aph_vmcaps h) s c"
  then have "checkInstanceTypeIsValid (aph_vmcaps h) c s = (Ok (), s)"
    "checkAcceleratedNetworking (aph_vmcaps h) c s = (Ok (), s)"
    "checkStorageAccountTypeIsValid (aph_vmcaps h) c s = (Ok (), s)" "pool_fields_fit L h c"
    by (auto simp: capabilities_fit_def intro!: settled_checks)
  then show "AzureMachinePool_OnCreateValidate L h (ObjAzureMachinePool c) s = (Ok (), s)"
    by (auto simp: AzureMachinePool_OnCreateValidate_def pool_fields_fit_def outcome_simps
        AzureMachinePool_checkSSHKeyIsEmpty_def checkDataDisks_def AzureMachinePool_checkLocation_def
        simp del: organization_matches_cluster)
qed

section \<open>Mutation prepares validation\<close>

definition apply_pool_patch :: "azure_machine_pool \<Rightarrow> patch_operation \<Rightarrow> azure_machine_pool" where
  "apply_pool_patch c p =
     c\<lparr>amp_meta := patch_meta (amp_meta c) p,
       amp_Location := patch_string ''/spec/location'' (amp_Location c) p,
       amp_StorageAccountType :=
         patch_string ''/spec/template/osDisk/managedDisk/storageAccountType'' (amp_StorageAccountType c) p,
       amp_DataDisks := (case po_Value p of
          PV_DataDisks d \<Rightarrow> if patch_sets p ''/spec/template/dataDisks'' then d else amp_DataDisks c
        | _ \<Rightarrow> amp_DataDisks c)\<rparr>"

definition apply_pool_patches :: "azure_machine_pool \<Rightarrow> patch_operation list \<Rightarrow> azure_machine_pool" where
  "apply_pool_patches c ps = foldl apply_pool_patch c ps"

lemma apply_pool_patch_simps [simp]:
  "apply_pool_patch c (PatchAdd (label_path l) (PV_string v)) =
     c\<lparr>amp_meta := (amp_meta c)\<lparr>om_labels := (om_labels (amp_meta c))(l \<mapsto> v)\<rparr>\<rparr>"
  "apply_pool_patch c (PatchAdd ''/spec/location'' (PV_string s)) = c\<lparr>amp_Location := s\<rparr>"
  "apply_pool_patch c (PatchAdd ''/spec/template/dataDisks'' (PV_DataDisks d)) = c\<lparr>amp_DataDisks := d\<rparr>"
  "apply_pool_patch c (PatchAdd ''/spec/template/osDisk/managedDisk/storageAccountType'' (PV_string s)) =
     c\<lparr>amp_StorageAccountType := s\<rparr>"
  by (cases c; simp add: apply_pool_patch_def; simp add: PatchAdd_def patch_sets_def patch_string_def)+

lemma release_label_patch_cases:
  assumes "EnsureReleaseVersionLabel k m = Ok r"
  obtains "r = None" "mget (om_labels m) label_ReleaseVersion \<noteq> ''''"
  | v where "r = Some (PatchAdd (label_path label_ReleaseVersion) (PV_string v))" "v \<noteq> ''''"
  using assms release_label.kept [of k m] release_label.added [of k m] by (cases r) auto

lemma ensureStorageAccountType_cases:
  assumes "AzureMachinePool_ensureStorageAccountType h c s = (Ok r, s')"
  obtains "r = None" "amp_StorageAccountType c \<noteq> ''''" "s' = s"
  | b where "r = Some (PatchAdd ''/spec/template/osDisk/managedDisk/storageAccountType''
        (PV_string (if b then PremiumLRS else StandardLRS)))"
      "HasCapability (aph_vmcaps h) (if amp_Location c = '''' then aph_location h else amp_Location c)
         (amp_VMSize c) CapabilityPremiumIO s = (Ok b, s')"
  using assms by (auto simp: AzureMachinePool_ensureStorageAccountType_def Let_def outcome_simps split: if_splits)

text \<open>A node pool that leaves storage account type and data disks to the handler gets a storage
  account type its machine type supports at its location, the reserved data disks, and both version
  labels: the checks of these fields pass on the patched pool.\<close>

theorem pool_create_mutation_fits:
  assumes "AzureMachinePool_OnCreateMutate L h (ObjAzureMachinePool c) s = (Ok ps, s')"
    and "amp_StorageAccountType c = ''''" and "amp_DataDisks c = []" and "amp_Location c \<in> {'''', aph_location h}"
  shows "\<exists>own capi c'. ps = own @ capi \<and> c' = apply_pool_patches c own \<and>
     checkStorageAccountTypeIsValid (aph_vmcaps h) c' s' = (Ok (), s') \<and>
     checkDataDisks c' = Ok () \<and> AzureMachinePool_checkLocation c' (aph_location h) = Ok () \<and>
     mget (om_labels (amp_meta c')) label_ReleaseVersion \<noteq> '''' \<and>
     mget (om_labels (amp_meta c')) label_AzureOperatorVersion \<noteq> ''''"
proof -
  obtain q r1 r2 capi where
    q: "AzureMachinePool_ensureStorageAccountType h c s = (Ok q, s')" and
    r: "EnsureReleaseVersionLabel (aph_ctrlClient h) (amp_meta c) = Ok r1"
       "CopyAzureOperatorVersionLabelFromAzureClusterCR (aph_ctrlClient h) (amp_meta c) = Ok r2" and
    ps: "ps = (opt_patch (if 0 < length (amp_Location c) then None
            else Some (PatchAdd ''/spec/location'' (PV_string (aph_location h)))) @ opt_patch q @
       opt_patch (Some (PatchAdd ''/spec/template/dataDisks'' (PV_DataDisks desiredDataDisks))) @
       opt_patch r1 @ opt_patch r2) @ capi" (is "_ = ?own @ _")
    using assms(1,3)
    by (auto simp: AzureMachinePool_OnCreateMutate_def AzureMachinePool_ensureLocation_def
        AzureMachinePool_ensureDataDisks_def outcome_simps split: if_splits)
  from q assms(2) obtain b where b: "q = Some (PatchAdd ''/spec/template/osDisk/managedDisk/storageAccountType''
        (PV_string (if b then PremiumLRS else StandardLRS)))"
      "HasCapability (aph_vmcaps h) (aph_location h) (amp_VMSize c) CapabilityPremiumIO s = (Ok b, s')"
    using assms(4) by (elim ensureStorageAccountType_cases) (auto split: if_splits)
  let ?c' = "apply_pool_patches c ?own"
  have c': "amp_Location ?c' = aph_location h \<and> amp_DataDisks ?c' = desiredDataDisks \<and>
      amp_StorageAccountType ?c' = (if b then PremiumLRS else StandardLRS) \<and> amp_VMSize ?c' = amp_VMSize c \<and>
      mget (om_labels (amp_meta ?c')) label_ReleaseVersion \<noteq> '''' \<and>
      mget (om_labels (amp_meta ?c')) label_AzureOperatorVersion \<noteq> ''''"
    using r assms(4) operator_labels_differ
    by (elim release_label_patch_cases operator_label_patch_cases) (auto simp: apply_pool_patches_def b(1))
  moreover have "supports (aph_vmcaps h) s' ?c' CapabilityPremiumIO" if b
    using that c' settled_questions(3) [OF b(2), of s'] by (simp add: supports_def)
  ultimately show ?thesis
    using ps by (intro exI [of _ ?own] exI [of _ capi] exI [of _ ?c'])
      (auto simp: checkDataDisks_def AzureMachinePool_checkLocation_def intro!: settled_checks split: if_splits)
qed

section \<open>Updates\<close>

definition spot_view :: "azure_machine_pool \<Rightarrow> string option option" where
  "spot_view c = map_option spot_MaxPrice (amp_SpotVMOptions c)"

interpretation pool_spot: unchanged_check checkSpotVMOptionsUnchanged spot_view
  by unfold_locales
    (auto simp: checkSpotVMOptionsUnchanged_def spot_view_def Let_def split: option.splits if_splits)

interpretation pool_storage: unchanged_check checkStorageAccountTypeUnchanged amp_StorageAccountType
  by unfold_locales (auto simp: checkStorageAccountTypeUnchanged_def outcome_simps)

interpretation pool_location: unchanged_check AzureMachinePool_checkLocationUnchanged amp_Location
  by unfold_locales (auto simp: AzureMachinePool_checkLocationUnchanged_def outcome_simps)

lemma hasAcceleratedNetworkingPropertyChanged_iff:
  "hasAcceleratedNetworkingPropertyChanged old new \<longleftrightarrow> amp_AcceleratedNetworking old \<noteq> amp_AcceleratedNetworking new"
  by (auto simp: hasAcceleratedNetworkingPropertyChanged_def split: option.splits)

text \<open>The pools the update checks apply to: those not being deleted, on a release before Cluster API.\<close>

definition unguarded_pool :: "lib \<Rightarrow> azure_machine_pool \<Rightarrow> bool" where
  "unguarded_pool L c \<longleftrightarrow> being_deleted (amp_meta c) \<or> IsCAPIRelease (lib_semver L) (amp_meta c) = Ok True"

lemma pool_update_Ok:
  assumes "AzureMachinePool_OnUpdateValidate L h (ObjAzureMachinePool old) (ObjAzureMachinePool new) s = (Ok u, s')"
    and "\<not> unguarded_pool L new"
  obtains s1 s2 where
    "ValidateOrganizationLabelUnchanged (amp_meta old) (amp_meta new) = Ok ()"
    "checkInstanceTypeIsValid (aph_vmcaps h) new s = (Ok (), s1)"
    "checkAcceleratedNetworkingUpdateIsValid (aph_vmcaps h) old new s1 = (Ok (), s2)"
    "checkInstanceTypeChangeIsValid (aph_vmcaps h) old new s2 = (Ok (), s')"
    "spot_view old = spot_view new" "amp_StorageAccountType old = amp_StorageAccountType new"
    "amp_SSHPublicKey new = ''''" "amp_DataDisks new = desiredDataDisks" "amp_Location old = amp_Location new"
  using assms
  by (auto simp: AzureMachinePool_OnUpdateValidate_def unguarded_pool_def outcome_simps
      pool_spot.accepts_iff pool_storage.accepts_iff pool_location.accepts_iff
      AzureMachinePool_checkSSHKeyIsEmpty_def checkDataDisks_def
      simp del: organization_label_check split: if_splits)

lemma checkAcceleratedNetworkingUpdateIsValid_Ok:
  assumes "checkAcceleratedNetworkingUpdateIsValid azure old new s = (Ok u, s')"
  shows "amp_AcceleratedNetworking old = amp_AcceleratedNetworking new" "vm_extends s s'"
    "vm_extends s' t \<Longrightarrow> amp_VMSize old \<noteq> amp_VMSize new \<Longrightarrow> amp_AcceleratedNetworking new = Some True \<Longrightarrow>
       supports azure t new CapabilityAcceleratedNetworking"
  using assms checkAcceleratedNetworking_Ok
  by (auto simp: checkAcceleratedNetworkingUpdateIsValid_def hasAcceleratedNetworkingPropertyChanged_iff
      outcome_simps split: if_splits)

lemma checkInstanceTypeChangeIsValid_Ok:
  assumes "checkInstanceTypeChangeIsValid azure old new s = (Ok u, s')"
  shows "vm_extends s s'"
    "amp_VMSize old \<noteq> amp_VMSize new \<Longrightarrow> supports azure s' old CapabilityPremiumIO \<Longrightarrow>
       supports azure s' new CapabilityPremiumIO"
proof -
  show "vm_extends s s'"
    using assms
    by (auto simp: checkInstanceTypeChangeIsValid_def outcome_simps split: if_splits
        dest!: question_extends intro: vm_extends_trans)
  assume "amp_VMSize old \<noteq> amp_VMSize new" and old: "supports azure s' old CapabilityPremiumIO"
  with assms obtain a b s1 where
    ab: "HasCapability azure (amp_Location old) (amp_VMSize old) CapabilityPremiumIO s = (Ok a, s1)"
    "HasCapability azure (amp_Location new) (amp_VMSize new) CapabilityPremiumIO s1 = (Ok b, s')" "a \<longrightarrow> b"
    by (auto simp: checkInstanceTypeChangeIsValid_def outcome_simps)
  have "HasCapability azure (amp_Location old) (amp_VMSize old) CapabilityPremiumIO s' = (Ok a, s')"
    using settled_questions(3) [OF ab(1)] question_extends(3) [OF ab(2)] by blast
  with old have a by (simp add: supports_def)
  with ab(2,3) settled_questions(3) [OF ab(2), of s'] show "supports azure s' new CapabilityPremiumIO"
    by (simp add: supports_def)
qed

text \<open>C26. An accepted update of a guarded pool, one that is not being deleted and not of a release reconciled
  upstream, ends on a machine type with the minimal CPUs and memory; and when the update changes the machine
  type, the new one supports accelerated networking if the pool has it switched on, and has premium storage if
  the old type had it.\<close>

theorem pool_update_keeps_capabilities:
  assumes "AzureMachinePool_OnUpdateValidate L h (ObjAzureMachinePool old) (ObjAzureMachinePool new) s = (Ok (), s')"
    and "\<not> unguarded_pool L new"
  shows "big_enough (aph_vmcaps h) s' new \<and>
     (amp_VMSize old \<noteq> amp_VMSize new \<longrightarrow>
        (amp_AcceleratedNetworking new = Some True \<longrightarrow> supports (aph_vmcaps h) s' new CapabilityAcceleratedNetworking) \<and>
        (supports (aph_vmcaps h) s' old CapabilityPremiumIO \<longrightarrow> supports (aph_vmcaps h) s' new CapabilityPremiumIO))"
proof -
  obtain s1 s2 where s: "checkInstanceTypeIsValid (aph_vmcaps h) new s = (Ok (), s1)"
    "checkAcceleratedNetworkingUpdateIsValid (aph_vmcaps h) old new s1 = (Ok (), s2)"
    "checkInstanceTypeChangeIsValid (aph_vmcaps h) old new s2 = (Ok (), s')"
    using assms by (elim pool_update_Ok)
  have "vm_extends s2 s'" "vm_extends s1 s'"
    using checkInstanceTypeChangeIsValid_Ok(1) [OF s(3)] checkAcceleratedNetworkingUpdateIsValid_Ok(2) [OF s(2)]
    by (blast intro: vm_extends_trans)+
  then show ?thesis
    using checkInstanceTypeIsValid_Ok(2) [OF s(1)] checkAcceleratedNetworkingUpdateIsValid_Ok(3) [OF s(2)]
      checkInstanceTypeChangeIsValid_Ok(2) [OF s(3)]
    by blast
qed

definition pool_step :: "lib \<Rightarrow> azuremachinepool_handler \<Rightarrow> azure_machine_pool \<Rightarrow> azure_machine_pool \<Rightarrow> bool" where
  "pool_step L h old new \<longleftrightarrow>
     (\<exists>s s'. AzureMachinePool_OnUpdateValidate L h (ObjAzureMachinePool old) (ObjAzureMachinePool new) s = (Ok (), s'))"

interpretation pool_update: guarded_update "pool_step L h" "unguarded_pool L"
    "\<lambda>c. (amp_Location c, amp_StorageAccountType c, spot_view c, amp_AcceleratedNetworking c,
          om_labels (amp_meta c) label_Organization)"
  for L h
  by unfold_locales
    (auto simp: pool_step_def organization_label_check
      elim!: pool_update_Ok dest!: checkAcceleratedNetworkingUpdateIsValid_Ok(1))

text \<open>Over any history of accepted updates, while the checks apply to it, a node pool keeps its
  location, storage account type, spot options, accelerated networking setting and organization.\<close>

theorem pool_identity_is_constant:
  assumes "(\<lambda>old new. pool_step L h old new \<and> \<not> unguarded_pool L new)\<^sup>*\<^sup>* a b"
  shows "amp_Location a = amp_Location b \<and> amp_StorageAccountType a = amp_StorageAccountType b \<and>
     spot_view a = spot_view b \<and> amp_AcceleratedNetworking a = amp_AcceleratedNetworking b \<and>
     om_labels (amp_meta a) label_Organization = om_labels (amp_meta b) label_Organization"
  using pool_update.view_constant [OF assms] by simp

section \<open>A node pool for the witnesses\<close>

definition demo_pool_handler :: azuremachinepool_handler where
  "demo_pool_handler = \<lparr>aph_ctrlClient = demo_org_kube [] demo_labels, aph_decoder = demo_decoder,
     aph_location = ''westeurope'', aph_vmcaps = demo_sku_api\<rparr>"

definition demo_pool :: "str_map \<Rightarrow> string \<Rightarrow> data_disk list \<Rightarrow> azure_machine_pool" where
  "demo_pool ls storage disks = \<lparr>amp_meta = demo_meta ''p'' ls Map.empty, amp_Location = ''westeurope'',
     amp_VMSize = ''D4'', amp_SSHPublicKey = '''', amp_AcceleratedNetworking = Some True,
     amp_SpotVMOptions = None, amp_StorageAccountType = storage, amp_DataDisks = disks, amp_rest = ''''\<rparr>"

lemma demo_org_kube_simps [simp]:
  "kube_listClusters (demo_org_kube rs ls) v = Inr [demo_org_cluster]"
  "kube_getAzureCluster (demo_org_kube rs ls) ns n = Inr (demo_azure_cluster ls)"
  "om_labels (cl_meta demo_org_cluster) label_Organization = Some ''acme''"
  by (simp_all add: demo_org_kube_def demo_installation_def demo_org_cluster_def)

lemma demo_pool_fits:
  "pool_fields_fit demo_lib demo_pool_handler (demo_pool demo_labels PremiumLRS desiredDataDisks)"
  "capabilities_fit demo_sku_api demo_vm_cached (demo_pool demo_labels PremiumLRS desiredDataDisks)"
  by (simp_all add: pool_fields_fit_def demo_pool_handler_def demo_pool_def organization_matches_cluster
      capabilities_fit_def big_enough_def supports_def demo_answers)

theorem pool_create_accepted_witness:
  "AzureMachinePool_OnCreateValidate demo_lib demo_pool_handler
     (ObjAzureMachinePool (demo_pool demo_labels PremiumLRS desiredDataDisks)) demo_vm_cached = (Ok (), demo_vm_cached)"
  using pool_create_accepted [of demo_lib demo_pool_handler "demo_pool demo_labels PremiumLRS desiredDataDisks"
      demo_vm_cached demo_vm_cached] demo_pool_fits
  by (simp add: demo_pool_handler_def)

definition demo_pool_labels :: str_map where
  "demo_pool_labels = [label_Organization \<mapsto> ''acme'']"

lemma demo_pool_unreleased:
  "IsCAPIRelease demo_semver (amp_meta (demo_pool demo_pool_labels st ds)) = Ok False"
  "om_labels (amp_meta (demo_pool demo_pool_labels st ds)) label_Organization = Some ''acme''"
  "\<not> being_deleted (amp_meta (demo_pool demo_pool_labels st ds))"
  by (simp_all add: IsCAPIRelease_def demo_pool_def demo_pool_labels_def mget_def label_Organization_def
      label_ReleaseVersion_def)

lemma demo_pool_guarded: "\<not> unguarded_pool demo_lib (demo_pool demo_pool_labels st ds)"
  by (simp add: unguarded_pool_def demo_pool_unreleased)

lemma demo_pool_update:
  "AzureMachinePool_OnUpdateValidate demo_lib demo_pool_handler
     (ObjAzureMachinePool (demo_pool demo_pool_labels PremiumLRS []))
     (ObjAzureMachinePool (demo_pool demo_pool_labels PremiumLRS desiredDataDisks)) demo_vm_cached =
   (Ok (), demo_vm_cached)"
proof -
  let ?a = "demo_pool demo_pool_labels PremiumLRS []" and ?b = "demo_pool demo_pool_labels PremiumLRS desiredDataDisks"
  have "checkInstanceTypeIsValid demo_sku_api ?b demo_vm_cached = (Ok (), demo_vm_cached)"
    by (rule settled_checks) (simp add: big_enough_def demo_pool_def demo_answers)
  moreover have "checkAcceleratedNetworkingUpdateIsValid demo_sku_api ?a ?b demo_vm_cached = (Ok (), demo_vm_cached)"
    "checkInstanceTypeChangeIsValid demo_sku_api ?a ?b demo_vm_cached = (Ok (), demo_vm_cached)"
    by (simp_all add: checkAcceleratedNetworkingUpdateIsValid_def hasAcceleratedNetworkingPropertyChanged_iff
        checkInstanceTypeChangeIsValid_def demo_pool_def outcome_simps)
  moreover have "checkSpotVMOptionsUnchanged ?a ?b = Ok ()" "checkStorageAccountTypeUnchanged ?a ?b = Ok ()"
    "AzureMachinePool_checkSSHKeyIsEmpty ?b = Ok ()" "checkDataDisks ?b = Ok ()"
    "AzureMachinePool_checkLocationUnchanged ?a ?b = Ok ()"
    by (simp_all add: checkSpotVMOptionsUnchanged_def Let_def checkStorageAccountTypeUnchanged_def
        AzureMachinePool_checkSSHKeyIsEmpty_def checkDataDisks_def AzureMachinePool_checkLocationUnchanged_def
        demo_pool_def outcome_simps)
  moreover have "ValidateOrganizationLabelUnchanged (amp_meta ?a) (amp_meta ?b) = Ok ()"
    by (simp add: organization_label_check demo_pool_unreleased)
  ultimately show ?thesis
    by (simp add: AzureMachinePool_OnUpdateValidate_def demo_pool_unreleased demo_pool_handler_def bind_st_def lift_st_def)
qed

theorem pool_update_keeps_capabilities_witness:
  "big_enough demo_sku_api demo_vm_cached (demo_pool demo_pool_labels PremiumLRS desiredDataDisks)"
  using pool_update_keeps_capabilities [OF demo_pool_update demo_pool_guarded]
  by (simp add: demo_pool_handler_def)

theorem pool_identity_is_constant_witness:
  "om_labels (amp_meta (demo_pool demo_pool_labels PremiumLRS [])) label_Organization =
   om_labels (amp_meta (demo_pool demo_pool_labels PremiumLRS desiredDataDisks)) label_Organization"
proof -
  have "(\<lambda>old new. pool_step demo_lib demo_pool_handler old new \<and> \<not> unguarded_pool demo_lib new)\<^sup>*\<^sup>*
      (demo_pool demo_pool_labels PremiumLRS []) (demo_pool demo_pool_labels PremiumLRS desiredDataDisks)"
    using demo_pool_update by (intro r_into_rtranclp) (auto simp: pool_step_def demo_pool_guarded)
  from pool_identity_is_constant [OF this] show ?thesis by blast
qed

definition demo_versioned_labels :: str_map where
  "demo_versioned_labels = demo_labels(label_AzureOperatorVersion \<mapsto> ''5.0.0'')"

lemma demo_pool_mutation:
  "\<exists>ps. AzureMachinePool_OnCreateMutate demo_lib demo_pool_handler
     (ObjAzureMachinePool (demo_pool demo_versioned_labels '''' [])) demo_vm_empty = (Ok ps, demo_vm_cached)"
proof -
  let ?c = "demo_pool demo_versioned_labels '''' []"
  have "mget (om_labels (amp_meta ?c)) label_AzureOperatorVersion = ''5.0.0''"
    "mget (om_labels (amp_meta ?c)) label_ReleaseVersion = ''v1.0.0''"
    using operator_labels_differ by (simp_all add: demo_pool_def demo_versioned_labels_def mget_def)
  then have "EnsureReleaseVersionLabel k (amp_meta ?c) = Ok None"
    "CopyAzureOperatorVersionLabelFromAzureClusterCR k (amp_meta ?c) = Ok None" for k
    by (simp_all add: EnsureReleaseVersionLabel_def CopyAzureOperatorVersionLabelFromAzureClusterCR_def)
  moreover have "AzureMachinePool_ensureStorageAccountType demo_pool_handler ?c demo_vm_empty =
      (Ok (Some (PatchAdd ''/spec/template/osDisk/managedDisk/storageAccountType'' (PV_string PremiumLRS))), demo_vm_cached)"
    by (simp add: AzureMachinePool_ensureStorageAccountType_def demo_pool_def demo_pool_handler_def
        demo_answers outcome_simps Let_def exI [of _ True])
  moreover have "AzureMachinePool_ensureLocation demo_pool_handler ?c = Ok None"
    "AzureMachinePool_ensureDataDisks ?c = Ok (Some (PatchAdd ''/spec/template/dataDisks'' (PV_DataDisks desiredDataDisks)))"
    by (simp_all add: AzureMachinePool_ensureLocation_def AzureMachinePool_ensureDataDisks_def demo_pool_def)
  ultimately show ?thesis
    by (simp add: AzureMachinePool_OnCreateMutate_def GenerateFromObjectDiff_def outcome_simps)
qed

theorem pool_create_mutation_fits_witness:
  "\<exists>c'. checkStorageAccountTypeIsValid demo_sku_api c' demo_vm_cached = (Ok (), demo_vm_cached) \<and> checkDataDisks c' = Ok ()"
proof -
  obtain ps where "AzureMachinePool_OnCreateMutate demo_lib demo_pool_handler
     (ObjAzureMachinePool (demo_pool demo_versioned_labels '''' [])) demo_vm_empty = (Ok ps, demo_vm_cached)"
    using demo_pool_mutation by blast
  from pool_create_mutation_fits [OF this] show ?thesis
    by (auto simp: demo_pool_def demo_pool_handler_def)
qed

end
