(* ===== verification/MachinePool.thy ===== *)
theory MachinePool
  imports Webhook VMCaps
begin

text \<open>
  The webhooks of the MachinePool resource (\<^verbatim>\<open>pkg/machinepool\<close>): the annotations the cluster
  autoscaler reads, and the availability zones.
\<close>

section \<open>The handler\<close>

record machinepool_handler =
  mph_ctrlClient :: kube_api
  mph_decoder :: decoder
  mph_vmcaps :: sku_api

record machinepool_handler_config =
  mphc_CtrlClient :: "kube_api option"
  mphc_Decoder :: "decoder option"
  mphc_Logger :: "unit option"
  mphc_VMcaps :: "sku_api option"

definition machinepool_err :: "machinepool_error \<Rightarrow> go_error" where
  "machinepool_err e = Micro (E_machinepool e)"

definition MachinePool_NewWebhookHandler :: "machinepool_handler_config \<Rightarrow> machinepool_handler res" where
  "MachinePool_NewWebhookHandler config =
     (let invalid = machinepool_err MachinePool_invalidConfigError in
      bind_res (need (mphc_CtrlClient config) invalid) (\<lambda>ctrlClient.
      bind_res (need (mphc_Decoder config) invalid) (\<lambda>decoder.
      bind_res (need (mphc_Logger config) invalid) (\<lambda>logger.
      bind_res (need (mphc_VMcaps config) invalid) (\<lambda>vmcaps.
      Ok \<lparr>mph_ctrlClient = ctrlClient, mph_decoder = decoder, mph_vmcaps = vmcaps\<rparr>)))))"

definition MachinePool_Resource :: string where
  "MachinePool_Resource = ''machinepool''"

definition MachinePool_Decode :: "machinepool_handler \<Rightarrow> string \<Rightarrow> object res" where
  "MachinePool_Decode h raw = decode_with ObjMachinePool (dec_MachinePool (mph_decoder h)) raw"

section \<open>Autoscaling annotations\<close>

definition defaultReplicas :: int where "defaultReplicas = 1"

text \<open>The package has its own copy of the escape for JSON pointers.\<close>

definition MachinePool_escapeJSONPatchString :: "string \<Rightarrow> string" where
  "MachinePool_escapeJSONPatchString input =
     ReplaceAll1 (ReplaceAll1 input (CHR ''~'') ''~0'') (CHR ''/'') ''~1''"

lemma MachinePool_escape_eq [simp]: "MachinePool_escapeJSONPatchString = escapeJSONPatchString"
  by (simp add: MachinePool_escapeJSONPatchString_def escapeJSONPatchString_def fun_eq_iff)

definition annotation_path :: "string \<Rightarrow> string" where
  "annotation_path a = ''/metadata/annotations/'' @ MachinePool_escapeJSONPatchString a"

definition annotation_value :: "32 word \<Rightarrow> patch_value" where
  "annotation_value w = PV_string (format_int (sint w))"

text \<open>The minimum the code settles on, with the patch that writes it.\<close>

definition autoscaling_min :: "32 word \<Rightarrow> string \<Rightarrow> 32 word \<times> patch_operation list" where
  "autoscaling_min clusterReplicas current =
     (if current = '''' then
        (clusterReplicas, [PatchAdd (annotation_path annotation_NodePoolMinSize) (annotation_value clusterReplicas)])
      else
        (case ParseInt 32 current of
           None \<Rightarrow> (clusterReplicas,
             [PatchReplace (annotation_path annotation_NodePoolMinSize) (annotation_value clusterReplicas)])
         | Some mn \<Rightarrow>
             if mn < 0 then (clusterReplicas,
               [PatchReplace (annotation_path annotation_NodePoolMinSize) (annotation_value clusterReplicas)])
             else (word_of_int mn, [])))"

definition autoscaling_max :: "32 word \<Rightarrow> string \<Rightarrow> patch_operation list" where
  "autoscaling_max currentMin current =
     (if current = '''' then
        [PatchAdd (annotation_path annotation_NodePoolMaxSize) (annotation_value currentMin)]
      else
        (case ParseInt 32 current of
           None \<Rightarrow> [PatchReplace (annotation_path annotation_NodePoolMaxSize) (annotation_value currentMin)]
         | Some mx \<Rightarrow>
             if sint (word_of_int mx :: 32 word) < sint currentMin
             then [PatchReplace (annotation_path annotation_NodePoolMaxSize) (annotation_value currentMin)]
             else []))"

definition ensureAutoscalingAnnotations :: "machine_pool \<Rightarrow> patch_operation list" where
  "ensureAutoscalingAnnotations machinePool =
     (let clusterReplicas = (case mp_Replicas machinePool of
            None \<Rightarrow> word_of_int defaultReplicas | Some r \<Rightarrow> r);
          annotations = om_annotations (mp_meta machinePool);
          (currentMin, ps) = autoscaling_min clusterReplicas (mget annotations annotation_NodePoolMinSize)
      in ps @ autoscaling_max currentMin (mget annotations annotation_NodePoolMaxSize))"

section \<open>Mutation\<close>

definition MachinePool_OnCreateMutate ::
    "lib \<Rightarrow> machinepool_handler \<Rightarrow> object \<Rightarrow> (patch_operation list) res" where
  "MachinePool_OnCreateMutate L h object =
     bind_res (ToMachinePoolPtr object) (\<lambda>cr.
     bind_res (collect_patches
        [EnsureReleaseVersionLabel (mph_ctrlClient h) (mp_meta cr),
         CopyAzureOperatorVersionLabelFromAzureClusterCR (mph_ctrlClient h) (mp_meta cr)]) (\<lambda>result.
     with_defaults L (lib_MachinePool L) cr [] (result @ ensureAutoscalingAnnotations cr)))"

definition MachinePool_OnUpdateMutate :: "lib \<Rightarrow> object \<Rightarrow> object \<Rightarrow> (patch_operation list) res" where
  "MachinePool_OnUpdateMutate L oldObject object =
     bind_res (ToMachinePoolPtr object) (\<lambda>cr.
     with_defaults L (lib_MachinePool L) cr [] (ensureAutoscalingAnnotations cr))"

section \<open>Validation\<close>

fun inSlice :: "string \<Rightarrow> string list \<Rightarrow> bool" where
  "inSlice needle [] = False"
| "inSlice needle (supported # haystack) = (if needle = supported then True else inSlice needle haystack)"

definition checkAvailabilityZones :: "machinepool_handler \<Rightarrow> machine_pool \<Rightarrow> unit vm_prog" where
  "checkAvailabilityZones h mp =
     (if mp_InfraNamespace mp = '''' \<or> mp_InfraName mp = ''''
        then lift_st (Err (machinepool_err MachinePool_azureMachinePoolNotFoundError))
      else
        bind_st (lift_st (replace_err (of_lib (kube_getAzureMachinePool (mph_ctrlClient h)
            (mp_InfraNamespace mp) (mp_InfraName mp)))
          (machinepool_err MachinePool_azureMachinePoolNotFoundError))) (\<lambda>amp.
        bind_st (SupportedAZs (mph_vmcaps h) (amp_Location amp) (amp_VMSize amp)) (\<lambda>supportedZones.
        lift_st (case List.find (\<lambda>zone. \<not> inSlice zone supportedZones) (mp_FailureDomains mp) of
            Some zone \<Rightarrow> Err (machinepool_err MachinePool_unsupportedFailureDomainError)
          | None \<Rightarrow> Ok ()))))"

definition MachinePool_OnCreateValidate :: "lib \<Rightarrow> machinepool_handler \<Rightarrow> object \<Rightarrow> unit vm_prog" where
  "MachinePool_OnCreateValidate L h object =
     bind_st (lift_st (ToMachinePoolPtr object)) (\<lambda>cr.
     bind_st (lift_st (of_error (crd_ValidateCreate (lib_MachinePool L) cr))) (\<lambda>_.
     bind_st (lift_st (ValidateOrganizationLabelMatchesCluster (mph_ctrlClient h) (mp_meta cr))) (\<lambda>_.
     checkAvailabilityZones h cr)))"

text \<open>The comparison loop over the two sorted slices, whose lengths agree.\<close>

fun zones_agree :: "string list \<Rightarrow> string list \<Rightarrow> bool" where
  "zones_agree (a # as) (b # bs) = (if a \<noteq> b then False else zones_agree as bs)"
| "zones_agree as bs = True"

definition checkAvailabilityZonesUnchanged :: "machine_pool \<Rightarrow> machine_pool \<Rightarrow> unit res" where
  "checkAvailabilityZonesUnchanged old new =
     (if length (mp_FailureDomains old) \<noteq> length (mp_FailureDomains new)
        then Err (machinepool_err MachinePool_failureDomainWasChangedError)
      else fail_if (\<not> zones_agree (sort (mp_FailureDomains old)) (sort (mp_FailureDomains new)))
        (machinepool_err MachinePool_failureDomainWasChangedError))"

definition MachinePool_OnUpdateValidate :: "lib \<Rightarrow> object \<Rightarrow> object \<Rightarrow> unit res" where
  "MachinePool_OnUpdateValidate L oldObject object =
     bind_res (ToMachinePoolPtr object) (\<lambda>new.
     if being_deleted (mp_meta new) then Ok ()
     else
       bind_res (ToMachinePoolPtr oldObject) (\<lambda>old.
       bind_res (of_error (crd_ValidateUpdate (lib_MachinePool L) old new)) (\<lambda>_.
       bind_res (ValidateOrganizationLabelUnchanged (mp_meta old) (mp_meta new)) (\<lambda>_.
       checkAvailabilityZonesUnchanged old new))))"

section \<open>The annotations after the mutation\<close>

text \<open>Only annotations are written; the two members are distinct.\<close>

definition autoscaled :: "machine_pool \<Rightarrow> machine_pool" where
  "autoscaled c = c\<lparr>mp_meta := (mp_meta c)\<lparr>om_annotations :=
     apply_map_patches annotations_prefix (om_annotations (mp_meta c)) (ensureAutoscalingAnnotations c)\<rparr>\<rparr>"

definition pool_size :: "machine_pool \<Rightarrow> string \<Rightarrow> int option" where
  "pool_size c a = ParseInt 32 (mget (om_annotations (mp_meta c)) a)"

definition desired_replicas :: "machine_pool \<Rightarrow> int" where
  "desired_replicas c = (case mp_Replicas c of None \<Rightarrow> 1 | Some r \<Rightarrow> sint r)"

lemma size_annotations_differ [simp]:
  "annotation_NodePoolMinSize \<noteq> annotation_NodePoolMaxSize" "annotation_NodePoolMaxSize \<noteq> annotation_NodePoolMinSize"
  by (simp_all add: annotation_NodePoolMinSize_def annotation_NodePoolMaxSize_def)

lemma apply_annotation [simp]:
  "apply_map_patch annotations_prefix m (PatchAdd (annotation_path a) (PV_string v)) = m(a \<mapsto> v)"
  "apply_map_patch annotations_prefix m (PatchReplace (annotation_path a) (PV_string v)) = m(a \<mapsto> v)"
  using apply_map_patch_add [of annotations_prefix m a v] apply_map_patch_replace [of annotations_prefix m a v]
  by (simp_all add: annotation_path_def annotations_prefix_def del: apply_map_patch.simps)

lemma sint_word_of_int32: "- (2 ^ 31) \<le> i \<Longrightarrow> i < 2 ^ 31 \<Longrightarrow> sint (word_of_int i :: 32 word) = i"
  by (simp add: sint_sbintrunc' signed_take_bit_int_eq_self)

lemma sint32_bounds: "- (2 ^ 31) \<le> sint (w :: 32 word)" "sint (w :: 32 word) < 2 ^ 31"
  using sint_greater_eq [of w] sint_lt [of w] by simp_all

lemma parse_annotation_value: "ParseInt 32 (format_int (sint (w :: 32 word))) = Some (sint w)"
  using ParseInt_format_int [of 32 "sint w"] sint32_bounds [of w] by simp

text \<open>The sizes the rules settle on.\<close>

definition settled_min :: "int \<Rightarrow> int option \<Rightarrow> int" where
  "settled_min replicas current = (case current of None \<Rightarrow> replicas | Some v \<Rightarrow> if v < 0 then replicas else v)"

definition settled_max :: "int \<Rightarrow> int option \<Rightarrow> int" where
  "settled_max mn current = (case current of None \<Rightarrow> mn | Some v \<Rightarrow> if v < mn then mn else v)"

lemma ParseInt32_empty [simp]: "ParseInt 32 '''' = None"
  by (simp add: ParseInt_def)

lemma autoscaling_min_spec:
  assumes "autoscaling_min R (mget m annotation_NodePoolMinSize) = (w, ps)" and "0 \<le> sint R"
  defines "m' \<equiv> apply_map_patches annotations_prefix m ps"
  shows "sint w = settled_min (sint R) (ParseInt 32 (mget m annotation_NodePoolMinSize))"
    "ParseInt 32 (mget m' annotation_NodePoolMinSize) = Some (sint w)" "0 \<le> sint w"
    "mget m' annotation_NodePoolMaxSize = mget m annotation_NodePoolMaxSize"
    "autoscaling_min R (mget m' annotation_NodePoolMinSize) = (w, [])"
  using assms ParseInt_range [of 32 "mget m annotation_NodePoolMinSize"]
  by (auto simp: autoscaling_min_def annotation_value_def settled_min_def parse_annotation_value
      sint_word_of_int32 simp del: apply_map_patch.simps split: if_splits option.splits)

lemma autoscaling_max_spec:
  assumes "m' = apply_map_patches annotations_prefix m (autoscaling_max w (mget m annotation_NodePoolMaxSize))"
  shows "ParseInt 32 (mget m' annotation_NodePoolMaxSize) =
       Some (settled_max (sint w) (ParseInt 32 (mget m annotation_NodePoolMaxSize)))"
    "mget m' annotation_NodePoolMinSize = mget m annotation_NodePoolMinSize"
    "autoscaling_max w (mget m' annotation_NodePoolMaxSize) = []"
  using assms ParseInt_range [of 32 "mget m annotation_NodePoolMaxSize"]
  by (auto simp: autoscaling_max_def annotation_value_def settled_max_def parse_annotation_value
      sint_word_of_int32 simp del: apply_map_patch.simps split: if_splits option.splits)

lemma apply_map_patches_append [simp]:
  "apply_map_patches pre m (ps @ qs) = apply_map_patches pre (apply_map_patches pre m ps) qs"
  by (simp add: apply_map_patches_def)

lemma autoscaled_sizes:
  assumes "0 \<le> desired_replicas c"
  shows "\<exists>mn mx. pool_size (autoscaled c) annotation_NodePoolMinSize = Some mn \<and>
     pool_size (autoscaled c) annotation_NodePoolMaxSize = Some mx \<and> 0 \<le> mn \<and> mn \<le> mx \<and>
     mn = settled_min (desired_replicas c) (pool_size c annotation_NodePoolMinSize) \<and>
     mx = settled_max mn (pool_size c annotation_NodePoolMaxSize) \<and>
     ensureAutoscalingAnnotations (autoscaled c) = []"
proof -
  define R :: "32 word" where "R = (case mp_Replicas c of None \<Rightarrow> word_of_int defaultReplicas | Some r \<Rightarrow> r)"
  have R: "sint R = desired_replicas c"
    by (simp add: R_def desired_replicas_def defaultReplicas_def split: option.split)
  define m where "m = om_annotations (mp_meta c)"
  obtain w ps where w: "autoscaling_min R (mget m annotation_NodePoolMinSize) = (w, ps)"
    by (cases "autoscaling_min R (mget m annotation_NodePoolMinSize)")
  define m1 where "m1 = apply_map_patches annotations_prefix m ps"
  define m2 where "m2 = apply_map_patches annotations_prefix m1 (autoscaling_max w (mget m1 annotation_NodePoolMaxSize))"
  note mn = autoscaling_min_spec [OF w, folded m1_def, unfolded R, OF assms]
  note mx = autoscaling_max_spec [OF m2_def]
  have "om_annotations (mp_meta (autoscaled c)) = m2"
    using w mn(4) by (simp add: autoscaled_def ensureAutoscalingAnnotations_def Let_def m2_def m1_def flip: R_def m_def)
  moreover have "ensureAutoscalingAnnotations (autoscaled c) = []"
    using calculation mn(5) mx(2,3)
    by (simp add: ensureAutoscalingAnnotations_def Let_def autoscaled_def flip: R_def)
  ultimately show ?thesis
    using mn(1-4) mx(1,2) by (auto simp: pool_size_def settled_max_def m_def split: option.split)
qed

text \<open>C10. The autoscaling mutation repairs the two size annotations of a MachinePool that asks for no negative
  number of replicas (none given counts as one): afterwards both are numbers with 0 <= min <= max; a valid minimum is kept and else becomes the number of replicas, a maximum
  that is valid and not below the minimum is kept and else becomes the minimum; and a second run has
  nothing to repair.\<close>

theorem autoscaling_annotations_repaired:
  assumes "0 \<le> desired_replicas c"
  shows "\<exists>mn mx. pool_size (autoscaled c) annotation_NodePoolMinSize = Some mn \<and>
     pool_size (autoscaled c) annotation_NodePoolMaxSize = Some mx \<and> 0 \<le> mn \<and> mn \<le> mx \<and>
     mn = settled_min (desired_replicas c) (pool_size c annotation_NodePoolMinSize) \<and>
     mx = settled_max mn (pool_size c annotation_NodePoolMaxSize) \<and>
     ensureAutoscalingAnnotations (autoscaled c) = []"
  by (rule autoscaled_sizes [OF assms])

section \<open>Negative numbers of replicas\<close>

lemma autoscaling_min_negative:
  assumes "autoscaling_min R (mget m annotation_NodePoolMinSize) = (w, ps)" and "sint R < 0"
    and "\<forall>v. ParseInt 32 (mget m annotation_NodePoolMinSize) = Some v \<longrightarrow> v < 0"
  defines "m' \<equiv> apply_map_patches annotations_prefix m ps"
  shows "w = R" "ps \<noteq> []" "ParseInt 32 (mget m' annotation_NodePoolMinSize) = Some (sint R)"
    "mget m' annotation_NodePoolMaxSize = mget m annotation_NodePoolMaxSize"
  using assms
  by (auto simp: autoscaling_min_def annotation_value_def parse_annotation_value simp del: apply_map_patch.simps
      split: if_splits option.splits)

lemma negative_replicas_step:
  assumes "desired_replicas c < 0" and "\<forall>v. pool_size c annotation_NodePoolMinSize = Some v \<longrightarrow> v < 0"
  shows "desired_replicas (autoscaled c) = desired_replicas c"
    and "pool_size (autoscaled c) annotation_NodePoolMinSize = Some (desired_replicas c)"
    and "ensureAutoscalingAnnotations c \<noteq> []"
proof -
  define R :: "32 word" where "R = (case mp_Replicas c of None \<Rightarrow> word_of_int defaultReplicas | Some r \<Rightarrow> r)"
  have R: "sint R = desired_replicas c"
    by (simp add: R_def desired_replicas_def defaultReplicas_def split: option.split)
  define m where "m = om_annotations (mp_meta c)"
  obtain w ps where w: "autoscaling_min R (mget m annotation_NodePoolMinSize) = (w, ps)"
    by (cases "autoscaling_min R (mget m annotation_NodePoolMinSize)")
  define m1 where "m1 = apply_map_patches annotations_prefix m ps"
  define m2 where "m2 = apply_map_patches annotations_prefix m1 (autoscaling_max w (mget m1 annotation_NodePoolMaxSize))"
  have neg: "sint R < 0" "\<forall>v. ParseInt 32 (mget m annotation_NodePoolMinSize) = Some v \<longrightarrow> v < 0"
    using assms by (simp_all add: R pool_size_def m_def)
  note mn = autoscaling_min_negative [OF w neg, folded m1_def]
  note mx = autoscaling_max_spec [OF m2_def]
  have e: "ensureAutoscalingAnnotations c = ps @ autoscaling_max w (mget m annotation_NodePoolMaxSize)"
    using w by (simp add: ensureAutoscalingAnnotations_def Let_def flip: R_def m_def)
  with mn(2) show "ensureAutoscalingAnnotations c \<noteq> []" by simp
  have "om_annotations (mp_meta (autoscaled c)) = m2"
    using mn(4) by (simp add: autoscaled_def e m2_def m1_def flip: m_def)
  with mn(3) mx(2) show "pool_size (autoscaled c) annotation_NodePoolMinSize = Some (desired_replicas c)"
    by (simp add: pool_size_def R)
  show "desired_replicas (autoscaled c) = desired_replicas c" by (simp add: autoscaled_def desired_replicas_def)
qed

text \<open>C11. A MachinePool that asks for a negative number of replicas and has no valid minimal size is never settled:
  the mutation writes the negative number as its minimal size, takes that for an invalid one on every later
  run, and so has patches again each time.\<close>

theorem negative_replicas_never_settle:
  assumes "desired_replicas c < 0" and "\<forall>v. pool_size c annotation_NodePoolMinSize = Some v \<longrightarrow> v < 0"
  shows "pool_size ((autoscaled ^^ Suc n) c) annotation_NodePoolMinSize = Some (desired_replicas c) \<and>
    ensureAutoscalingAnnotations ((autoscaled ^^ n) c) \<noteq> []"
proof -
  have "desired_replicas ((autoscaled ^^ n) c) = desired_replicas c \<and>
      (\<forall>v. pool_size ((autoscaled ^^ n) c) annotation_NodePoolMinSize = Some v \<longrightarrow> v < 0)"
  proof (induction n)
    case (Suc n)
    with negative_replicas_step [of "(autoscaled ^^ n) c"] assms(1) show ?case by simp
  qed (use assms(2) in simp)
  with negative_replicas_step [of "(autoscaled ^^ n) c"] assms(1) show ?thesis by simp
qed

section \<open>Availability zones\<close>

lemma inSlice_iff [simp]: "inSlice z zs \<longleftrightarrow> z \<in> set zs"
  by (induction zs) auto

lemma zones_agree_iff: "length as = length bs \<Longrightarrow> zones_agree as bs \<longleftrightarrow> as = bs"
  by (induction as bs rule: zones_agree.induct) auto

lemma sort_eq_iff_mset: "sort as = sort bs \<longleftrightarrow> mset as = mset bs"
  by (metis mset_sort properties_for_sort sorted_sort)

interpretation pool_zones: unchanged_check checkAvailabilityZonesUnchanged "\<lambda>c. mset (mp_FailureDomains c)"
proof
  fix old new
  show "checkAvailabilityZonesUnchanged old new = Ok () \<Longrightarrow> mset (mp_FailureDomains old) = mset (mp_FailureDomains new)"
    by (auto simp: checkAvailabilityZonesUnchanged_def outcome_simps zones_agree_iff sort_eq_iff_mset split: if_splits)
  show "mset (mp_FailureDomains old) = mset (mp_FailureDomains new) \<Longrightarrow> checkAvailabilityZonesUnchanged old new = Ok ()"
    by (auto simp: checkAvailabilityZonesUnchanged_def outcome_simps zones_agree_iff sort_eq_iff_mset
        dest: mset_eq_length)
qed

lemma ToMachinePoolPtr_ObjMachinePool [simp]: "ToMachinePoolPtr (ObjMachinePool c) = Ok c"
  by (simp add: ToMachinePoolPtr_def)

text \<open>A new machine pool is admitted exactly when its type accepts it, its organization is its
  cluster's, its AzureMachinePool exists, and every zone it asks for is offered for that machine type.\<close>

theorem machinepool_create_accepted_iff:
  "MachinePool_OnCreateValidate L h (ObjMachinePool c) s = (Ok (), s') \<longleftrightarrow>
     crd_ValidateCreate (lib_MachinePool L) c = None \<and>
     ValidateOrganizationLabelMatchesCluster (mph_ctrlClient h) (mp_meta c) = Ok () \<and>
     mp_InfraNamespace c \<noteq> '''' \<and> mp_InfraName c \<noteq> '''' \<and>
     (\<exists>amp zs. kube_getAzureMachinePool (mph_ctrlClient h) (mp_InfraNamespace c) (mp_InfraName c) = Inr amp \<and>
        SupportedAZs (mph_vmcaps h) (amp_Location amp) (amp_VMSize amp) s = (Ok zs, s') \<and>
        set (mp_FailureDomains c) \<subseteq> set zs)"
  by (auto simp: MachinePool_OnCreateValidate_def checkAvailabilityZones_def outcome_simps find_None_iff
      simp del: organization_matches_cluster split: option.splits)

definition machinepool_step :: "lib \<Rightarrow> machine_pool \<Rightarrow> machine_pool \<Rightarrow> bool" where
  "machinepool_step L old new \<longleftrightarrow> MachinePool_OnUpdateValidate L (ObjMachinePool old) (ObjMachinePool new) = Ok ()"

interpretation machinepool_update: guarded_update "machinepool_step L" "\<lambda>c. being_deleted (mp_meta c)"
    "\<lambda>c. (mset (mp_FailureDomains c), om_labels (mp_meta c) label_Organization)"
  for L
  by unfold_locales
    (auto simp: machinepool_step_def MachinePool_OnUpdateValidate_def outcome_simps pool_zones.accepts_iff)

text \<open>Over any history of accepted updates a machine pool keeps its availability zones, in any order,
  and its organization.\<close>

theorem machinepool_identity_is_constant:
  assumes "(\<lambda>old new. machinepool_step L old new \<and> \<not> being_deleted (mp_meta new))\<^sup>*\<^sup>* a b"
  shows "mset (mp_FailureDomains a) = mset (mp_FailureDomains b) \<and>
     om_labels (mp_meta a) label_Organization = om_labels (mp_meta b) label_Organization"
  using machinepool_update.view_constant [OF assms] by simp

section \<open>A machine pool for the witnesses\<close>

definition demo_machine_pool :: "str_map \<Rightarrow> string list \<Rightarrow> machine_pool" where
  "demo_machine_pool as zones = \<lparr>mp_meta = demo_meta ''p'' [label_Organization \<mapsto> ''acme''] as,
     mp_Replicas = Some 3, mp_FailureDomains = zones, mp_InfraNamespace = ''org'', mp_InfraName = ''p'', mp_rest = ''''\<rparr>"

theorem negative_replicas_never_settle_witness:
  "\<exists>c. desired_replicas c = - 1 \<and> ensureAutoscalingAnnotations (autoscaled (autoscaled c)) \<noteq> []"
proof -
  let ?c = "(demo_machine_pool Map.empty [])\<lparr>mp_Replicas := Some (- 1)\<rparr>"
  have r: "desired_replicas ?c = - 1" by (simp add: desired_replicas_def)
  then have neg: "desired_replicas ?c < 0" by simp
  have none: "\<forall>v. pool_size ?c annotation_NodePoolMinSize = Some v \<longrightarrow> v < 0"
    by (simp add: pool_size_def demo_machine_pool_def mget_def)
  from negative_replicas_never_settle [OF neg none, of 2] r show ?thesis
    by (intro exI [of _ ?c]) (simp add: numeral_2_eq_2)
qed

theorem autoscaling_annotations_repaired_witness:
  "pool_size (autoscaled (demo_machine_pool Map.empty [])) annotation_NodePoolMinSize = Some 3"
proof -
  let ?c = "demo_machine_pool Map.empty []"
  have three: "desired_replicas ?c = 3"
    by (simp add: desired_replicas_def demo_machine_pool_def)
  moreover have "pool_size ?c annotation_NodePoolMinSize = None"
    by (simp add: pool_size_def demo_machine_pool_def mget_def)
  ultimately show ?thesis
    using autoscaling_annotations_repaired [of ?c] by (auto simp: settled_min_def)
qed

theorem machinepool_identity_is_constant_witness:
  "mset (mp_FailureDomains (demo_machine_pool Map.empty [''1'', ''2''])) =
   mset (mp_FailureDomains (demo_machine_pool Map.empty [''2'', ''1'']))"
proof -
  let ?a = "demo_machine_pool Map.empty [''1'', ''2'']" and ?b = "demo_machine_pool Map.empty [''2'', ''1'']"
  have "checkAvailabilityZonesUnchanged ?a ?b = Ok ()"
    by (rule pool_zones.accepts) (simp add: demo_machine_pool_def)
  then have "machinepool_step demo_lib ?a ?b"
    by (simp add: machinepool_step_def MachinePool_OnUpdateValidate_def outcome_simps)
      (simp add: demo_machine_pool_def)
  then have "(\<lambda>old new. machinepool_step demo_lib old new \<and> \<not> being_deleted (mp_meta new))\<^sup>*\<^sup>* ?a ?b"
    by (intro r_into_rtranclp) (simp add: demo_machine_pool_def)
  from machinepool_identity_is_constant [OF this] show ?thesis by blast
qed

end
