(* ===== verification/LegacyConfigs.thy ===== *)
theory LegacyConfigs
  imports Webhook
begin

text \<open>
  The webhooks of the legacy resources: AzureConfig and AzureClusterConfig (\<^verbatim>\<open>pkg/azureupdate\<close>), which
  are validated on update only, and Spark (\<^verbatim>\<open>pkg/spark\<close>), which is mutated on creation only.
\<close>

section \<open>Spark\<close>

record legacy_handler =
  lgh_ctrlClient :: kube_api
  lgh_decoder :: decoder

record legacy_handler_config =
  lghc_CtrlClient :: "kube_api option"
  lghc_Decoder :: "decoder option"
  lghc_Logger :: "unit option"

definition Spark_NewWebhookHandler :: "legacy_handler_config \<Rightarrow> legacy_handler res" where
  "Spark_NewWebhookHandler config =
     (let invalid = Micro (E_spark Spark_invalidConfigError) in
      bind_res (need (lghc_CtrlClient config) invalid) (\<lambda>ctrlClient.
      bind_res (need (lghc_Decoder config) invalid) (\<lambda>decoder.
      bind_res (need (lghc_Logger config) invalid) (\<lambda>logger.
      Ok \<lparr>lgh_ctrlClient = ctrlClient, lgh_decoder = decoder\<rparr>))))"

definition Spark_Resource :: string where "Spark_Resource = ''spark''"

definition Spark_Decode :: "lib \<Rightarrow> string \<Rightarrow> object res" where
  "Spark_Decode L raw = decode_with ObjSpark (dec_Spark (lib_mutator_Deserializer L)) raw"

definition Spark_OnCreateMutate :: "legacy_handler \<Rightarrow> object \<Rightarrow> (patch_operation list) res" where
  "Spark_OnCreateMutate h object =
     bind_res (ToSparkPtr object) (\<lambda>cr.
     collect_patches [EnsureReleaseVersionLabel (lgh_ctrlClient h) (sp_meta cr)])"

section \<open>AzureClusterConfig\<close>

text \<open>The handlers of \<^verbatim>\<open>pkg/azureupdate\<close> have the same fields as the one of Spark.\<close>

type_synonym azureclusterconfig_handler = legacy_handler
type_synonym azureclusterconfig_handler_config = legacy_handler_config
type_synonym azureconfig_handler = legacy_handler
type_synonym azureconfig_handler_config = legacy_handler_config

definition azureupdate_err :: "azureupdate_error \<Rightarrow> go_error" where
  "azureupdate_err e = Micro (E_azureupdate e)"

definition NewAzureClusterConfigWebhookHandler :: "azureclusterconfig_handler_config \<Rightarrow> azureclusterconfig_handler res" where
  "NewAzureClusterConfigWebhookHandler config =
     (let invalid = azureupdate_err AzureUpdate_invalidConfigError in
      bind_res (need (lghc_CtrlClient config) invalid) (\<lambda>ctrlClient.
      bind_res (need (lghc_Decoder config) invalid) (\<lambda>decoder.
      bind_res (need (lghc_Logger config) invalid) (\<lambda>logger.
      Ok \<lparr>lgh_ctrlClient = ctrlClient, lgh_decoder = decoder\<rparr>))))"

definition AzureClusterConfig_Resource :: string where "AzureClusterConfig_Resource = ''azureclusterconfig''"

definition AzureClusterConfig_Decode :: "azureclusterconfig_handler \<Rightarrow> string \<Rightarrow> object res" where
  "AzureClusterConfig_Decode h raw = decode_with ObjAzureClusterConfig (dec_AzureClusterConfig (lgh_decoder h)) raw"

definition getSemver :: "semver_api \<Rightarrow> string \<Rightarrow> version res" where
  "getSemver S v = of_lib (sv_ParseTolerant S v)"

definition AzureClusterConfig_OnUpdateValidate :: "lib \<Rightarrow> azureclusterconfig_handler \<Rightarrow> object \<Rightarrow> object \<Rightarrow> unit res" where
  "AzureClusterConfig_OnUpdateValidate L h oldObject object =
     bind_res (ToAzureClusterConfigPtr object) (\<lambda>new.
     if being_deleted (acc_meta new) then Ok ()
     else
       bind_res (ToAzureClusterConfigPtr oldObject) (\<lambda>old.
       bind_res (replace_err (getSemver (lib_semver L) (acc_ReleaseVersion old))
         (Micro (E_errors Errors_ParsingFailedError))) (\<lambda>oldVersion.
       bind_res (replace_err (getSemver (lib_semver L) (acc_ReleaseVersion new))
         (Micro (E_errors Errors_ParsingFailedError))) (\<lambda>newVersion.
       if \<not> sv_EQ (lib_semver L) oldVersion newVersion
         then Validate (lib_semver L) (lgh_ctrlClient h) oldVersion newVersion
       else Ok ()))))"

section \<open>AzureConfig\<close>

definition NewAzureConfigWebhookHandler :: "azureconfig_handler_config \<Rightarrow> azureconfig_handler res" where
  "NewAzureConfigWebhookHandler config =
     (let invalid = azureupdate_err AzureUpdate_invalidConfigError in
      bind_res (need (lghc_CtrlClient config) invalid) (\<lambda>ctrlClient.
      bind_res (need (lghc_Decoder config) invalid) (\<lambda>decoder.
      bind_res (need (lghc_Logger config) invalid) (\<lambda>logger.
      Ok \<lparr>lgh_ctrlClient = ctrlClient, lgh_decoder = decoder\<rparr>))))"

definition AzureConfig_Resource :: string where "AzureConfig_Resource = ''azureconfig''"

definition AzureConfig_Decode :: "azureconfig_handler \<Rightarrow> string \<Rightarrow> object res" where
  "AzureConfig_Decode h raw = decode_with ObjAzureConfig (dec_AzureConfig (lgh_decoder h)) raw"

definition validateMasterCIDRUnchanged :: "azure_config \<Rightarrow> azure_config \<Rightarrow> unit res" where
  "validateMasterCIDRUnchanged old new =
     fail_if (azc_MasterSubnetCIDR old \<noteq> '''' \<and> azc_MasterSubnetCIDR old \<noteq> azc_MasterSubnetCIDR new)
       (azureupdate_err AzureUpdate_masterCIDRChangeError)"

definition validateAvailabilityZonesUnchanged :: "azure_config \<Rightarrow> azure_config \<Rightarrow> unit res" where
  "validateAvailabilityZonesUnchanged old new =
     (if length (azc_AvailabilityZones old) \<noteq> 0 then
        fail_if (sort (azc_AvailabilityZones old) \<noteq> sort (azc_AvailabilityZones new))
          (azureupdate_err AzureUpdate_availabilityZonesChangeError)
      else Ok ())"

definition AzureConfig_OnUpdateValidate :: "lib \<Rightarrow> azureconfig_handler \<Rightarrow> object \<Rightarrow> object \<Rightarrow> unit res" where
  "AzureConfig_OnUpdateValidate L h oldObject object =
     bind_res (ToAzureConfigPtr object) (\<lambda>new.
     if being_deleted (azc_meta new) then Ok ()
     else
       bind_res (ToAzureConfigPtr oldObject) (\<lambda>old.
       bind_res (parsed_versions (lib_semver L) (om_labels (azc_meta old)) (om_labels (azc_meta new)))
         (\<lambda>(oldVersion, newVersion).
       if \<not> sv_EQ (lib_semver L) oldVersion newVersion
         then Validate (lib_semver L) (lgh_ctrlClient h) oldVersion newVersion
       else
         bind_res (validateMasterCIDRUnchanged old new) (\<lambda>_.
         validateAvailabilityZonesUnchanged old new))))"

section \<open>What the legacy checks allow\<close>

lemma legacy_ptr_simps [simp]:
  "ToSparkPtr (ObjSpark sp) = Ok sp" "ToAzureConfigPtr (ObjAzureConfig ac) = Ok ac"
  "ToAzureClusterConfigPtr (ObjAzureClusterConfig acc) = Ok acc"
  by (simp_all add: ToSparkPtr_def ToAzureConfigPtr_def ToAzureClusterConfigPtr_def)

lemma zones_unchanged_iff [outcome_simps]:
  "validateAvailabilityZonesUnchanged old new = Ok u \<longleftrightarrow>
     azc_AvailabilityZones old = [] \<or> mset (azc_AvailabilityZones old) = mset (azc_AvailabilityZones new)"
  by (auto simp: validateAvailabilityZonesUnchanged_def outcome_simps dest: arg_cong [of _ _ mset])
    (metis properties_for_sort mset_sort sorted_sort)

lemma cidr_unchanged_iff [outcome_simps]:
  "validateMasterCIDRUnchanged old new = Ok u \<longleftrightarrow>
     azc_MasterSubnetCIDR old = '''' \<or> azc_MasterSubnetCIDR old = azc_MasterSubnetCIDR new"
  by (auto simp: validateMasterCIDRUnchanged_def outcome_simps)

text \<open>C24. Which updates of an AzureConfig are accepted: all when it is being deleted; else, with an unchanged release
  version, those in which the master subnet and the availability zones stay once they are set, and with a
  changed one those the upgrade policy permits, whatever they do to the subnet and the zones.\<close>

theorem azureconfig_update_accepted_iff:
  "AzureConfig_OnUpdateValidate L h (ObjAzureConfig old) (ObjAzureConfig new) = Ok () \<longleftrightarrow>
     being_deleted (azc_meta new) \<or>
     (\<exists>v w. GetSemverFromLabels (lib_semver L) (om_labels (azc_meta old)) = Ok v \<and>
        GetSemverFromLabels (lib_semver L) (om_labels (azc_meta new)) = Ok w \<and>
        (if sv_EQ (lib_semver L) v w then
           (azc_MasterSubnetCIDR old = '''' \<or> azc_MasterSubnetCIDR old = azc_MasterSubnetCIDR new) \<and>
           (azc_AvailabilityZones old = [] \<or> mset (azc_AvailabilityZones old) = mset (azc_AvailabilityZones new))
         else (\<exists>es. availableReleases (lib_semver L) (lgh_ctrlClient h) = Ok es \<and>
           upgrade_permitted (lib_semver L) es v w)))"
  by (auto simp: AzureConfig_OnUpdateValidate_def outcome_simps Validate_eq_refusal refusal_None_iff
      split: if_splits option.splits)

text \<open>During an upgrade the master subnet and the zones are not looked at: an update that changes all
  three at once is accepted.\<close>

definition demo_azure_config :: "string \<Rightarrow> string \<Rightarrow> int list \<Rightarrow> azure_config" where
  "demo_azure_config v cidr zs = \<lparr>azc_meta = demo_meta ''c'' [label_ReleaseVersion \<mapsto> v] Map.empty,
     azc_MasterSubnetCIDR = cidr, azc_AvailabilityZones = zs, azc_rest = ''''\<rparr>"

theorem azureconfig_upgrade_bypasses_checks:
  "AzureConfig_OnUpdateValidate demo_lib \<lparr>lgh_ctrlClient = demo_kube demo_releases, lgh_decoder = demo_decoder\<rparr>
     (ObjAzureConfig (demo_azure_config ''v1.0.0'' ''10.0.0.0/24'' [1]))
     (ObjAzureConfig (demo_azure_config ''v1.1.0'' ''10.9.0.0/24'' [2])) = Ok ()"
proof -
  have "parsed_versions demo_semver (om_labels (azc_meta (demo_azure_config ''v1.0.0'' c1 z1)))
      (om_labels (azc_meta (demo_azure_config ''v1.1.0'' c2 z2))) = Ok (demo_ver 1 0 ''0'', demo_ver 1 1 ''0'')"
    for c1 z1 c2 z2
    by (simp add: parsed_versions_Ok_iff demo_azure_config_def demo_labels_version)
  moreover have "\<not> sv_EQ demo_semver (demo_ver 1 0 ''0'') (demo_ver 1 1 ''0'')"
    by (simp add: demo_version_simps)
  ultimately show ?thesis
    using demo_upgrade_valid [OF demo_available]
    by (simp add: AzureConfig_OnUpdateValidate_def)
qed

text \<open>The release of an AzureClusterConfig changes only as the policy permits.\<close>

theorem azureclusterconfig_update_accepted_iff:
  "AzureClusterConfig_OnUpdateValidate L h (ObjAzureClusterConfig old) (ObjAzureClusterConfig new) = Ok () \<longleftrightarrow>
     being_deleted (acc_meta new) \<or>
     (\<exists>v w. sv_ParseTolerant (lib_semver L) (acc_ReleaseVersion old) = Inr v \<and>
        sv_ParseTolerant (lib_semver L) (acc_ReleaseVersion new) = Inr w \<and>
        (sv_EQ (lib_semver L) v w \<or>
         (\<exists>es. availableReleases (lib_semver L) (lgh_ctrlClient h) = Ok es \<and>
           upgrade_permitted (lib_semver L) es v w)))"
  by (auto simp: AzureClusterConfig_OnUpdateValidate_def getSemver_def outcome_simps Validate_eq_refusal
      refusal_None_iff split: if_splits option.splits)

end
