(* ===== verification/App.thy ===== *)
theory App
  imports HttpHandler Cluster AzureCluster AzureMachine AzureMachinePool MachinePool LegacyConfigs
begin

text \<open>
  The wiring (\<^verbatim>\<open>pkg/app/handlers.go\<close>): the construction of all webhook handlers and the registration
  of one HTTP handler per interface each of them implements. A type assertion
  \<^verbatim>\<open>h.(validator.WebhookCreateHandler)\<close> succeeds when the methods of the interface are there; a
  webhook therefore has each of the four methods as an option.
\<close>

record app_config =
  cfg_BaseDomain :: string
  cfg_CertFile :: string
  cfg_KeyFile :: string
  cfg_Address :: string
  cfg_AvailabilityZones :: string
  cfg_Location :: string

record webhook =
  wh_Resource :: string
  wh_Decode :: "string \<Rightarrow> object res"
  wh_OnCreateValidate :: "(object \<Rightarrow> unit vm_prog) option"
  wh_OnUpdateValidate :: "(object \<Rightarrow> object \<Rightarrow> unit vm_prog) option"
  wh_OnCreateMutate :: "(object \<Rightarrow> (patch_operation list) vm_prog) option"
  wh_OnUpdateMutate :: "(object \<Rightarrow> object \<Rightarrow> (patch_operation list) vm_prog) option"

section \<open>The method sets\<close>

definition azureconfig_webhook :: "lib \<Rightarrow> legacy_handler \<Rightarrow> webhook" where
  "azureconfig_webhook L h = \<lparr>wh_Resource = AzureConfig_Resource, wh_Decode = AzureConfig_Decode h,
     wh_OnCreateValidate = None,
     wh_OnUpdateValidate = Some (\<lambda>old ob. lift_st (AzureConfig_OnUpdateValidate L h old ob)),
     wh_OnCreateMutate = None, wh_OnUpdateMutate = None\<rparr>"

definition azurecluster_webhook :: "lib \<Rightarrow> azurecluster_handler \<Rightarrow> webhook" where
  "azurecluster_webhook L h = \<lparr>wh_Resource = AzureCluster_Resource, wh_Decode = AzureCluster_Decode L,
     wh_OnCreateValidate = Some (\<lambda>ob. lift_st (AzureCluster_OnCreateValidate L h ob)),
     wh_OnUpdateValidate = Some (\<lambda>old ob. lift_st (AzureCluster_OnUpdateValidate L h old ob)),
     wh_OnCreateMutate = Some (\<lambda>ob. lift_st (AzureCluster_OnCreateMutate L h ob)),
     wh_OnUpdateMutate = Some (\<lambda>old ob. lift_st (AzureCluster_OnUpdateMutate L h old ob))\<rparr>"

definition azureclusterconfig_webhook :: "lib \<Rightarrow> legacy_handler \<Rightarrow> webhook" where
  "azureclusterconfig_webhook L h = \<lparr>wh_Resource = AzureClusterConfig_Resource, wh_Decode = AzureClusterConfig_Decode h,
     wh_OnCreateValidate = None,
     wh_OnUpdateValidate = Some (\<lambda>old ob. lift_st (AzureClusterConfig_OnUpdateValidate L h old ob)),
     wh_OnCreateMutate = None, wh_OnUpdateMutate = None\<rparr>"

definition azuremachine_webhook :: "lib \<Rightarrow> azuremachine_handler \<Rightarrow> webhook" where
  "azuremachine_webhook L h = \<lparr>wh_Resource = AzureMachine_Resource, wh_Decode = AzureMachine_Decode L,
     wh_OnCreateValidate = Some (AzureMachine_OnCreateValidate L h),
     wh_OnUpdateValidate = Some (\<lambda>old ob. lift_st (AzureMachine_OnUpdateValidate L h old ob)),
     wh_OnCreateMutate = Some (\<lambda>ob. lift_st (AzureMachine_OnCreateMutate L h ob)),
     wh_OnUpdateMutate = Some (\<lambda>old ob. lift_st (AzureMachine_OnUpdateMutate L h old ob))\<rparr>"

definition azuremachinepool_webhook :: "lib \<Rightarrow> azuremachinepool_handler \<Rightarrow> webhook" where
  "azuremachinepool_webhook L h = \<lparr>wh_Resource = AzureMachinePool_Resource, wh_Decode = AzureMachinePool_Decode h,
     wh_OnCreateValidate = Some (AzureMachinePool_OnCreateValidate L h),
     wh_OnUpdateValidate = Some (AzureMachinePool_OnUpdateValidate L h),
     wh_OnCreateMutate = Some (AzureMachinePool_OnCreateMutate L h),
     wh_OnUpdateMutate = Some (\<lambda>old ob. lift_st (AzureMachinePool_OnUpdateMutate L old ob))\<rparr>"

definition cluster_webhook :: "lib \<Rightarrow> clock \<Rightarrow> cluster_handler \<Rightarrow> webhook" where
  "cluster_webhook L now h = \<lparr>wh_Resource = Cluster_Resource, wh_Decode = Cluster_Decode h,
     wh_OnCreateValidate = Some (\<lambda>ob. lift_st (Cluster_OnCreateValidate L h now ob)),
     wh_OnUpdateValidate = Some (\<lambda>old ob. lift_st (Cluster_OnUpdateValidate L h now old ob)),
     wh_OnCreateMutate = Some (\<lambda>ob. lift_st (Cluster_OnCreateMutate L h ob)),
     wh_OnUpdateMutate = Some (\<lambda>old ob. lift_st (Cluster_OnUpdateMutate L h old ob))\<rparr>"

definition machinepool_webhook :: "lib \<Rightarrow> machinepool_handler \<Rightarrow> webhook" where
  "machinepool_webhook L h = \<lparr>wh_Resource = MachinePool_Resource, wh_Decode = MachinePool_Decode h,
     wh_OnCreateValidate = Some (MachinePool_OnCreateValidate L h),
     wh_OnUpdateValidate = Some (\<lambda>old ob. lift_st (MachinePool_OnUpdateValidate L old ob)),
     wh_OnCreateMutate = Some (\<lambda>ob. lift_st (MachinePool_OnCreateMutate L h ob)),
     wh_OnUpdateMutate = Some (\<lambda>old ob. lift_st (MachinePool_OnUpdateMutate L old ob))\<rparr>"

definition spark_webhook :: "lib \<Rightarrow> legacy_handler \<Rightarrow> webhook" where
  "spark_webhook L h = \<lparr>wh_Resource = Spark_Resource, wh_Decode = Spark_Decode L,
     wh_OnCreateValidate = None, wh_OnUpdateValidate = None,
     wh_OnCreateMutate = Some (\<lambda>ob. lift_st (Spark_OnCreateMutate h ob)), wh_OnUpdateMutate = None\<rparr>"

section \<open>Construction and registration\<close>

definition getAllHandlers ::
    "lib \<Rightarrow> clock \<Rightarrow> decoder \<Rightarrow> app_config \<Rightarrow> unit option \<Rightarrow> kube_api option \<Rightarrow> kube_api option \<Rightarrow> sku_api option \<Rightarrow>
     (webhook list) res" where
  "getAllHandlers L now universalDeserializer cfg newLogger ctrlClient ctrlReader vmcaps =
     (let legacy = \<lparr>lghc_CtrlClient = ctrlClient, lghc_Decoder = Some universalDeserializer, lghc_Logger = newLogger\<rparr> in
      bind_res (NewAzureConfigWebhookHandler legacy) (\<lambda>azureConfig.
      bind_res (AzureCluster_NewWebhookHandler \<lparr>achc_BaseDomain = cfg_BaseDomain cfg, achc_CtrlReader = ctrlReader,
        achc_CtrlClient = ctrlClient, achc_Decoder = Some universalDeserializer, achc_Location = cfg_Location cfg,
        achc_Logger = newLogger\<rparr>) (\<lambda>azureCluster.
      bind_res (NewAzureClusterConfigWebhookHandler legacy) (\<lambda>azureClusterConfig.
      bind_res (AzureMachine_NewWebhookHandler \<lparr>amhc_CtrlClient = ctrlClient, amhc_Decoder = Some universalDeserializer,
        amhc_Location = cfg_Location cfg, amhc_Logger = newLogger, amhc_VMcaps = vmcaps\<rparr>) (\<lambda>azureMachine.
      bind_res (AzureMachinePool_NewWebhookHandler \<lparr>aphc_CtrlClient = ctrlClient,
        aphc_Decoder = Some universalDeserializer, aphc_Location = cfg_Location cfg, aphc_Logger = newLogger,
        aphc_VMcaps = vmcaps\<rparr>) (\<lambda>azureMachinePool.
      bind_res (Cluster_NewWebhookHandler \<lparr>clc_BaseDomain = cfg_BaseDomain cfg, clc_Decoder = Some universalDeserializer,
        clc_CtrlReader = ctrlReader, clc_CtrlClient = ctrlClient, clc_Logger = newLogger\<rparr>) (\<lambda>cluster.
      bind_res (MachinePool_NewWebhookHandler \<lparr>mphc_CtrlClient = ctrlClient, mphc_Decoder = Some universalDeserializer,
        mphc_Logger = newLogger, mphc_VMcaps = vmcaps\<rparr>) (\<lambda>machinePool.
      bind_res (Spark_NewWebhookHandler legacy) (\<lambda>spark.
      Ok [azureconfig_webhook L azureConfig, azurecluster_webhook L azureCluster,
          azureclusterconfig_webhook L azureClusterConfig, azuremachine_webhook L azureMachine,
          azuremachinepool_webhook L azureMachinePool, cluster_webhook L now cluster,
          machinepool_webhook L machinePool, spark_webhook L spark])))))))))"

type_synonym http_handler = "http_request \<Rightarrow> http_reply vm_prog"

text \<open>The calls of \<open>httpRequestHandler.Handle\<close>, in order.\<close>

definition register ::
    "http_lib \<Rightarrow> http_handler_factory \<Rightarrow> http_handler_factory \<Rightarrow> webhook \<Rightarrow> (string \<times> http_handler) list" where
  "register H vf mf h =
     (case wh_OnCreateValidate h of None \<Rightarrow> []
      | Some m \<Rightarrow> [(''/validate/'' @ wh_Resource h @ ''/create'', validator_NewCreateHandler H vf (wh_Decode h) m)]) @
     (case wh_OnUpdateValidate h of None \<Rightarrow> []
      | Some m \<Rightarrow> [(''/validate/'' @ wh_Resource h @ ''/update'', validator_NewUpdateHandler H vf (wh_Decode h) m)]) @
     (case wh_OnCreateMutate h of None \<Rightarrow> []
      | Some m \<Rightarrow> [(''/mutate/'' @ wh_Resource h @ ''/create'', mutator_NewCreateHandler H mf (wh_Decode h) m)]) @
     (case wh_OnUpdateMutate h of None \<Rightarrow> []
      | Some m \<Rightarrow> [(''/mutate/'' @ wh_Resource h @ ''/update'', mutator_NewUpdateHandler H mf (wh_Decode h) m)])"

definition RegisterWebhookHandlers ::
    "lib \<Rightarrow> http_lib \<Rightarrow> clock \<Rightarrow> decoder \<Rightarrow> app_config \<Rightarrow> unit option \<Rightarrow> kube_api option \<Rightarrow> kube_api option \<Rightarrow>
     sku_api option \<Rightarrow> (string \<times> http_handler) list res" where
  "RegisterWebhookHandlers L H now universalDeserializer cfg newLogger ctrlClient ctrlReader vmcaps =
     (let c = \<lparr>hfc_CtrlReader = ctrlReader, hfc_CtrlClient = ctrlClient, hfc_Logger = newLogger\<rparr> in
      bind_res (validator_NewHttpHandlerFactory c) (\<lambda>vf.
      bind_res (mutator_NewHttpHandlerFactory c) (\<lambda>mf.
      bind_res (getAllHandlers L now universalDeserializer cfg newLogger ctrlClient ctrlReader vmcaps) (\<lambda>handlers.
      Ok (concat (map (register H vf mf) handlers))))))"

lemma register_cases:
  assumes "(path, handler) \<in> set (register H vf mf h)"
  obtains v where "wh_OnCreateValidate h = Some v" "handler = validator_NewCreateHandler H vf (wh_Decode h) v"
  | v where "wh_OnUpdateValidate h = Some v" "handler = validator_NewUpdateHandler H vf (wh_Decode h) v"
  | m where "wh_OnCreateMutate h = Some m" "handler = mutator_NewCreateHandler H mf (wh_Decode h) m"
  | m where "wh_OnUpdateMutate h = Some m" "handler = mutator_NewUpdateHandler H mf (wh_Decode h) m"
  using assms
  by (cases "wh_OnCreateValidate h"; cases "wh_OnUpdateValidate h"; cases "wh_OnCreateMutate h"; cases "wh_OnUpdateMutate h")
    (auto simp: register_def)

section \<open>Every handler decodes to its own type\<close>

interpretation cluster_decoder: webhook_decoder "Cluster_Decode h" ObjCluster cl_meta for h
  unfolding Cluster_Decode_def by (rule decode_with_decoder) simp

interpretation azurecluster_decoder: webhook_decoder "AzureCluster_Decode L" ObjAzureCluster ac_meta for L
  unfolding AzureCluster_Decode_def by (rule decode_with_decoder) simp

interpretation azuremachine_decoder: webhook_decoder "AzureMachine_Decode L" ObjAzureMachine am_meta for L
  unfolding AzureMachine_Decode_def by (rule decode_with_decoder) simp

interpretation azuremachinepool_decoder: webhook_decoder "AzureMachinePool_Decode h" ObjAzureMachinePool amp_meta for h
  unfolding AzureMachinePool_Decode_def by (rule decode_with_decoder) simp

interpretation machinepool_decoder: webhook_decoder "MachinePool_Decode h" ObjMachinePool mp_meta for h
  unfolding MachinePool_Decode_def by (rule decode_with_decoder) simp

interpretation spark_decoder: webhook_decoder "Spark_Decode L" ObjSpark sp_meta for L
  unfolding Spark_Decode_def by (rule decode_with_decoder) simp

interpretation azureconfig_decoder: webhook_decoder "AzureConfig_Decode h" ObjAzureConfig azc_meta for h
  unfolding AzureConfig_Decode_def by (rule decode_with_decoder) simp

interpretation azureclusterconfig_decoder: webhook_decoder "AzureClusterConfig_Decode h" ObjAzureClusterConfig acc_meta for h
  unfolding AzureClusterConfig_Decode_def by (rule decode_with_decoder) simp

section \<open>Start-up\<close>

lemmas constructor_defs = NewAzureConfigWebhookHandler_def AzureCluster_NewWebhookHandler_def
  NewAzureClusterConfigWebhookHandler_def AzureMachine_NewWebhookHandler_def
  AzureMachinePool_NewWebhookHandler_def Cluster_NewWebhookHandler_def MachinePool_NewWebhookHandler_def
  Spark_NewWebhookHandler_def

lemmas webhook_defs = azureconfig_webhook_def azurecluster_webhook_def azureclusterconfig_webhook_def
  azuremachine_webhook_def azuremachinepool_webhook_def cluster_webhook_def machinepool_webhook_def
  spark_webhook_def

lemmas resource_defs = AzureConfig_Resource_def AzureCluster_Resource_def AzureClusterConfig_Resource_def
  AzureMachine_Resource_def AzureMachinePool_Resource_def Cluster_Resource_def MachinePool_Resource_def
  Spark_Resource_def

text \<open>The handlers the program builds from complete arguments.\<close>

definition all_webhooks :: "lib \<Rightarrow> clock \<Rightarrow> decoder \<Rightarrow> app_config \<Rightarrow> kube_api \<Rightarrow> kube_api \<Rightarrow> sku_api \<Rightarrow> webhook list" where
  "all_webhooks L now U cfg client reader vmcaps =
     (let legacy = \<lparr>lgh_ctrlClient = client, lgh_decoder = U\<rparr> in
      [azureconfig_webhook L legacy,
       azurecluster_webhook L \<lparr>ach_baseDomain = cfg_BaseDomain cfg, ach_ctrlReader = reader, ach_ctrlClient = client,
         ach_decoder = U, ach_location = cfg_Location cfg\<rparr>,
       azureclusterconfig_webhook L legacy,
       azuremachine_webhook L \<lparr>amh_ctrlClient = client, amh_decoder = U, amh_location = cfg_Location cfg,
         amh_vmcaps = vmcaps\<rparr>,
       azuremachinepool_webhook L \<lparr>aph_ctrlClient = client, aph_decoder = U, aph_location = cfg_Location cfg,
         aph_vmcaps = vmcaps\<rparr>,
       cluster_webhook L now \<lparr>clh_baseDomain = cfg_BaseDomain cfg, clh_decoder = U, clh_ctrlReader = reader,
         clh_ctrlClient = client\<rparr>,
       machinepool_webhook L \<lparr>mph_ctrlClient = client, mph_decoder = U, mph_vmcaps = vmcaps\<rparr>,
       spark_webhook L legacy])"

lemma getAllHandlers_Ok_iff [outcome_simps]:
  "getAllHandlers L now U cfg logger client reader vmcaps = Ok hs \<longleftrightarrow>
     cfg_BaseDomain cfg \<noteq> '''' \<and> cfg_Location cfg \<noteq> '''' \<and> logger \<noteq> None \<and>
     (\<exists>c r v. client = Some c \<and> reader = Some r \<and> vmcaps = Some v \<and> hs = all_webhooks L now U cfg c r v)"
  by (auto simp: getAllHandlers_def constructor_defs all_webhooks_def Let_def outcome_simps)

lemma RegisterWebhookHandlers_Ok_iff [outcome_simps]:
  "RegisterWebhookHandlers L H now U cfg logger client reader vmcaps = Ok routes \<longleftrightarrow>
     cfg_BaseDomain cfg \<noteq> '''' \<and> cfg_Location cfg \<noteq> '''' \<and> logger \<noteq> None \<and>
     (\<exists>c r v f. client = Some c \<and> reader = Some r \<and> vmcaps = Some v \<and>
        f = \<lparr>hf_ctrlReader = r, hf_ctrlClient = c\<rparr> \<and>
        routes = concat (map (register H f f) (all_webhooks L now U cfg c r v)))"
  by (auto simp: RegisterWebhookHandlers_def validator_NewHttpHandlerFactory_def
      mutator_NewHttpHandlerFactory_def Let_def outcome_simps)

definition served_paths :: "string list" where
  "served_paths =
     [''/validate/azureconfig/update'',
      ''/validate/azurecluster/create'', ''/validate/azurecluster/update'',
      ''/mutate/azurecluster/create'', ''/mutate/azurecluster/update'',
      ''/validate/azureclusterconfig/update'',
      ''/validate/azuremachine/create'', ''/validate/azuremachine/update'',
      ''/mutate/azuremachine/create'', ''/mutate/azuremachine/update'',
      ''/validate/azuremachinepool/create'', ''/validate/azuremachinepool/update'',
      ''/mutate/azuremachinepool/create'', ''/mutate/azuremachinepool/update'',
      ''/validate/cluster/create'', ''/validate/cluster/update'',
      ''/mutate/cluster/create'', ''/mutate/cluster/update'',
      ''/validate/machinepool/create'', ''/validate/machinepool/update'',
      ''/mutate/machinepool/create'', ''/mutate/machinepool/update'',
      ''/mutate/spark/create'']"

lemma registered_paths:
  "map fst (concat (map (register H f g) (all_webhooks L now U cfg c r v))) = served_paths"
  by (simp add: all_webhooks_def Let_def register_def webhook_defs resource_defs served_paths_def)

lemma served_paths_distinct: "distinct served_paths"
  by (simp add: served_paths_def)

text \<open>The registration succeeds exactly when base domain, location, logger, clients and machine types
  are given; it then serves the 23 paths of the chart's webhook configurations, each once, which is
  what the multiplexer requires.\<close>

theorem registration:
  "(\<exists>routes. RegisterWebhookHandlers L H now U cfg logger client reader vmcaps = Ok routes \<and>
      map fst routes = served_paths \<and> distinct (map fst routes)) \<longleftrightarrow>
     cfg_BaseDomain cfg \<noteq> '''' \<and> cfg_Location cfg \<noteq> '''' \<and> logger \<noteq> None \<and> client \<noteq> None \<and>
     reader \<noteq> None \<and> vmcaps \<noteq> None"
proof
  assume "\<exists>routes. RegisterWebhookHandlers L H now U cfg logger client reader vmcaps = Ok routes \<and>
      map fst routes = served_paths \<and> distinct (map fst routes)"
  then show "cfg_BaseDomain cfg \<noteq> '''' \<and> cfg_Location cfg \<noteq> '''' \<and> logger \<noteq> None \<and> client \<noteq> None \<and>
     reader \<noteq> None \<and> vmcaps \<noteq> None"
    by (auto simp: RegisterWebhookHandlers_Ok_iff)
next
  assume "cfg_BaseDomain cfg \<noteq> '''' \<and> cfg_Location cfg \<noteq> '''' \<and> logger \<noteq> None \<and> client \<noteq> None \<and>
     reader \<noteq> None \<and> vmcaps \<noteq> None"
  then obtain c r v where "client = Some c" "reader = Some r" "vmcaps = Some v"
    "cfg_BaseDomain cfg \<noteq> ''''" "cfg_Location cfg \<noteq> ''''" "logger \<noteq> None" by auto
  then show "\<exists>routes. RegisterWebhookHandlers L H now U cfg logger client reader vmcaps = Ok routes \<and>
      map fst routes = served_paths \<and> distinct (map fst routes)"
    by (auto simp: RegisterWebhookHandlers_Ok_iff registered_paths served_paths_distinct
        simp del: map_concat map_map)
qed

text \<open>What a path is served by.\<close>

definition route :: "(string \<times> http_handler) list \<Rightarrow> string \<Rightarrow> http_handler option" where
  "route routes path = map_of routes path"

lemma cluster_routes:
  assumes "RegisterWebhookHandlers L H now U cfg logger (Some c) (Some r) (Some v) = Ok routes"
  defines "f \<equiv> \<lparr>hf_ctrlReader = r, hf_ctrlClient = c\<rparr>"
    and "h \<equiv> \<lparr>clh_baseDomain = cfg_BaseDomain cfg, clh_decoder = U, clh_ctrlReader = r, clh_ctrlClient = c\<rparr>"
  shows "route routes ''/validate/cluster/create'' =
      Some (validator_NewCreateHandler H f (Cluster_Decode h) (\<lambda>ob. lift_st (Cluster_OnCreateValidate L h now ob)))"
    and "route routes ''/validate/cluster/update'' =
      Some (validator_NewUpdateHandler H f (Cluster_Decode h)
        (\<lambda>old ob. lift_st (Cluster_OnUpdateValidate L h now old ob)))"
  using assms(1)
  by (simp_all add: route_def RegisterWebhookHandlers_Ok_iff all_webhooks_def Let_def register_def webhook_defs
      resource_defs f_def h_def)

end
