(* ===== verification/Mux.thy ===== *)
theory Mux
  imports Prelude
begin

text \<open>
  The request multiplexer of the standard library (\<^verbatim>\<open>http.ServeMux\<close>), as far as the program uses it:
  registration of patterns, the choice of a handler by path, and the redirections of paths that are
  not canonical. Handlers are values of any type.
\<close>

section \<open>Canonical paths\<close>

fun join_path :: "string list \<Rightarrow> string" where
  "join_path [] = []"
| "join_path (s # ss) = CHR ''/'' # s @ join_path ss"

text \<open>\<open>path.Clean\<close> on the elements of a rooted path; the elements kept so far are in reverse.\<close>

fun clean_segments :: "string list \<Rightarrow> string list \<Rightarrow> string list" where
  "clean_segments acc [] = rev acc"
| "clean_segments acc (s # ss) =
     (if s = [] \<or> s = ''.'' then clean_segments acc ss
      else if s = ''..'' then clean_segments (tl acc) ss
      else clean_segments (s # acc) ss)"

definition path_Clean_rooted :: "string \<Rightarrow> string" where
  "path_Clean_rooted p =
     (case clean_segments [] (segments p) of [] \<Rightarrow> ''/'' | ss \<Rightarrow> join_path ss)"

definition cleanPath :: "string \<Rightarrow> string" where
  "cleanPath p =
     (if p = '''' then ''/''
      else let q = (if hd p = CHR ''/'' then p else CHR ''/'' # p); np = path_Clean_rooted q in
        if last q = CHR ''/'' \<and> np \<noteq> ''/'' then np @ ''/'' else np)"

section \<open>Patterns\<close>

text \<open>The registered patterns in the order of registration. Registering panics on an empty and on a known one.\<close>

type_synonym 'h mux = "(string \<times> 'h) list"

definition mux_Handle :: "'h mux \<Rightarrow> string \<Rightarrow> 'h \<Rightarrow> ('h mux, 'e) outcome" where
  "mux_Handle m pattern h =
     (if pattern = '''' \<or> pattern \<in> fst ` set m then Panic else Ok (m @ [(pattern, h)]))"

fun mux_Handle_all :: "'h mux \<Rightarrow> (string \<times> 'h) list \<Rightarrow> ('h mux, 'e) outcome" where
  "mux_Handle_all m [] = Ok m"
| "mux_Handle_all m ((p, h) # rs) = bind_res (mux_Handle m p h) (\<lambda>m'. mux_Handle_all m' rs)"

text \<open>The longest pattern that ends in a slash and begins the path.\<close>

definition mux_subtree :: "'h mux \<Rightarrow> string \<Rightarrow> 'h option" where
  "mux_subtree m path =
     map_option snd (List.find (\<lambda>(p, h). HasPrefix path p)
       (sort_key (\<lambda>(p, h). - int (length p)) (filter (\<lambda>(p, h). p \<noteq> [] \<and> last p = CHR ''/'') m)))"

definition mux_match :: "'h mux \<Rightarrow> string \<Rightarrow> 'h option" where
  "mux_match m path = (case map_of m path of Some h \<Rightarrow> Some h | None \<Rightarrow> mux_subtree m path)"

definition mux_hosts :: "'h mux \<Rightarrow> bool" where
  "mux_hosts m \<longleftrightarrow> (\<exists>(p, h)\<in>set m. p \<noteq> [] \<and> hd p \<noteq> CHR ''/'')"

definition mux_handler :: "'h mux \<Rightarrow> string \<Rightarrow> string \<Rightarrow> 'h option" where
  "mux_handler m host path =
     (case (if mux_hosts m then mux_match m (host @ path) else None) of
        Some h \<Rightarrow> Some h
      | None \<Rightarrow> mux_match m path)"

definition shouldRedirect :: "'h mux \<Rightarrow> string \<Rightarrow> string \<Rightarrow> bool" where
  "shouldRedirect m host path \<longleftrightarrow>
     map_of m path = None \<and> map_of m (host @ path) = None \<and> path \<noteq> '''' \<and>
     (map_of m (path @ ''/'') \<noteq> None \<or> map_of m (host @ path @ ''/'') \<noteq> None) \<and> last path \<noteq> CHR ''/''"

datatype 'h mux_answer = RunHandler 'h | MovedPermanently string | NotFoundPage

definition found :: "'h option \<Rightarrow> 'h mux_answer" where
  "found r = (case r of Some h \<Rightarrow> RunHandler h | None \<Rightarrow> NotFoundPage)"

text \<open>\<open>ServeMux.Handler\<close>; the host comes with its port removed.\<close>

definition mux_Handler :: "'h mux \<Rightarrow> string \<Rightarrow> string \<Rightarrow> string \<Rightarrow> 'h mux_answer" where
  "mux_Handler m method host path =
     (if method = ''CONNECT''
      then if shouldRedirect m host path then MovedPermanently (path @ ''/'')
           else found (mux_handler m host path)
      else let p = cleanPath path in
        if shouldRedirect m host p then MovedPermanently (p @ ''/'')
        else if p \<noteq> path then MovedPermanently p
        else found (mux_handler m host path))"

section \<open>Canonical paths are fixed\<close>

definition plain_segment :: "string \<Rightarrow> bool" where
  "plain_segment s \<longleftrightarrow> s \<noteq> [] \<and> s \<noteq> ''.'' \<and> s \<noteq> ''..'' \<and> CHR ''/'' \<notin> set s"

lemma clean_segments_plain:
  "list_all plain_segment acc \<Longrightarrow> \<forall>s\<in>set ss. CHR ''/'' \<notin> set s \<Longrightarrow>
   list_all plain_segment (clean_segments acc ss)"
proof (induction acc ss rule: clean_segments.induct)
  case (2 acc t ss)
  have "list_all plain_segment (tl acc)" using 2(4) by (cases acc) simp_all
  moreover have "t \<noteq> [] \<Longrightarrow> t \<noteq> ''.'' \<Longrightarrow> t \<noteq> ''..'' \<Longrightarrow> list_all plain_segment (t # acc)"
    using 2(4,5) by (simp add: plain_segment_def [of t])
  ultimately show ?case using 2 by simp
qed (simp add: list_all_iff)

lemma clean_segments_fixed: "\<forall>s\<in>set ss. plain_segment s \<Longrightarrow> clean_segments acc ss = rev acc @ ss"
  by (induction ss arbitrary: acc) (auto simp: plain_segment_def)

lemma clean_segments_snoc_empty: "clean_segments acc (ss @ [[]]) = clean_segments acc ss"
  by (induction acc ss rule: clean_segments.induct) auto

lemma segments_join:
  assumes "\<forall>s\<in>set ss. CHR ''/'' \<notin> set s" and "CHR ''/'' \<notin> set s"
  shows "segments (s @ join_path ss) = s # ss"
  using assms
proof (induction ss arbitrary: s)
  case (Cons t ts)
  then show ?case by (simp add: Split1_append)
qed (simp add: Split1_plain)

lemma segments_join_slash:
  assumes "\<forall>s\<in>set ss. CHR ''/'' \<notin> set s" and "CHR ''/'' \<notin> set s"
  shows "segments (s @ join_path ss @ ''/'') = s # ss @ [[]]"
  using assms
proof (induction ss arbitrary: s)
  case Nil
  then show ?case using Split1_append [where s = s and p = "[]"] by simp
next
  case (Cons t ts)
  then show ?case by (simp add: Split1_append)
qed

text \<open>A canonical path: plain elements, with at most a slash at the end.\<close>

definition canonical :: "string \<Rightarrow> bool" where
  "canonical p \<longleftrightarrow> p = ''/'' \<or>
     (\<exists>ss. ss \<noteq> [] \<and> (\<forall>s\<in>set ss. plain_segment s) \<and> (p = join_path ss \<or> p = join_path ss @ ''/''))"

lemma join_path_rooted: "ss \<noteq> [] \<Longrightarrow> join_path ss \<noteq> [] \<and> hd (join_path ss) = CHR ''/''"
  by (cases ss) auto

lemma join_path_last: "ss \<noteq> [] \<Longrightarrow> \<forall>s\<in>set ss. plain_segment s \<Longrightarrow> last (join_path ss) \<noteq> CHR ''/''"
proof (induction ss)
  case (Cons s ss)
  have "s \<noteq> []" "CHR ''/'' \<notin> set s" using Cons(3) by (simp_all add: plain_segment_def)
  then have "last s \<noteq> CHR ''/''" by (metis last_in_set)
  with \<open>s \<noteq> []\<close> Cons show ?case by (cases "ss = []") (simp_all add: join_path_rooted)
qed simp

lemma path_Clean_join:
  assumes "ss \<noteq> []" and "\<forall>s\<in>set ss. plain_segment s"
  shows "path_Clean_rooted (join_path ss) = join_path ss"
    and "path_Clean_rooted (join_path ss @ ''/'') = join_path ss"
proof -
  from assms(1) obtain t ts where ss: "ss = t # ts" by (cases ss) auto
  have sl: "\<forall>s\<in>set ss. CHR ''/'' \<notin> set s" using assms(2) by (auto simp: plain_segment_def)
  have seg: "segments (join_path ss) = [] # ss" "segments (join_path ss @ ''/'') = [] # ss @ [[]]"
    using segments_join [OF sl, of "[]"] segments_join_slash [OF sl, of "[]"] by simp_all
  have cs: "clean_segments [] ss = ss" by (simp add: clean_segments_fixed [OF assms(2)])
  show "path_Clean_rooted (join_path ss) = join_path ss"
    unfolding path_Clean_rooted_def seg by (simp add: cs del: join_path.simps) (simp add: ss)
  show "path_Clean_rooted (join_path ss @ ''/'') = join_path ss"
    unfolding path_Clean_rooted_def seg
    by (simp add: cs clean_segments_snoc_empty del: join_path.simps) (simp add: ss)
qed

lemma canonical_fixed: "canonical p \<Longrightarrow> cleanPath p = p"
  unfolding canonical_def
proof (elim disjE exE conjE)
  assume "p = ''/''"
  then show ?thesis by (simp add: cleanPath_def path_Clean_rooted_def)
next
  fix ss assume ss: "ss \<noteq> []" "\<forall>s\<in>set ss. plain_segment s" and p: "p = join_path ss"
  have "p \<noteq> []" "hd p = CHR ''/''" "last p \<noteq> CHR ''/''" "path_Clean_rooted p = p"
    using join_path_rooted [OF ss(1)] join_path_last [OF ss] path_Clean_join [OF ss] by (simp_all add: p)
  then show ?thesis by (simp add: cleanPath_def)
next
  fix ss assume ss: "ss \<noteq> []" "\<forall>s\<in>set ss. plain_segment s" and p: "p = join_path ss @ ''/''"
  have "p \<noteq> []" "hd p = CHR ''/''" "path_Clean_rooted p = join_path ss" "join_path ss \<noteq> ''/''"
    using join_path_rooted [OF ss(1)] join_path_last [OF ss] path_Clean_join [OF ss] by (auto simp: p)
  then show ?thesis by (simp add: cleanPath_def p)
qed

lemma path_Clean_cases:
  "path_Clean_rooted p = ''/'' \<or>
   (\<exists>ss. ss \<noteq> [] \<and> (\<forall>s\<in>set ss. plain_segment s) \<and> path_Clean_rooted p = join_path ss)"
proof -
  have "list_all plain_segment (clean_segments [] (segments p))"
    using clean_segments_plain [of "[]" "segments p"] Split1_no_sep by simp
  then have "\<forall>s\<in>set (clean_segments [] (segments p)). plain_segment s" by (simp add: list_all_iff)
  then show ?thesis
    unfolding path_Clean_rooted_def by (cases "clean_segments [] (segments p)") fastforce+
qed

lemma cleanPath_canonical: "canonical (cleanPath p)"
proof -
  let ?q = "if hd p = CHR ''/'' then p else CHR ''/'' # p"
  show ?thesis
    using path_Clean_cases [of ?q] by (auto simp: canonical_def cleanPath_def Let_def)
qed

lemma cleanPath_idem: "cleanPath (cleanPath p) = cleanPath p"
  by (rule canonical_fixed [OF cleanPath_canonical])

section \<open>Tables of exact patterns\<close>

text \<open>Rooted patterns without a slash at their end, each once: no subtrees, no hosts.\<close>

definition exact_table :: "'h mux \<Rightarrow> bool" where
  "exact_table m \<longleftrightarrow> distinct (map fst m) \<and>
     (\<forall>(p, h)\<in>set m. p \<noteq> [] \<and> hd p = CHR ''/'' \<and> last p \<noteq> CHR ''/'')"

lemma exact_table_registers:
  assumes "exact_table (m @ rs)"
  shows "(mux_Handle_all m rs :: ('h mux, 'e) outcome) = Ok (m @ rs)"
  using assms
proof (induction rs arbitrary: m)
  case (Cons r rs)
  obtain p h where r: "r = (p, h)" by (cases r)
  from Cons.prems have "mux_Handle m p h = (Ok (m @ [r]) :: ('h mux, 'e) outcome)"
    by (auto simp: mux_Handle_def exact_table_def r)
  with Cons.IH [of "m @ [r]"] Cons.prems show ?case by (simp add: r)
qed simp

lemma exact_table_handler:
  assumes "exact_table m"
  shows "mux_handler m host path = map_of m path"
proof -
  have "filter (\<lambda>(p, h). p \<noteq> [] \<and> last p = CHR ''/'') m = []"
    using assms by (auto simp: exact_table_def filter_empty_conv)
  then have "mux_subtree m p = None" for p by (simp add: mux_subtree_def)
  moreover have "\<not> mux_hosts m" using assms by (auto simp: exact_table_def mux_hosts_def)
  ultimately show ?thesis by (simp add: mux_handler_def mux_match_def split: option.splits)
qed

lemma exact_table_no_redirect:
  assumes "exact_table m"
  shows "\<not> shouldRedirect m host path"
proof -
  have "map_of m (q @ ''/'') = None" for q
  proof (rule ccontr)
    assume "map_of m (q @ ''/'') \<noteq> None"
    then obtain h where "(q @ ''/'', h) \<in> set m" by (meson map_of_SomeD not_Some_eq)
    with assms show False by (fastforce simp: exact_table_def)
  qed
  from this [of path] this [of "host @ path"] show ?thesis by (simp add: shouldRedirect_def)
qed

lemma exact_table_Handler:
  assumes "exact_table m"
  shows "mux_Handler m method host path =
     (if method \<noteq> ''CONNECT'' \<and> cleanPath path \<noteq> path then MovedPermanently (cleanPath path)
      else found (map_of m path))"
  using assms
  by (simp add: mux_Handler_def Let_def exact_table_handler exact_table_no_redirect)

end
