(* ===== verification/Server.thy ===== *)
theory Server
  imports App Mux
begin

text \<open>
  The process (\<^verbatim>\<open>main.go\<close>, with \<^verbatim>\<open>pkg/config\<close> and \<^verbatim>\<open>pkg/project\<close>): the start-up from the command line
  to the registered handlers, the routing of requests, and the life of the server from listening to the
  termination signal. The command line library, the Kubernetes and Azure clients, the certificates and
  the sockets are arguments.
\<close>

section \<open>project.go\<close>

definition project_description :: string where "project_description = ''Azure admission controller''"
definition project_gitSHA :: string where "project_gitSHA = ''n/a''"
definition project_name :: string where "project_name = ''azure-admission-controller''"
definition project_source :: string where
  "project_source = ''https://github.com/giantswarm/azure-admission-controller''"
definition project_version :: string where "project_version = ''3.2.1-dev''"

definition project_Description :: string where "project_Description = project_description"
definition project_GitSHA :: string where "project_GitSHA = project_gitSHA"
definition project_Name :: string where "project_Name = project_name"
definition project_Source :: string where "project_Source = project_source"
definition project_Version :: string where "project_Version = project_version"

section \<open>config.go\<close>

text \<open>
  The declaration of a flag. \<open>kingpin.Parse\<close> gives the values of the flags that were set or have a
  default, or stops the process with a usage message.
\<close>

record flag_decl =
  fl_Name :: string
  fl_Required :: bool
  fl_Default :: "string option"

definition defaultAddress :: string where "defaultAddress = '':8080''"

definition config_flags :: "flag_decl list" where
  "config_flags =
     [\<lparr>fl_Name = ''tls-cert-file'', fl_Required = True, fl_Default = None\<rparr>,
      \<lparr>fl_Name = ''tls-key-file'', fl_Required = True, fl_Default = None\<rparr>,
      \<lparr>fl_Name = ''address'', fl_Required = False, fl_Default = Some defaultAddress\<rparr>,
      \<lparr>fl_Name = ''base-domain'', fl_Required = True, fl_Default = None\<rparr>,
      \<lparr>fl_Name = ''location'', fl_Required = True, fl_Default = None\<rparr>]"

definition Parse :: "(flag_decl list \<Rightarrow> str_map option) \<Rightarrow> app_config option" where
  "Parse kingpin =
     (case kingpin config_flags of
        None \<Rightarrow> None
      | Some values \<Rightarrow> Some \<lparr>cfg_BaseDomain = mget values ''base-domain'',
          cfg_CertFile = mget values ''tls-cert-file'', cfg_KeyFile = mget values ''tls-key-file'',
          cfg_Address = mget values ''address'', cfg_AvailabilityZones = '''',
          cfg_Location = mget values ''location''\<rparr>)"

section \<open>Start-up\<close>

text \<open>
  What the program finds around it. The wait for the caches may answer, the caches may fail to start in
  their goroutine, which panics, and the wait may never end, since its stop channel is never closed.
\<close>

datatype cache_sync = SyncAnswer bool | StartFails | NeverSynced

record platform =
  pf_kingpin :: "flag_decl list \<Rightarrow> str_map option"
  pf_newLogger :: "go_error + unit"
  pf_InClusterConfig :: "go_error + unit"
  pf_NewClients :: "string \<Rightarrow> go_error + kube_api"
  pf_NewDynamicRESTMapper :: "go_error + unit"
  pf_NewCache :: "go_error + kube_api"
  pf_WaitForCacheSync :: cache_sync
  pf_ClientID :: string
  pf_ClientSecret :: string
  pf_SubscriptionID :: string
  pf_TenantID :: string
  pf_Getenv :: "string \<Rightarrow> string"
  pf_GetSettings :: "go_error + unit"
  pf_GetAuthorizer :: "go_error + unit"
  pf_ListComplete :: "nat \<Rightarrow> string \<Rightarrow> go_error + sku_iterator"
  pf_Write :: "string \<Rightarrow> go_error option"

text \<open>How the start-up ends: a usage message, an error, a panic, a wait without end, or a server.\<close>

datatype 'a start_up = Usage | Failed go_error | Panics | Waits | Serves 'a

fun bind_start :: "'a start_up \<Rightarrow> ('a \<Rightarrow> 'b start_up) \<Rightarrow> 'b start_up" where
  "bind_start (Serves x) f = f x"
| "bind_start Usage f = Usage"
| "bind_start (Failed e) f = Failed e"
| "bind_start Panics f = Panics"
| "bind_start Waits f = Waits"

fun stage :: "go_error + 'a \<Rightarrow> 'a start_up" where
  "stage (Inl err) = Failed err"
| "stage (Inr x) = Serves x"

fun res_stage :: "'a res \<Rightarrow> 'a start_up" where
  "res_stage (Ok x) = Serves x"
| "res_stage (Err err) = Failed err"
| "res_stage Panic = Panics"

definition userAgent :: string where
  "userAgent = project_Name @ ''/'' @ project_Version"

definition cache_error :: go_error where
  "cache_error = Opaque (''couldn'' @ [char_of (39::nat)] @ ''t wait for cache sync'')"

fun cache_stage :: "cache_sync \<Rightarrow> unit start_up" where
  "cache_stage (SyncAnswer ok) = (if ok then Serves () else Failed cache_error)"
| "cache_stage StartFails = Panics"
| "cache_stage NeverSynced = Waits"

definition env_error :: "string \<Rightarrow> go_error" where
  "env_error envVarName =
     Opaque (''empty value or missing required env variable '' @ CHR 0x22 # envVarName @ [CHR 0x22])"

definition envVarNames :: "platform \<Rightarrow> string list" where
  "envVarNames pf = [pf_ClientID pf, pf_ClientSecret pf, pf_SubscriptionID pf, pf_TenantID pf]"

fun check_env :: "(string \<Rightarrow> string) \<Rightarrow> string list \<Rightarrow> unit start_up" where
  "check_env getenv [] = Serves ()"
| "check_env getenv (n # ns) = (if getenv n = '''' then Failed (env_error n) else check_env getenv ns)"

definition NewAzureAPI :: "(nat \<Rightarrow> string \<Rightarrow> go_error + sku_iterator) \<Rightarrow> sku_api" where
  "NewAzureAPI listComplete = (\<lambda>k. Azure_List (listComplete k))"

text \<open>What the server answers: a webhook's reply, or a status with a text.\<close>

datatype server_reply = WebhookReply http_reply | PlainReply nat string | RedirectReply string

type_synonym endpoint = "http_request \<Rightarrow> server_reply vm_prog"

definition healthCheck :: "(string \<Rightarrow> go_error option) \<Rightarrow> endpoint" where
  "healthCheck write = (\<lambda>request. lift_st
     (case write ''ok'' of
        Some err \<Rightarrow> Panic
      | None \<Rightarrow> Ok (PlainReply StatusOK ''ok'')))"

definition as_endpoint :: "http_handler \<Rightarrow> endpoint" where
  "as_endpoint h = (\<lambda>request. bind_st (h request) (\<lambda>r. lift_st (Ok (WebhookReply r))))"

record server_parts =
  srv_config :: app_config
  srv_handler :: "endpoint mux"
  srv_vmcaps :: "sku_api \<times> vmsku"

definition mainError :: "platform \<Rightarrow> lib \<Rightarrow> http_lib \<Rightarrow> clock \<Rightarrow> decoder \<Rightarrow> server_parts start_up" where
  "mainError pf L H now universalDeserializer =
     (case Parse (pf_kingpin pf) of
        None \<Rightarrow> Usage
      | Some cfg \<Rightarrow>
     bind_start (stage (pf_newLogger pf)) (\<lambda>newLogger.
     bind_start (stage (pf_InClusterConfig pf)) (\<lambda>restConfig.
     bind_start (stage (pf_NewClients pf userAgent)) (\<lambda>ctrlClient.
     bind_start (stage (pf_NewDynamicRESTMapper pf)) (\<lambda>mapper.
     bind_start (stage (pf_NewCache pf)) (\<lambda>ctrlCache.
     bind_start (cache_stage (pf_WaitForCacheSync pf)) (\<lambda>_.
     bind_start (check_env (pf_Getenv pf) (envVarNames pf)) (\<lambda>_.
     bind_start (stage (pf_GetSettings pf)) (\<lambda>settings.
     bind_start (stage (pf_GetAuthorizer pf)) (\<lambda>authorizer.
     bind_start (res_stage (VMSKU_New \<lparr>vmc_Azure = Some (NewAzureAPI (pf_ListComplete pf)),
       vmc_Logger = Some newLogger\<rparr>)) (\<lambda>vmcaps.
     bind_start (res_stage (mux_Handle [] ''/healthz'' (healthCheck (pf_Write pf)))) (\<lambda>handler.
     bind_start (res_stage (RegisterWebhookHandlers L H now universalDeserializer cfg (Some newLogger)
       (Some ctrlClient) (Some ctrlCache) (Some (fst vmcaps)))) (\<lambda>routes.
     bind_start (res_stage (mux_Handle_all handler (map (map_prod id as_endpoint) routes))) (\<lambda>handler'.
     Serves \<lparr>srv_config = cfg, srv_handler = handler', srv_vmcaps = vmcaps\<rparr>))))))))))))))"

text \<open>\<open>main\<close>: an error ends the process with a panic.\<close>

definition main :: "platform \<Rightarrow> lib \<Rightarrow> http_lib \<Rightarrow> clock \<Rightarrow> decoder \<Rightarrow> server_parts start_up" where
  "main pf L H now universalDeserializer =
     (case mainError pf L H now universalDeserializer of
        Failed err \<Rightarrow> Panics
      | outcome \<Rightarrow> outcome)"

text \<open>The request line, as far as the multiplexer looks at it.\<close>

record request_line =
  rl_Method :: string
  rl_Host :: string
  rl_Path :: string

definition ServeHTTP :: "endpoint mux \<Rightarrow> request_line \<Rightarrow> endpoint" where
  "ServeHTTP handler line = (\<lambda>request.
     case mux_Handler handler (rl_Method line) (rl_Host line) (rl_Path line) of
       RunHandler h \<Rightarrow> h request
     | MovedPermanently path \<Rightarrow> lift_st (Ok (RedirectReply path))
     | NotFoundPage \<Rightarrow> lift_st (Ok (PlainReply 404 ''404 page not found'')))"

section \<open>What starts, and what is served\<close>

lemma bind_start_Serves [outcome_simps]:
  "bind_start s f = Serves y \<longleftrightarrow> (\<exists>x. s = Serves x \<and> f x = Serves y)"
  by (cases s) auto

lemma stage_Serves [outcome_simps]: "stage s = Serves x \<longleftrightarrow> s = Inr x"
  by (cases s) auto

lemma res_stage_Serves [outcome_simps]: "res_stage r = Serves x \<longleftrightarrow> r = Ok x"
  by (cases r) auto

lemma cache_stage_Serves [outcome_simps]: "cache_stage s = Serves x \<longleftrightarrow> s = SyncAnswer True"
  by (cases s) auto

lemma check_env_Serves [outcome_simps]:
  "check_env getenv ns = Serves x \<longleftrightarrow> '''' \<notin> getenv ` set ns"
  by (induction ns) auto

lemma main_Serves_iff [outcome_simps]:
  "main pf L H now U = Serves parts \<longleftrightarrow> mainError pf L H now U = Serves parts"
  by (simp add: main_def split: start_up.split)

text \<open>The handlers the server has when it starts.\<close>

definition served_table :: "platform \<Rightarrow> (string \<times> http_handler) list \<Rightarrow> endpoint mux" where
  "served_table pf routes = (''/healthz'', healthCheck (pf_Write pf)) # map (map_prod id as_endpoint) routes"

lemma served_table_paths: "map fst (served_table pf routes) = ''/healthz'' # map fst routes"
  by (simp add: served_table_def)

lemma served_paths_exact: "\<forall>p\<in>set (''/healthz'' # served_paths). p \<noteq> [] \<and> hd p = CHR ''/'' \<and> last p \<noteq> CHR ''/''"
  by (simp add: served_paths_def)

lemma healthz_not_served: "''/healthz'' \<notin> set served_paths"
  by (simp add: served_paths_def)

lemma served_table_exact:
  assumes "map fst routes = served_paths"
  shows "exact_table (served_table pf routes)"
proof -
  have p: "map fst (served_table pf routes) = ''/healthz'' # served_paths"
    by (simp add: served_table_paths assms)
  have "\<forall>q\<in>set (map fst (served_table pf routes)). q \<noteq> [] \<and> hd q = CHR ''/'' \<and> last q \<noteq> CHR ''/''"
    unfolding p by (rule served_paths_exact)
  moreover have "distinct (map fst (served_table pf routes))"
    unfolding p using served_paths_distinct healthz_not_served by simp
  ultimately show ?thesis by (auto simp: exact_table_def)
qed

lemma served_table_registers:
  assumes "map fst routes = served_paths"
  shows "mux_Handle_all [(''/healthz'', healthCheck (pf_Write pf))] (map (map_prod id as_endpoint) routes) =
     (Ok (served_table pf routes) :: (endpoint mux) res)"
  using exact_table_registers [of "[(''/healthz'', healthCheck (pf_Write pf))]" "map (map_prod id as_endpoint) routes"]
    served_table_exact [OF assms, of pf]
  by (simp add: served_table_def)

text \<open>What the multiplexer makes of a request to the table of a started server.\<close>

definition endpoint_of :: "platform \<Rightarrow> (string \<times> http_handler) list \<Rightarrow> string \<Rightarrow> endpoint" where
  "endpoint_of pf routes path =
     (if path = ''/healthz'' then healthCheck (pf_Write pf)
      else (case map_of routes path of
          Some h \<Rightarrow> as_endpoint h
        | None \<Rightarrow> (\<lambda>request. lift_st (Ok (PlainReply 404 ''404 page not found'')))))"

lemma ServeHTTP_served_table:
  assumes "map fst routes = served_paths"
  shows "ServeHTTP (served_table pf routes) line =
     (if rl_Method line \<noteq> ''CONNECT'' \<and> cleanPath (rl_Path line) \<noteq> rl_Path line
      then (\<lambda>request. lift_st (Ok (RedirectReply (cleanPath (rl_Path line)))))
      else endpoint_of pf routes (rl_Path line))"
proof -
  have "map_of (map (map_prod id as_endpoint) routes) p = map_option as_endpoint (map_of routes p)" for p
    by (simp add: map_prod_def map_of_map)
  then have "map_of (served_table pf routes) p = (if p = ''/healthz'' then Some (healthCheck (pf_Write pf))
      else map_option as_endpoint (map_of routes p))" for p
    by (simp add: served_table_def)
  then show ?thesis
    by (simp add: ServeHTTP_def exact_table_Handler [OF served_table_exact [OF assms]] found_def
        endpoint_of_def fun_eq_iff split: option.splits)
qed

lemma mainError_Serves_iff:
  "mainError pf L H now U = Serves parts \<longleftrightarrow>
     (\<exists>cfg client reader routes. Parse (pf_kingpin pf) = Some cfg \<and> pf_newLogger pf = Inr () \<and>
        pf_InClusterConfig pf = Inr () \<and> pf_NewClients pf userAgent = Inr client \<and>
        pf_NewDynamicRESTMapper pf = Inr () \<and> pf_NewCache pf = Inr reader \<and>
        pf_WaitForCacheSync pf = SyncAnswer True \<and> '''' \<notin> pf_Getenv pf ` set (envVarNames pf) \<and>
        pf_GetSettings pf = Inr () \<and> pf_GetAuthorizer pf = Inr () \<and>
        RegisterWebhookHandlers L H now U cfg (Some ()) (Some client) (Some reader)
          (Some (NewAzureAPI (pf_ListComplete pf))) = Ok routes \<and>
        parts = \<lparr>srv_config = cfg, srv_handler = served_table pf routes,
          srv_vmcaps = (NewAzureAPI (pf_ListComplete pf), \<lparr>skus = Map.empty, calls = 0\<rparr>)\<rparr>)"
proof -
  have "mux_Handle_all [(''/healthz'', healthCheck (pf_Write pf))] (map (map_prod id as_endpoint) routes) =
      (Ok (served_table pf routes) :: (endpoint mux) res)"
    if "RegisterWebhookHandlers L H now U cfg (Some x) (Some client) (Some reader)
        (Some (NewAzureAPI (pf_ListComplete pf))) = Ok routes" for cfg x client reader routes
    using that by (intro served_table_registers)
      (auto simp: RegisterWebhookHandlers_Ok_iff registered_paths simp del: map_concat map_map)
  then show ?thesis
    by (auto simp: mainError_def VMSKU_New_def outcome_simps mux_Handle_def cong: conj_cong split: option.splits
        simp del: RegisterWebhookHandlers_Ok_iff)
qed

text \<open>C15. The program starts to serve exactly when every stage of the start-up succeeds: the command line is
  complete, clients, cache and Azure credentials can be set up, none of the four environment variables is
  empty, and neither base domain nor location is the empty string, which the flags allow.\<close>

theorem start_up_succeeds_iff:
  "(\<exists>parts. mainError pf L H now U = Serves parts) \<longleftrightarrow>
     (\<exists>values client reader. pf_kingpin pf config_flags = Some values \<and>
        mget values ''base-domain'' \<noteq> '''' \<and> mget values ''location'' \<noteq> '''' \<and>
        pf_newLogger pf = Inr () \<and> pf_InClusterConfig pf = Inr () \<and>
        pf_NewClients pf ''azure-admission-controller/3.2.1-dev'' = Inr client \<and>
        pf_NewDynamicRESTMapper pf = Inr () \<and> pf_NewCache pf = Inr reader \<and>
        pf_WaitForCacheSync pf = SyncAnswer True \<and>
        '''' \<notin> pf_Getenv pf ` {pf_ClientID pf, pf_ClientSecret pf, pf_SubscriptionID pf, pf_TenantID pf} \<and>
        pf_GetSettings pf = Inr () \<and> pf_GetAuthorizer pf = Inr ())"
  by (auto simp: mainError_Serves_iff RegisterWebhookHandlers_Ok_iff Parse_def userAgent_def project_Name_def
      project_name_def project_Version_def project_version_def envVarNames_def split: option.splits)

text \<open>C16. What a started server answers: its health check and the 23 webhooks at exactly their paths, one
  redirection to the canonical path, which is not redirected again, for a path that is not canonical, and 404
  for every other path.\<close>

theorem started_server_routes:
  assumes "mainError pf L H now U = Serves parts"
  shows "\<exists>routes. map fst routes = served_paths \<and> (\<forall>line.
     ServeHTTP (srv_handler parts) line =
       (if rl_Method line \<noteq> ''CONNECT'' \<and> cleanPath (rl_Path line) \<noteq> rl_Path line
        then (\<lambda>request v. (Ok (RedirectReply (cleanPath (rl_Path line))), v))
        else endpoint_of pf routes (rl_Path line)) \<and>
     ServeHTTP (srv_handler parts) (line\<lparr>rl_Path := cleanPath (rl_Path line)\<rparr>) =
       endpoint_of pf routes (cleanPath (rl_Path line)))"
proof -
  from assms obtain cfg client reader routes where
    r: "RegisterWebhookHandlers L H now U cfg (Some ()) (Some client) (Some reader)
          (Some (NewAzureAPI (pf_ListComplete pf))) = Ok routes"
      and h: "srv_handler parts = served_table pf routes"
    by (auto simp: mainError_Serves_iff)
  have p: "map fst routes = served_paths"
    using r by (auto simp: RegisterWebhookHandlers_Ok_iff registered_paths simp del: map_concat map_map)
  show ?thesis
    by (intro exI [of _ routes] conjI allI)
      (simp_all add: p h ServeHTTP_served_table [OF p] cleanPath_idem lift_st_def)
qed

section \<open>The life of the server\<close>

text \<open>
  \<open>serve\<close> and the goroutine that waits for SIGTERM. As soon as \<open>Shutdown\<close> begins, the listener is closed and
  \<open>ListenAndServeTLS\<close> returns \<open>ErrServerClosed\<close>; \<open>Shutdown\<close> itself returns when no request is open. The process
  ends with the main goroutine, whatever the other goroutines are doing.
\<close>

datatype main_pc = Certificates | Ready | Listening | Ended | Aborted

datatype shutdown_pc = AwaitSignal | ClosingDown | ShutDown

record process =
  main_at :: main_pc
  sig_pending :: bool
  shutdown_at :: shutdown_pc
  open_requests :: "nat set"
  answered :: "nat set"

definition process_start :: process where
  "process_start = \<lparr>main_at = Certificates, sig_pending = False, shutdown_at = AwaitSignal,
     open_requests = {}, answered = {}\<rparr>"

definition running :: "process \<Rightarrow> bool" where
  "running p \<longleftrightarrow> main_at p \<noteq> Ended \<and> main_at p \<noteq> Aborted"

inductive serve_step :: "process \<Rightarrow> process \<Rightarrow> bool" where
  no_certificates: "main_at p = Certificates \<Longrightarrow> serve_step p (p\<lparr>main_at := Aborted\<rparr>)"
| watching: "main_at p = Certificates \<Longrightarrow> serve_step p (p\<lparr>main_at := Ready\<rparr>)"
| listens: "main_at p = Ready \<Longrightarrow> shutdown_at p = AwaitSignal \<Longrightarrow> serve_step p (p\<lparr>main_at := Listening\<rparr>)"
| listen_fails: "main_at p \<in> {Ready, Listening} \<Longrightarrow> shutdown_at p = AwaitSignal \<Longrightarrow>
    serve_step p (p\<lparr>main_at := Aborted\<rparr>)"
| accepts: "main_at p = Listening \<Longrightarrow> shutdown_at p = AwaitSignal \<Longrightarrow>
    i \<notin> open_requests p \<union> answered p \<Longrightarrow> serve_step p (p\<lparr>open_requests := insert i (open_requests p)\<rparr>)"
| answers: "running p \<Longrightarrow> i \<in> open_requests p \<Longrightarrow>
    serve_step p (p\<lparr>open_requests := open_requests p - {i}, answered := insert i (answered p)\<rparr>)"
| sigterm: "main_at p \<in> {Ready, Listening} \<Longrightarrow> serve_step p (p\<lparr>sig_pending := True\<rparr>)"
| shutdown_begins: "running p \<Longrightarrow> sig_pending p \<Longrightarrow> shutdown_at p = AwaitSignal \<Longrightarrow>
    serve_step p (p\<lparr>sig_pending := False, shutdown_at := ClosingDown\<rparr>)"
| shutdown_fails: "running p \<Longrightarrow> shutdown_at p = ClosingDown \<Longrightarrow> serve_step p (p\<lparr>main_at := Aborted\<rparr>)"
| shutdown_ends: "running p \<Longrightarrow> shutdown_at p = ClosingDown \<Longrightarrow> open_requests p = {} \<Longrightarrow>
    serve_step p (p\<lparr>shutdown_at := ShutDown\<rparr>)"
| server_closed: "main_at p \<in> {Ready, Listening} \<Longrightarrow> shutdown_at p \<noteq> AwaitSignal \<Longrightarrow>
    serve_step p (p\<lparr>main_at := Ended\<rparr>)"

inductive_cases serve_stepE: "serve_step p p'"

text \<open>Nothing is accepted once the shutdown has begun, and a normal end means that it has.\<close>

lemma serve_step_accepts:
  "serve_step p p' \<Longrightarrow> shutdown_at p \<noteq> AwaitSignal \<Longrightarrow> shutdown_at p' \<noteq> AwaitSignal \<and>
     open_requests p' \<union> answered p' = open_requests p \<union> answered p"
  by (erule serve_stepE) (auto simp: running_def)

definition ends_by_signal :: "process \<Rightarrow> bool" where
  "ends_by_signal p \<longleftrightarrow> (main_at p = Ended \<longrightarrow> shutdown_at p \<noteq> AwaitSignal) \<and> open_requests p \<inter> answered p = {}"

lemma ends_by_signal_step: "serve_step p p' \<Longrightarrow> ends_by_signal p \<Longrightarrow> ends_by_signal p'"
  by (erule serve_stepE) (auto simp: ends_by_signal_def running_def)

lemma ends_by_signal_reachable: "serve_step\<^sup>*\<^sup>* process_start p \<Longrightarrow> ends_by_signal p"
proof (induction rule: rtranclp_induct)
  case base
  show ?case by (simp add: ends_by_signal_def process_start_def)
qed (rule ends_by_signal_step)

lemma ended_stays: "serve_step p p' \<Longrightarrow> main_at p = Ended \<Longrightarrow> False"
  by (erule serve_stepE) (auto simp: running_def)

text \<open>C38. After SIGTERM the process may end while a request is still being served: the main goroutine does not
  wait for the shutdown, so that every request that was open when the signal came can be left without an answer.\<close>

theorem shutdown_can_abandon_requests:
  assumes "serve_step\<^sup>*\<^sup>* process_start p" and "main_at p = Listening" and "shutdown_at p = AwaitSignal"
    and "i \<in> open_requests p"
  shows "\<exists>p'. serve_step\<^sup>*\<^sup>* p p' \<and> main_at p' = Ended \<and> i \<notin> answered p' \<and> (\<nexists>p''. serve_step p' p'')"
proof -
  let ?p1 = "p\<lparr>sig_pending := True\<rparr>"
  let ?p2 = "?p1\<lparr>sig_pending := False, shutdown_at := ClosingDown\<rparr>"
  let ?p3 = "?p2\<lparr>main_at := Ended\<rparr>"
  have "serve_step p ?p1" using assms(2) by (intro serve_step.sigterm) simp
  moreover have "serve_step ?p1 ?p2" using assms(2,3) by (intro serve_step.shutdown_begins) (simp_all add: running_def)
  moreover have "serve_step ?p2 ?p3" using assms(2) by (intro serve_step.server_closed) simp_all
  ultimately have "serve_step\<^sup>*\<^sup>* p ?p3" by (meson converse_rtranclp_into_rtranclp rtranclp.rtrancl_refl)
  moreover have "i \<notin> answered ?p3"
    using ends_by_signal_reachable [OF assms(1)] assms(4) by (auto simp: ends_by_signal_def)
  moreover have "main_at ?p3 = Ended" by simp
  ultimately show ?thesis using ended_stays by blast
qed

section \<open>A start-up\<close>

text \<open>An environment in which everything can be set up, with one installation behind both clients.\<close>

definition demo_platform :: "kube_api \<Rightarrow> kube_api \<Rightarrow> platform" where
  "demo_platform client reader =
     \<lparr>pf_kingpin = (\<lambda>_. Some [''tls-cert-file'' \<mapsto> ''tls.crt'', ''tls-key-file'' \<mapsto> ''tls.key'',
        ''address'' \<mapsto> '':8080'', ''base-domain'' \<mapsto> ''k8s.io'', ''location'' \<mapsto> ''westeurope'']),
      pf_newLogger = Inr (), pf_InClusterConfig = Inr (), pf_NewClients = (\<lambda>_. Inr client),
      pf_NewDynamicRESTMapper = Inr (), pf_NewCache = Inr reader, pf_WaitForCacheSync = SyncAnswer True,
      pf_ClientID = ''AZURE_CLIENT_ID'', pf_ClientSecret = ''AZURE_CLIENT_SECRET'',
      pf_SubscriptionID = ''AZURE_SUBSCRIPTION_ID'', pf_TenantID = ''AZURE_TENANT_ID'',
      pf_Getenv = (\<lambda>_. ''set''), pf_GetSettings = Inr (), pf_GetAuthorizer = Inr (),
      pf_ListComplete = (\<lambda>_ _. Inr IterDone), pf_Write = (\<lambda>_. None)\<rparr>"

lemma demo_platform_starts: "\<exists>parts. mainError (demo_platform client reader) L H now U = Serves parts"
  by (auto simp: mainError_Serves_iff RegisterWebhookHandlers_Ok_iff Parse_def demo_platform_def mget_def)

theorem started_server_routes_witness:
  "\<exists>parts :: server_parts. ServeHTTP (srv_handler parts) \<lparr>rl_Method = ''GET'', rl_Host = ''h'', rl_Path = ''/validate//cluster''\<rparr> =
     (\<lambda>request v. (Ok (RedirectReply ''/validate/cluster''), v))"
proof -
  obtain parts where "mainError (demo_platform (demo_kube []) (demo_kube [])) demo_lib demo_http (0, 0) demo_decoder
      = Serves parts"
    using demo_platform_starts by blast
  from started_server_routes [OF this] obtain routes where
    "\<And>line. ServeHTTP (srv_handler parts) line =
       (if rl_Method line \<noteq> ''CONNECT'' \<and> cleanPath (rl_Path line) \<noteq> rl_Path line
        then (\<lambda>request v. (Ok (RedirectReply (cleanPath (rl_Path line))), v))
        else endpoint_of (demo_platform (demo_kube []) (demo_kube [])) routes (rl_Path line))"
    by blast
  moreover have "cleanPath ''/validate//cluster'' = ''/validate/cluster''" by code_simp
  ultimately show ?thesis by (intro exI [of _ parts]) simp
qed

lemma one_request_open:
  "serve_step\<^sup>*\<^sup>* process_start (process_start\<lparr>main_at := Listening, open_requests := {0}\<rparr>)"
proof -
  have "serve_step process_start (process_start\<lparr>main_at := Ready\<rparr>)"
    by (rule serve_step.watching) (simp add: process_start_def)
  moreover have "serve_step (process_start\<lparr>main_at := Ready\<rparr>) (process_start\<lparr>main_at := Listening\<rparr>)"
    using serve_step.listens [of "process_start\<lparr>main_at := Ready\<rparr>"] by (simp add: process_start_def)
  moreover have "serve_step (process_start\<lparr>main_at := Listening\<rparr>)
      (process_start\<lparr>main_at := Listening, open_requests := {0}\<rparr>)"
    using serve_step.accepts [of "process_start\<lparr>main_at := Listening\<rparr>" 0] by (simp add: process_start_def)
  ultimately show ?thesis by (meson converse_rtranclp_into_rtranclp rtranclp.rtrancl_refl)
qed

theorem shutdown_can_abandon_requests_witness:
  "\<exists>p. serve_step\<^sup>*\<^sup>* process_start p \<and> main_at p = Ended \<and> 0 \<notin> answered p"
  using shutdown_can_abandon_requests [OF one_request_open, of 0] rtranclp_trans [OF one_request_open]
  by (auto simp: process_start_def)

end
