(* ===== verification/ApiErrors.thy ===== *)
theory ApiErrors
  imports Errors
begin

text \<open>
  What \<open>IgnoreCAPIErrorForField\<close> (\<^verbatim>\<open>internal/errors/errors.go\<close>) does to the errors of the resource
  types' own validation: the causes under a field are dropped, the error disappears with its last
  cause, and the rewritten message can be rewritten again. The handlers run it for several fields.
\<close>

section \<open>The message pattern survives a rewrite\<close>

lemma re_group1_if_at:
  "re_group1_at (c # s) k \<Longrightarrow> k \<le> length s \<Longrightarrow> re_group1 (c # s) \<noteq> None"
  by (auto simp: filter_empty_conv split: list.split)

lemma re_group1_at_shape:
  assumes "re_group1_at s k"
  shows "\<exists>p c r. s = p @ is_invalid_marker @ c # r \<and> length p = k \<and> newline \<notin> set p \<and> re_space c"
proof -
  obtain c r where cr: "drop (k + length is_invalid_marker) s = c # r" "re_space c"
    using assms by (auto simp: re_group1_at_def split: list.splits)
  from assms have "HasPrefix (drop k s) is_invalid_marker" by (simp add: re_group1_at_def)
  then have "drop k s = is_invalid_marker @ drop (k + length is_invalid_marker) s"
    unfolding HasPrefix_def by (metis add.commute append_take_drop_id drop_drop)
  moreover from cr(1) have "k < length s"
    by (metis add_lessD1 drop_eq_Nil linorder_not_less list.distinct(1))
  ultimately have "s = take k s @ is_invalid_marker @ c # r" "length (take k s) = k"
    using cr(1) by (metis append_take_drop_id, simp)
  with assms cr(2) show ?thesis by (intro exI [of _ "take k s"]) (auto simp: re_group1_at_def)
qed

lemma re_group1_shape:
  "re_group1 s = Some g \<Longrightarrow> \<exists>p c. g = p @ is_invalid_marker @ [c] \<and> newline \<notin> set p \<and> re_space c"
proof (induction s rule: re_group1.induct)
  case 1
  then show ?case by simp
next
  case (2 c s)
  show ?case
  proof (cases "rev (List.filter (re_group1_at (c # s)) [0..<Suc (length s)])")
    case Nil
    with 2 show ?thesis by simp
  next
    case (Cons k ks)
    then have "k \<in> set (rev (List.filter (re_group1_at (c # s)) [0..<Suc (length s)]))" by simp
    then have "re_group1_at (c # s) k" by (auto split: if_splits)
    from re_group1_at_shape [OF this] obtain p d r where
      p: "c # s = p @ is_invalid_marker @ d # r" "length p = k" "newline \<notin> set p" "re_space d" by blast
    from Cons 2(2) have "g = take (k + length is_invalid_marker + 1) (c # s)" by simp
    with p(1,2) have "g = p @ is_invalid_marker @ [d]" by simp
    with p(3,4) show ?thesis by blast
  qed
qed

lemma re_group1_rewritten:
  assumes "re_group1 s = Some g" and "newline \<notin> set t"
  shows "re_group1 (g @ t) \<noteq> None"
proof -
  obtain p c where g: "g = p @ is_invalid_marker @ [c]" "newline \<notin> set p" "re_space c"
    using re_group1_shape [OF assms(1)] by blast
  then have "re_group1_at (g @ t) (length p)"
    using assms(2) by (simp add: re_group1_at_def re_tail_def)
  moreover obtain d u where "g @ t = d # u" using g by (cases p) (auto simp: is_invalid_marker_def)
  moreover have "length p < length (g @ t)" using g(1) by simp
  ultimately show ?thesis using re_group1_if_at [of d u "length p"] by simp
qed

section \<open>Errors with plain causes\<close>

text \<open>An error of kind Invalid whose message matches the pattern and whose causes are single lines.\<close>

definition one_line :: "status_cause \<Rightarrow> bool" where
  "one_line c \<longleftrightarrow> newline \<notin> set (sc_Field c) \<and> newline \<notin> set (sc_Message c)"

definition invalid_status :: "api_status \<Rightarrow> status_cause list \<Rightarrow> bool" where
  "invalid_status s causes \<longleftrightarrow> st_Reason s = ''Invalid'' \<and> re_group1 (st_Message s) \<noteq> None \<and>
     (\<exists>d. st_Details s = Some d \<and> sd_Causes d = causes) \<and> (\<forall>c\<in>set causes. one_line c)"

definition outside_fields :: "string list \<Rightarrow> status_cause list \<Rightarrow> status_cause list" where
  "outside_fields fs causes = List.filter (\<lambda>c. \<forall>f\<in>set fs. \<not> HasPrefix (sc_Field c) f) causes"

lemma newline_literals [simp]:
  "newline \<noteq> CHR ''[''" "newline \<noteq> CHR '']''" "newline \<noteq> CHR '':''" "newline \<noteq> CHR '' ''" "newline \<noteq> CHR '',''"
  by (simp_all add: newline_def char_of_def bit_0)

lemma render_causes_one_line: "\<forall>c\<in>set cs. one_line c \<Longrightarrow> newline \<notin> set (render_causes cs)"
  by (induction cs rule: render_causes.induct) (auto simp: one_line_def)

lemma IgnoreCAPIErrorForField_plain:
  assumes "invalid_status s causes"
  shows "IgnoreCAPIErrorForField f (Some (StatusError s)) = Ok None \<and> keep_causes f causes = [] \<or>
     (\<exists>s'. IgnoreCAPIErrorForField f (Some (StatusError s)) = Ok (Some (StatusError s')) \<and>
        invalid_status s' (keep_causes f causes) \<and> keep_causes f causes \<noteq> [])"
proof (cases "keep_causes f causes = []")
  case True
  with assms show ?thesis by (auto simp: invalid_status_def IgnoreCAPIErrorForField_def)
next
  case False
  from assms obtain d g where d: "st_Details s = Some d" "sd_Causes d = causes" "re_group1 (st_Message s) = Some g"
    "st_Reason s = ''Invalid''" by (auto simp: invalid_status_def)
  let ?t = "''['' @ render_causes (keep_causes f causes) @ '']''"
  let ?s = "s\<lparr>st_Details := Some (d\<lparr>sd_Causes := keep_causes f causes\<rparr>), st_Message := g @ ?t\<rparr>"
  have lines: "\<forall>c\<in>set (keep_causes f causes). one_line c"
    using assms by (auto simp: invalid_status_def keep_causes_def)
  then have "re_group1 (g @ ?t) \<noteq> None"
    using render_causes_one_line [OF lines] by (intro re_group1_rewritten [OF d(3)]) simp
  then have "invalid_status ?s (keep_causes f causes)"
    using lines d(4) by (simp add: invalid_status_def)
  moreover have "IgnoreCAPIErrorForField f (Some (StatusError s)) = Ok (Some (StatusError ?s))"
    using d False by (simp add: IgnoreCAPIErrorForField_def Let_def)
  ultimately show ?thesis using False by blast
qed

lemma outside_fields_Cons: "outside_fields (f # fs) causes = outside_fields fs (keep_causes f causes)"
  by (auto simp: outside_fields_def keep_causes_def intro: filter_cong)

lemma outside_fields_Nil [simp]: "outside_fields [] causes = causes" "outside_fields fs [] = []"
  by (simp_all add: outside_fields_def)

lemma ignore_fields_plain:
  "invalid_status s causes \<Longrightarrow>
     (ignore_fields fs (Some (StatusError s)) = Ok None \<and> fs \<noteq> [] \<and> outside_fields fs causes = []) \<or>
     (\<exists>s'. ignore_fields fs (Some (StatusError s)) = Ok (Some (StatusError s')) \<and>
        invalid_status s' (outside_fields fs causes) \<and> (fs = [] \<or> outside_fields fs causes \<noteq> []))"
proof (induction fs arbitrary: s causes)
  case Nil
  then show ?case by simp
next
  case (Cons f fs)
  from IgnoreCAPIErrorForField_plain [OF Cons.prems, of f] show ?case
  proof (elim disjE exE conjE)
    assume "IgnoreCAPIErrorForField f (Some (StatusError s)) = Ok None" "keep_causes f causes = []"
    then show ?thesis by (simp add: outside_fields_Cons)
  next
    fix s' assume "IgnoreCAPIErrorForField f (Some (StatusError s)) = Ok (Some (StatusError s'))"
      "invalid_status s' (keep_causes f causes)" "keep_causes f causes \<noteq> []"
    then show ?thesis using Cons.IH [of s' "keep_causes f causes"] by (auto simp: outside_fields_Cons)
  qed
qed

text \<open>C39. Ignoring fields never panics on an Invalid error with one-line causes and a standard message: the
  error disappears exactly when every cause lies under one of the fields, and otherwise exactly the
  other causes remain, in order.\<close>

theorem ignored_fields_are_dropped:
  assumes "invalid_status s causes" and "fs \<noteq> []"
  shows "(ignore_fields fs (Some (StatusError s)) = Ok None \<longleftrightarrow>
       (\<forall>c\<in>set causes. \<exists>f\<in>set fs. HasPrefix (sc_Field c) f)) \<and>
     (ignore_fields fs (Some (StatusError s)) \<noteq> Ok None \<longrightarrow>
       (\<exists>s' d. ignore_fields fs (Some (StatusError s)) = Ok (Some (StatusError s')) \<and>
          st_Details s' = Some d \<and> sd_Causes d = outside_fields fs causes))"
proof -
  have "outside_fields fs causes = [] \<longleftrightarrow> (\<forall>c\<in>set causes. \<exists>f\<in>set fs. HasPrefix (sc_Field c) f)"
    by (auto simp: outside_fields_def filter_empty_conv)
  with ignore_fields_plain [OF assms(1), of fs] assms(2) show ?thesis
    by (auto simp: invalid_status_def)
qed

definition demo_status :: "status_cause list \<Rightarrow> api_status" where
  "demo_status cs = \<lparr>st_Reason = ''Invalid'', st_Message = ''x is invalid: y'',
     st_Details = Some \<lparr>sd_Causes = cs, sd_rest = ''''\<rparr>\<rparr>"

lemma demo_status_invalid: "\<forall>c\<in>set cs. one_line c \<Longrightarrow> invalid_status (demo_status cs) cs"
proof -
  have "re_group1_at ''x is invalid: y'' 2"
    by (simp add: re_group1_at_def is_invalid_marker_def HasPrefix_def re_space_def re_tail_def newline_def char_of_def bit_0)
  then have "re_group1 ''x is invalid: y'' \<noteq> None" by (rule re_group1_if_at) simp
  then show "\<forall>c\<in>set cs. one_line c \<Longrightarrow> invalid_status (demo_status cs) cs"
    by (simp add: invalid_status_def demo_status_def)
qed

theorem ignored_fields_are_dropped_witness:
  "ignore_fields [''metadata.Name'', ''spec.SubscriptionID'']
     (Some (StatusError (demo_status [\<lparr>sc_Field = ''spec.SubscriptionID'', sc_Message = ''m''\<rparr>]))) = Ok None"
proof -
  have "newline \<notin> set ''spec.SubscriptionID''" "newline \<notin> set ''m''"
    by (simp_all add: newline_def char_of_def bit_0)
  then have "invalid_status (demo_status [\<lparr>sc_Field = ''spec.SubscriptionID'', sc_Message = ''m''\<rparr>])
      [\<lparr>sc_Field = ''spec.SubscriptionID'', sc_Message = ''m''\<rparr>]"
    by (intro demo_status_invalid) (simp add: one_line_def)
  from ignored_fields_are_dropped [OF this, of "[''metadata.Name'', ''spec.SubscriptionID'']"] show ?thesis
    by (simp add: HasPrefix_def)
qed

text \<open>A message that does not match the pattern makes it panic as soon as a cause remains.\<close>

theorem unmatched_message_panics:
  "IgnoreCAPIErrorForField field err = Panic \<longleftrightarrow>
     (\<exists>s d. err = Some (StatusError s) \<and> st_Reason s = ''Invalid'' \<and> st_Details s = Some d \<and>
        re_group1 (st_Message s) = None \<and> (\<exists>c\<in>set (sd_Causes d). \<not> HasPrefix (sc_Field c) field))"
  by (auto simp: IgnoreCAPIErrorForField_def keep_causes_def Let_def filter_empty_conv
      split: option.splits go_error.splits)

end
