(* ===== verification/PanicFree.thy ===== *)
theory PanicFree
  imports Server ApiErrors
begin

text \<open>
  When the server does not panic. The code dereferences a few pointers without a check and indexes a list of
  matches that may be empty; the theorems of the components say what happens then. Here the other
  direction, for the assembled server: if the places these pointers come from are filled for the objects of a
  request, the request makes no handler panic, whatever was requested before.
\<close>

named_theorems no_panic

section \<open>Results that are no panics\<close>

lemma simple_no_panic [no_panic]:
  "Ok x \<noteq> Panic" "Err e \<noteq> Panic" "fail_if b e \<noteq> Panic" "of_error r \<noteq> Panic" "of_lib s \<noteq> Panic"
  "need p e \<noteq> Panic" "patch_if b p' \<noteq> Panic"
  by (simp_all add: fail_if_def of_error_def need_def patch_if_def split: option.splits)

lemma bind_no_panic:
  "m \<noteq> Panic \<Longrightarrow> (\<And>x. m = Ok x \<Longrightarrow> f x \<noteq> Panic) \<Longrightarrow> bind_res m f \<noteq> Panic"
  by (auto simp: bind_res_Panic_iff)

lemma lookups_no_panic [no_panic]:
  "GetSemverFromLabels S ls \<noteq> Panic" "Validate S k v w \<noteq> Panic" "parsed_versions S ls ls' \<noteq> Panic"
  "ValidateOrganizationLabelUnchanged m m' \<noteq> Panic" "ValidateOrganizationLabelContainsExistingOrganization u k m \<noteq> Panic"
  "ValidateOrganizationLabelMatchesCluster k m \<noteq> Panic" "TryGetOwnerCluster k om \<noteq> Panic"
  "ValidateClusterAnnotationUpgradeRelease S k c \<noteq> Panic" "ValidateClusterAnnotationUpgradeTime n n' oc c \<noteq> Panic"
  "IsCAPIRelease S m \<noteq> Panic"
  by (auto simp: parsed_versions_def bind_res_Panic_iff ValidateClusterAnnotationUpgradeTime_eq no_panic
      upgrade_release_not_Panic IsCAPIRelease_def ReleaseVersion_of_def IsCAPIVersion_def split: option.splits sum.splits)

lemma FindRelease_no_panic [no_panic]: "FindRelease k v \<noteq> Panic"
  by (simp add: FindRelease_def no_panic split: sum.splits)

lemma labels_no_panic [no_panic]:
  "EnsureReleaseVersionLabel k m \<noteq> Panic" "CopyAzureOperatorVersionLabelFromAzureClusterCR k m \<noteq> Panic"
  "EnsureComponentVersionLabelFromRelease k m n l \<noteq> Panic"
  by (auto simp: EnsureReleaseVersionLabel_def CopyAzureOperatorVersionLabelFromAzureClusterCR_def
      EnsureComponentVersionLabelFromRelease_def getReleaseLabelValueFromAzureCluster_def
      getLabelValueFromAzureCluster_def GetComponentVersionsFromRelease_def no_panic bind_res_Panic_iff Let_def
      split: sum.splits if_splits)

lemma with_defaults_no_panic [no_panic]: "with_defaults L api cr sk ps \<noteq> Panic"
  by (auto simp: with_defaults_def GenerateFromObjectDiff_def bind_res_Panic_iff)

lemma collect_patches_no_panic: "(\<And>m. m \<in> set ms \<Longrightarrow> m \<noteq> Panic) \<Longrightarrow> collect_patches ms \<noteq> Panic"
  by (induction ms) (auto simp: bind_res_Panic_iff)

section \<open>Programs over the cache of machine types\<close>

definition runs :: "('s \<Rightarrow> bool) \<Rightarrow> ('s, 'a, 'e) prog \<Rightarrow> bool" where
  "runs I m \<longleftrightarrow> (\<forall>s. I s \<longrightarrow> fst (m s) \<noteq> Panic \<and> I (snd (m s)))"

lemma runs_lift: "r \<noteq> Panic \<Longrightarrow> runs I (lift_st r)"
  by (simp add: runs_def lift_st_def)

lemma runs_bind: "runs I m \<Longrightarrow> (\<And>x. runs I (f x)) \<Longrightarrow> runs I (bind_st m f)"
  by (fastforce simp: runs_def bind_st_def split: prod.splits outcome.splits)

lemma runs_bind_lift: "r \<noteq> Panic \<Longrightarrow> (\<And>x. r = Ok x \<Longrightarrow> runs I (f x)) \<Longrightarrow> runs I (bind_st (lift_st r) f)"
  by (cases r) (auto simp: runs_def bind_st_def lift_st_def)

text \<open>Programs that keep an invariant of the state, whether or not they panic.\<close>

definition keeps :: "('s \<Rightarrow> bool) \<Rightarrow> ('s, 'a, 'e) prog \<Rightarrow> bool" where
  "keeps I m \<longleftrightarrow> (\<forall>s. I s \<longrightarrow> I (snd (m s)))"

lemma keeps_lift: "keeps I (lift_st r)"
  by (simp add: keeps_def lift_st_def)

lemma if_keeps: "keeps I m \<Longrightarrow> keeps I n \<Longrightarrow> keeps I (if b then m else n)"
  by simp

lemma keeps_bind: "keeps I m \<Longrightarrow> (\<And>x. keeps I (f x)) \<Longrightarrow> keeps I (bind_st m f)"
  by (fastforce simp: keeps_def bind_st_def split: prod.splits outcome.splits)

lemma runs_keeps: "runs I m \<Longrightarrow> keeps I m"
  by (simp add: runs_def keeps_def)

section \<open>Where the pointers come from\<close>

text \<open>An error of the resource types' own validation that \<open>IgnoreCAPIErrorForField\<close> can take apart.\<close>

definition plain_error :: "go_error option \<Rightarrow> bool" where
  "plain_error e \<longleftrightarrow> (\<forall>s. e = Some (StatusError s) \<longrightarrow>
     st_Reason s \<noteq> ''Invalid'' \<or> st_Details s = None \<or> (\<exists>causes. invalid_status s causes))"

lemma ignore_fields_no_panic: "plain_error e \<Longrightarrow> ignore_fields fs e \<noteq> Panic"
proof (cases "\<exists>s causes. e = Some (StatusError s) \<and> invalid_status s causes")
  case True
  then obtain s causes where "e = Some (StatusError s)" "invalid_status s causes" by blast
  with ignore_fields_plain [of s causes fs] show ?thesis by auto
next
  case False
  assume "plain_error e"
  with False have "IgnoreCAPIErrorForField f e = Ok e" for f
    by (auto simp: plain_error_def IgnoreCAPIErrorForField_def split: option.splits go_error.splits)
  then have "ignore_fields fs e = Ok e" by (induction fs) simp_all
  then show ?thesis by simp
qed

text \<open>
  What keeps the handlers from panicking on the new and the old object of a request, as they are decoded: a
  Cluster has an API server port in its network; an AzureCluster whose release version changes has an owner (or
  the question for it is answered with an error); the errors with which the type of an AzureCluster or an
  AzureMachine refuses this object or this update are plain.
\<close>

definition healthy_azurecluster :: "lib \<Rightarrow> kube_api \<Rightarrow> azure_cluster \<Rightarrow> azure_cluster \<Rightarrow> bool" where
  "healthy_azurecluster L k old new \<longleftrightarrow>
     plain_error (crd_ValidateUpdate (lib_AzureCluster L) old new) \<and>
     (\<forall>v w. GetSemverFromLabels (lib_semver L) (om_labels (ac_meta old)) = Ok v \<longrightarrow>
        GetSemverFromLabels (lib_semver L) (om_labels (ac_meta new)) = Ok w \<longrightarrow>
        \<not> sv_EQ (lib_semver L) w v \<longrightarrow> lib_GetOwnerCluster L k (ac_meta new) \<noteq> Inr None)"

definition healthy_objects :: "lib \<Rightarrow> decoder \<Rightarrow> kube_api \<Rightarrow> string \<Rightarrow> string \<Rightarrow> bool" where
  "healthy_objects L U k new old \<longleftrightarrow>
     (\<forall>c. dec_Cluster U new = Inr c \<or> dec_Cluster U old = Inr c \<longrightarrow> \<not> nil_port c) \<and>
     (\<forall>c. dec_AzureCluster (lib_Deserializer L) new = Inr c \<longrightarrow>
        plain_error (crd_ValidateCreate (lib_AzureCluster L) c) \<and>
        (\<forall>d. dec_AzureCluster (lib_Deserializer L) old = Inr d \<longrightarrow> healthy_azurecluster L k d c)) \<and>
     (\<forall>c. dec_AzureMachine (lib_Deserializer L) new = Inr c \<longrightarrow>
        plain_error (crd_ValidateCreate (lib_AzureMachine L) c) \<and>
        (\<forall>d. dec_AzureMachine (lib_Deserializer L) old = Inr d \<longrightarrow>
           plain_error (crd_ValidateUpdate (lib_AzureMachine L) d c)))"

text \<open>A request with a review comes with the request the review is about, and its objects are healthy.\<close>

definition healthy_request :: "lib \<Rightarrow> http_lib \<Rightarrow> decoder \<Rightarrow> kube_api \<Rightarrow> http_request \<Rightarrow> bool" where
  "healthy_request L H U k request \<longleftrightarrow>
     (\<forall>data review. rq_Body request = Inr data \<longrightarrow> hl_DecodeReview H data = Inr review \<longrightarrow>
        (\<exists>rq. rv_Request review = Some rq \<and> healthy_objects L U k (ar_Object rq) (ar_OldObject rq)))"

definition located :: "sku_cache \<Rightarrow> bool" where
  "located m \<longleftrightarrow> (\<forall>ty sku. m ty = Some sku \<longrightarrow> sku_LocationInfo sku \<noteq> None)"

definition located_cache :: "vmsku \<Rightarrow> bool" where
  "located_cache s \<longleftrightarrow> (\<forall>l m. skus s l = Some m \<longrightarrow> located m)"

definition healthy_api :: "sku_api \<Rightarrow> bool" where
  "healthy_api azure \<longleftrightarrow> (\<forall>k flt. azure k flt \<noteq> Panic \<and> (\<forall>m. azure k flt = Ok m \<longrightarrow> located m))"

section \<open>The questions about machine types\<close>

lemma getSKU_runs: "healthy_api azure \<Longrightarrow> runs located_cache (getSKU azure l ty)"
  unfolding runs_def
proof (intro allI impI)
  fix s assume a: "healthy_api azure" "located_cache s"
  then show "fst (getSKU azure l ty s) \<noteq> Panic \<and> located_cache (snd (getSKU azure l ty s))"
    unfolding healthy_api_def
    by (auto simp: getSKU_def bind_st_def lift_st_def initCache_def Let_def located_cache_def
        split: option.splits outcome.splits prod.splits)
qed

lemma getSKU_located:
  assumes "healthy_api azure" and "located_cache s" and "getSKU azure l ty s = (Ok sku, s')"
  shows "sku_LocationInfo sku \<noteq> None"
  using assms unfolding healthy_api_def located_cache_def located_def
  by (auto simp: getSKU_def bind_st_def lift_st_def initCache_def Let_def
      split: option.splits outcome.splits prod.splits if_splits)

lemma SupportedAZs_runs: "healthy_api azure \<Longrightarrow> runs located_cache (SupportedAZs azure l ty)"
  unfolding runs_def
proof (intro allI impI)
  fix s assume a: "healthy_api azure" "located_cache s"
  obtain r s' where r: "getSKU azure l ty s = (r, s')" by fastforce
  moreover have "r \<noteq> Panic \<and> located_cache s'"
    using getSKU_runs [OF a(1), of l ty] a(2) r unfolding runs_def by (metis fst_conv snd_conv)
  moreover have "sku_LocationInfo sku \<noteq> None" if "r = Ok sku" for sku
    using getSKU_located [OF a] r that by simp
  ultimately show "fst (SupportedAZs azure l ty s) \<noteq> Panic \<and> located_cache (snd (SupportedAZs azure l ty s))"
    by (auto simp: SupportedAZs_def deref_def split: outcome.splits option.splits)
qed

lemma questions_run:
  assumes "healthy_api azure"
  shows "runs located_cache (HasCapability azure l ty n)" and "runs located_cache (Memory azure l ty)"
    and "runs located_cache (CPUs azure l ty)"
  unfolding HasCapability_def Memory_def CPUs_def getCapability_def
  by (auto intro!: runs_bind runs_lift getSKU_runs [OF assms] simp: int_capability_def split: option.splits)

section \<open>The methods of the handlers\<close>

lemmas handler_no_panic = bind_no_panic collect_patches_no_panic ignore_fields_no_panic

lemma conditions_no_panic [no_panic]: "ValidateClusterConditions L old new \<noteq> Panic"
  by (auto simp: ValidateClusterConditions_def ValidateCreatingCondition_def ValidateUpgradingCondition_def Let_def
      conditionValidations_def validateNewStatusUnknownIsNotAllowed_def validateNewStatusMustBeEitherTrueOrFalse_def
      validateRemovingConditionIsNotAllowed_def bind_res_Panic_iff no_panic split: option.splits)

lemma cluster_methods_no_panic:
  assumes "\<not> nil_port old" and "\<not> nil_port new"
  shows "Cluster_OnCreateValidate L h now (ObjCluster new) \<noteq> Panic"
    and "Cluster_OnUpdateValidate L h now (ObjCluster old) (ObjCluster new) \<noteq> Panic"
    and "Cluster_OnCreateMutate L h (ObjCluster new) \<noteq> Panic"
    and "Cluster_OnUpdateMutate L h (ObjCluster old) (ObjCluster new) \<noteq> Panic"
proof -
  have u: "Cluster_validateClusterNetworkUnchanged old new \<noteq> Panic"
    using assms by (auto simp: Cluster_validateClusterNetworkUnchanged_def nil_port_def bind_res_Panic_iff Let_def
        deref_def no_panic split: option.splits)
  have v: "Cluster_validateClusterNetwork new \<noteq> Panic"
    using assms(2) by (simp add: validateClusterNetwork_Panic_iff)
  show "Cluster_OnCreateValidate L h now (ObjCluster new) \<noteq> Panic"
    unfolding Cluster_OnCreateValidate_def
    by (intro bind_no_panic) (simp_all add: no_panic v Cluster_validateControlPlaneEndpoint_def Let_def bind_res_Panic_iff)
  show "Cluster_OnUpdateValidate L h now (ObjCluster old) (ObjCluster new) \<noteq> Panic"
    using u by (auto simp: Cluster_OnUpdateValidate_def Cluster_validateControlPlaneEndpointUnchanged_def
        Cluster_validateRelease_def bind_res_Panic_iff no_panic split: if_splits)
  show "Cluster_OnCreateMutate L h (ObjCluster new) \<noteq> Panic"
    "Cluster_OnUpdateMutate L h (ObjCluster old) (ObjCluster new) \<noteq> Panic"
    by (auto simp: Cluster_OnCreateMutate_def Cluster_OnUpdateMutate_def Cluster_ensureClusterNetwork_def
        Cluster_ensureControlPlaneEndpointHost_def Cluster_ensureControlPlaneEndpointPort_def no_panic
        bind_res_Panic_iff)
qed

lemma azurecluster_methods_no_panic:
  shows "plain_error (crd_ValidateCreate (lib_AzureCluster L) new) \<Longrightarrow>
      AzureCluster_OnCreateValidate L h (ObjAzureCluster new) \<noteq> Panic"
    and "healthy_azurecluster L (ach_ctrlClient h) old new \<Longrightarrow>
      AzureCluster_OnUpdateValidate L h (ObjAzureCluster old) (ObjAzureCluster new) \<noteq> Panic"
    and "AzureCluster_OnCreateMutate L h (ObjAzureCluster new) \<noteq> Panic"
    and "AzureCluster_OnUpdateMutate L h (ObjAzureCluster old) (ObjAzureCluster new) \<noteq> Panic"
proof -
  show "AzureCluster_OnCreateValidate L h (ObjAzureCluster new) \<noteq> Panic"
    if "plain_error (crd_ValidateCreate (lib_AzureCluster L) new)"
    using ignore_fields_no_panic [OF that]
    by (auto simp: AzureCluster_OnCreateValidate_def AzureCluster_validateControlPlaneEndpoint_def
        AzureCluster_validateLocation_def Let_def bind_res_Panic_iff no_panic simp del: ignore_fields.simps)
  show "AzureCluster_OnUpdateValidate L h (ObjAzureCluster old) (ObjAzureCluster new) \<noteq> Panic"
    if "healthy_azurecluster L (ach_ctrlClient h) old new"
  proof -
    have "AzureCluster_validateRelease L h old new \<noteq> Panic"
      using that by (auto simp: azurecluster_missing_owner_panics healthy_azurecluster_def)
    moreover have "ignore_fields fs (crd_ValidateUpdate (lib_AzureCluster L) old new) \<noteq> Panic" for fs
      by (rule ignore_fields_no_panic) (use that in \<open>simp add: healthy_azurecluster_def\<close>)
    ultimately show ?thesis
      by (auto simp: AzureCluster_OnUpdateValidate_def AzureCluster_validateControlPlaneEndpointUnchanged_def
        bind_res_Panic_iff no_panic simp del: ignore_fields.simps split: if_splits)
  qed
  show "AzureCluster_OnCreateMutate L h (ObjAzureCluster new) \<noteq> Panic"
    "AzureCluster_OnUpdateMutate L h (ObjAzureCluster old) (ObjAzureCluster new) \<noteq> Panic"
    by (auto simp: AzureCluster_OnCreateMutate_def AzureCluster_OnUpdateMutate_def Let_def
        AzureCluster_ensureControlPlaneEndpointHost_def AzureCluster_ensureControlPlaneEndpointPort_def
        AzureCluster_ensureLocation_def ensureAPIServerLB_def no_panic bind_res_Panic_iff split: if_splits)
qed

lemma machine_methods_no_panic:
  shows "healthy_api (amh_vmcaps h) \<Longrightarrow> plain_error (crd_ValidateCreate (lib_AzureMachine L) new) \<Longrightarrow>
      runs located_cache (AzureMachine_OnCreateValidate L h (ObjAzureMachine new))"
    and "plain_error (crd_ValidateUpdate (lib_AzureMachine L) old new) \<Longrightarrow>
      AzureMachine_OnUpdateValidate L h (ObjAzureMachine old) (ObjAzureMachine new) \<noteq> Panic"
    and "AzureMachine_OnCreateMutate L h (ObjAzureMachine new) \<noteq> Panic"
    and "AzureMachine_OnUpdateMutate L h (ObjAzureMachine old) (ObjAzureMachine new) \<noteq> Panic"
proof -
  have d: "AzureMachine_validateFailureDomain c zs \<noteq> Panic" "AzureMachine_validateFailureDomainUnchanged c c' \<noteq> Panic"
    for c c' zs
    by (auto simp: AzureMachine_validateFailureDomain_def AzureMachine_validateFailureDomainUnchanged_def Let_def
        split: option.splits)
  show "runs located_cache (AzureMachine_OnCreateValidate L h (ObjAzureMachine new))"
    if "healthy_api (amh_vmcaps h)" "plain_error (crd_ValidateCreate (lib_AzureMachine L) new)"
    unfolding AzureMachine_OnCreateValidate_def
    by (intro runs_bind_lift runs_bind runs_lift SupportedAZs_runs that)
      (use ignore_fields_no_panic [OF that(2)] in
        \<open>auto simp: AzureMachine_checkSSHKeyIsEmpty_def AzureMachine_validateLocation_def bind_res_Panic_iff no_panic d
          simp del: ignore_fields.simps\<close>)
  show "AzureMachine_OnUpdateValidate L h (ObjAzureMachine old) (ObjAzureMachine new) \<noteq> Panic"
    if "plain_error (crd_ValidateUpdate (lib_AzureMachine L) old new)"
    using ignore_fields_no_panic [OF that]
    by (auto simp: AzureMachine_OnUpdateValidate_def AzureMachine_checkSSHKeyIsEmpty_def
        AzureMachine_validateLocationUnchanged_def bind_res_Panic_iff no_panic d simp del: ignore_fields.simps
        split: if_splits)
  show "AzureMachine_OnCreateMutate L h (ObjAzureMachine new) \<noteq> Panic"
    "AzureMachine_OnUpdateMutate L h (ObjAzureMachine old) (ObjAzureMachine new) \<noteq> Panic"
    by (auto simp: AzureMachine_OnCreateMutate_def AzureMachine_OnUpdateMutate_def AzureMachine_ensureLocation_def
        AzureMachine_ensureOSDiskCachingType_def no_panic bind_res_Panic_iff)
qed

lemma azuremachinepool_checks_run:
  assumes "healthy_api azure"
  shows "runs located_cache (checkInstanceTypeIsValid azure c)" and "runs located_cache (checkAcceleratedNetworking azure c)"
    and "runs located_cache (checkStorageAccountTypeIsValid azure c)"
    and "runs located_cache (checkAcceleratedNetworkingUpdateIsValid azure c d)"
    and "runs located_cache (checkInstanceTypeChangeIsValid azure c d)"
  unfolding checkInstanceTypeIsValid_def checkAcceleratedNetworking_def isAcceleratedNetworkingSupportedOnVmSize_def
    checkStorageAccountTypeIsValid_def checkAcceleratedNetworkingUpdateIsValid_def checkInstanceTypeChangeIsValid_def
  by (auto intro!: runs_bind runs_lift questions_run [OF assms] simp: no_panic bind_res_Panic_iff Let_def)

lemma azuremachinepool_methods_run:
  assumes "healthy_api (aph_vmcaps h)"
  shows "runs located_cache (AzureMachinePool_OnCreateValidate L h (ObjAzureMachinePool new))"
    and "runs located_cache (AzureMachinePool_OnUpdateValidate L h (ObjAzureMachinePool old) (ObjAzureMachinePool new))"
    and "runs located_cache (AzureMachinePool_OnCreateMutate L h (ObjAzureMachinePool new))"
    and "AzureMachinePool_OnUpdateMutate L (ObjAzureMachinePool old) (ObjAzureMachinePool new) \<noteq> Panic"
proof -
  note defs = AzureMachinePool_checkSSHKeyIsEmpty_def checkDataDisks_def AzureMachinePool_checkLocation_def
    AzureMachinePool_checkLocationUnchanged_def checkStorageAccountTypeUnchanged_def
  have spot: "checkSpotVMOptionsUnchanged old new \<noteq> Panic"
    by (auto simp: checkSpotVMOptionsUnchanged_def Let_def split: option.splits)
  have storage: "runs located_cache (AzureMachinePool_ensureStorageAccountType h new)"
    by (auto simp: AzureMachinePool_ensureStorageAccountType_def Let_def
        intro!: runs_bind runs_lift questions_run [OF assms])
  show "runs located_cache (AzureMachinePool_OnCreateValidate L h (ObjAzureMachinePool new))"
    unfolding AzureMachinePool_OnCreateValidate_def
    by (intro runs_bind_lift runs_bind runs_lift azuremachinepool_checks_run [OF assms]) (auto simp: defs no_panic)
  show "runs located_cache (AzureMachinePool_OnUpdateValidate L h (ObjAzureMachinePool old) (ObjAzureMachinePool new))"
    unfolding AzureMachinePool_OnUpdateValidate_def
    by (auto simp: defs no_panic spot intro!: runs_bind_lift runs_bind runs_lift azuremachinepool_checks_run [OF assms])
  show "runs located_cache (AzureMachinePool_OnCreateMutate L h (ObjAzureMachinePool new))"
    unfolding AzureMachinePool_OnCreateMutate_def
    by (auto simp: AzureMachinePool_ensureLocation_def AzureMachinePool_ensureDataDisks_def no_panic
        intro!: runs_bind_lift runs_bind runs_lift storage)
  show "AzureMachinePool_OnUpdateMutate L (ObjAzureMachinePool old) (ObjAzureMachinePool new) \<noteq> Panic"
    by (simp add: AzureMachinePool_OnUpdateMutate_def no_panic)
qed

lemma machinepool_methods_run:
  shows "healthy_api (mph_vmcaps h) \<Longrightarrow> runs located_cache (MachinePool_OnCreateValidate L h (ObjMachinePool new))"
    and "MachinePool_OnUpdateValidate L (ObjMachinePool old) (ObjMachinePool new) \<noteq> Panic"
    and "MachinePool_OnCreateMutate L h (ObjMachinePool new) \<noteq> Panic"
    and "MachinePool_OnUpdateMutate L (ObjMachinePool old) (ObjMachinePool new) \<noteq> Panic"
proof -
  show "runs located_cache (MachinePool_OnCreateValidate L h (ObjMachinePool new))" if "healthy_api (mph_vmcaps h)"
    unfolding MachinePool_OnCreateValidate_def checkAvailabilityZones_def
    by (auto simp: no_panic intro!: runs_bind_lift runs_bind runs_lift SupportedAZs_runs that split: option.splits)
  show "MachinePool_OnUpdateValidate L (ObjMachinePool old) (ObjMachinePool new) \<noteq> Panic"
    by (auto simp: MachinePool_OnUpdateValidate_def checkAvailabilityZonesUnchanged_def bind_res_Panic_iff no_panic)
  show "MachinePool_OnCreateMutate L h (ObjMachinePool new) \<noteq> Panic"
    "MachinePool_OnUpdateMutate L (ObjMachinePool old) (ObjMachinePool new) \<noteq> Panic"
    by (auto simp: MachinePool_OnCreateMutate_def MachinePool_OnUpdateMutate_def no_panic bind_res_Panic_iff)
qed

lemma legacy_methods_no_panic:
  "Spark_OnCreateMutate h (ObjSpark sp) \<noteq> Panic"
  "AzureConfig_OnUpdateValidate L h (ObjAzureConfig a) (ObjAzureConfig b) \<noteq> Panic"
  "AzureClusterConfig_OnUpdateValidate L h (ObjAzureClusterConfig c) (ObjAzureClusterConfig d) \<noteq> Panic"
  by (auto simp: Spark_OnCreateMutate_def AzureConfig_OnUpdateValidate_def AzureClusterConfig_OnUpdateValidate_def
      validateMasterCIDRUnchanged_def validateAvailabilityZonesUnchanged_def getSemver_def no_panic bind_res_Panic_iff
      split: if_splits)

section \<open>The endpoints\<close>

text \<open>A webhook whose methods run on what its decoder gives for the objects of a request.\<close>

definition webhook_runs :: "webhook \<Rightarrow> string \<Rightarrow> string \<Rightarrow> bool" where
  "webhook_runs h raw raw' \<longleftrightarrow>
     wh_Decode h raw \<noteq> Panic \<and> wh_Decode h raw' \<noteq> Panic \<and>
     (\<forall>ob. wh_Decode h raw = Ok ob \<longrightarrow> object_metadata ob \<noteq> None \<and>
        (\<forall>m. wh_OnCreateValidate h = Some m \<longrightarrow> runs located_cache (m ob)) \<and>
        (\<forall>m. wh_OnCreateMutate h = Some m \<longrightarrow> runs located_cache (m ob)) \<and>
        (\<forall>old. wh_Decode h raw' = Ok old \<longrightarrow>
          (\<forall>m. wh_OnUpdateValidate h = Some m \<longrightarrow> runs located_cache (m old ob)) \<and>
          (\<forall>m. wh_OnUpdateMutate h = Some m \<longrightarrow> runs located_cache (m old ob))))"

lemma with_review_runs:
  "(\<And>data review. rq_Body request = Inr data \<Longrightarrow> hl_DecodeReview H data = Inr review \<Longrightarrow> runs I (k review)) \<Longrightarrow>
    runs I (with_review H k request)"
  by (auto simp: with_review_def intro!: runs_lift split: sum.splits)

lemma on_error_runs:
  "runs I m \<Longrightarrow> (\<And>e. failed e \<noteq> Panic) \<Longrightarrow> (\<And>x. k x \<noteq> Panic) \<Longrightarrow> runs I (on_error m failed k)"
  by (fastforce simp: runs_def on_error_def split: prod.splits outcome.splits)

lemma filter_no_panic: "object_metadata ob \<noteq> None \<Longrightarrow> reconciled_by_legacy f ob \<noteq> Panic"
  by (auto simp: reconciled_by_legacy_def IsObjectReconciledByLegacyRelease_not_Panic deref_def no_panic)

lemma endpoint_runs:
  assumes "(path, handler) \<in> set (register H vf mf h)"
    and "\<And>data review. rq_Body request = Inr data \<Longrightarrow> hl_DecodeReview H data = Inr review \<Longrightarrow>
      \<exists>rq. rv_Request review = Some rq \<and> webhook_runs h (ar_Object rq) (ar_OldObject rq)"
  shows "runs located_cache (handler request)"
proof -
  let ?good = "\<lambda>rq. webhook_runs h (ar_Object rq) (ar_OldObject rq)"
  have dec: "wh_Decode h (ar_Object rq) \<noteq> Panic" "wh_Decode h (ar_OldObject rq) \<noteq> Panic" if "?good rq" for rq
    using that by (simp_all add: webhook_runs_def)
  have meta: "reconciled_by_legacy f ob \<noteq> Panic" if "?good rq" "wh_Decode h (ar_Object rq) = Ok ob" for f rq ob
    using that by (intro filter_no_panic) (simp add: webhook_runs_def)
  have methods:
    "?good rq \<Longrightarrow> wh_OnCreateValidate h = Some m \<Longrightarrow> wh_Decode h (ar_Object rq) = Ok ob \<Longrightarrow> runs located_cache (m ob)"
    "?good rq \<Longrightarrow> wh_OnCreateMutate h = Some m' \<Longrightarrow> wh_Decode h (ar_Object rq) = Ok ob \<Longrightarrow> runs located_cache (m' ob)"
    "?good rq \<Longrightarrow> wh_OnUpdateValidate h = Some n \<Longrightarrow> wh_Decode h (ar_Object rq) = Ok ob \<Longrightarrow>
       wh_Decode h (ar_OldObject rq) = Ok old \<Longrightarrow> runs located_cache (n old ob)"
    "?good rq \<Longrightarrow> wh_OnUpdateMutate h = Some n' \<Longrightarrow> wh_Decode h (ar_Object rq) = Ok ob \<Longrightarrow>
       wh_Decode h (ar_OldObject rq) = Ok old \<Longrightarrow> runs located_cache (n' old ob)" for m m' n n' rq ob old
    unfolding webhook_runs_def by blast+
  have validates: "runs located_cache (validator_newHttpHandler H v request)"
    if "\<And>review rq. rv_Request review = Some rq \<Longrightarrow> ?good rq \<Longrightarrow> runs located_cache (v review)" for v
    unfolding validator_newHttpHandler_def
  proof (rule with_review_runs)
    fix data review assume "rq_Body request = Inr data" "hl_DecodeReview H data = Inr review"
    from assms(2) [OF this] obtain rq where rq: "rv_Request review = Some rq" "?good rq" by blast
    then show "runs located_cache (on_error (v review)
        (\<lambda>err. bind_res (deref (rv_Request review)) (\<lambda>rq. Ok (writeResponse H (validator_errorResponse (ar_UID rq) err))))
        (\<lambda>_. bind_res (deref (rv_Request review)) (\<lambda>rq. Ok (writeResponse H (validator_allowed (ar_UID rq))))))"
      by (intro on_error_runs that [OF rq]) (simp_all add: deref_def)
  qed
  have mutates: "runs located_cache (mutator_newHttpHandler H m request)"
    if "\<And>rq. ?good rq \<Longrightarrow> runs located_cache (m rq)" for m
    unfolding mutator_newHttpHandler_def
  proof (rule with_review_runs)
    fix data review assume "rq_Body request = Inr data" "hl_DecodeReview H data = Inr review"
    from assms(2) [OF this] obtain rq where rq: "rv_Request review = Some rq" "?good rq" by blast
    then show "runs located_cache (bind_st (lift_st (deref (rv_Request review))) (\<lambda>rq.
       on_error (if ar_DryRun rq = Some True then lift_st (Ok []) else m rq)
         (\<lambda>err. Ok (mutator_writeResponse H (mutator_errorResponse (ar_UID rq) err)))
         (\<lambda>patch. Ok (patch_reply H (mutator_writeResponse H) (ar_UID rq) patch))))"
      by (intro runs_bind_lift on_error_runs) (auto simp: deref_def intro: runs_lift that)
  qed
  from assms(1) show ?thesis
  proof (cases rule: register_cases)
    case (1 m)
    show ?thesis
      unfolding 1(2) validator_NewCreateHandler_def
    proof (rule validates)
      fix review :: admission_review and rq assume r: "rv_Request review = Some rq" "?good rq"
      show "runs located_cache (validate_created vf (wh_Decode h) m review)"
        unfolding validate_created_def r(1) by (intro runs_bind_lift)
          (auto simp: dec [OF r(2)] meta [OF r(2)] deref_def intro: methods(1) [OF r(2) 1(1)] runs_lift)
    qed
  next
    case (2 m)
    show ?thesis
      unfolding 2(2) validator_NewUpdateHandler_def
    proof (rule validates)
      fix review :: admission_review and rq assume r: "rv_Request review = Some rq" "?good rq"
      show "runs located_cache (validate_updated vf (wh_Decode h) m review)"
        unfolding validate_updated_def r(1) by (intro runs_bind_lift)
          (auto simp: dec [OF r(2)] meta [OF r(2)] deref_def intro!: runs_bind_lift
            intro: methods(3) [OF r(2) 2(1)] runs_lift)
    qed
  next
    case (3 m)
    show ?thesis
      unfolding 3(2) mutator_NewCreateHandler_def mutate_created_def
      by (intro mutates runs_bind_lift) (auto simp: dec meta intro: methods(2) [OF _ 3(1)] runs_lift)
  next
    case (4 m)
    show ?thesis
      unfolding 4(2) mutator_NewUpdateHandler_def mutate_updated_def
      by (intro mutates runs_bind_lift) (auto simp: dec meta intro!: runs_bind_lift intro: methods(4) [OF _ 4(1)] runs_lift)
  qed
qed

lemma webhook_runs_typed:
  assumes "webhook_decoder (wh_Decode h) obj meta"
    and "\<And>c m. wh_Decode h raw = Ok (obj c) \<Longrightarrow> wh_OnCreateValidate h = Some m \<Longrightarrow> runs located_cache (m (obj c))"
    and "\<And>c m. wh_Decode h raw = Ok (obj c) \<Longrightarrow> wh_OnCreateMutate h = Some m \<Longrightarrow> runs located_cache (m (obj c))"
    and "\<And>c d m. wh_Decode h raw = Ok (obj c) \<Longrightarrow> wh_Decode h raw' = Ok (obj d) \<Longrightarrow>
      wh_OnUpdateValidate h = Some m \<Longrightarrow> runs located_cache (m (obj d) (obj c))"
    and "\<And>c d m. wh_Decode h raw = Ok (obj c) \<Longrightarrow> wh_Decode h raw' = Ok (obj d) \<Longrightarrow>
      wh_OnUpdateMutate h = Some m \<Longrightarrow> runs located_cache (m (obj d) (obj c))"
  shows "webhook_runs h raw raw'"
proof -
  note dec = webhook_decoder.typed [OF assms(1)] webhook_decoder.metadata [OF assms(1)]
    webhook_decoder.total [OF assms(1)]
  show ?thesis
    unfolding webhook_runs_def
  proof (intro conjI allI impI)
    fix ob assume ob: "wh_Decode h raw = Ok ob"
    with dec(1) obtain c where c: "ob = obj c" by blast
    then show "object_metadata ob \<noteq> None" by (simp add: dec(2))
    show "runs located_cache (m ob)" if "wh_OnCreateValidate h = Some m" for m
      using assms(2) [of c m] ob that by (simp add: c)
    show "runs located_cache (m ob)" if "wh_OnCreateMutate h = Some m" for m
      using assms(3) [of c m] ob that by (simp add: c)
    fix old assume old: "wh_Decode h raw' = Ok old"
    with dec(1) obtain d where d: "old = obj d" by blast
    show "runs located_cache (m old ob)" if "wh_OnUpdateValidate h = Some m" for m
      using assms(4) [of c d m] ob old that by (simp add: c d)
    show "runs located_cache (m old ob)" if "wh_OnUpdateMutate h = Some m" for m
      using assms(5) [of c d m] ob old that by (simp add: c d)
  qed (rule dec(3))+
qed

lemma healthy_objects_decoded:
  assumes "healthy_objects L U k raw raw'"
  shows "clh_decoder cl = U \<Longrightarrow> Cluster_Decode cl raw = Ok (ObjCluster c) \<Longrightarrow> \<not> nil_port c"
    and "clh_decoder cl = U \<Longrightarrow> Cluster_Decode cl raw' = Ok (ObjCluster c) \<Longrightarrow> \<not> nil_port c"
    and "AzureCluster_Decode L raw = Ok (ObjAzureCluster a) \<Longrightarrow> plain_error (crd_ValidateCreate (lib_AzureCluster L) a)"
    and "AzureCluster_Decode L raw = Ok (ObjAzureCluster a) \<Longrightarrow> AzureCluster_Decode L raw' = Ok (ObjAzureCluster b) \<Longrightarrow>
      healthy_azurecluster L k b a"
    and "AzureMachine_Decode L raw = Ok (ObjAzureMachine m) \<Longrightarrow> plain_error (crd_ValidateCreate (lib_AzureMachine L) m)"
    and "AzureMachine_Decode L raw = Ok (ObjAzureMachine m) \<Longrightarrow> AzureMachine_Decode L raw' = Ok (ObjAzureMachine n) \<Longrightarrow>
      plain_error (crd_ValidateUpdate (lib_AzureMachine L) n m)"
  using assms
  by (auto simp: healthy_objects_def Cluster_Decode_def AzureCluster_Decode_def AzureMachine_Decode_def decode_with_Ok_iff)

lemma azure_webhooks_run:
  shows "healthy_objects L U (ach_ctrlClient ac) raw raw' \<Longrightarrow> webhook_runs (azurecluster_webhook L ac) raw raw'"
    and "healthy_objects L U k raw raw' \<Longrightarrow> healthy_api (amh_vmcaps am) \<Longrightarrow>
      webhook_runs (azuremachine_webhook L am) raw raw'"
    and "healthy_api (aph_vmcaps ap) \<Longrightarrow> webhook_runs (azuremachinepool_webhook L ap) raw raw'"
    and "healthy_api (mph_vmcaps mp) \<Longrightarrow> webhook_runs (machinepool_webhook L mp) raw raw'"
proof -
  show "webhook_runs (azurecluster_webhook L ac) raw raw'" if "healthy_objects L U (ach_ctrlClient ac) raw raw'"
    by (rule webhook_runs_typed [where obj = ObjAzureCluster and meta = ac_meta])
      (auto simp: azurecluster_webhook_def azurecluster_decoder.webhook_decoder_axioms
        intro!: runs_lift azurecluster_methods_no_panic intro: healthy_objects_decoded(3,4) [OF that])
  show "webhook_runs (azuremachine_webhook L am) raw raw'" if "healthy_objects L U k raw raw'" "healthy_api (amh_vmcaps am)"
    by (rule webhook_runs_typed [where obj = ObjAzureMachine and meta = am_meta])
      (auto simp: azuremachine_webhook_def azuremachine_decoder.webhook_decoder_axioms
        intro!: runs_lift machine_methods_no_panic that(2) intro: healthy_objects_decoded(5,6) [OF that(1)])
  show "webhook_runs (azuremachinepool_webhook L ap) raw raw'" if "healthy_api (aph_vmcaps ap)"
    by (rule webhook_runs_typed [where obj = ObjAzureMachinePool and meta = amp_meta])
      (auto simp: azuremachinepool_webhook_def azuremachinepool_decoder.webhook_decoder_axioms
        intro!: runs_lift azuremachinepool_methods_run [OF that])
  show "webhook_runs (machinepool_webhook L mp) raw raw'" if "healthy_api (mph_vmcaps mp)"
    by (rule webhook_runs_typed [where obj = ObjMachinePool and meta = mp_meta])
      (auto simp: machinepool_webhook_def machinepool_decoder.webhook_decoder_axioms
        intro!: runs_lift machinepool_methods_run that)
qed

lemma other_webhooks_run:
  shows "healthy_objects L (clh_decoder cl) k raw raw' \<Longrightarrow> webhook_runs (cluster_webhook L now cl) raw raw'"
    and "webhook_runs (spark_webhook L lg) raw raw'"
    and "webhook_runs (azureconfig_webhook L lg) raw raw'" and "webhook_runs (azureclusterconfig_webhook L lg) raw raw'"
proof -
  show "webhook_runs (cluster_webhook L now cl) raw raw'" if "healthy_objects L (clh_decoder cl) k raw raw'"
  proof -
    note port = healthy_objects_decoded(1,2) [OF that refl]
    have methods: "Cluster_OnCreateValidate L cl now (ObjCluster c) \<noteq> Panic"
        "Cluster_OnCreateMutate L cl (ObjCluster c) \<noteq> Panic"
        "Cluster_OnUpdateValidate L cl now (ObjCluster d) (ObjCluster c) \<noteq> Panic"
        "Cluster_OnUpdateMutate L cl (ObjCluster d) (ObjCluster c) \<noteq> Panic" if "\<not> nil_port c" "\<not> nil_port d" for c d
      using cluster_methods_no_panic [OF that(2,1)] by simp_all
    show ?thesis
      by (rule webhook_runs_typed [where obj = ObjCluster and meta = cl_meta])
        (auto simp: cluster_webhook_def cluster_decoder.webhook_decoder_axioms methods dest!: port intro!: runs_lift)
  qed
  show "webhook_runs (spark_webhook L lg) raw raw'"
    by (rule webhook_runs_typed [where obj = ObjSpark and meta = sp_meta])
      (auto simp: spark_webhook_def spark_decoder.webhook_decoder_axioms intro!: runs_lift legacy_methods_no_panic)
  show "webhook_runs (azureconfig_webhook L lg) raw raw'"
    by (rule webhook_runs_typed [where obj = ObjAzureConfig and meta = azc_meta])
      (auto simp: azureconfig_webhook_def azureconfig_decoder.webhook_decoder_axioms
        intro!: runs_lift legacy_methods_no_panic)
  show "webhook_runs (azureclusterconfig_webhook L lg) raw raw'"
    by (rule webhook_runs_typed [where obj = ObjAzureClusterConfig and meta = acc_meta])
      (auto simp: azureclusterconfig_webhook_def azureclusterconfig_decoder.webhook_decoder_axioms
        intro!: runs_lift legacy_methods_no_panic)
qed

lemma all_webhooks_run:
  assumes "healthy_objects L U c raw raw'" and "healthy_api v" and "h \<in> set (all_webhooks L now U cfg c r v)"
  shows "webhook_runs h raw raw'"
  using assms
  by (auto simp: all_webhooks_def Let_def intro: azure_webhooks_run other_webhooks_run)

section \<open>The cache after any request\<close>

text \<open>Requests that do panic leave the cache as sound as the others do.\<close>

lemma stateful_methods_keep:
  shows "healthy_api (amh_vmcaps am) \<Longrightarrow> keeps located_cache (AzureMachine_OnCreateValidate L am ob)"
    and "healthy_api (aph_vmcaps ap) \<Longrightarrow> keeps located_cache (AzureMachinePool_OnCreateValidate L ap ob)"
    and "healthy_api (aph_vmcaps ap) \<Longrightarrow> keeps located_cache (AzureMachinePool_OnUpdateValidate L ap old ob)"
    and "healthy_api (aph_vmcaps ap) \<Longrightarrow> keeps located_cache (AzureMachinePool_OnCreateMutate L ap ob)"
    and "healthy_api (mph_vmcaps mp) \<Longrightarrow> keeps located_cache (MachinePool_OnCreateValidate L mp ob)"
proof -
  note ask = SupportedAZs_runs [THEN runs_keeps] questions_run [THEN runs_keeps]
    azuremachinepool_checks_run [THEN runs_keeps]
  show "keeps located_cache (AzureMachine_OnCreateValidate L am ob)" if "healthy_api (amh_vmcaps am)"
    unfolding AzureMachine_OnCreateValidate_def by (intro keeps_bind keeps_lift ask that)
  show "keeps located_cache (AzureMachinePool_OnCreateValidate L ap ob)" if "healthy_api (aph_vmcaps ap)"
    unfolding AzureMachinePool_OnCreateValidate_def by (intro keeps_bind keeps_lift ask that)
  show "keeps located_cache (AzureMachinePool_OnUpdateValidate L ap old ob)" if "healthy_api (aph_vmcaps ap)"
    unfolding AzureMachinePool_OnUpdateValidate_def by (auto intro!: keeps_bind keeps_lift ask that)
  show "keeps located_cache (AzureMachinePool_OnCreateMutate L ap ob)" if "healthy_api (aph_vmcaps ap)"
    unfolding AzureMachinePool_OnCreateMutate_def AzureMachinePool_ensureStorageAccountType_def
    by (auto simp: Let_def intro!: keeps_bind keeps_lift ask that)
  show "keeps located_cache (MachinePool_OnCreateValidate L mp ob)" if "healthy_api (mph_vmcaps mp)"
    unfolding MachinePool_OnCreateValidate_def checkAvailabilityZones_def
    by (auto intro!: keeps_bind keeps_lift ask that split: option.splits)
qed

lemma all_methods_keep:
  assumes "healthy_api v" and "h \<in> set (all_webhooks L now U cfg c r v)"
  shows "wh_OnCreateValidate h = Some m \<Longrightarrow> keeps located_cache (m ob)"
    and "wh_OnCreateMutate h = Some m' \<Longrightarrow> keeps located_cache (m' ob)"
    and "wh_OnUpdateValidate h = Some n \<Longrightarrow> keeps located_cache (n old ob)"
    and "wh_OnUpdateMutate h = Some n' \<Longrightarrow> keeps located_cache (n' old ob)"
  using assms
  by (auto simp: all_webhooks_def Let_def webhook_defs keeps_lift stateful_methods_keep)

lemma on_error_keeps: "keeps I m \<Longrightarrow> keeps I (on_error m failed k)"
  by (auto simp: keeps_def on_error_eq)

lemma endpoint_keeps:
  assumes "healthy_api v" and "h \<in> set (all_webhooks L now U cfg c r v)" and "(path, handler) \<in> set (register H vf mf h)"
  shows "keeps located_cache (handler request)"
proof -
  note methods = all_methods_keep [OF assms(1,2)]
  have review: "keeps I (with_review H k request)" if "\<And>review. keeps I (k review)" for I :: "vmsku \<Rightarrow> bool" and k
    using that by (auto simp: with_review_def keeps_lift split: sum.splits)
  from assms(3) show ?thesis
  proof (cases rule: register_cases)
    case (1 m)
    show ?thesis
      unfolding 1(2) validator_NewCreateHandler_def validator_newHttpHandler_def validate_created_def
      by (intro review on_error_keeps keeps_bind keeps_lift if_keeps methods(1) [OF 1(1)])
  next
    case (2 m)
    show ?thesis
      unfolding 2(2) validator_NewUpdateHandler_def validator_newHttpHandler_def validate_updated_def
      by (intro review on_error_keeps keeps_bind keeps_lift if_keeps methods(3) [OF 2(1)])
  next
    case (3 m)
    show ?thesis
      unfolding 3(2) mutator_NewCreateHandler_def mutator_newHttpHandler_def mutate_created_def
      by (intro review on_error_keeps keeps_bind keeps_lift if_keeps methods(2) [OF 3(1)])
  next
    case (4 m)
    show ?thesis
      unfolding 4(2) mutator_NewUpdateHandler_def mutator_newHttpHandler_def mutate_updated_def
      by (intro review on_error_keeps keeps_bind keeps_lift if_keeps methods(4) [OF 4(1)])
  qed
qed

section \<open>The server\<close>

text \<open>The listings of Azure name every machine type and its locations.\<close>

definition complete_listings :: "platform \<Rightarrow> bool" where
  "complete_listings pf \<longleftrightarrow> (\<forall>k flt it. pf_ListComplete pf k flt = Inr it \<longrightarrow>
     (\<forall>sku\<in>set (iterated it). sku_Name sku \<noteq> None \<and> sku_LocationInfo sku \<noteq> None))"

lemma complete_listings_healthy:
  assumes "complete_listings pf"
  shows "healthy_api (NewAzureAPI (pf_ListComplete pf))"
  unfolding healthy_api_def NewAzureAPI_def Azure_List_def
proof (intro allI)
  fix k flt
  show "(case pf_ListComplete pf k flt of Inl err \<Rightarrow> Err err | Inr it \<Rightarrow> list_loop Map.empty it) \<noteq> Panic \<and>
    (\<forall>m. (case pf_ListComplete pf k flt of Inl err \<Rightarrow> Err err | Inr it \<Rightarrow> list_loop Map.empty it) = Ok m \<longrightarrow> located m)"
  proof (cases "pf_ListComplete pf k flt")
    case (Inr it)
    with assms have it: "sku_Name sku \<noteq> None" "sku_LocationInfo sku \<noteq> None" if "sku \<in> set (iterated it)" for sku
      using that by (auto simp: complete_listings_def)
    then show ?thesis
      by (auto simp: Inr list_loop_eq located_def split: option.splits dest!: map_of_SomeD)
  qed simp
qed

text \<open>The states of the cache after any sequence of requests to a started server, healthy or not: the HTTP library
  recovers from the panic of a handler.\<close>

inductive after_requests :: "server_parts \<Rightarrow> vmsku \<Rightarrow> bool" for parts where
  fresh: "after_requests parts (snd (srv_vmcaps parts))"
| request: "after_requests parts s \<Longrightarrow> after_requests parts (snd (ServeHTTP (srv_handler parts) line rq s))"

lemma started_server_table:
  assumes "mainError pf L H now U = Serves parts" and "pf_NewClients pf userAgent = Inr client"
  obtains f cfg reader routes
  where "routes = concat (map (register H f f) (all_webhooks L now U cfg client reader (NewAzureAPI (pf_ListComplete pf))))"
    and "\<And>line. ServeHTTP (srv_handler parts) line =
      (if rl_Method line \<noteq> ''CONNECT'' \<and> cleanPath (rl_Path line) \<noteq> rl_Path line
       then (\<lambda>request. lift_st (Ok (RedirectReply (cleanPath (rl_Path line)))))
       else endpoint_of pf routes (rl_Path line))"
proof -
  from assms obtain cfg reader routes where
    r: "RegisterWebhookHandlers L H now U cfg (Some ()) (Some client) (Some reader)
        (Some (NewAzureAPI (pf_ListComplete pf))) = Ok routes"
      and h: "srv_handler parts = served_table pf routes"
    by (auto simp: mainError_Serves_iff)
  have p: "map fst routes = served_paths"
    using r by (auto simp: RegisterWebhookHandlers_Ok_iff registered_paths simp del: map_concat map_map)
  obtain f where "routes = concat (map (register H f f)
      (all_webhooks L now U cfg client reader (NewAzureAPI (pf_ListComplete pf))))"
    using r by (auto simp: RegisterWebhookHandlers_Ok_iff)
  with that show thesis using ServeHTTP_served_table [OF p] h by metis
qed

lemma registered_endpoint:
  assumes "map_of (concat (map (register H f f) ws)) path = Some handler"
  obtains w where "w \<in> set ws" "(path, handler) \<in> set (register H f f w)"
  using map_of_SomeD [OF assms] by auto

lemma server_runs:
  assumes "mainError pf L H now U = Serves parts" and "pf_NewClients pf userAgent = Inr client"
    and "complete_listings pf" and "healthy_request L H U client request"
    and "rl_Path line = ''/healthz'' \<Longrightarrow> pf_Write pf ''ok'' = None"
  shows "runs located_cache (ServeHTTP (srv_handler parts) line request)"
proof -
  note healthy = complete_listings_healthy [OF assms(3)]
  obtain f cfg reader routes where
    routes: "routes = concat (map (register H f f)
        (all_webhooks L now U cfg client reader (NewAzureAPI (pf_ListComplete pf))))"
    and serve: "\<And>line. ServeHTTP (srv_handler parts) line =
      (if rl_Method line \<noteq> ''CONNECT'' \<and> cleanPath (rl_Path line) \<noteq> rl_Path line
       then (\<lambda>request. lift_st (Ok (RedirectReply (cleanPath (rl_Path line)))))
       else endpoint_of pf routes (rl_Path line))"
    using started_server_table [OF assms(1,2)] by metis
  have "runs located_cache (handler request)" if handler: "map_of routes path = Some handler" for path handler
  proof -
    obtain w where w: "w \<in> set (all_webhooks L now U cfg client reader (NewAzureAPI (pf_ListComplete pf)))"
      "(path, handler) \<in> set (register H f f w)"
      using registered_endpoint [OF handler [unfolded routes]] by metis
    show ?thesis
    proof (rule endpoint_runs [OF w(2)])
      fix data review assume "rq_Body request = Inr data" "hl_DecodeReview H data = Inr review"
      with assms(4) obtain rq where "rv_Request review = Some rq" "healthy_objects L U client (ar_Object rq) (ar_OldObject rq)"
        unfolding healthy_request_def by blast
      with all_webhooks_run [OF _ healthy w(1)] show
        "\<exists>rq. rv_Request review = Some rq \<and> webhook_runs w (ar_Object rq) (ar_OldObject rq)" by blast
    qed
  qed
  then show ?thesis
    using assms(5)
    by (auto simp: serve endpoint_of_def healthCheck_def as_endpoint_def intro!: runs_lift runs_bind split: option.splits)
qed

lemma server_keeps:
  assumes "mainError pf L H now U = Serves parts" and "complete_listings pf"
  shows "keeps located_cache (ServeHTTP (srv_handler parts) line request)"
proof -
  note healthy = complete_listings_healthy [OF assms(2)]
  from assms(1) obtain client where client: "pf_NewClients pf userAgent = Inr client"
    by (auto simp: mainError_Serves_iff)
  obtain f cfg reader routes where
    routes: "routes = concat (map (register H f f)
        (all_webhooks L now U cfg client reader (NewAzureAPI (pf_ListComplete pf))))"
    and serve: "\<And>line. ServeHTTP (srv_handler parts) line =
      (if rl_Method line \<noteq> ''CONNECT'' \<and> cleanPath (rl_Path line) \<noteq> rl_Path line
       then (\<lambda>request. lift_st (Ok (RedirectReply (cleanPath (rl_Path line)))))
       else endpoint_of pf routes (rl_Path line))"
    using started_server_table [OF assms(1) client] by metis
  have "keeps located_cache (handler request)" if handler: "map_of routes path = Some handler" for path handler
    using registered_endpoint [OF handler [unfolded routes]] endpoint_keeps [OF healthy] by metis
  then show ?thesis
    by (auto simp: serve endpoint_of_def healthCheck_def as_endpoint_def intro!: keeps_lift keeps_bind split: option.splits)
qed

text \<open>C5. A started server does not panic on a request whose objects are healthy: if the review comes with its
  request, a Cluster in it has an API server port in its network, an AzureCluster whose release version it changes
  has an owner (or asking for the owner fails), the errors with which the types of an AzureCluster or AzureMachine
  refuse its objects are plain, the listings of Azure name every machine type and its locations, and, for the
  health check, the answer can be written, then the handler of the request does not panic, whatever requests came
  before it, those that made their handlers panic included.\<close>

theorem server_never_panics:
  assumes "mainError pf L H now U = Serves parts" and "pf_NewClients pf userAgent = Inr client"
    and "complete_listings pf" and "healthy_request L H U client request"
    and "rl_Path line = ''/healthz'' \<Longrightarrow> pf_Write pf ''ok'' = None"
    and "after_requests parts s"
  shows "fst (ServeHTTP (srv_handler parts) line request s) \<noteq> Panic"
proof -
  have "located_cache (snd (srv_vmcaps parts))"
    using assms(1) by (auto simp: mainError_Serves_iff located_cache_def)
  with assms(6) have "located_cache s"
    by (induction rule: after_requests.induct) (use server_keeps [OF assms(1,3)] in \<open>auto simp: keeps_def\<close>)
  then show ?thesis using server_runs [OF assms(1-5)] by (simp add: runs_def)
qed

section \<open>A server that does not panic\<close>

text \<open>The owner of an AzureCluster is never found here; the Cluster of the review has all it needs.\<close>

definition demo_port_decoder :: decoder where
  "demo_port_decoder = demo_decoder\<lparr>dec_Cluster := (\<lambda>s. Inr (demo_running_cluster ''v1.0.0''))\<rparr>"

theorem server_never_panics_witness:
  "\<exists>parts. mainError (demo_platform (demo_kube []) (demo_kube [])) demo_lib demo_http (0, 0) demo_port_decoder = Serves parts \<and>
     fst (ServeHTTP (srv_handler parts) \<lparr>rl_Method = ''POST'', rl_Host = ''h'', rl_Path = ''/validate/cluster/update''\<rparr>
       demo_http_request (snd (srv_vmcaps parts))) \<noteq> Panic"
proof -
  let ?pf = "demo_platform (demo_kube []) (demo_kube [])"
  let ?line = "\<lparr>rl_Method = ''POST'', rl_Host = ''h'', rl_Path = ''/validate/cluster/update''\<rparr>"
  obtain parts where s: "mainError ?pf demo_lib demo_http (0, 0) demo_port_decoder = Serves parts"
    using demo_platform_starts by blast
  have c: "pf_NewClients ?pf userAgent = Inr (demo_kube [])" by (simp add: demo_platform_def)
  have l: "complete_listings ?pf" by (simp add: complete_listings_def demo_platform_def)
  have o: "healthy_request demo_lib demo_http demo_port_decoder (demo_kube []) demo_http_request"
    by (simp add: healthy_request_def healthy_objects_def demo_http_def demo_port_decoder_def demo_decoder_def
        nil_port_def demo_running_cluster_def defaultClusterNetwork_def)
  have w: "rl_Path ?line = ''/healthz'' \<Longrightarrow> pf_Write ?pf ''ok'' = None" by simp
  from s server_never_panics [OF s c l o w after_requests.fresh] show ?thesis by blast
qed

section \<open>Objects and handlers\<close>

text \<open>The conversion the methods of a resource begin with.\<close>

definition converts :: "string \<Rightarrow> object \<Rightarrow> bool" where
  "converts resource ob =
     (if resource = Cluster_Resource then is_ok (ToClusterPtr ob)
      else if resource = AzureCluster_Resource then is_ok (ToAzureClusterPtr ob)
      else if resource = AzureMachine_Resource then is_ok (ToAzureMachinePtr ob)
      else if resource = AzureMachinePool_Resource then is_ok (ToAzureMachinePoolPtr ob)
      else if resource = MachinePool_Resource then is_ok (ToMachinePoolPtr ob)
      else if resource = Spark_Resource then is_ok (ToSparkPtr ob)
      else if resource = AzureConfig_Resource then is_ok (ToAzureConfigPtr ob)
      else if resource = AzureClusterConfig_Resource then is_ok (ToAzureClusterConfigPtr ob)
      else False)"

lemma converts_simps:
  "converts Cluster_Resource ob \<longleftrightarrow> (\<exists>c. ob = ObjCluster c)"
  "converts AzureCluster_Resource ob \<longleftrightarrow> (\<exists>c. ob = ObjAzureCluster c)"
  "converts AzureMachine_Resource ob \<longleftrightarrow> (\<exists>c. ob = ObjAzureMachine c)"
  "converts AzureMachinePool_Resource ob \<longleftrightarrow> (\<exists>c. ob = ObjAzureMachinePool c)"
  "converts MachinePool_Resource ob \<longleftrightarrow> (\<exists>c. ob = ObjMachinePool c)"
  "converts Spark_Resource ob \<longleftrightarrow> (\<exists>c. ob = ObjSpark c)"
  "converts AzureConfig_Resource ob \<longleftrightarrow> (\<exists>c. ob = ObjAzureConfig c)"
  "converts AzureClusterConfig_Resource ob \<longleftrightarrow> (\<exists>c. ob = ObjAzureClusterConfig c)"
  by (simp_all add: converts_def resource_defs is_ok_iff outcome_simps)

lemma webhook_simps [simp]:
  "wh_Resource (azureconfig_webhook L lh) = AzureConfig_Resource" "wh_Decode (azureconfig_webhook L lh) = AzureConfig_Decode lh"
  "wh_Resource (azurecluster_webhook L ah) = AzureCluster_Resource" "wh_Decode (azurecluster_webhook L ah) = AzureCluster_Decode L"
  "wh_Resource (azureclusterconfig_webhook L lh) = AzureClusterConfig_Resource"
  "wh_Decode (azureclusterconfig_webhook L lh) = AzureClusterConfig_Decode lh"
  "wh_Resource (azuremachine_webhook L mh) = AzureMachine_Resource" "wh_Decode (azuremachine_webhook L mh) = AzureMachine_Decode L"
  "wh_Resource (azuremachinepool_webhook L ph) = AzureMachinePool_Resource"
  "wh_Decode (azuremachinepool_webhook L ph) = AzureMachinePool_Decode ph"
  "wh_Resource (cluster_webhook L now ch) = Cluster_Resource" "wh_Decode (cluster_webhook L now ch) = Cluster_Decode ch"
  "wh_Resource (machinepool_webhook L eh) = MachinePool_Resource" "wh_Decode (machinepool_webhook L eh) = MachinePool_Decode eh"
  "wh_Resource (spark_webhook L lh) = Spark_Resource" "wh_Decode (spark_webhook L lh) = Spark_Decode L"
  by (simp_all add: webhook_defs)

lemma resources_distinct [simp]:
  "distinct [Cluster_Resource, AzureCluster_Resource, AzureMachine_Resource, AzureMachinePool_Resource,
     MachinePool_Resource, Spark_Resource, AzureConfig_Resource, AzureClusterConfig_Resource]"
  by (simp add: resource_defs)

lemma all_webhooks_resources:
  "wh_Resource ` set (all_webhooks L now U cfg c r v) = set [Cluster_Resource, AzureCluster_Resource, AzureMachine_Resource,
     AzureMachinePool_Resource, MachinePool_Resource, Spark_Resource, AzureConfig_Resource, AzureClusterConfig_Resource]"
  by (auto simp: all_webhooks_def Let_def)

text \<open>C22. Objects and handlers are typed: what a handler's decoder gives has metadata and converts to the type of
  that handler's resource, so that its methods never fail on the conversion, and to the type of no other one.\<close>

theorem decoded_objects_are_typed:
  assumes "getAllHandlers L now U cfg logger client reader vmcaps = Ok handlers" and "h \<in> set handlers"
    and "wh_Decode h raw = Ok ob"
  shows "object_metadata ob \<noteq> None \<and> (\<forall>h'\<in>set handlers. converts (wh_Resource h') ob \<longleftrightarrow> wh_Resource h' = wh_Resource h)"
proof -
  from assms(1) obtain c r v where hs: "handlers = all_webhooks L now U cfg c r v"
    by (auto simp: getAllHandlers_Ok_iff)
  have own: "object_metadata ob \<noteq> None \<and> (\<forall>res\<in>wh_Resource ` set handlers. converts res ob \<longleftrightarrow> res = wh_Resource h)"
    unfolding hs all_webhooks_resources
    using assms(2,3) resources_distinct unfolding hs
    by (auto simp: all_webhooks_def Let_def converts_simps
        dest!: cluster_decoder.typed azurecluster_decoder.typed azuremachine_decoder.typed
          azuremachinepool_decoder.typed machinepool_decoder.typed spark_decoder.typed azureconfig_decoder.typed
          azureclusterconfig_decoder.typed)
  then show ?thesis by blast
qed

theorem decoded_objects_are_typed_witness:
  "\<not> converts Cluster_Resource (ObjAzureConfig (demo_azure_config ''v1.0.0'' '''' []))"
proof -
  let ?U = "demo_decoder\<lparr>dec_AzureConfig := (\<lambda>s. Inr (demo_azure_config ''v1.0.0'' '''' []))\<rparr>"
  let ?cfg = "\<lparr>cfg_BaseDomain = ''k8s.io'', cfg_CertFile = '''', cfg_KeyFile = '''', cfg_Address = '''',
    cfg_AvailabilityZones = '''', cfg_Location = ''westeurope''\<rparr>"
  let ?hs = "all_webhooks demo_lib (0, 0) ?U ?cfg (demo_kube []) (demo_kube []) demo_sku_api"
  let ?h = "azureconfig_webhook demo_lib \<lparr>lgh_ctrlClient = demo_kube [], lgh_decoder = ?U\<rparr>"
  have handlers: "getAllHandlers demo_lib (0, 0) ?U ?cfg (Some ()) (Some (demo_kube [])) (Some (demo_kube []))
      (Some demo_sku_api) = Ok ?hs"
    by (simp add: getAllHandlers_Ok_iff)
  have h: "?h \<in> set ?hs" by (simp add: all_webhooks_def Let_def)
  have "wh_Decode ?h ''raw'' = Ok (ObjAzureConfig (demo_azure_config ''v1.0.0'' '''' []))"
    by (simp add: AzureConfig_Decode_def decode_with_Ok_iff)
  from decoded_objects_are_typed [OF handlers h this]
  have "converts res (ObjAzureConfig (demo_azure_config ''v1.0.0'' '''' [])) \<longleftrightarrow> res = AzureConfig_Resource"
    if "res \<in> wh_Resource ` set ?hs" for res
    using that by auto
  from this [of Cluster_Resource] show ?thesis
    unfolding all_webhooks_resources by (simp add: resource_defs)
qed

end
