(* ===== verification/VMConcurrency.thy ===== *)
theory VMConcurrency
  imports VMCaps
begin

text \<open>
  The cache of the machine types under concurrent requests. The two webhook servers share one
  \<open>VMSKU\<close>, and every request runs in a goroutine of its own, so \<open>getSKU\<close> is modelled step by step: the
  look-up that decides whether a location is cached, the locked listing and store of \<open>initCache\<close>,
  and the final look-up. Only the store happens under the mutex.
\<close>

datatype vm_pc =
    Check string string           \<comment> \<open>about to test \<open>v.skus[location]\<close>\<close>
  | Lock string string            \<comment> \<open>a miss, about to lock\<close>
  | Listing string string         \<comment> \<open>holds the mutex, asks Azure\<close>
  | Store string string sku_cache \<comment> \<open>holds the mutex, about to write \<open>v.skus[location]\<close>\<close>
  | Read string string            \<comment> \<open>about to read \<open>v.skus[location][vmType]\<close>\<close>
  | Finished "resource_sku res"

record vm_world =
  pcs :: "nat \<Rightarrow> vm_pc"
  mutex :: "nat option"
  shared :: "string \<rightharpoonup> sku_cache"

definition goto :: "vm_world \<Rightarrow> nat \<Rightarrow> vm_pc \<Rightarrow> vm_world" where
  "goto w i p = w\<lparr>pcs := (pcs w)(i := p)\<rparr>"

inductive vm_step :: "sku_api \<Rightarrow> vm_world \<Rightarrow> vm_world \<Rightarrow> bool" for azure where
  hit: "pcs w i = Check l ty \<Longrightarrow> shared w l \<noteq> None \<Longrightarrow> vm_step azure w (goto w i (Read l ty))"
| miss: "pcs w i = Check l ty \<Longrightarrow> shared w l = None \<Longrightarrow> vm_step azure w (goto w i (Lock l ty))"
| lock: "pcs w i = Lock l ty \<Longrightarrow> mutex w = None \<Longrightarrow>
    vm_step azure w ((goto w i (Listing l ty))\<lparr>mutex := Some i\<rparr>)"
| listed: "pcs w i = Listing l ty \<Longrightarrow> azure k (sku_filter l) = Ok m \<Longrightarrow>
    vm_step azure w (goto w i (Store l ty m))"
| failed: "pcs w i = Listing l ty \<Longrightarrow> azure k (sku_filter l) = Err e \<Longrightarrow>
    vm_step azure w ((goto w i (Finished (Err e)))\<lparr>mutex := None\<rparr>)"
| crashed: "pcs w i = Listing l ty \<Longrightarrow> azure k (sku_filter l) = Panic \<Longrightarrow>
    vm_step azure w ((goto w i (Finished Panic))\<lparr>mutex := None\<rparr>)"
| store: "pcs w i = Store l ty m \<Longrightarrow>
    vm_step azure w ((goto w i (Read l ty))\<lparr>mutex := None, shared := (shared w)(l \<mapsto> m)\<rparr>)"
| read: "pcs w i = Read l ty \<Longrightarrow>
    vm_step azure w (goto w i (Finished (case Option.bind (shared w l) (\<lambda>m. m ty) of
        None \<Rightarrow> Err (vm_err VM_skuNotFoundError) | Some sku \<Rightarrow> Ok sku)))"

inductive_cases vm_stepE: "vm_step azure w w'"

text \<open>Requests start at the first look-up, with the mutex free.\<close>

definition vm_start :: "vm_world \<Rightarrow> bool" where
  "vm_start w \<longleftrightarrow> mutex w = None \<and> (\<forall>i. \<exists>l ty. pcs w i = Check l ty)"

definition critical :: "vm_pc \<Rightarrow> bool" where
  "critical p \<longleftrightarrow> (\<exists>l ty m. p = Listing l ty \<or> p = Store l ty m)"

lemma critical_simps [simp]:
  "critical (Listing l ty)" "critical (Store l ty m)" "\<not> critical (Check l ty)" "\<not> critical (Lock l ty)"
  "\<not> critical (Read l ty)" "\<not> critical (Finished r)"
  by (simp_all add: critical_def)

lemma goto_simps [simp]:
  "pcs (goto w i p) = (pcs w)(i := p)" "mutex (goto w i p) = mutex w" "shared (goto w i p) = shared w"
  by (simp_all add: goto_def)

text \<open>The mutex is held by exactly the goroutine in the critical section.\<close>

definition lock_discipline :: "vm_world \<Rightarrow> bool" where
  "lock_discipline w \<longleftrightarrow> (\<forall>i. critical (pcs w i) \<longleftrightarrow> mutex w = Some i)"

lemma lock_discipline_step: "vm_step azure w w' \<Longrightarrow> lock_discipline w \<Longrightarrow> lock_discipline w'"
  unfolding lock_discipline_def
  by (erule vm_stepE; simp; metis critical_simps option.inject option.distinct(1))

definition listings_only :: "sku_api \<Rightarrow> vm_world \<Rightarrow> bool" where
  "listings_only azure w \<longleftrightarrow>
     (\<forall>l m. shared w l = Some m \<longrightarrow> (\<exists>k. azure k (sku_filter l) = Ok m)) \<and>
     (\<forall>i l ty m. pcs w i = Store l ty m \<longrightarrow> (\<exists>k. azure k (sku_filter l) = Ok m)) \<and>
     (\<forall>i l ty. pcs w i = Read l ty \<longrightarrow> shared w l \<noteq> None)"

lemma listings_only_step: "vm_step azure w w' \<Longrightarrow> listings_only azure w \<Longrightarrow> listings_only azure w'"
  by (erule vm_stepE) (auto simp: listings_only_def split: if_splits)

lemma vm_start_pc: "vm_start w \<Longrightarrow> \<exists>l ty. pcs w i = Check l ty"
  unfolding vm_start_def by blast

lemma vm_start_invariants:
  assumes "vm_start w" "shared w = Map.empty"
  shows "lock_discipline w \<and> listings_only azure w"
proof -
  have pc: "\<not> critical (pcs w i) \<and> pcs w i \<noteq> Store l ty m \<and> pcs w i \<noteq> Read l ty" for i l ty m
    using vm_start_pc [OF assms(1), of i] by auto
  moreover have "mutex w = None" using assms(1) by (simp add: vm_start_def)
  ultimately show ?thesis using assms(2) by (simp add: lock_discipline_def listings_only_def)
qed

text \<open>Writers of the cache exclude each other, whatever the interleaving, and a request that has reached
  its final look-up finds the listing of its location.\<close>

theorem cache_writers_exclude_each_other:
  assumes "(vm_step azure)\<^sup>*\<^sup>* w w'" and "vm_start w" and "shared w = Map.empty"
  shows "(critical (pcs w' i) \<and> critical (pcs w' j) \<longrightarrow> i = j) \<and>
     (pcs w' i = Read l ty \<longrightarrow> (\<exists>k m. azure k (sku_filter l) = Ok m \<and> shared w' l = Some m))"
proof -
  have "lock_discipline w' \<and> listings_only azure w'"
    using assms(1)
    by (induction rule: rtranclp_induct)
      (use vm_start_invariants [OF assms(2,3)] lock_discipline_step listings_only_step in blast)+
  then show ?thesis
    unfolding lock_discipline_def listings_only_def by (metis not_Some_eq option.inject)
qed

text \<open>
  A data race of the Go memory model: two accesses to the map by different goroutines, one of them a write,
  that nothing orders. Nothing orders them when both are possible next steps of one state: an access that had
  to wait for the mutex would not be one of them.
\<close>

definition may_step :: "sku_api \<Rightarrow> vm_world \<Rightarrow> nat \<Rightarrow> bool" where
  "may_step azure w i \<longleftrightarrow> (\<exists>w'. vm_step azure w w' \<and> pcs w' i \<noteq> pcs w i)"

definition writes_next :: "vm_world \<Rightarrow> nat \<Rightarrow> bool" where
  "writes_next w i \<longleftrightarrow> (\<exists>l ty m. pcs w i = Store l ty m)"

definition reads_next :: "vm_world \<Rightarrow> nat \<Rightarrow> bool" where
  "reads_next w i \<longleftrightarrow> (\<exists>l ty. pcs w i = Check l ty \<or> pcs w i = Read l ty)"

definition data_race :: "sku_api \<Rightarrow> vm_world \<Rightarrow> nat \<Rightarrow> nat \<Rightarrow> bool" where
  "data_race azure w i j \<longleftrightarrow> i \<noteq> j \<and> may_step azure w i \<and> may_step azure w j \<and>
     writes_next w i \<and> (writes_next w j \<or> reads_next w j)"

lemma may_step_check: "pcs w i = Check l ty \<Longrightarrow> may_step azure w i"
  using vm_step.hit [of w i l ty azure] vm_step.miss [of w i l ty azure]
  by (cases "shared w l") (force simp: may_step_def)+

lemma may_step_store: "pcs w i = Store l ty m \<Longrightarrow> may_step azure w i"
  using vm_step.store [of w i l ty m azure] by (force simp: may_step_def)

text \<open>Two writes never race: the mutex orders them.\<close>

lemma no_racing_writes:
  assumes "(vm_step azure)\<^sup>*\<^sup>* w w'" and "vm_start w" and "shared w = Map.empty" and "data_race azure w' i j"
  shows "reads_next w' j"
proof -
  have "i = j" if "writes_next w' j"
    using cache_writers_exclude_each_other [OF assms(1-3), of i j] assms(4) that
    by (auto simp: data_race_def writes_next_def)
  with assms(4) show ?thesis by (auto simp: data_race_def)
qed

text \<open>C37. The reads of the cache are not under the mutex: as soon as a listing of a location succeeds, any other
  request can be about to read the map while the request that listed is about to write it, with both steps
  possible at the same time; all data races on the map are of this kind, since the writes exclude each other.\<close>

theorem cache_read_races_with_write:
  assumes "vm_start w" and "shared w = Map.empty" and "i \<noteq> j" and "pcs w i = Check l ty"
    and "azure k (sku_filter l) = Ok m"
  shows "(\<exists>w'. (vm_step azure)\<^sup>*\<^sup>* w w' \<and> data_race azure w' i j \<and> mutex w' = Some i) \<and>
     (\<forall>w' i' j'. (vm_step azure)\<^sup>*\<^sup>* w w' \<and> data_race azure w' i' j' \<longrightarrow> reads_next w' j')"
proof -
  let ?w1 = "goto w i (Lock l ty)"
  let ?w2 = "(goto ?w1 i (Listing l ty))\<lparr>mutex := Some i\<rparr>"
  let ?w3 = "goto ?w2 i (Store l ty m)"
  have "vm_step azure w ?w1" using assms by (intro vm_step.miss) simp_all
  moreover have "vm_step azure ?w1 ?w2" using assms(1) by (intro vm_step.lock) (simp_all add: vm_start_def)
  moreover have "vm_step azure ?w2 ?w3" using assms(5) by (intro vm_step.listed) simp_all
  ultimately have run: "(vm_step azure)\<^sup>*\<^sup>* w ?w3" by (meson converse_rtranclp_into_rtranclp rtranclp.rtrancl_refl)
  obtain l' ty' where "pcs w j = Check l' ty'" using vm_start_pc [OF assms(1)] by blast
  with assms(3) have j: "pcs ?w3 j = Check l' ty'" by simp
  have i: "pcs ?w3 i = Store l ty m" by simp
  have "data_race azure ?w3 i j"
    unfolding data_race_def using may_step_store [OF i] may_step_check [OF j] i j assms(3)
    by (auto simp: writes_next_def reads_next_def)
  moreover have "mutex ?w3 = Some i" by simp
  ultimately show ?thesis using run no_racing_writes [OF _ assms(1,2)] by blast
qed

definition demo_azure :: sku_api where
  "demo_azure k flt = Ok Map.empty"

definition demo_world :: vm_world where
  "demo_world = \<lparr>pcs = (\<lambda>i. Check ''westeurope'' ''D2''), mutex = None, shared = Map.empty\<rparr>"

theorem cache_read_races_with_write_witness:
  "\<exists>w'. (vm_step demo_azure)\<^sup>*\<^sup>* demo_world w' \<and> data_race demo_azure w' 0 1 \<and> mutex w' = Some 0"
proof -
  have start: "vm_start demo_world" "shared demo_world = Map.empty" "(0::nat) \<noteq> 1"
    "pcs demo_world 0 = Check ''westeurope'' ''D2''" "demo_azure 0 (sku_filter ''westeurope'') = Ok Map.empty"
    by (simp_all add: demo_world_def vm_start_def demo_azure_def)
  show ?thesis using cache_read_races_with_write [where azure = demo_azure and k = 0, OF start] by blast
qed

theorem cache_writers_exclude_each_other_witness:
  "\<not> (critical (pcs demo_world 0) \<and> critical (pcs demo_world 1))"
proof -
  have "critical (pcs demo_world 0) \<and> critical (pcs demo_world 1) \<longrightarrow> (0::nat) = 1"
    using cache_writers_exclude_each_other
      [of demo_azure demo_world demo_world 0 1 "''westeurope''" "''D2''"]
    by (simp add: demo_world_def vm_start_def)
  then show ?thesis by simp
qed

end
