(* ===== verification/CacheRuns.thy ===== *)
theory CacheRuns
  imports VMConcurrency
begin

text \<open>
  Whole runs of concurrent requests against the cache of machine types: how long they are, that none gets
  stuck, and that their answers are those of the sequential look-up of \<open>VMCaps\<close>.
\<close>

section \<open>Finitely many requests\<close>

text \<open>A world in which the goroutines below \<open>n\<close> are requests at their first look-up and no others run.\<close>

definition vm_requests :: "nat \<Rightarrow> vm_world \<Rightarrow> bool" where
  "vm_requests n w \<longleftrightarrow> mutex w = None \<and> shared w = Map.empty \<and>
     (\<forall>i<n. \<exists>l ty. pcs w i = Check l ty) \<and> (\<forall>i\<ge>n. \<exists>r. pcs w i = Finished r)"

text \<open>What is left to do for a goroutine, at most.\<close>

fun steps_left :: "vm_pc \<Rightarrow> nat" where
  "steps_left (Check l ty) = 5"
| "steps_left (Lock l ty) = 4"
| "steps_left (Listing l ty) = 3"
| "steps_left (Store l ty m) = 2"
| "steps_left (Read l ty) = 1"
| "steps_left (Finished r) = 0"

definition work :: "nat \<Rightarrow> vm_world \<Rightarrow> nat" where
  "work n w = (\<Sum>i<n. steps_left (pcs w i))"

lemma steps_left_0_iff: "steps_left p = 0 \<longleftrightarrow> (\<exists>r. p = Finished r)"
  by (cases p) auto

text \<open>A step moves one goroutine, and moves it forward.\<close>

lemma vm_step_moves:
  assumes "vm_step azure w w'"
  obtains i p where "pcs w' = (pcs w)(i := p)" "steps_left p < steps_left (pcs w i)"
  using assms by cases auto

definition idle_above :: "nat \<Rightarrow> vm_world \<Rightarrow> bool" where
  "idle_above n w \<longleftrightarrow> (\<forall>i\<ge>n. steps_left (pcs w i) = 0)"

lemma vm_step_work:
  assumes "vm_step azure w w'" and "idle_above n w"
  shows "idle_above n w' \<and> work n w' < work n w"
proof -
  obtain i p where i: "pcs w' = (pcs w)(i := p)" "steps_left p < steps_left (pcs w i)"
    using assms(1) by (rule vm_step_moves)
  then have "i < n" using assms(2) by (metis idle_above_def leI not_less_zero)
  then have "work n w' < work n w"
    unfolding work_def i(1) using i(2) by (intro sum_strict_mono_ex1) auto
  with i \<open>i < n\<close> assms(2) show ?thesis by (auto simp: idle_above_def)
qed

lemma vm_steps_work:
  assumes "(vm_step azure ^^ k) w w'" and "idle_above n w"
  shows "idle_above n w' \<and> work n w' + k \<le> work n w"
  using assms
proof (induction k arbitrary: w')
  case 0
  then show ?case by simp
next
  case (Suc k)
  then obtain v where v: "(vm_step azure ^^ k) w v" "vm_step azure v w'" by auto
  with Suc have "idle_above n v" "work n v + k \<le> work n w" by blast+
  with vm_step_work [OF v(2)] show ?case by force
qed

lemma vm_requests_work:
  assumes "vm_requests n w"
  shows "idle_above n w" and "work n w \<le> 5 * n"
proof -
  have "steps_left (pcs w i) \<le> 5" for i by (cases "pcs w i") auto
  then have "(\<Sum>i<n. steps_left (pcs w i)) \<le> of_nat (card {..<n}) * 5" by (intro sum_bounded_above) auto
  then show "work n w \<le> 5 * n" by (simp add: work_def)
  show "idle_above n w"
    using assms unfolding idle_above_def vm_requests_def by (metis steps_left.simps(6))
qed

section \<open>No request gets stuck\<close>

lemma vm_requests_invariants:
  assumes "vm_requests n w"
  shows "lock_discipline w \<and> listings_only azure w"
proof -
  have "\<not> critical (pcs w i) \<and> pcs w i \<noteq> Store l ty m \<and> pcs w i \<noteq> Read l ty" for i l ty m
  proof (cases "i < n")
    case True
    with assms obtain l' ty' where "pcs w i = Check l' ty'" unfolding vm_requests_def by blast
    then show ?thesis by simp
  next
    case False
    with assms obtain r where "pcs w i = Finished r" unfolding vm_requests_def by (meson leI)
    then show ?thesis by simp
  qed
  with assms show ?thesis by (simp add: lock_discipline_def listings_only_def vm_requests_def)
qed

lemma invariants_hold:
  assumes "(vm_step azure)\<^sup>*\<^sup>* w w'" and "lock_discipline w \<and> listings_only azure w"
  shows "lock_discipline w' \<and> listings_only azure w'"
  using assms by (induction rule: rtranclp_induct) (blast intro: lock_discipline_step listings_only_step)+

text \<open>An unfinished request can move, or it waits for one that can.\<close>

lemma critical_moves:
  assumes "critical (pcs w i)"
  shows "\<exists>w'. vm_step azure w w'"
proof -
  from assms consider l ty where "pcs w i = Listing l ty" | l ty m where "pcs w i = Store l ty m"
    by (auto simp: critical_def)
  then show ?thesis
  proof cases
    case 1
    then show ?thesis
      by (cases "azure 0 (sku_filter l)") (blast intro: vm_step.listed vm_step.failed vm_step.crashed)+
  qed (blast intro: vm_step.store)
qed

lemma unfinished_moves:
  assumes "lock_discipline w" and "steps_left (pcs w i) \<noteq> 0"
  shows "\<exists>w'. vm_step azure w w'"
proof (cases "pcs w i")
  case (Check l ty)
  then show ?thesis by (cases "shared w l") (blast intro: vm_step.hit vm_step.miss)+
next
  case (Lock l ty)
  show ?thesis
  proof (cases "mutex w")
    case None
    with Lock show ?thesis by (blast intro: vm_step.lock)
  next
    case (Some j)
    with assms(1) have "critical (pcs w j)" by (simp add: lock_discipline_def)
    then show ?thesis by (rule critical_moves)
  qed
next
  case (Read l ty)
  then show ?thesis by (blast intro: vm_step.read)
qed (use assms(2) critical_moves [of w i azure] in auto)

text \<open>The requests terminate: however the steps of n concurrent requests are interleaved and whatever
  Azure answers, they take at most five steps each, all told.\<close>

theorem concurrent_requests_terminate:
  assumes "vm_requests n w" and "(vm_step azure ^^ k) w w'"
  shows "k \<le> 5 * n"
  using vm_steps_work [OF assms(2) vm_requests_work(1) [OF assms(1)]] vm_requests_work(2) [OF assms(1)] by simp

text \<open>C14. No deadlock: when no step is possible any more, every request has been answered and the mutex is
  free, also after listings that failed or panicked in the critical section.\<close>

theorem concurrent_requests_are_answered:
  assumes "vm_requests n w" and "(vm_step azure)\<^sup>*\<^sup>* w w'" and "\<nexists>w''. vm_step azure w' w''"
  shows "(\<forall>i. \<exists>r. pcs w' i = Finished r) \<and> mutex w' = None"
proof -
  have inv: "lock_discipline w'"
    using invariants_hold [OF assms(2) vm_requests_invariants [OF assms(1)]] by blast
  with assms(3) have "steps_left (pcs w' i) = 0" for i using unfinished_moves by blast
  then have fin: "\<exists>r. pcs w' i = Finished r" for i by (simp add: steps_left_0_iff)
  then have "\<not> critical (pcs w' i)" for i using critical_simps(6) by metis
  with inv have "mutex w' = None" unfolding lock_discipline_def by (metis not_None_eq)
  with fin show ?thesis by blast
qed

section \<open>Every answer is one of the sequential look-up\<close>

text \<open>What the sequential code answers from an empty cache, had Azure been in the state of its \<open>k\<close>-th answer.\<close>

definition answer_at :: "sku_api \<Rightarrow> nat \<Rightarrow> string \<Rightarrow> string \<Rightarrow> resource_sku res" where
  "answer_at azure k l ty = fst (getSKU (\<lambda>_. azure k) l ty \<lparr>skus = Map.empty, calls = 0\<rparr>)"

lemma answer_at_cases:
  assumes "l \<noteq> ''''" and "ty \<noteq> ''''"
  shows "answer_at azure k l ty = (case azure k (sku_filter l) of
      Err e \<Rightarrow> Err e
    | Panic \<Rightarrow> Panic
    | Ok m \<Rightarrow> (case m ty of None \<Rightarrow> Err (vm_err VM_skuNotFoundError) | Some sku \<Rightarrow> Ok sku))"
  using assms
  by (simp add: answer_at_def getSKU_def bind_st_def initCache_def split: outcome.splits option.splits)

definition answers_for :: "sku_api \<Rightarrow> string \<Rightarrow> string \<Rightarrow> vm_pc \<Rightarrow> bool" where
  "answers_for azure l ty p \<longleftrightarrow>
     p \<in> {Check l ty, Lock l ty, Listing l ty, Read l ty} \<or> (\<exists>m. p = Store l ty m) \<or>
     (\<exists>k. p = Finished (answer_at azure k l ty))"

lemma answers_for_step:
  assumes "vm_step azure w w'" and "listings_only azure w" and "l \<noteq> ''''" and "ty \<noteq> ''''"
    and "answers_for azure l ty (pcs w i)"
  shows "answers_for azure l ty (pcs w' i)"
  using assms(1)
proof cases
  case (failed j l' ty' k e)
  with assms(3-5) show ?thesis by (auto simp: answers_for_def answer_at_cases intro!: exI [of _ k])
next
  case (crashed j l' ty' k)
  with assms(3-5) show ?thesis by (auto simp: answers_for_def answer_at_cases intro!: exI [of _ k])
next
  case (read j l' ty')
  then obtain k m where "azure k (sku_filter l') = Ok m" "shared w l' = Some m"
    using assms(2) unfolding listings_only_def by (metis not_Some_eq)
  with read assms(3-5) show ?thesis by (auto simp: answers_for_def answer_at_cases intro!: exI [of _ k])
qed (use assms(5) in \<open>auto simp: answers_for_def\<close>)

lemma answers_for_steps:
  assumes "(vm_step azure)\<^sup>*\<^sup>* w w'" and "lock_discipline w \<and> listings_only azure w"
    and "l \<noteq> ''''" and "ty \<noteq> ''''" and "answers_for azure l ty (pcs w i)"
  shows "answers_for azure l ty (pcs w' i)"
  using assms(1)
proof (induction rule: rtranclp_induct)
  case (step v v')
  with invariants_hold [OF step(1) assms(2)] show ?case
    using answers_for_step assms(3,4) by blast
qed (rule assms(5))

text \<open>C13. Sharing the cache is invisible in the answers: whatever the interleaving, the answer a request gets
  for a location and a machine type is one the sequential code gives from an empty cache, for some state Azure was in.\<close>

theorem concurrent_answers_are_sequential:
  assumes "vm_requests n w" and "pcs w i = Check l ty" and "l \<noteq> ''''" and "ty \<noteq> ''''"
    and "(vm_step azure)\<^sup>*\<^sup>* w w'" and "pcs w' i = Finished r"
  shows "\<exists>k. r = fst (getSKU (\<lambda>_. azure k) l ty \<lparr>skus = Map.empty, calls = 0\<rparr>)"
proof -
  have "answers_for azure l ty (pcs w i)" by (simp add: answers_for_def assms(2))
  then have "answers_for azure l ty (pcs w' i)"
    by (rule answers_for_steps [OF assms(5) vm_requests_invariants [OF assms(1)] assms(3,4)])
  with assms(6) show ?thesis by (auto simp: answers_for_def answer_at_def)
qed

section \<open>A request, run to the end\<close>

definition one_request :: vm_world where
  "one_request = \<lparr>pcs = (\<lambda>i. if i < 1 then Check ''westeurope'' ''D2'' else Finished Panic),
     mutex = None, shared = Map.empty\<rparr>"

definition one_answered :: vm_world where
  "one_answered = \<lparr>pcs = (\<lambda>i. if i < 1 then Finished (Err (vm_err VM_skuNotFoundError)) else Finished Panic),
     mutex = None, shared = [''westeurope'' \<mapsto> Map.empty]\<rparr>"

lemma one_request_start: "vm_requests 1 one_request"
  by (auto simp: vm_requests_def one_request_def)

lemma vm_steps_Suc: "(vm_step azure ^^ k) w v \<Longrightarrow> vm_step azure v v' \<Longrightarrow> (vm_step azure ^^ Suc k) w v'"
  by auto

lemma one_request_run: "(vm_step demo_azure ^^ 5) one_request one_answered"
proof -
  let ?w1 = "goto one_request 0 (Lock ''westeurope'' ''D2'')"
  let ?w2 = "(goto ?w1 0 (Listing ''westeurope'' ''D2''))\<lparr>mutex := Some 0\<rparr>"
  let ?w3 = "goto ?w2 0 (Store ''westeurope'' ''D2'' Map.empty)"
  let ?w4 = "(goto ?w3 0 (Read ''westeurope'' ''D2''))\<lparr>mutex := None, shared := (shared ?w3)(''westeurope'' \<mapsto> Map.empty)\<rparr>"
  let ?r = "Finished (Err (vm_err VM_skuNotFoundError))"
  have s1: "vm_step demo_azure one_request ?w1" by (intro vm_step.miss) (simp_all add: one_request_def)
  have s2: "vm_step demo_azure ?w1 ?w2" by (intro vm_step.lock) (simp_all add: one_request_def)
  have s3: "vm_step demo_azure ?w2 ?w3" by (intro vm_step.listed [where k = 0]) (simp_all add: demo_azure_def)
  have s4: "vm_step demo_azure ?w3 ?w4" by (intro vm_step.store) simp
  have s5: "vm_step demo_azure ?w4 (goto ?w4 0 ?r)"
    using vm_step.read [of ?w4 0 "''westeurope''" "''D2''" demo_azure] by simp
  have end_world: "goto ?w4 0 ?r = one_answered"
    by (auto simp: goto_def one_request_def one_answered_def fun_eq_iff)
  have "(vm_step demo_azure ^^ 1) one_request ?w1" using s1 by (simp only: relpowp_1)
  from vm_steps_Suc [OF this s2] have "(vm_step demo_azure ^^ 2) one_request ?w2" by (simp only: Suc_1)
  from vm_steps_Suc [OF this s3] have "(vm_step demo_azure ^^ 3) one_request ?w3" by (simp only: Suc_numeral semiring_norm)
  from vm_steps_Suc [OF this s4] have "(vm_step demo_azure ^^ 4) one_request ?w4" by (simp only: Suc_numeral semiring_norm)
  from vm_steps_Suc [OF this s5] show ?thesis by (simp only: end_world Suc_numeral semiring_norm)
qed

theorem concurrent_requests_terminate_witness: "(5::nat) \<le> 5 * 1"
  by (rule concurrent_requests_terminate [OF one_request_start one_request_run])

lemma one_answered_stuck: "\<nexists>w. vm_step demo_azure one_answered w"
  by (auto simp: one_answered_def elim!: vm_stepE split: if_splits)

theorem concurrent_requests_are_answered_witness: "\<exists>r. pcs one_answered 0 = Finished r"
  using concurrent_requests_are_answered
    [OF one_request_start relpowp_imp_rtranclp [OF one_request_run] one_answered_stuck] by blast

theorem concurrent_answers_are_sequential_witness:
  "\<exists>k. Err (vm_err VM_skuNotFoundError) =
     fst (getSKU (\<lambda>_. demo_azure k) ''westeurope'' ''D2'' \<lparr>skus = Map.empty, calls = 0\<rparr>)"
  by (rule concurrent_answers_are_sequential
      [OF one_request_start _ _ _ relpowp_imp_rtranclp [OF one_request_run], of 0])
    (simp_all add: one_request_def one_answered_def)

end
