(* ===== verification/Json.thy ===== *)
theory Json
  imports MachinePool
begin

text \<open>
  What the API server does with the patches: JSON documents, JSON pointers (RFC 6901) and the operations
  of JSON Patch (RFC 6902) that the program uses. The program sorts the patches of the library by their
  path (\<^verbatim>\<open>internal/patches/patches.go\<close>); this theory says when that is harmless and when it is not, and
  when the patches of an autoscaled machine pool can be applied at all.
\<close>

section \<open>Documents\<close>

datatype json =
    JNull
  | JBool bool
  | JNum string
  | JStr string
  | JArr "json list"
  | JObj "string \<Rightarrow> json option"

text \<open>The reference tokens of a pointer.\<close>

definition tokens :: "string \<Rightarrow> string list" where
  "tokens path = map unescape_token (tl (segments path))"

text \<open>The index a token denotes in a sequence of positions: decimal, without leading zeros.\<close>

definition index_in :: "string \<Rightarrow> nat \<Rightarrow> nat option" where
  "index_in k n = List.find (\<lambda>i. nat_digits i = k) [0..<n]"

datatype edit = AddValue json | ReplaceValue json | RemoveValue

fun edit_member :: "edit \<Rightarrow> json option \<Rightarrow> (json option) option" where
  "edit_member (AddValue v) old = Some (Some v)"
| "edit_member (ReplaceValue v) old = (if old = None then None else Some (Some v))"
| "edit_member RemoveValue old = (if old = None then None else Some None)"

fun edit_array :: "edit \<Rightarrow> string \<Rightarrow> json list \<Rightarrow> (json list) option" where
  "edit_array (AddValue v) k xs =
     (if k = ''-'' then Some (xs @ [v])
      else map_option (\<lambda>i. take i xs @ v # drop i xs) (index_in k (Suc (length xs))))"
| "edit_array (ReplaceValue v) k xs = map_option (\<lambda>i. xs[i := v]) (index_in k (length xs))"
| "edit_array RemoveValue k xs = map_option (\<lambda>i. take i xs @ drop (Suc i) xs) (index_in k (length xs))"

text \<open>
  An operation at a place that may be empty; the result says what the place holds afterwards. Every token
  but the last has to name something that is there.
\<close>

fun edit_slot :: "string list \<Rightarrow> edit \<Rightarrow> json option \<Rightarrow> (json option) option" where
  "edit_slot [] e slot = edit_member e slot"
| "edit_slot (k # ks) e (Some (JObj m)) = map_option (\<lambda>r. Some (JObj (m(k := r)))) (edit_slot ks e (m k))"
| "edit_slot (k # ks) e (Some (JArr xs)) =
     (if ks = [] then map_option (\<lambda>ys. Some (JArr ys)) (edit_array e k xs)
      else (case index_in k (length xs) of
          None \<Rightarrow> None
        | Some i \<Rightarrow> map_option (\<lambda>r. Some (JArr (xs[i := the r]))) (edit_slot ks e (Some (xs ! i)))))"
| "edit_slot (k # ks) e slot = None"

section \<open>Patches\<close>

text \<open>The operation of a patch, its value written as JSON by \<open>enc\<close>; the program uses no others.\<close>

definition edit_of :: "(patch_value \<Rightarrow> json) \<Rightarrow> patch_operation \<Rightarrow> edit option" where
  "edit_of enc p =
     (if po_Operation p = ''add'' then Some (AddValue (enc (po_Value p)))
      else if po_Operation p = ''replace'' then Some (ReplaceValue (enc (po_Value p)))
      else if po_Operation p = ''remove'' then Some RemoveValue
      else None)"

definition apply_patch :: "(patch_value \<Rightarrow> json) \<Rightarrow> patch_operation \<Rightarrow> json \<Rightarrow> json option" where
  "apply_patch enc p j =
     (case edit_of enc p of
        None \<Rightarrow> None
      | Some e \<Rightarrow> Option.bind (edit_slot (tokens (po_Path p)) e (Some j)) (\<lambda>r. r))"

text \<open>A patch list is applied as a whole or not at all.\<close>

definition apply_next :: "(patch_value \<Rightarrow> json) \<Rightarrow> patch_operation \<Rightarrow> json option \<Rightarrow> json option" where
  "apply_next enc p r = Option.bind r (apply_patch enc p)"

definition apply_patches :: "(patch_value \<Rightarrow> json) \<Rightarrow> patch_operation list \<Rightarrow> json \<Rightarrow> json option" where
  "apply_patches enc ps j = fold (apply_next enc) ps (Some j)"

section \<open>Operations on different members commute\<close>

lemma index_in_SomeD: "index_in k n = Some i \<Longrightarrow> i < n \<and> nat_digits i = k"
  unfolding index_in_def find_Some_iff by auto

definition index_like :: "string \<Rightarrow> bool" where
  "index_like k \<longleftrightarrow> k = ''-'' \<or> parse_uint k \<noteq> None"

lemma not_index_like: "\<not> index_like k \<Longrightarrow> k \<noteq> ''-'' \<and> index_in k n = None"
  by (metis index_in_SomeD index_like_def not_Some_eq option.distinct(1) parse_uint_nat_digits)

lemma edit_array_not_index [simp]: "\<not> index_like k \<Longrightarrow> edit_array e k xs = None"
  using not_index_like [of k] by (cases e) auto

text \<open>An operation below a place needs the place, keeps it, and keeps an array an array.\<close>

lemma edit_slot_below:
  assumes "edit_slot (k # ks) e slot = Some r"
  shows "slot \<noteq> None \<and> r \<noteq> None \<and> (\<forall>xs. slot = Some (JArr xs) \<longrightarrow> (\<exists>ys. r = Some (JArr ys)))"
  using assms by (cases "(k # ks, e, slot)" rule: edit_slot.cases) (auto split: if_splits option.splits)

definition apart :: "string list \<Rightarrow> string list \<Rightarrow> bool" where
  "apart ts us \<longleftrightarrow> take (length us) ts \<noteq> us \<and> take (length ts) us \<noteq> ts"

lemma apart_Cons [simp]: "apart (k # ts) (l # us) \<longleftrightarrow> k \<noteq> l \<or> apart ts us"
  by (auto simp: apart_def)

lemma apart_Nil [simp]: "\<not> apart [] us" "\<not> apart ts []"
  by (auto simp: apart_def)

definition member_path :: "string list \<Rightarrow> bool" where
  "member_path ts \<longleftrightarrow> ts \<noteq> [] \<and> \<not> index_like (last ts)"

lemma member_path_Cons [simp]:
  "member_path (k # l # ts) = member_path (l # ts)" "member_path [k] \<longleftrightarrow> \<not> index_like k"
  by (simp_all add: member_path_def)

lemma edit_slot_array: "edit_slot (k # ks) e (Some (JArr xs)) = Some r \<Longrightarrow> \<exists>ys. r = Some (JArr ys)"
  by (drule edit_slot_below) simp

lemma edit_slot_some: "ks \<noteq> [] \<Longrightarrow> edit_slot ks e slot = Some r \<Longrightarrow> \<exists>j. r = Some j"
  using edit_slot_below by (cases ks) fastforce+

lemma array_stuck:
  assumes "\<And>ys. f (Some (JArr ys)) = None"
    and "\<And>r. g (Some (JArr xs)) = Some r \<Longrightarrow> \<exists>ys. r = Some (JArr ys)"
  shows "Option.bind (f (Some (JArr xs))) g = Option.bind (g (Some (JArr xs))) f"
  using assms by (cases "g (Some (JArr xs))") auto

text \<open>Two operations below an array, and below an object, commute when those below the same element do.\<close>

lemma array_edits_commute:
  assumes "member_path (k # ts)" and "member_path (l # vs)"
    and below: "\<And>c. k = l \<Longrightarrow>
      Option.bind (edit_slot ts d c) (edit_slot vs e) = Option.bind (edit_slot vs e c) (edit_slot ts d)"
  shows "Option.bind (edit_slot (k # ts) d (Some (JArr xs))) (edit_slot (l # vs) e) =
    Option.bind (edit_slot (l # vs) e (Some (JArr xs))) (edit_slot (k # ts) d)"
proof -
  consider (left) "ts = []" | (right) "vs = []" | (below) "ts \<noteq> []" "vs \<noteq> []" by blast
  then show ?thesis
  proof cases
    case left
    then have "edit_slot (k # ts) d (Some (JArr ys)) = None" for ys using assms(1) by simp
    then show ?thesis by (rule array_stuck) (rule edit_slot_array)
  next
    case right
    then have "edit_slot (l # vs) e (Some (JArr ys)) = None" for ys using assms(2) by simp
    then show ?thesis by (rule array_stuck [symmetric]) (rule edit_slot_array)
  next
    case ne: below
    consider (both) i i' where "index_in k (length xs) = Some i" "index_in l (length xs) = Some i'" "i < length xs" "i' < length xs"
      | (none) "index_in k (length xs) = None" | (other) "index_in l (length xs) = None"
      by (meson index_in_SomeD not_Some_eq)
    then show ?thesis
    proof cases
      case both
      show ?thesis
      proof (cases "k = l")
        case True
        with both have "i' = i" by simp
        with below [OF True, of "Some (xs ! i)"] both ne show ?thesis
          by (cases "edit_slot ts d (Some (xs ! i))"; cases "edit_slot vs e (Some (xs ! i))")
            (auto simp: True dest!: edit_slot_some split: option.splits)
      next
        case False
        then have "i \<noteq> i'" using both(1,2) by (auto dest: index_in_SomeD)
        with both ne show ?thesis
          by (cases "edit_slot ts d (Some (xs ! i))"; cases "edit_slot vs e (Some (xs ! i'))")
            (simp_all add: list_update_swap)
      qed
    next
      case none
      with ne show ?thesis by (cases "edit_slot (l # vs) e (Some (JArr xs))") (auto split: option.splits)
    next
      case other
      with ne show ?thesis by (cases "edit_slot (k # ts) d (Some (JArr xs))") (auto split: option.splits)
    qed
  qed
qed

lemma object_edits_commute:
  assumes "\<And>c. k = l \<Longrightarrow>
      Option.bind (edit_slot ts d c) (edit_slot vs e) = Option.bind (edit_slot vs e c) (edit_slot ts d)"
  shows "Option.bind (edit_slot (k # ts) d (Some (JObj m))) (edit_slot (l # vs) e) =
    Option.bind (edit_slot (l # vs) e (Some (JObj m))) (edit_slot (k # ts) d)"
proof (cases "k = l")
  case True
  from assms [OF True, of "m k"] show ?thesis
    by (cases "edit_slot ts d (m k)"; cases "edit_slot vs e (m k)") (simp_all add: True)
next
  case False
  then show ?thesis
    by (cases "edit_slot ts d (m k)"; cases "edit_slot vs e (m l)") (simp_all add: fun_upd_twist)
qed

lemma edit_slot_commute:
  assumes "apart ts us" and "member_path ts" and "member_path us"
  shows "Option.bind (edit_slot ts d s) (edit_slot us e) = Option.bind (edit_slot us e s) (edit_slot ts d)"
  using assms
proof (induction ts arbitrary: us s)
  case (Cons k ts)
  from Cons.prems obtain l vs where us: "us = l # vs" by (cases us) auto
  have below: "Option.bind (edit_slot ts d c) (edit_slot vs e) = Option.bind (edit_slot vs e c) (edit_slot ts d)"
    if "k = l" for c
  proof (rule Cons.IH)
    from that Cons.prems(1) show "apart ts vs" by (simp add: us)
    then show "member_path ts" "member_path vs"
      using Cons.prems(2,3) by (cases ts; cases vs; simp add: us)+
  qed
  consider (none) "s = None" | (obj) m where "s = Some (JObj m)" | (arr) xs where "s = Some (JArr xs)"
    | (other) "edit_slot (k # ts) d s = None" "edit_slot us e s = None"
    by (cases "(k # ts, d, s)" rule: edit_slot.cases) (auto simp: us)
  then show ?case
  proof cases
    case none
    then show ?thesis by (simp add: us)
  next
    case obj
    show ?thesis unfolding obj us by (rule object_edits_commute) (rule below)
  next
    case arr
    show ?thesis unfolding arr us
      by (rule array_edits_commute [OF Cons.prems(2) Cons.prems(3) [unfolded us]]) (rule below)
  next
    case other
    then show ?thesis by simp
  qed
qed simp

section \<open>The order of the patches\<close>

text \<open>Patches whose paths are apart and end in the name of a member, not in an array index.\<close>

definition independent_patches :: "patch_operation list \<Rightarrow> bool" where
  "independent_patches ps \<longleftrightarrow>
     (\<forall>p\<in>set ps. member_path (tokens (po_Path p))) \<and>
     (\<forall>p\<in>set ps. \<forall>q\<in>set ps. p \<noteq> q \<longrightarrow> apart (tokens (po_Path p)) (tokens (po_Path q)))"

lemma apply_next_unknown: "edit_of enc p = None \<Longrightarrow> apply_next enc p r = None"
  by (cases r) (simp_all add: apply_next_def apply_patch_def)

lemma apply_patch_commute:
  assumes "member_path (tokens (po_Path p))" "member_path (tokens (po_Path q))"
    and "apart (tokens (po_Path p)) (tokens (po_Path q))"
  shows "apply_next enc p (apply_next enc q r) = apply_next enc q (apply_next enc p r)"
proof (cases "edit_of enc p"; cases "edit_of enc q"; cases r)
  fix d e j assume *: "edit_of enc p = Some d" "edit_of enc q = Some e" "r = Some j"
  let ?ts = "tokens (po_Path p)" and ?us = "tokens (po_Path q)"
  have ne: "?ts \<noteq> []" "?us \<noteq> []" using assms(1,2) by (auto simp: member_path_def)
  have seq: "Option.bind (Option.bind (edit_slot ts d (Some j)) (\<lambda>r. r))
      (\<lambda>j. Option.bind (edit_slot us e (Some j)) (\<lambda>r. r)) =
      Option.bind (Option.bind (edit_slot ts d (Some j)) (edit_slot us e)) (\<lambda>r. r)"
    if "ts \<noteq> []" for ts us d e
    using edit_slot_some [OF that, of d "Some j"] by (cases "edit_slot ts d (Some j)") auto
  note seq [OF ne(1), of d ?us e] seq [OF ne(2), of e ?ts d] edit_slot_commute [OF assms(3,1,2), of d "Some j" e]
  moreover have "apply_patch enc p = (\<lambda>j. Option.bind (edit_slot ?ts d (Some j)) (\<lambda>r. r))"
    "apply_patch enc q = (\<lambda>j. Option.bind (edit_slot ?us e (Some j)) (\<lambda>r. r))"
    by (simp_all add: apply_patch_def * fun_eq_iff)
  ultimately show ?thesis by (simp add: apply_next_def *)
qed (auto simp: apply_next_unknown apply_next_def [of _ _ None])

lemma apply_patches_permuted:
  assumes "independent_patches ps" and "mset qs = mset ps"
  shows "apply_patches enc qs j = apply_patches enc ps j"
proof -
  have "fold (apply_next enc) ps = fold (apply_next enc) qs"
  proof (rule fold_multiset_equiv)
    fix p q assume "p \<in> set ps" "q \<in> set ps"
    then show "apply_next enc p \<circ> apply_next enc q = apply_next enc q \<circ> apply_next enc p"
      using assms(1) apply_patch_commute [of p q enc] by (cases "p = q") (auto simp: independent_patches_def)
  qed (simp add: assms(2))
  then show ?thesis by (simp add: apply_patches_def)
qed

text \<open>
  What \<open>CreatePatch\<close> promises: its patches turn the first document into the second.
\<close>

definition creates_patches :: "lib \<Rightarrow> (patch_value \<Rightarrow> json) \<Rightarrow> (string \<Rightarrow> json) \<Rightarrow> bool" where
  "creates_patches L enc parse \<longleftrightarrow>
     (\<forall>a b ps. lib_CreatePatch L a b = Inr ps \<longrightarrow> apply_patches enc ps (parse a) = Some (parse b))"

text \<open>C30. The patches that carry the defaults of the library do what they are made for: although the program
  sorts them by path, applying them to the JSON form of the original object gives the JSON form of the
  object with its defaults, as long as they set and remove members at places that do not lie in one another.\<close>

theorem generated_patches_reach_current:
  assumes "GenerateFromObjectDiff L api original current = Ok ps" and "creates_patches L enc parse"
    and "independent_patches ps"
  shows "\<exists>a b. crd_Marshal api original = Inr a \<and> crd_Marshal api current = Inr b \<and>
     apply_patches enc ps (parse a) = Some (parse b)"
proof -
  from assms(1) obtain a b js where *: "crd_Marshal api original = Inr a" "crd_Marshal api current = Inr b"
    "lib_CreatePatch L a b = Inr js" "ps = sort_patches js"
    unfolding GenerateFromObjectDiff_def bind_res_Ok_iff of_lib_Ok_iff by auto
  have "mset js = mset ps" by (simp add: *(4) sort_patches_def)
  from apply_patches_permuted [OF assms(3) this] * assms(2) show ?thesis
    by (metis creates_patches_def)
qed

text \<open>Sorting by path is not harmless for arrays: the two removals that leave the last of three elements
  leave another one once they are sorted.\<close>

theorem sorting_breaks_array_patches:
  "\<exists>ps doc. apply_patches enc ps doc = Some (JObj [''a'' \<mapsto> JArr [JNum ''3'']]) \<and>
     apply_patches enc (sort_patches ps) doc = Some (JObj [''a'' \<mapsto> JArr [JNum ''2'']])"
proof -
  let ?r = "\<lambda>i. \<lparr>po_Operation = ''remove'', po_Path = ''/a/'' @ i, po_Value = PV_json ''null''\<rparr>"
  let ?doc = "JObj [''a'' \<mapsto> JArr [JNum ''1'', JNum ''2'', JNum ''3'']]"
  have tok: "tokens ''/a/0'' = [''a'', ''0'']" "tokens ''/a/1'' = [''a'', ''1'']"
    by (simp_all add: tokens_def)
  have ix: "index_in ''0'' (Suc (Suc (Suc 0))) = Some 0" "index_in ''1'' (Suc (Suc (Suc 0))) = Some (Suc 0)"
    "index_in ''0'' (Suc (Suc 0)) = Some 0" "index_in ''1'' (Suc (Suc 0)) = Some (Suc 0)"
    by code_simp+
  have "apply_patches enc [?r ''1'', ?r ''0''] ?doc = Some (JObj [''a'' \<mapsto> JArr [JNum ''3'']])"
    by (simp add: apply_patches_def apply_next_def apply_patch_def edit_of_def tok ix)
  moreover have "sort_patches [?r ''1'', ?r ''0''] = [?r ''0'', ?r ''1'']"
    by (simp add: sort_patches_def)
  moreover have "apply_patches enc [?r ''0'', ?r ''1''] ?doc = Some (JObj [''a'' \<mapsto> JArr [JNum ''2'']])"
    by (simp add: apply_patches_def apply_next_def apply_patch_def edit_of_def tok ix)
  ultimately show ?thesis by metis
qed

section \<open>The autoscaling annotations\<close>

text \<open>A document with the given annotations, if it has a member for annotations at all.\<close>

definition with_annotations :: "(string \<Rightarrow> json option) \<Rightarrow> (string \<Rightarrow> json option) \<Rightarrow> (string \<Rightarrow> json option) option \<Rightarrow> json" where
  "with_annotations doc meta annotations =
     JObj (doc(''metadata'' \<mapsto> JObj (meta(''annotations'' := map_option JObj annotations))))"

lemma annotation_tokens: "tokens (annotation_path a) = [''metadata'', ''annotations'', a]"
proof -
  have "CHR ''/'' \<notin> set (escapeJSONPatchString a)" "unescape_token (escapeJSONPatchString a) = a"
    using escape_round_trip [of a] by simp_all
  then show ?thesis by (simp add: tokens_def annotation_path_def Split1_plain)
qed

lemma apply_annotation_patch:
  assumes "p = PatchAdd (annotation_path a) v \<or> p = PatchReplace (annotation_path a) v \<and> m a \<noteq> None"
  shows "apply_patch enc p (with_annotations doc meta (Some m)) =
      Some (with_annotations doc meta (Some (m(a \<mapsto> enc v))))"
    and "apply_patch enc p (with_annotations doc meta None) = None"
  using assms
  by (auto simp: apply_patch_def edit_of_def PatchAdd_def PatchReplace_def annotation_tokens with_annotations_def)

lemma apply_patches_Nil [simp]: "apply_patches enc [] j = Some j"
  by (simp add: apply_patches_def)

lemma apply_patches_None: "fold (apply_next enc) ps None = None"
  by (induction ps) (simp_all add: apply_next_def)

lemma apply_patches_Cons [simp]: "apply_patches enc (p # ps) j = Option.bind (apply_patch enc p j) (apply_patches enc ps)"
  by (cases "apply_patch enc p j") (simp_all add: apply_patches_def apply_next_def apply_patches_None)

lemma apply_patches_append:
  "apply_patches enc (ps @ qs) j = Option.bind (apply_patches enc ps j) (apply_patches enc qs)"
proof (induction ps arbitrary: j)
  case (Cons p ps)
  then show ?case by (cases "apply_patch enc p j") simp_all
qed simp

text \<open>Annotations as JSON, and a patch that sets one: what it does to the document is what it does to the map.\<close>

definition annotations_json :: "str_map \<Rightarrow> (string \<Rightarrow> json option)" where
  "annotations_json m = (\<lambda>k. map_option JStr (m k))"

definition sets_annotation :: "str_map \<Rightarrow> patch_operation \<Rightarrow> bool" where
  "sets_annotation m p \<longleftrightarrow> (\<exists>a v. p = PatchAdd (annotation_path a) (PV_string v) \<or>
     p = PatchReplace (annotation_path a) (PV_string v) \<and> m a \<noteq> None)"

lemma sets_annotation_applies:
  assumes "sets_annotation m p" and "\<And>s. enc (PV_string s) = JStr s"
  shows "apply_patch enc p (with_annotations doc meta (Some (annotations_json m))) =
      Some (with_annotations doc meta (Some (annotations_json (apply_map_patch annotations_prefix m p))))"
    and "apply_patch enc p (with_annotations doc meta None) = None"
proof -
  from assms(1) obtain a v where p: "p = PatchAdd (annotation_path a) (PV_string v) \<or>
      p = PatchReplace (annotation_path a) (PV_string v) \<and> m a \<noteq> None"
    unfolding sets_annotation_def by blast
  have "annotations_prefix @ escapeJSONPatchString a = annotation_path a"
    by (simp add: annotations_prefix_def annotation_path_def)
  then have "apply_map_patch annotations_prefix m p = m(a \<mapsto> v)"
    using p apply_map_patch_add [of annotations_prefix m a v] apply_map_patch_replace [of annotations_prefix m a v]
    by auto
  moreover have "(annotations_json m)(a \<mapsto> JStr v) = annotations_json (m(a \<mapsto> v))"
    by (simp add: annotations_json_def fun_eq_iff)
  moreover have "annotations_json m a \<noteq> None" if "m a \<noteq> None" using that by (simp add: annotations_json_def)
  then have "p = PatchAdd (annotation_path a) (PV_string v) \<or>
      p = PatchReplace (annotation_path a) (PV_string v) \<and> annotations_json m a \<noteq> None"
    using p by blast
  note apply_annotation_patch [where m = "annotations_json m" and a = a and v = "PV_string v", OF this, of enc doc meta]
  ultimately show "apply_patch enc p (with_annotations doc meta (Some (annotations_json m))) =
      Some (with_annotations doc meta (Some (annotations_json (apply_map_patch annotations_prefix m p))))"
    and "apply_patch enc p (with_annotations doc meta None) = None"
    by (simp_all add: assms(2))
qed

lemma sets_annotation_kept: "sets_annotation m q \<Longrightarrow> sets_annotation (apply_map_patch pre m p) q"
proof -
  assume "sets_annotation m q"
  then obtain a v where q: "q = PatchAdd (annotation_path a) (PV_string v) \<or>
      q = PatchReplace (annotation_path a) (PV_string v) \<and> m a \<noteq> None"
    unfolding sets_annotation_def by blast
  have "m a \<noteq> None \<Longrightarrow> apply_map_patch pre m p a \<noteq> None" by (simp split: patch_value.splits)
  with q show ?thesis unfolding sets_annotation_def by blast
qed

lemma sets_annotations_apply:
  assumes "\<forall>p\<in>set ps. sets_annotation m p" and "\<And>s. enc (PV_string s) = JStr s"
  shows "apply_patches enc ps (with_annotations doc meta (Some (annotations_json m))) =
     Some (with_annotations doc meta (Some (annotations_json (apply_map_patches annotations_prefix m ps))))"
  using assms(1)
proof (induction ps arbitrary: m)
  case (Cons p ps)
  have "\<forall>q\<in>set ps. sets_annotation (apply_map_patch annotations_prefix m p) q"
    using Cons.prems sets_annotation_kept by simp
  from Cons.IH [OF this] Cons.prems show ?case
    by (simp add: sets_annotation_applies(1) [OF _ assms(2)] del: apply_map_patch.simps)
qed simp

lemma autoscaling_patches_set:
  "autoscaling_min w (mget m annotation_NodePoolMinSize) = (w', ps) \<Longrightarrow> ps = [] \<or> (\<exists>p. ps = [p] \<and> sets_annotation m p)"
  "autoscaling_max w (mget m annotation_NodePoolMaxSize) = ps \<Longrightarrow> ps = [] \<or> (\<exists>p. ps = [p] \<and> sets_annotation m p)"
  by (auto simp: autoscaling_min_def autoscaling_max_def sets_annotation_def annotation_value_def mget_def
      split: if_splits option.splits)

lemma autoscaling_patches_apply:
  assumes "\<And>s. enc (PV_string s) = JStr s"
  shows "apply_patches enc (ensureAutoscalingAnnotations c)
       (with_annotations doc meta (Some (annotations_json (om_annotations (mp_meta c))))) =
     Some (with_annotations doc meta (Some (annotations_json (om_annotations (mp_meta (autoscaled c))))))"
    and "om_annotations (mp_meta c) = Map.empty \<Longrightarrow>
     apply_patches enc (ensureAutoscalingAnnotations c) (with_annotations doc meta None) = None"
proof -
  define w where "w = (case mp_Replicas c of None \<Rightarrow> word_of_int defaultReplicas | Some r \<Rightarrow> r)"
  define m where "m = om_annotations (mp_meta c)"
  obtain w' ps where ps: "autoscaling_min w (mget m annotation_NodePoolMinSize) = (w', ps)" by fastforce
  define qs where "qs = autoscaling_max w' (mget m annotation_NodePoolMaxSize)"
  have e: "ensureAutoscalingAnnotations c = ps @ qs"
    by (simp add: ensureAutoscalingAnnotations_def Let_def ps qs_def flip: w_def m_def)
  show "apply_patches enc (ensureAutoscalingAnnotations c)
       (with_annotations doc meta (Some (annotations_json (om_annotations (mp_meta c))))) =
     Some (with_annotations doc meta (Some (annotations_json (om_annotations (mp_meta (autoscaled c))))))"
    using autoscaling_patches_set(1) [OF ps] autoscaling_patches_set(2) [OF qs_def [symmetric]]
    by (auto simp: autoscaled_def e m_def simp del: apply_map_patches_append intro!: sets_annotations_apply assms)
  show "apply_patches enc (ensureAutoscalingAnnotations c) (with_annotations doc meta None) = None"
    if "om_annotations (mp_meta c) = Map.empty"
  proof -
    from that have "ps \<noteq> []" using ps by (auto simp: m_def mget_def autoscaling_min_def)
    with autoscaling_patches_set(1) [OF ps] show ?thesis
      unfolding e using sets_annotation_applies(2) [OF _ assms] by auto
  qed
qed

text \<open>C31. On the stored document the autoscaling patches do exactly what they do to the annotations of the
  object, when the object has a member for annotations; without that member, which is left out of the document
  when no annotation is set, they cannot be applied, and a node pool without annotations cannot be created.\<close>

theorem autoscaling_patches_on_documents:
  assumes "\<And>s. enc (PV_string s) = JStr s"
  shows "apply_patches enc (ensureAutoscalingAnnotations c)
       (with_annotations doc meta (Some (annotations_json (om_annotations (mp_meta c))))) =
     Some (with_annotations doc meta (Some (annotations_json (om_annotations (mp_meta (autoscaled c)))))) \<and>
    (om_annotations (mp_meta c) = Map.empty \<longrightarrow>
     apply_patches enc (ensureAutoscalingAnnotations c) (with_annotations doc meta None) = None)"
  using autoscaling_patches_apply [where enc = enc, OF assms] by blast

section \<open>Documents for the witnesses\<close>

fun demo_enc :: "patch_value \<Rightarrow> json" where
  "demo_enc (PV_string s) = JStr s"
| "demo_enc v = JNull"

text \<open>Documents with one member, and the diff of two of them.\<close>

definition demo_diff_lib :: lib where
  "demo_diff_lib = demo_lib\<lparr>lib_CreatePatch := (\<lambda>a b. Inr [PatchReplace ''/x'' (PV_string b)])\<rparr>"

definition demo_parse_json :: "string \<Rightarrow> json" where
  "demo_parse_json s = JObj [''x'' \<mapsto> JStr s]"

definition demo_text_api :: "string crd_api" where
  "demo_text_api = \<lparr>crd_Default = id, crd_ValidateCreate = (\<lambda>_. None), crd_ValidateUpdate = (\<lambda>_ _. None),
     crd_Marshal = Inr\<rparr>"

theorem generated_patches_reach_current_witness:
  "apply_patches demo_enc [PatchReplace ''/x'' (PV_string ''new'')] (demo_parse_json ''old'') =
     Some (demo_parse_json ''new'')"
proof -
  have x: "tokens ''/x'' = [''x'']" by (simp add: tokens_def)
  have gen: "GenerateFromObjectDiff demo_diff_lib demo_text_api ''old'' ''new'' =
      Ok [PatchReplace ''/x'' (PV_string ''new'')]"
    by (simp add: GenerateFromObjectDiff_def demo_diff_lib_def demo_text_api_def of_lib_def sort_patches_def)
  have "creates_patches demo_diff_lib demo_enc demo_parse_json"
    by (simp add: creates_patches_def demo_diff_lib_def demo_parse_json_def apply_patch_def edit_of_def
        PatchReplace_def x)
  moreover have "\<not> index_like ''x''" by code_simp
  then have "independent_patches [PatchReplace ''/x'' (PV_string ''new'')]"
    by (simp add: independent_patches_def PatchReplace_def x)
  ultimately show ?thesis
    using generated_patches_reach_current [OF gen] by (simp add: demo_text_api_def)
qed

theorem autoscaling_patches_on_documents_witness:
  "apply_patches demo_enc (ensureAutoscalingAnnotations (demo_machine_pool Map.empty []))
     (with_annotations Map.empty Map.empty None) = None"
  using autoscaling_patches_on_documents [of demo_enc "demo_machine_pool Map.empty []" Map.empty Map.empty]
  by (simp add: demo_machine_pool_def)

end
