(* ===== verification/Documents.thy ===== *)
theory Documents
  imports Json
begin

text \<open>
  Reading and patching JSON documents: what a patch writes is read at its place, and nothing changes apart of
  it. On these laws rests a contract of patched objects and their documents, and the relation between the
  resources and the documents that hold them.
\<close>

section \<open>Reading a document\<close>

text \<open>What a document holds at a path.\<close>

fun at :: "string list \<Rightarrow> json option \<Rightarrow> json option" where
  "at [] slot = slot"
| "at (k # ks) (Some (JObj m)) = at ks (m k)"
| "at (k # ks) (Some (JArr xs)) =
     (case index_in k (length xs) of None \<Rightarrow> None | Some i \<Rightarrow> at ks (Some (xs ! i)))"
| "at (k # ks) slot = None"

definition is_object :: "json option \<Rightarrow> bool" where
  "is_object slot \<longleftrightarrow> (\<exists>m. slot = Some (JObj m))"

lemma is_object_simps [simp]:
  "is_object (Some (JObj m))" "\<not> is_object None" "\<not> is_object (Some (JArr xs))" "\<not> is_object (Some JNull)"
  "\<not> is_object (Some (JBool b))" "\<not> is_object (Some (JNum n))" "\<not> is_object (Some (JStr s))"
  by (simp_all add: is_object_def)

text \<open>A value that was added at a path is read there.\<close>

lemma at_added:
  assumes "member_path ts" and "edit_slot ts (AddValue v) slot = Some r"
  shows "at ts r = Some v"
  using assms
proof (induction ts "AddValue v" slot arbitrary: r rule: edit_slot.induct)
  case (2 k ks m)
  then show ?case by (cases ks) auto
next
  case (3 k ks xs)
  show ?case
  proof (cases "ks = []")
    case True
    with "3.prems" show ?thesis by (simp del: edit_array.simps)
  next
    case False
    with "3.prems"(2) obtain i r' where i: "index_in k (length xs) = Some i"
      and r': "edit_slot ks (AddValue v) (Some (xs ! i)) = Some r'" "r = Some (JArr (xs[i := the r']))"
      by (auto split: option.splits)
    have "member_path ks" using "3.prems"(1) False by (cases ks) simp_all
    with "3.hyps" False i r' have "at ks r' = Some v" by blast
    moreover obtain j where "r' = Some j" using edit_slot_some [OF False r'(1)] by blast
    moreover have "i < length xs" using i by (auto dest: index_in_SomeD)
    ultimately show ?thesis using i r'(2) by simp
  qed
qed simp_all

text \<open>What lies apart of an edited member is not touched, and what held the members of an object still does.\<close>

definition below :: "string list \<Rightarrow> string list \<Rightarrow> bool" where
  "below ts us \<longleftrightarrow> take (length ts) us = ts"

lemma below_simps [simp]: "below [] us" "\<not> below (k # ts) []" "below (k # ts) (l # us) \<longleftrightarrow> k = l \<and> below ts us"
  by (auto simp: below_def)

lemma at_apart:
  assumes "member_path ts" and "apart ts us" and "edit_slot ts e slot = Some r"
  shows "at us r = at us slot"
  using assms
proof (induction ts e slot arbitrary: us r rule: edit_slot.induct)
  case (2 k ks e m)
  then obtain l vs where us: "us = l # vs" by (cases us) auto
  from "2.prems"(3) obtain c where c: "edit_slot ks e (m k) = Some c" "r = Some (JObj (m(k := c)))" by auto
  show ?case
  proof (cases "k = l")
    case True
    with "2.prems" us have "apart ks vs" "member_path ks" by (cases ks; auto)+
    with "2.IH" c(1) True show ?thesis by (simp add: us c(2))
  qed (simp add: us c(2))
next
  case (3 k ks e xs)
  then obtain l vs where us: "us = l # vs" by (cases us) auto
  from "3.prems"(1,3) have ne: "ks \<noteq> []" by (auto split: if_splits)
  with "3.prems"(3) obtain i c where i: "index_in k (length xs) = Some i"
    and c: "edit_slot ks e (Some (xs ! i)) = Some c" "r = Some (JArr (xs[i := the c]))"
    by (auto split: option.splits)
  obtain j where j: "c = Some j" using edit_slot_some [OF ne c(1)] by blast
  have i': "i < length xs" "nat_digits i = k" using i by (auto dest: index_in_SomeD)
  show ?case
  proof (cases "k = l")
    case True
    with "3.prems" us ne have "apart ks vs" "member_path ks" by (cases ks; auto)+
    with "3.IH" ne i c(1) have "at vs c = at vs (Some (xs ! i))" by blast
    then show ?thesis using True i i' by (simp add: us c(2) j)
  next
    case False
    then have "index_in l (length xs) = Some n \<Longrightarrow> i \<noteq> n" for n using i'(2) by (auto dest: index_in_SomeD)
    then show ?thesis by (cases "index_in l (length xs)") (auto simp: us c(2))
  qed
qed (use apart_Nil in \<open>auto\<close>)

lemma object_kept:
  assumes "member_path ts" and "\<not> below ts us" and "edit_slot ts e slot = Some r"
  shows "is_object (at us r) = is_object (at us slot)"
  using assms
proof (induction ts e slot arbitrary: us r rule: edit_slot.induct)
  case (2 k ks e m)
  from "2.prems"(3) obtain c where c: "edit_slot ks e (m k) = Some c" "r = Some (JObj (m(k := c)))" by auto
  show ?case
  proof (cases us)
    case (Cons l vs)
    show ?thesis
    proof (cases "k = l")
      case True
      with "2.prems" Cons have "\<not> below ks vs" by simp
      moreover from this have "member_path ks" using "2.prems"(1) by (cases ks) auto
      ultimately show ?thesis using "2.IH" c(1) True by (simp add: Cons c(2))
    qed (simp add: Cons c(2))
  qed (simp add: c(2))
next
  case (3 k ks e xs)
  from "3.prems"(1,3) have ne: "ks \<noteq> []" by (auto split: if_splits)
  with "3.prems"(3) obtain i c where i: "index_in k (length xs) = Some i"
    and c: "edit_slot ks e (Some (xs ! i)) = Some c" "r = Some (JArr (xs[i := the c]))"
    by (auto split: option.splits)
  obtain j where j: "c = Some j" using edit_slot_some [OF ne c(1)] by blast
  have i': "i < length xs" "nat_digits i = k" using i by (auto dest: index_in_SomeD)
  show ?case
  proof (cases us)
    case (Cons l vs)
    show ?thesis
    proof (cases "k = l")
      case True
      with "3.prems" Cons ne have "\<not> below ks vs" "member_path ks" by (cases ks; auto)+
      with "3.IH" ne i c(1) have "is_object (at vs c) = is_object (at vs (Some (xs ! i)))" by blast
      then show ?thesis using True i i' by (simp add: Cons c(2) j)
    next
      case False
      then have "index_in l (length xs) = Some n \<Longrightarrow> i \<noteq> n" for n using i'(2) by (auto dest: index_in_SomeD)
      then show ?thesis by (cases "index_in l (length xs)") (auto simp: Cons c(2))
    qed
  qed (simp add: c(2))
qed auto

text \<open>A member can be added exactly where there is an object to hold it.\<close>

lemma add_possible:
  assumes "member_path ts"
  shows "edit_slot ts (AddValue v) slot = None \<longleftrightarrow> \<not> is_object (at (butlast ts) slot)"
  using assms
proof (induction ts "AddValue v" slot rule: edit_slot.induct)
  case (2 k ks m)
  then show ?case by (cases ks) auto
next
  case (3 k ks xs)
  then show ?case by (cases ks) (auto split: option.splits simp del: edit_array.simps)
qed (auto simp: member_path_def)

section \<open>Patches on a document\<close>

text \<open>The place a patch writes to has to lie in an object of the document.\<close>

definition holder :: "json \<Rightarrow> patch_operation \<Rightarrow> bool" where
  "holder d p \<longleftrightarrow> is_object (at (butlast (tokens (po_Path p))) (Some d))"

lemma apply_patch_Some:
  assumes "member_path (tokens (po_Path p))" and "apply_patch enc p d = Some d'"
  obtains e where "edit_of enc p = Some e" "edit_slot (tokens (po_Path p)) e (Some d) = Some (Some d')"
  using assms by (auto simp: apply_patch_def split: option.splits Option.bind_splits)

lemma apply_patch_frame:
  assumes "member_path (tokens (po_Path p))" and "apply_patch enc p d = Some d'"
  shows "apart (tokens (po_Path p)) us \<Longrightarrow> at us (Some d') = at us (Some d)"
    and "\<not> below (tokens (po_Path p)) us \<Longrightarrow> is_object (at us (Some d')) = is_object (at us (Some d))"
  using apply_patch_Some [OF assms] at_apart [OF assms(1)] object_kept [OF assms(1)] by metis+

lemma apply_PatchAdd:
  assumes "member_path (tokens path)"
  shows "apply_patch enc (PatchAdd path v) d = None \<longleftrightarrow> \<not> holder d (PatchAdd path v)"
    and "apply_patch enc (PatchAdd path v) d = Some d' \<Longrightarrow> at (tokens path) (Some d') = Some (enc v)"
proof -
  have e: "apply_patch enc (PatchAdd path v) d =
      Option.bind (edit_slot (tokens path) (AddValue (enc v)) (Some d)) (\<lambda>r. r)"
    by (simp add: apply_patch_def edit_of_def PatchAdd_def)
  have "tokens path \<noteq> []" using assms by (auto simp: member_path_def)
  then have s: "edit_slot (tokens path) (AddValue (enc v)) (Some d) = Some r \<Longrightarrow> \<exists>j. r = Some j" for r
    by (rule edit_slot_some)
  moreover have "holder d (PatchAdd path v) \<longleftrightarrow> is_object (at (butlast (tokens path)) (Some d))"
    by (simp add: holder_def PatchAdd_def)
  ultimately show "apply_patch enc (PatchAdd path v) d = None \<longleftrightarrow> \<not> holder d (PatchAdd path v)"
    using add_possible [OF assms, of "enc v" "Some d"]
    by (cases "edit_slot (tokens path) (AddValue (enc v)) (Some d)") (auto simp: e)
  show "at (tokens path) (Some d') = Some (enc v)" if "apply_patch enc (PatchAdd path v) d = Some d'"
    using that at_added [OF assms, of "enc v" "Some d"]
    by (cases "edit_slot (tokens path) (AddValue (enc v)) (Some d)") (auto simp: e)
qed

lemma apart_not_below: "apart ts us \<Longrightarrow> \<not> below ts (butlast us)"
  by (auto simp: apart_def below_def butlast_conv_take min_def split: if_splits)

lemma apart_sym: "apart ts us \<longleftrightarrow> apart us ts"
  by (auto simp: apart_def)

text \<open>
  A patched object and its document. A handler's own patches are those that \<open>owns\<close> admits for the object;
  each of them does to the document what it does to the object.
\<close>

locale document_patches =
  fixes enc :: "patch_value \<Rightarrow> json"
    and document :: "json \<Rightarrow> 'a \<Rightarrow> bool"
    and app :: "'a \<Rightarrow> patch_operation \<Rightarrow> 'a"
    and owns :: "'a \<Rightarrow> patch_operation \<Rightarrow> bool"
  assumes place: "owns c p \<Longrightarrow> member_path (tokens (po_Path p))"
    and applicable: "owns c p \<Longrightarrow> document d c \<Longrightarrow> apply_patch enc p d = None \<longleftrightarrow> \<not> holder d p"
    and stored: "owns c p \<Longrightarrow> document d c \<Longrightarrow> apply_patch enc p d = Some d' \<Longrightarrow> document d' (app c p)"
    and kept: "owns c p \<Longrightarrow> owns c q \<Longrightarrow> owns (app c q) p"
begin

text \<open>A list of own patches can be applied exactly when every place it writes to has its object.\<close>

lemma patched_document:
  assumes "\<forall>p\<in>set ps. owns c p" and "sorted_wrt (\<lambda>p q. apart (tokens (po_Path p)) (tokens (po_Path q))) ps"
    and "document d c"
  shows "if \<forall>p\<in>set ps. holder d p then \<exists>d'. apply_patches enc ps d = Some d' \<and> document d' (foldl app c ps)
    else apply_patches enc ps d = None"
  using assms
proof (induction ps arbitrary: c d)
  case (Cons p ps)
  from Cons.prems have p: "owns c p" and ps: "\<forall>q\<in>set ps. owns c q \<and> apart (tokens (po_Path p)) (tokens (po_Path q))"
    by auto
  show ?case
  proof (cases "apply_patch enc p d")
    case None
    then show ?thesis using applicable [OF p Cons.prems(3)] by simp
  next
    case (Some d1)
    have "holder d1 q = holder d q" if "q \<in> set ps" for q
      unfolding holder_def using ps that
      by (intro apply_patch_frame(2) [OF place [OF p] Some] apart_not_below) blast
    moreover have "\<forall>q\<in>set ps. owns (app c p) q" using ps kept [OF _ p] by blast
    note Cons.IH [OF this _ stored [OF p Cons.prems(3) Some]]
    moreover have "holder d p" using applicable [OF p Cons.prems(3)] Some by auto
    ultimately show ?thesis using Cons.prems(2) by (simp add: Some)
  qed
qed simp

end

text \<open>Handlers that only ever add members.\<close>

definition adds_member :: "patch_operation \<Rightarrow> bool" where
  "adds_member p \<longleftrightarrow> (\<exists>v. p = PatchAdd (po_Path p) v) \<and> member_path (tokens (po_Path p))"

lemma adds_member_PatchAdd [simp]: "adds_member (PatchAdd path v) \<longleftrightarrow> member_path (tokens path)"
  by (auto simp: adds_member_def PatchAdd_def)

locale document_additions =
  fixes enc :: "patch_value \<Rightarrow> json"
    and document :: "json \<Rightarrow> 'a \<Rightarrow> bool"
    and app :: "'a \<Rightarrow> patch_operation \<Rightarrow> 'a"
    and adds :: "patch_operation \<Rightarrow> bool"
  assumes addition: "adds p \<Longrightarrow> adds_member p"
    and taken: "adds p \<Longrightarrow> document d c \<Longrightarrow> apply_patch enc p d = Some d' \<Longrightarrow> document d' (app c p)"

sublocale document_additions \<subseteq> document_patches enc document app "\<lambda>c. adds"
proof
  fix p assume "adds p"
  then obtain v where p: "p = PatchAdd (po_Path p) v" and m: "member_path (tokens (po_Path p))"
    using addition by (auto simp: adds_member_def)
  show "member_path (tokens (po_Path p))" by (rule m)
  show "apply_patch enc p d = None \<longleftrightarrow> \<not> holder d p" for d
    using apply_PatchAdd(1) [OF m, of enc v d] p by simp
qed (blast intro: taken)+

section \<open>Objects and their documents\<close>

text \<open>
  Strings and numbers are written and read as \<^verbatim>\<open>encoding/json\<close> does; the JSON forms of the structures that
  occur in patches follow from the types of other modules and are arguments, each with its reading. A
  reading that fails is a document the decoder refuses.
\<close>

record codec =
  en_network :: "cluster_network \<Rightarrow> json"
  de_network :: "json \<Rightarrow> (cluster_network option) option"
  en_balancer :: "lb_spec \<Rightarrow> json"
  de_balancer :: "json \<Rightarrow> lb_spec option"
  en_disks :: "data_disk list \<Rightarrow> json"
  de_disks :: "json \<Rightarrow> (data_disk list) option"
  en_other :: "string \<Rightarrow> json"

fun encode :: "codec \<Rightarrow> patch_value \<Rightarrow> json" where
  "encode K (PV_string s) = JStr s"
| "encode K (PV_int i) = JNum (format_int i)"
| "encode K (PV_ClusterNetwork n) = en_network K n"
| "encode K (PV_LoadBalancer b) = en_balancer K b"
| "encode K (PV_DataDisks ds) = en_disks K ds"
| "encode K (PV_json text) = en_other K text"

text \<open>What is written is read back.\<close>

definition reads_back :: "codec \<Rightarrow> bool" where
  "reads_back K \<longleftrightarrow> (\<forall>n. de_network K (en_network K n) = Some (Some n)) \<and>
     (\<forall>b. de_balancer K (en_balancer K b) = Some b) \<and> (\<forall>ds. de_disks K (en_disks K ds) = Some ds)"

fun string_of :: "json \<Rightarrow> string option" where
  "string_of (JStr s) = Some s"
| "string_of JNull = Some ''''"
| "string_of j = None"

fun port_of :: "json \<Rightarrow> (32 word) option" where
  "port_of (JNum s) = map_option word_of_int (ParseInt 32 s)"
| "port_of JNull = Some 0"
| "port_of j = None"

lemma port_of_written [simp]: "0 \<le> i \<Longrightarrow> i < 2 ^ 31 \<Longrightarrow> port_of (JNum (format_int i)) = Some (word_of_int i)"
  by (simp add: ParseInt_format_int)

text \<open>A place of the document and the value of the field it is for; a missing member is the zero value.\<close>

definition holds :: "(json \<Rightarrow> 'v option) \<Rightarrow> 'v \<Rightarrow> json option \<Rightarrow> 'v \<Rightarrow> bool" where
  "holds rd zero slot v = (case slot of None \<Rightarrow> v = zero | Some j \<Rightarrow> rd j = Some v)"

lemma holds_unique: "holds rd zero slot v \<Longrightarrow> holds rd zero slot w \<Longrightarrow> v = w"
  by (cases slot) (simp_all add: holds_def)

lemma holds_written [simp]: "holds rd zero (Some j) v \<longleftrightarrow> rd j = Some v"
  by (simp add: holds_def)

definition entry :: "json \<Rightarrow> (string option) option" where
  "entry j = map_option Some (string_of j)"

definition meta_document :: "json \<Rightarrow> object_meta \<Rightarrow> bool" where
  "meta_document d m \<longleftrightarrow>
     holds string_of '''' (at [''metadata'', ''name''] (Some d)) (om_name m) \<and>
     holds string_of '''' (at [''metadata'', ''namespace''] (Some d)) (om_namespace m) \<and>
     (\<forall>l. holds entry None (at [''metadata'', ''labels'', l] (Some d)) (om_labels m l)) \<and>
     (\<forall>a. holds entry None (at [''metadata'', ''annotations'', a] (Some d)) (om_annotations m a))"

definition endpoint_document :: "json \<Rightarrow> api_endpoint \<Rightarrow> bool" where
  "endpoint_document d ep \<longleftrightarrow>
     holds string_of '''' (at [''spec'', ''controlPlaneEndpoint'', ''host''] (Some d)) (ep_Host ep) \<and>
     holds port_of 0 (at [''spec'', ''controlPlaneEndpoint'', ''port''] (Some d)) (ep_Port ep)"

definition cluster_document :: "codec \<Rightarrow> json \<Rightarrow> cluster \<Rightarrow> bool" where
  "cluster_document K d c \<longleftrightarrow> meta_document d (cl_meta c) \<and> endpoint_document d (cl_ControlPlaneEndpoint c) \<and>
     holds (de_network K) None (at [''spec'', ''clusterNetwork''] (Some d)) (cl_ClusterNetwork c)"

definition azurecluster_document :: "codec \<Rightarrow> json \<Rightarrow> azure_cluster \<Rightarrow> bool" where
  "azurecluster_document K d c \<longleftrightarrow> meta_document d (ac_meta c) \<and> endpoint_document d (ac_ControlPlaneEndpoint c) \<and>
     holds string_of '''' (at [''spec'', ''location''] (Some d)) (ac_Location c) \<and>
     (\<forall>j. at [''spec'', ''networkSpec'', ''apiServerLB''] (Some d) = Some j \<longrightarrow> de_balancer K j = Some (ac_APIServerLB c))"

definition machine_document :: "json \<Rightarrow> azure_machine \<Rightarrow> bool" where
  "machine_document d c \<longleftrightarrow> meta_document d (am_meta c) \<and>
     holds string_of '''' (at [''spec'', ''location''] (Some d)) (am_Location c) \<and>
     holds string_of '''' (at [''spec'', ''osDisk'', ''cachingType''] (Some d)) (am_OSDiskCachingType c)"

definition pool_document :: "codec \<Rightarrow> json \<Rightarrow> azure_machine_pool \<Rightarrow> bool" where
  "pool_document K d c \<longleftrightarrow> meta_document d (amp_meta c) \<and>
     holds string_of '''' (at [''spec'', ''location''] (Some d)) (amp_Location c) \<and>
     holds string_of '''' (at [''spec'', ''template'', ''osDisk'', ''managedDisk'', ''storageAccountType''] (Some d))
       (amp_StorageAccountType c) \<and>
     holds (de_disks K) [] (at [''spec'', ''template'', ''dataDisks''] (Some d)) (amp_DataDisks c)"

section \<open>A codec and a document for the witnesses\<close>

fun demo_opt :: "('a \<Rightarrow> json) \<Rightarrow> 'a option \<Rightarrow> json" where
  "demo_opt f None = JNull"
| "demo_opt f (Some x) = f x"

fun demo_of_opt :: "(json \<Rightarrow> 'a option) \<Rightarrow> json \<Rightarrow> ('a option) option" where
  "demo_of_opt g JNull = Some None"
| "demo_of_opt g j = map_option Some (g j)"

fun demo_of_list :: "(json \<Rightarrow> 'a option) \<Rightarrow> json \<Rightarrow> ('a list) option" where
  "demo_of_list g (JArr js) = those (map g js)"
| "demo_of_list g j = None"

definition demo_port :: "32 word \<Rightarrow> json" where
  "demo_port w = JNum (format_int (sint w))"

definition demo_network_json :: "cluster_network \<Rightarrow> json" where
  "demo_network_json n = JArr [demo_opt demo_port (cn_APIServerPort n), JStr (cn_ServiceDomain n),
     demo_opt (\<lambda>r. JArr [demo_opt (\<lambda>bs. JArr (map JStr bs)) (nr_CIDRBlocks r)]) (cn_Services n), JStr (cn_rest n)]"

fun demo_ranges :: "json \<Rightarrow> network_ranges option" where
  "demo_ranges (JArr [bs]) = map_option (\<lambda>bs. \<lparr>nr_CIDRBlocks = bs\<rparr>) (demo_of_opt (demo_of_list string_of) bs)"
| "demo_ranges j = None"

fun demo_network :: "json \<Rightarrow> (cluster_network option) option" where
  "demo_network (JArr [p, JStr d, s, JStr r]) =
     (case (demo_of_opt port_of p, demo_of_opt demo_ranges s) of
        (Some p, Some s) \<Rightarrow> Some (Some \<lparr>cn_APIServerPort = p, cn_ServiceDomain = d, cn_Services = s, cn_rest = r\<rparr>)
      | _ \<Rightarrow> None)"
| "demo_network j = None"

definition demo_balancer_json :: "lb_spec \<Rightarrow> json" where
  "demo_balancer_json b = JArr [JStr (lb_Name b), JStr (lb_SKU b), JStr (lb_Type b),
     JArr (map (\<lambda>f. JArr [JStr (fi_Name f), JStr (fi_rest f)]) (lb_FrontendIPs b)), JStr (lb_rest b)]"

fun demo_frontend :: "json \<Rightarrow> frontend_ip option" where
  "demo_frontend (JArr [JStr n, JStr r]) = Some \<lparr>fi_Name = n, fi_rest = r\<rparr>"
| "demo_frontend j = None"

fun demo_balancer :: "json \<Rightarrow> lb_spec option" where
  "demo_balancer (JArr [JStr n, JStr s, JStr t, fs, JStr r]) =
     map_option (\<lambda>fs. \<lparr>lb_Name = n, lb_SKU = s, lb_Type = t, lb_FrontendIPs = fs, lb_rest = r\<rparr>) (demo_of_list demo_frontend fs)"
| "demo_balancer j = None"

definition demo_disk_json :: "data_disk \<Rightarrow> json" where
  "demo_disk_json d = JArr [JStr (dd_NameSuffix d), demo_port (dd_DiskSizeGB d), demo_opt demo_port (dd_Lun d), JStr (dd_rest d)]"

fun demo_disk :: "json \<Rightarrow> data_disk option" where
  "demo_disk (JArr [JStr n, z, l, JStr r]) =
     (case (port_of z, demo_of_opt port_of l) of
        (Some z, Some l) \<Rightarrow> Some \<lparr>dd_NameSuffix = n, dd_DiskSizeGB = z, dd_Lun = l, dd_rest = r\<rparr>
      | _ \<Rightarrow> None)"
| "demo_disk j = None"

definition demo_codec :: codec where
  "demo_codec = \<lparr>en_network = demo_network_json, de_network = demo_network, en_balancer = demo_balancer_json,
     de_balancer = demo_balancer, en_disks = (\<lambda>ds. JArr (map demo_disk_json ds)), de_disks = demo_of_list demo_disk,
     en_other = JStr\<rparr>"

lemma those_map: "(\<And>x. g (f x) = Some x) \<Longrightarrow> those (map g (map f xs)) = Some xs"
  by (induction xs) simp_all

lemma demo_of_opt_opt: "(\<And>x. g (f x) = Some x) \<Longrightarrow> (\<And>x. f x \<noteq> JNull) \<Longrightarrow> demo_of_opt g (demo_opt f o') = Some o'"
proof (cases o')
  case (Some x)
  assume "\<And>x. g (f x) = Some x" "\<And>x. f x \<noteq> JNull"
  then show ?thesis using Some by (cases "f x") (metis demo_of_opt.simps demo_opt.simps(2) option.simps(9))+
qed simp

lemma demo_port_back: "port_of (demo_port w) = Some w" "demo_port w \<noteq> JNull"
proof -
  have "ParseInt 32 (format_int (sint w)) = Some (sint w)"
    using sint_ge [of w] sint_lt [of w] by (intro ParseInt_format_int) simp_all
  then show "port_of (demo_port w) = Some w" by (simp add: demo_port_def)
qed (simp add: demo_port_def)

lemma demo_codec_reads_back: "reads_back demo_codec"
proof -
  have "demo_ranges ((\<lambda>r. JArr [demo_opt (\<lambda>bs. JArr (map JStr bs)) (nr_CIDRBlocks r)]) r) = Some r" for r
    by (simp add: demo_of_opt_opt those_map del: map_map)
  then have "demo_network (demo_network_json n) = Some (Some n)" for n
    by (simp add: demo_network_json_def demo_of_opt_opt demo_port_back del: demo_ranges.simps)
  moreover have "demo_frontend ((\<lambda>f. JArr [JStr (fi_Name f), JStr (fi_rest f)]) f) = Some f" for f by simp
  then have "demo_balancer (demo_balancer_json b) = Some b" for b
    by (simp add: demo_balancer_json_def those_map del: map_map demo_frontend.simps)
  moreover have "demo_disk (demo_disk_json d) = Some d" for d
    by (simp add: demo_disk_json_def demo_of_opt_opt demo_port_back)
  ultimately show ?thesis by (simp add: reads_back_def demo_codec_def those_map del: map_map)
qed

end
