(* ===== verification/Reinvocation.thy ===== *)
theory Reinvocation
  imports App
begin

text \<open>
  Mutating webhooks may be invoked more than once on one object, so that a mutation has to be content with
  its own result. This theory shows it for every mutation of the program, creating or updating: after the
  handler's own patches, those before the defaults of the type, are applied, invoking it again gives no patch of
  its own, except for a MachinePool that asks for a negative number of replicas.
\<close>

section \<open>Sequences of independent repairs\<close>

text \<open>A repair looks at an object and may answer with one patch; another repair may not notice its patch.\<close>

type_synonym 'a repair = "'a \<Rightarrow> (patch_operation option) res"

definition unnoticed :: "('a \<Rightarrow> patch_operation \<Rightarrow> 'a) \<Rightarrow> 'a repair \<Rightarrow> 'a repair \<Rightarrow> bool" where
  "unnoticed app f g \<longleftrightarrow> (\<forall>c p. f c = Ok (Some p) \<longrightarrow> g (app c p) = g c)"

definition settles :: "('a \<Rightarrow> patch_operation \<Rightarrow> 'a) \<Rightarrow> 'a repair \<Rightarrow> bool" where
  "settles app f \<longleftrightarrow> (\<forall>c p. f c = Ok (Some p) \<longrightarrow> f (app c p) = Ok None)"

lemma collect_all_None: "\<forall>m\<in>set ms. m = Ok None \<Longrightarrow> collect_patches ms = Ok []"
  by (induction ms) simp_all

locale settling_mutation =
  fixes app :: "'a \<Rightarrow> patch_operation \<Rightarrow> 'a"
    and repairs :: "'a repair list"
  assumes independent: "sorted_wrt (\<lambda>f g. unnoticed app f g \<and> unnoticed app g f) repairs"
    and settled: "f \<in> set repairs \<Longrightarrow> settles app f"
begin

text \<open>What a repair says is not changed by the patches of the others, which are all made for the original.\<close>

lemma others_unnoticed:
  assumes "sorted_wrt (\<lambda>f g. unnoticed app f g \<and> unnoticed app g f) fs"
    and "\<forall>g\<in>set fs. unnoticed app g f" and "map (\<lambda>g. g c) fs = map Ok qs"
  shows "f (foldl app c (concat (map opt_patch qs))) = f c"
  using assms
proof (induction fs arbitrary: c qs)
  case (Cons g fs)
  then obtain q qs' where qs: "qs = q # qs'" "g c = Ok q" "map (\<lambda>g. g c) fs = map Ok qs'" by auto
  show ?case
  proof (cases q)
    case None
    with Cons qs show ?thesis by simp
  next
    case (Some p)
    have "k (app c p) = k c" if "k \<in> set fs" for k
      using Cons.prems(1) qs(2) Some that by (auto simp: unnoticed_def)
    then have "map (\<lambda>g. g (app c p)) fs = map (\<lambda>g. g c) fs" by (intro map_cong) simp_all
    then have "map (\<lambda>g. g (app c p)) fs = map Ok qs'" using qs(3) by simp
    then have "f (foldl app (app c p) (concat (map opt_patch qs'))) = f (app c p)"
      using Cons.prems by (intro Cons.IH) simp_all
    moreover have "f (app c p) = f c" using Cons.prems(2) qs(2) Some by (simp add: unnoticed_def)
    ultimately show ?thesis using qs(1) Some by simp
  qed
qed simp

lemma all_settled:
  assumes "sorted_wrt (\<lambda>f g. unnoticed app f g \<and> unnoticed app g f) fs" and "set fs \<subseteq> set repairs"
    and "map (\<lambda>g. g c) fs = map Ok qs" and "f \<in> set fs"
  shows "f (foldl app c (concat (map opt_patch qs))) = Ok None"
  using assms
proof (induction fs arbitrary: c qs)
  case (Cons g fs)
  then obtain q qs' where qs: "qs = q # qs'" "g c = Ok q" "map (\<lambda>g. g c) fs = map Ok qs'" by auto
  define c' where "c' = foldl app c (opt_patch q)"
  have unn: "k c' = k c" if "k \<in> set fs" for k
    using Cons.prems(1) qs(2) that by (cases q) (auto simp: unnoticed_def c'_def)
  then have "map (\<lambda>g. g c') fs = map (\<lambda>g. g c) fs" by (intro map_cong) simp_all
  then have m: "map (\<lambda>g. g c') fs = map Ok qs'" using qs(3) by simp
  have g: "g c' = Ok None"
    using settled [of g] Cons.prems(2) qs(2) by (cases q) (auto simp: settles_def c'_def)
  have "g (foldl app c' (concat (map opt_patch qs'))) = g c'"
    using Cons.prems(1) by (intro others_unnoticed [OF _ _ m]) auto
  moreover have "f (foldl app c' (concat (map opt_patch qs'))) = Ok None" if "f \<in> set fs"
    using Cons.prems(1,2) m that by (intro Cons.IH) auto
  ultimately show ?case using Cons.prems(4) g qs(1) by (auto simp: c'_def)
qed simp

text \<open>One run of the repairs leaves nothing to repair.\<close>

lemma second_run_quiet:
  assumes "collect_patches (map (\<lambda>f. f c) repairs) = Ok ps"
  shows "collect_patches (map (\<lambda>f. f (foldl app c ps)) repairs) = Ok []"
proof -
  from assms obtain qs where "map (\<lambda>f. f c) repairs = map Ok qs" "ps = concat (map opt_patch qs)"
    by (auto simp: collect_patches_Ok_iff)
  then show ?thesis using all_settled [OF independent _ _, of c qs] by (intro collect_all_None) auto
qed

end

section \<open>The repairs of the handlers\<close>

definition Cluster_repairs :: "cluster_handler \<Rightarrow> cluster repair list" where
  "Cluster_repairs h =
     [Cluster_ensureClusterNetwork, Cluster_ensureControlPlaneEndpointHost h, Cluster_ensureControlPlaneEndpointPort,
      \<lambda>c. CopyAzureOperatorVersionLabelFromAzureClusterCR (clh_ctrlClient h) (cl_meta c)]"

definition AzureCluster_repairs :: "azurecluster_handler \<Rightarrow> azure_cluster repair list" where
  "AzureCluster_repairs h =
     [AzureCluster_ensureControlPlaneEndpointHost h, AzureCluster_ensureControlPlaneEndpointPort,
      AzureCluster_ensureLocation h, ensureAPIServerLB,
      \<lambda>c. EnsureComponentVersionLabelFromRelease (ach_ctrlReader h) (ac_meta c) ''azure-operator'' label_AzureOperatorVersion]"

definition AzureMachine_repairs :: "azuremachine_handler \<Rightarrow> azure_machine repair list" where
  "AzureMachine_repairs h =
     [AzureMachine_ensureLocation h, AzureMachine_ensureOSDiskCachingType,
      \<lambda>c. CopyAzureOperatorVersionLabelFromAzureClusterCR (amh_ctrlClient h) (am_meta c)]"

text \<open>The storage account type of a node pool is chosen by a question to the cache in the state \<open>s\<close>.\<close>

definition AzureMachinePool_repairs :: "azuremachinepool_handler \<Rightarrow> vmsku \<Rightarrow> azure_machine_pool repair list" where
  "AzureMachinePool_repairs h s =
     [AzureMachinePool_ensureLocation h, \<lambda>c. fst (AzureMachinePool_ensureStorageAccountType h c s),
      AzureMachinePool_ensureDataDisks, \<lambda>c. EnsureReleaseVersionLabel (aph_ctrlClient h) (amp_meta c),
      \<lambda>c. CopyAzureOperatorVersionLabelFromAzureClusterCR (aph_ctrlClient h) (amp_meta c)]"

definition MachinePool_repairs :: "machinepool_handler \<Rightarrow> machine_pool repair list" where
  "MachinePool_repairs h =
     [\<lambda>c. EnsureReleaseVersionLabel (mph_ctrlClient h) (mp_meta c),
      \<lambda>c. CopyAzureOperatorVersionLabelFromAzureClusterCR (mph_ctrlClient h) (mp_meta c)]"

definition Spark_repairs :: "legacy_handler \<Rightarrow> spark repair list" where
  "Spark_repairs h = [\<lambda>c. EnsureReleaseVersionLabel (lgh_ctrlClient h) (sp_meta c)]"

text \<open>The effect of a patch on the resources the other theories do not patch.\<close>

definition apply_machine_patch :: "azure_machine \<Rightarrow> patch_operation \<Rightarrow> azure_machine" where
  "apply_machine_patch c p = c\<lparr>am_meta := patch_meta (am_meta c) p,
     am_Location := patch_string ''/spec/location'' (am_Location c) p,
     am_OSDiskCachingType := patch_string ''/spec/osDisk/cachingType'' (am_OSDiskCachingType c) p\<rparr>"

definition apply_mpool_patch :: "machine_pool \<Rightarrow> patch_operation \<Rightarrow> machine_pool" where
  "apply_mpool_patch c p = c\<lparr>mp_meta := patch_meta (mp_meta c) p\<rparr>"

definition apply_spark_patch :: "spark \<Rightarrow> patch_operation \<Rightarrow> spark" where
  "apply_spark_patch c p = c\<lparr>sp_meta := patch_meta (sp_meta c) p\<rparr>"

lemma apply_machine_patch_simps [simp]:
  "apply_machine_patch c (PatchAdd (label_path l) (PV_string v)) =
     c\<lparr>am_meta := (am_meta c)\<lparr>om_labels := (om_labels (am_meta c))(l \<mapsto> v)\<rparr>\<rparr>"
  "apply_machine_patch c (PatchAdd ''/spec/location'' (PV_string v)) = c\<lparr>am_Location := v\<rparr>"
  "apply_machine_patch c (PatchAdd ''/spec/osDisk/cachingType'' (PV_string v)) = c\<lparr>am_OSDiskCachingType := v\<rparr>"
  by (cases c; simp add: apply_machine_patch_def; simp add: PatchAdd_def patch_sets_def patch_string_def)+

lemma apply_meta_patch_simps [simp]:
  "apply_mpool_patch k (PatchAdd (label_path l) (PV_string v)) =
     k\<lparr>mp_meta := (mp_meta k)\<lparr>om_labels := (om_labels (mp_meta k))(l \<mapsto> v)\<rparr>\<rparr>"
  "apply_spark_patch c (PatchAdd (label_path l) (PV_string v)) =
     c\<lparr>sp_meta := (sp_meta c)\<lparr>om_labels := (om_labels (sp_meta c))(l \<mapsto> v)\<rparr>\<rparr>"
  by (simp_all add: apply_mpool_patch_def apply_spark_patch_def)

lemmas label_repair_defs = EnsureReleaseVersionLabel_def CopyAzureOperatorVersionLabelFromAzureClusterCR_def
  EnsureComponentVersionLabelFromRelease_def getLabelValueFromAzureCluster_def
  getReleaseLabelValueFromAzureCluster_def operator_labels_differ operator_labels_differ [symmetric]

lemmas repair_defs = unnoticed_def settles_def patch_if_def bind_res_Ok_iff Let_def

lemma endpoint_host_not_empty [simp]: "GetControlPlaneEndpointHost name base \<noteq> ''''"
  by (simp add: GetControlPlaneEndpointHost_def)

interpretation cluster_repairs: settling_mutation apply_cluster_patch "Cluster_repairs h" for h
  by unfold_locales
    (auto simp: Cluster_repairs_def repair_defs label_repair_defs Cluster_ensureClusterNetwork_def
      Cluster_ensureControlPlaneEndpointHost_def Cluster_ensureControlPlaneEndpointPort_def
      ControlPlaneEndpointPort_def split: if_splits)

interpretation mpool_repairs: settling_mutation apply_mpool_patch "MachinePool_repairs h" for h
  by unfold_locales
    (auto simp: MachinePool_repairs_def repair_defs label_repair_defs split: if_splits)

interpretation spark_repairs: settling_mutation apply_spark_patch "Spark_repairs h" for h
  by unfold_locales (auto simp: Spark_repairs_def repair_defs label_repair_defs split: if_splits)

lemma azurecluster_repairs_settle:
  assumes "ach_location h \<noteq> ''''"
  shows "settling_mutation apply_azurecluster_patch (AzureCluster_repairs h)"
  using assms by unfold_locales
    (auto simp: AzureCluster_repairs_def repair_defs AzureCluster_ensureLocation_def
      AzureCluster_ensureControlPlaneEndpointHost_def AzureCluster_ensureControlPlaneEndpointPort_def
      ensureAPIServerLB_def ControlPlaneEndpointPort_def split: if_splits dest!: azure_operator_component.added)

lemma machine_repairs_settle:
  assumes "amh_location h \<noteq> ''''"
  shows "settling_mutation apply_machine_patch (AzureMachine_repairs h)"
  using assms by unfold_locales
    (auto simp: AzureMachine_repairs_def repair_defs label_repair_defs AzureMachine_ensureLocation_def
      AzureMachine_ensureOSDiskCachingType_def OSDiskCachingType_def split: if_splits)

lemma labels_unnoticed:
  "EnsureReleaseVersionLabel k (m\<lparr>om_labels := (om_labels m)(label_AzureOperatorVersion \<mapsto> v)\<rparr>) = EnsureReleaseVersionLabel k m"
  "CopyAzureOperatorVersionLabelFromAzureClusterCR k (m\<lparr>om_labels := (om_labels m)(label_ReleaseVersion \<mapsto> v)\<rparr>) =
     CopyAzureOperatorVersionLabelFromAzureClusterCR k m"
  by (simp_all add: label_repair_defs Let_def)

lemma pool_repairs_settle:
  assumes "aph_location h \<noteq> ''''"
  shows "settling_mutation apply_pool_patch (AzureMachinePool_repairs h s)"
proof -
  have st: "fst (AzureMachinePool_ensureStorageAccountType h c s) =
      (if amp_StorageAccountType c = '''' then
         bind_res (fst (HasCapability (aph_vmcaps h) (if amp_Location c = '''' then aph_location h else amp_Location c)
           (amp_VMSize c) CapabilityPremiumIO s))
         (\<lambda>premium. Ok (Some (PatchAdd ''/spec/template/osDisk/managedDisk/storageAccountType''
            (PV_string (if premium then PremiumLRS else StandardLRS)))))
       else Ok None)" for c
    by (auto simp: AzureMachinePool_ensureStorageAccountType_def Let_def bind_st_def lift_st_def
        split: prod.split outcome.split)
  have disks: "desiredDataDisks \<noteq> []" "PremiumLRS \<noteq> ''''" "StandardLRS \<noteq> ''''"
    by (simp_all add: desiredDataDisks_def PremiumLRS_def StandardLRS_def)
  note shapes = AzureMachinePool_ensureLocation_def AzureMachinePool_ensureDataDisks_def st bind_res_Ok_iff
  show ?thesis
  proof unfold_locales
    show "sorted_wrt (\<lambda>f g. unnoticed apply_pool_patch f g \<and> unnoticed apply_pool_patch g f)
       (AzureMachinePool_repairs h s)"
      unfolding AzureMachinePool_repairs_def sorted_wrt.simps list.set ball_simps
      by (intro conjI TrueI; auto simp: unnoticed_def shapes labels_unnoticed assms disks
          split: if_splits dest!: release_label.added operator_label.added)
  next
    fix f assume "f \<in> set (AzureMachinePool_repairs h s)"
    then show "settles apply_pool_patch f"
      using assms disks
      by (auto simp: AzureMachinePool_repairs_def settles_def shapes
          split: if_splits dest!: release_label.added operator_label.added)
  qed
qed

text \<open>The repairs of an updated object. Two version labels of one release do not notice each other.\<close>

definition Cluster_update_repairs :: "cluster_handler \<Rightarrow> cluster repair list" where
  "Cluster_update_repairs h =
     [\<lambda>c. EnsureComponentVersionLabelFromRelease (clh_ctrlReader h) (cl_meta c) ''azure-operator'' label_AzureOperatorVersion,
      \<lambda>c. EnsureComponentVersionLabelFromRelease (clh_ctrlReader h) (cl_meta c) ''cluster-operator''
        label_ClusterOperatorVersion]"

definition AzureCluster_update_repairs :: "azurecluster_handler \<Rightarrow> azure_cluster repair list" where
  "AzureCluster_update_repairs h =
     [ensureAPIServerLB,
      \<lambda>c. EnsureComponentVersionLabelFromRelease (ach_ctrlReader h) (ac_meta c) ''azure-operator'' label_AzureOperatorVersion,
      \<lambda>c. EnsureComponentVersionLabelFromRelease (ach_ctrlReader h) (ac_meta c) ''cluster-operator''
        label_ClusterOperatorVersion]"

definition AzureMachine_update_repairs :: "azure_machine repair list" where
  "AzureMachine_update_repairs = [AzureMachine_ensureOSDiskCachingType]"

lemma component_label_unnoticed:
  assumes "l' \<noteq> l" and "l' \<noteq> label_ReleaseVersion"
  shows "EnsureComponentVersionLabelFromRelease k (m\<lparr>om_labels := (om_labels m)(l' \<mapsto> v)\<rparr>) c l =
    EnsureComponentVersionLabelFromRelease k m c l"
  using assms by (simp add: EnsureComponentVersionLabelFromRelease_def Let_def cong: if_cong)

lemmas component_labels_unnoticed =
  component_label_unnoticed [OF operator_labels_differ(3) operator_labels_differ(1)]
  component_label_unnoticed [OF operator_labels_differ(3) [symmetric] operator_labels_differ(2)]

interpretation cluster_updates: settling_mutation apply_cluster_patch "Cluster_update_repairs h" for h
  by unfold_locales
    (auto simp: Cluster_update_repairs_def unnoticed_def settles_def component_labels_unnoticed
      dest!: azure_operator_component.added cluster_operator_component.added)

interpretation azurecluster_updates: settling_mutation apply_azurecluster_patch "AzureCluster_update_repairs h" for h
  by unfold_locales
    (auto simp: AzureCluster_update_repairs_def unnoticed_def settles_def component_labels_unnoticed
      ensureAPIServerLB_def Let_def split: if_splits
      dest!: azure_operator_component.added cluster_operator_component.added)

interpretation machine_updates: settling_mutation apply_machine_patch AzureMachine_update_repairs
  by unfold_locales
    (auto simp: AzureMachine_update_repairs_def settles_def patch_if_def AzureMachine_ensureOSDiskCachingType_def
      OSDiskCachingType_def split: if_splits)

interpretation no_repairs: settling_mutation app "[]" for app
  by unfold_locales simp_all

section \<open>The handlers once more\<close>

text \<open>Each mutation is its repairs, followed by the defaults of the resource type.\<close>

lemma mutation_of_repairs:
  "Cluster_OnCreateMutate L h (ObjCluster c) =
     bind_res (collect_patches (map (\<lambda>f. f c) (Cluster_repairs h))) (with_defaults L (lib_Cluster L) c [])"
  "AzureCluster_OnCreateMutate L ha (ObjAzureCluster a) =
     bind_res (collect_patches (map (\<lambda>f. f a) (AzureCluster_repairs ha)))
       (with_defaults L (lib_AzureCluster L) a skipped_network_paths)"
  "AzureMachine_OnCreateMutate L hm (ObjAzureMachine m) =
     bind_res (collect_patches (map (\<lambda>f. f m) (AzureMachine_repairs hm)))
       (with_defaults L (lib_AzureMachine L) m [''/spec/sshPublicKey''])"
  "MachinePool_OnCreateMutate L hp (ObjMachinePool p) =
     bind_res (collect_patches (map (\<lambda>f. f p) (MachinePool_repairs hp)))
       (\<lambda>result. with_defaults L (lib_MachinePool L) p [] (result @ ensureAutoscalingAnnotations p))"
  "Spark_OnCreateMutate hs (ObjSpark k) = collect_patches (map (\<lambda>f. f k) (Spark_repairs hs))"
  by (simp_all add: Cluster_OnCreateMutate_def Cluster_repairs_def AzureCluster_OnCreateMutate_def
      AzureCluster_repairs_def AzureMachine_OnCreateMutate_def AzureMachine_repairs_def MachinePool_OnCreateMutate_def
      MachinePool_repairs_def Spark_OnCreateMutate_def Spark_repairs_def)

lemma update_mutation_of_repairs:
  "Cluster_OnUpdateMutate L h old (ObjCluster c) =
     bind_res (collect_patches (map (\<lambda>f. f c) (Cluster_update_repairs h))) (with_defaults L (lib_Cluster L) c [])"
  "AzureCluster_OnUpdateMutate L ha old (ObjAzureCluster a) =
     bind_res (collect_patches (map (\<lambda>f. f a) (AzureCluster_update_repairs ha)))
       (with_defaults L (lib_AzureCluster L) a skipped_network_paths)"
  "AzureMachine_OnUpdateMutate L hm old (ObjAzureMachine m) =
     bind_res (collect_patches (map (\<lambda>f. f m) AzureMachine_update_repairs))
       (with_defaults L (lib_AzureMachine L) m [''/spec/sshPublicKey''])"
  "AzureMachinePool_OnUpdateMutate L old (ObjAzureMachinePool p) =
     bind_res (collect_patches (map (\<lambda>f. f p) []))
       (with_defaults L (lib_AzureMachinePool L) p [''/spec/template/sshPublicKey''])"
  "MachinePool_OnUpdateMutate L old (ObjMachinePool q) =
     with_defaults L (lib_MachinePool L) q [] (ensureAutoscalingAnnotations q)"
  by (simp_all add: Cluster_OnUpdateMutate_def Cluster_update_repairs_def AzureCluster_OnUpdateMutate_def
      AzureCluster_update_repairs_def AzureMachine_OnUpdateMutate_def AzureMachine_update_repairs_def
      AzureMachinePool_OnUpdateMutate_def MachinePool_OnUpdateMutate_def)

lemma with_defaults_split:
  "with_defaults L api c sk own = Ok ps \<Longrightarrow> \<exists>capi. ps = own @ capi \<and> with_defaults L api c sk [] = Ok capi"
  by (auto simp: with_defaults_Ok_iff)

lemma with_defaults_nothing:
  "GenerateFromObjectDiff L api c (crd_Default api c) = Ok [] \<Longrightarrow> with_defaults L api c sk [] = Ok []"
proof -
  have "foldl (\<lambda>ps path. SkipForPath path ps) [] sk = []" by (induction sk) (simp_all add: SkipForPath_def)
  then show "GenerateFromObjectDiff L api c (crd_Default api c) = Ok [] \<Longrightarrow> with_defaults L api c sk [] = Ok []"
    by (simp add: with_defaults_def)
qed

lemma settled_with_defaults:
  assumes "settling_mutation app fs" and "bind_res (collect_patches (map (\<lambda>f. f c) fs)) (with_defaults L api c sk) = Ok ps"
  shows "\<exists>own capi. ps = own @ capi \<and> with_defaults L api c sk [] = Ok capi \<and>
     bind_res (collect_patches (map (\<lambda>f. f (foldl app c own)) fs)) (with_defaults L api (foldl app c own) sk) =
     with_defaults L api (foldl app c own) sk []"
proof -
  from assms(2) obtain own where own: "collect_patches (map (\<lambda>f. f c) fs) = Ok own" "with_defaults L api c sk own = Ok ps"
    by (auto simp: bind_res_Ok_iff)
  from with_defaults_split [OF own(2)] obtain capi where "ps = own @ capi" "with_defaults L api c sk [] = Ok capi" by blast
  with settling_mutation.second_run_quiet [OF assms(1) own(1)] show ?thesis
    by (intro exI [of _ own] exI [of _ capi]) simp
qed

lemma pool_mutation_of_repairs:
  assumes "AzureMachinePool_OnCreateMutate L h (ObjAzureMachinePool c) s = (Ok ps, s')"
  shows "\<exists>own capi. collect_patches (map (\<lambda>f. f c) (AzureMachinePool_repairs h s)) = Ok own \<and> ps = own @ capi \<and>
    with_defaults L (lib_AzureMachinePool L) c [''/spec/template/sshPublicKey''] [] = Ok capi"
proof -
  from assms obtain own where own: "collect_patches (map (\<lambda>f. f c) (AzureMachinePool_repairs h s)) = Ok own"
    and w: "with_defaults L (lib_AzureMachinePool L) c [''/spec/template/sshPublicKey''] own = Ok ps"
    by (auto simp: AzureMachinePool_OnCreateMutate_def AzureMachinePool_repairs_def outcome_simps simp del: with_defaults_Ok_iff)
  with with_defaults_split [OF w] show ?thesis by blast
qed

lemma pool_quiet:
  assumes "\<forall>f\<in>set (AzureMachinePool_repairs h s). f c = Ok None"
  shows "AzureMachinePool_OnCreateMutate L h (ObjAzureMachinePool c) t =
    (with_defaults L (lib_AzureMachinePool L) c [''/spec/template/sshPublicKey''] [], t)"
proof -
  from assms have "fst (AzureMachinePool_ensureStorageAccountType h c s) = Ok None"
    by (simp add: AzureMachinePool_repairs_def)
  then obtain s' where "AzureMachinePool_ensureStorageAccountType h c s = (Ok None, s')" by (metis prod.collapse)
  then have "amp_StorageAccountType c \<noteq> ''''" by (auto elim: ensureStorageAccountType_cases)
  then have "AzureMachinePool_ensureStorageAccountType h c = lift_st (Ok None)"
    by (simp add: AzureMachinePool_ensureStorageAccountType_def fun_eq_iff)
  then show ?thesis
    using assms by (simp add: AzureMachinePool_OnCreateMutate_def AzureMachinePool_repairs_def lift_st_def bind_st_def)
qed

text \<open>The annotations of a machine pool, among its other members.\<close>

lemma autoscaling_patches_shape:
  "\<forall>p\<in>set (ensureAutoscalingAnnotations c). \<exists>a v. p = PatchAdd (annotation_path a) (PV_string v) \<or>
     p = PatchReplace (annotation_path a) (PV_string v)"
  by (auto simp: ensureAutoscalingAnnotations_def autoscaling_min_def autoscaling_max_def annotation_value_def Let_def
      split: option.splits if_splits)

lemma patch_meta_annotation:
  assumes "p = PatchAdd (annotation_path a) (PV_string v) \<or> p = PatchReplace (annotation_path a) (PV_string v)"
  shows "patch_meta m p = m\<lparr>om_annotations := apply_map_patch annotations_prefix (om_annotations m) p\<rparr>"
  using assms
  by (auto simp: patch_meta_def annotation_path_def labels_prefix_def HasPrefix_def PatchAdd_def PatchReplace_def)

lemma apply_autoscaling:
  assumes "\<forall>p\<in>set ps. \<exists>a v. p = PatchAdd (annotation_path a) (PV_string v) \<or> p = PatchReplace (annotation_path a) (PV_string v)"
  shows "foldl apply_mpool_patch c ps = c\<lparr>mp_meta := (mp_meta c)\<lparr>om_annotations :=
     apply_map_patches annotations_prefix (om_annotations (mp_meta c)) ps\<rparr>\<rparr>"
  using assms
proof (induction ps arbitrary: c)
  case (Cons p ps)
  then obtain a v where "p = PatchAdd (annotation_path a) (PV_string v) \<or> p = PatchReplace (annotation_path a) (PV_string v)"
    by auto
  from patch_meta_annotation [OF this] Cons show ?case
    by (simp add: apply_mpool_patch_def del: apply_map_patch.simps)
qed simp

lemma apply_autoscaled: "foldl apply_mpool_patch c (ensureAutoscalingAnnotations c) = autoscaled c"
  by (simp add: apply_autoscaling [OF autoscaling_patches_shape] autoscaled_def)

lemma label_repairs_keep_sizes:
  assumes "collect_patches (map (\<lambda>f. f c) (MachinePool_repairs h)) = Ok own"
  shows "ensureAutoscalingAnnotations (foldl apply_mpool_patch c own) = ensureAutoscalingAnnotations c"
    and "desired_replicas (foldl apply_mpool_patch c own) = desired_replicas c"
  using assms
  by (auto simp: MachinePool_repairs_def bind_res_Ok_iff ensureAutoscalingAnnotations_def desired_replicas_def
      elim!: release_label_patch_cases operator_label_patch_cases)

lemma machinepool_reinvoked:
  assumes "MachinePool_OnCreateMutate L h (ObjMachinePool c) = Ok ps" and "0 \<le> desired_replicas c"
  shows "\<exists>own capi. ps = own @ capi \<and> with_defaults L (lib_MachinePool L) c [] [] = Ok capi \<and>
     MachinePool_OnCreateMutate L h (ObjMachinePool (foldl apply_mpool_patch c own)) =
     with_defaults L (lib_MachinePool L) (foldl apply_mpool_patch c own) [] []"
proof -
  from assms(1) obtain ls where ls: "collect_patches (map (\<lambda>f. f c) (MachinePool_repairs h)) = Ok ls"
    and w: "with_defaults L (lib_MachinePool L) c [] (ls @ ensureAutoscalingAnnotations c) = Ok ps"
    by (auto simp: mutation_of_repairs bind_res_Ok_iff)
  from with_defaults_split [OF w] obtain capi where ps: "ps = (ls @ ensureAutoscalingAnnotations c) @ capi"
    "with_defaults L (lib_MachinePool L) c [] [] = Ok capi" by blast
  let ?c1 = "foldl apply_mpool_patch c ls"
  let ?c2 = "foldl apply_mpool_patch c (ls @ ensureAutoscalingAnnotations c)"
  have c2: "?c2 = autoscaled ?c1"
    using apply_autoscaled [of ?c1] by (simp add: label_repairs_keep_sizes [OF ls])
  have "ensureAutoscalingAnnotations (autoscaled ?c1) = []"
    using autoscaled_sizes [of ?c1] assms(2) by (auto simp: label_repairs_keep_sizes [OF ls])
  then have e: "ensureAutoscalingAnnotations ?c2 = []" unfolding c2 .
  have m: "map (\<lambda>f. f ?c2) (MachinePool_repairs h) = map (\<lambda>f. f ?c1) (MachinePool_repairs h)"
    unfolding c2 by (simp add: MachinePool_repairs_def autoscaled_def label_repair_defs Let_def)
  have q: "collect_patches (map (\<lambda>f. f ?c2) (MachinePool_repairs h)) = Ok []"
    unfolding m by (rule mpool_repairs.second_run_quiet [OF ls])
  have "MachinePool_OnCreateMutate L h (ObjMachinePool ?c2) = with_defaults L (lib_MachinePool L) ?c2 [] []"
    by (simp only: mutation_of_repairs q e bind_res.simps append_Nil)
  with ps show ?thesis by blast
qed

section \<open>Every endpoint\<close>

definition apply_object_patches :: "object \<Rightarrow> patch_operation list \<Rightarrow> object" where
  "apply_object_patches ob ps = (case ob of
       ObjCluster c \<Rightarrow> ObjCluster (foldl apply_cluster_patch c ps)
     | ObjAzureCluster c \<Rightarrow> ObjAzureCluster (foldl apply_azurecluster_patch c ps)
     | ObjAzureMachine c \<Rightarrow> ObjAzureMachine (foldl apply_machine_patch c ps)
     | ObjAzureMachinePool c \<Rightarrow> ObjAzureMachinePool (foldl apply_pool_patch c ps)
     | ObjMachinePool c \<Rightarrow> ObjMachinePool (foldl apply_mpool_patch c ps)
     | ObjSpark c \<Rightarrow> ObjSpark (foldl apply_spark_patch c ps)
     | _ \<Rightarrow> ob)"

text \<open>The patches with the defaults of the resource type, which come after a handler's own.\<close>

definition default_patches :: "lib \<Rightarrow> object \<Rightarrow> (patch_operation list) res" where
  "default_patches L ob = (case ob of
       ObjCluster c \<Rightarrow> with_defaults L (lib_Cluster L) c [] []
     | ObjAzureCluster c \<Rightarrow> with_defaults L (lib_AzureCluster L) c skipped_network_paths []
     | ObjAzureMachine c \<Rightarrow> with_defaults L (lib_AzureMachine L) c [''/spec/sshPublicKey''] []
     | ObjAzureMachinePool c \<Rightarrow> with_defaults L (lib_AzureMachinePool L) c [''/spec/template/sshPublicKey''] []
     | ObjMachinePool c \<Rightarrow> with_defaults L (lib_MachinePool L) c [] []
     | _ \<Rightarrow> Ok [])"

definition wanted_replicas :: "object \<Rightarrow> bool" where
  "wanted_replicas ob \<longleftrightarrow> (\<forall>c. ob = ObjMachinePool c \<longrightarrow> 0 \<le> desired_replicas c)"

text \<open>What reinvocation means for one mutation: the object with the mutation's own patches, which are what comes
  before the defaults of the type, gets nothing but the defaults of the type.\<close>

definition settles_objects :: "lib \<Rightarrow> (object \<Rightarrow> (patch_operation list) vm_prog) \<Rightarrow> object \<Rightarrow> bool" where
  "settles_objects L mutate ob \<longleftrightarrow> (\<forall>s ps s'. mutate ob s = (Ok ps, s') \<longrightarrow>
     (\<exists>own capi. ps = own @ capi \<and> default_patches L ob = Ok capi \<and>
       (\<forall>t. mutate (apply_object_patches ob own) t = (default_patches L (apply_object_patches ob own), t))))"

lemma settles_objectsI:
  assumes "settling_mutation app fs"
    and mut: "\<And>c. mutate (mk c) = lift_st (bind_res (collect_patches (map (\<lambda>f. f c) fs)) (with_defaults L api c sk))"
    and app: "\<And>c ps. apply_object_patches (mk c) ps = mk (foldl app c ps)"
    and def: "\<And>c. default_patches L (mk c) = with_defaults L api c sk []"
  shows "settles_objects L mutate (mk c)"
  unfolding settles_objects_def
proof (intro allI impI)
  fix s ps s' assume "mutate (mk c) s = (Ok ps, s')"
  then have "bind_res (collect_patches (map (\<lambda>f. f c) fs)) (with_defaults L api c sk) = Ok ps"
    by (simp add: mut lift_st_def)
  from settled_with_defaults [OF assms(1) this] obtain own capi where "ps = own @ capi" "with_defaults L api c sk [] = Ok capi"
    and "bind_res (collect_patches (map (\<lambda>f. f (foldl app c own)) fs)) (with_defaults L api (foldl app c own) sk) =
      with_defaults L api (foldl app c own) sk []"
    by blast
  then show "\<exists>own capi. ps = own @ capi \<and> default_patches L (mk c) = Ok capi \<and>
      (\<forall>t. mutate (apply_object_patches (mk c) own) t = (default_patches L (apply_object_patches (mk c) own), t))"
    by (intro exI [of _ own] exI [of _ capi]) (simp add: app def mut lift_st_def)
qed

lemma machinepool_settles:
  assumes "0 \<le> desired_replicas q"
  shows "settles_objects L (\<lambda>ob. lift_st (MachinePool_OnCreateMutate L hq ob)) (ObjMachinePool q)"
  unfolding settles_objects_def
proof (intro allI impI)
  fix s ps s' assume "lift_st (MachinePool_OnCreateMutate L hq (ObjMachinePool q)) s = (Ok ps, s')"
  then have "MachinePool_OnCreateMutate L hq (ObjMachinePool q) = Ok ps" by (simp add: lift_st_def)
  from machinepool_reinvoked [OF this assms] obtain own capi where "ps = own @ capi"
    "with_defaults L (lib_MachinePool L) q [] [] = Ok capi"
    and "MachinePool_OnCreateMutate L hq (ObjMachinePool (foldl apply_mpool_patch q own)) =
      with_defaults L (lib_MachinePool L) (foldl apply_mpool_patch q own) [] []"
    by blast
  then show "\<exists>own capi. ps = own @ capi \<and> default_patches L (ObjMachinePool q) = Ok capi \<and>
      (\<forall>t. lift_st (MachinePool_OnCreateMutate L hq (apply_object_patches (ObjMachinePool q) own)) t =
        (default_patches L (apply_object_patches (ObjMachinePool q) own), t))"
    by (intro exI [of _ own] exI [of _ capi])
      (simp add: apply_object_patches_def default_patches_def lift_st_def)
qed

lemma spark_settles: "settles_objects L (\<lambda>ob. lift_st (Spark_OnCreateMutate hs ob)) (ObjSpark k)"
  unfolding settles_objects_def
proof (intro allI impI)
  fix s ps s' assume "lift_st (Spark_OnCreateMutate hs (ObjSpark k)) s = (Ok ps, s')"
  then have "collect_patches (map (\<lambda>f. f k) (Spark_repairs hs)) = Ok ps"
    by (simp add: lift_st_def mutation_of_repairs)
  from spark_repairs.second_run_quiet [OF this]
  have "Spark_OnCreateMutate hs (ObjSpark (foldl apply_spark_patch k ps)) = Ok []"
    by (simp add: mutation_of_repairs)
  then show "\<exists>own capi. ps = own @ capi \<and> default_patches L (ObjSpark k) = Ok capi \<and>
      (\<forall>t. lift_st (Spark_OnCreateMutate hs (apply_object_patches (ObjSpark k) own)) t =
        (default_patches L (apply_object_patches (ObjSpark k) own), t))"
    by (intro exI [of _ ps] exI [of _ "[]"]) (simp add: apply_object_patches_def default_patches_def lift_st_def)
qed

lemma pool_settles:
  assumes "aph_location hp \<noteq> ''''"
  shows "settles_objects L (AzureMachinePool_OnCreateMutate L hp) (ObjAzureMachinePool p)"
  unfolding settles_objects_def
proof (intro allI impI)
  fix s ps s' assume "AzureMachinePool_OnCreateMutate L hp (ObjAzureMachinePool p) s = (Ok ps, s')"
  then obtain own capi where own: "collect_patches (map (\<lambda>f. f p) (AzureMachinePool_repairs hp s)) = Ok own"
    and ps: "ps = own @ capi" "with_defaults L (lib_AzureMachinePool L) p [''/spec/template/sshPublicKey''] [] = Ok capi"
    by (blast dest: pool_mutation_of_repairs)
  from own obtain qs where "map (\<lambda>f. f p) (AzureMachinePool_repairs hp s) = map Ok qs" "own = concat (map opt_patch qs)"
    by (auto simp: collect_patches_Ok_iff)
  then have "\<forall>f\<in>set (AzureMachinePool_repairs hp s). f (foldl apply_pool_patch p own) = Ok None"
    using settling_mutation.all_settled [OF pool_repairs_settle [OF assms] settling_mutation.independent
        [OF pool_repairs_settle [OF assms]]] by blast
  note quiet = pool_quiet [OF this]
  show "\<exists>own capi. ps = own @ capi \<and> default_patches L (ObjAzureMachinePool p) = Ok capi \<and>
      (\<forall>t. AzureMachinePool_OnCreateMutate L hp (apply_object_patches (ObjAzureMachinePool p) own) t =
        (default_patches L (apply_object_patches (ObjAzureMachinePool p) own), t))"
    by (intro exI [of _ own] exI [of _ capi]) (simp add: ps quiet apply_object_patches_def default_patches_def)
qed

lemma handlers_settle:
  "settles_objects L (\<lambda>ob. lift_st (Cluster_OnCreateMutate L h ob)) (ObjCluster c)"
  "ach_location ha \<noteq> '''' \<Longrightarrow> settles_objects L (\<lambda>ob. lift_st (AzureCluster_OnCreateMutate L ha ob)) (ObjAzureCluster a)"
  "amh_location hm \<noteq> '''' \<Longrightarrow> settles_objects L (\<lambda>ob. lift_st (AzureMachine_OnCreateMutate L hm ob)) (ObjAzureMachine m)"
  "aph_location hp \<noteq> '''' \<Longrightarrow> settles_objects L (AzureMachinePool_OnCreateMutate L hp) (ObjAzureMachinePool p)"
  "0 \<le> desired_replicas q \<Longrightarrow> settles_objects L (\<lambda>ob. lift_st (MachinePool_OnCreateMutate L hq ob)) (ObjMachinePool q)"
  "settles_objects L (\<lambda>ob. lift_st (Spark_OnCreateMutate hs ob)) (ObjSpark k)"
proof -
  show "settles_objects L (\<lambda>ob. lift_st (Cluster_OnCreateMutate L h ob)) (ObjCluster c)"
    by (rule settles_objectsI [OF cluster_repairs.settling_mutation_axioms])
      (simp_all add: mutation_of_repairs apply_object_patches_def default_patches_def)
  show "settles_objects L (\<lambda>ob. lift_st (AzureCluster_OnCreateMutate L ha ob)) (ObjAzureCluster a)"
    if "ach_location ha \<noteq> ''''"
    by (rule settles_objectsI [OF azurecluster_repairs_settle [OF that]])
      (simp_all add: mutation_of_repairs apply_object_patches_def default_patches_def)
  show "settles_objects L (\<lambda>ob. lift_st (AzureMachine_OnCreateMutate L hm ob)) (ObjAzureMachine m)"
    if "amh_location hm \<noteq> ''''"
    by (rule settles_objectsI [OF machine_repairs_settle [OF that]])
      (simp_all add: mutation_of_repairs apply_object_patches_def default_patches_def)
qed (rule pool_settles machinepool_settles spark_settles, (assumption | rule TrueI)?)+

lemma updates_settle:
  "settles_objects L (\<lambda>ob. lift_st (Cluster_OnUpdateMutate L h old ob)) (ObjCluster c)"
  "settles_objects L (\<lambda>ob. lift_st (AzureCluster_OnUpdateMutate L ha old ob)) (ObjAzureCluster a)"
  "settles_objects L (\<lambda>ob. lift_st (AzureMachine_OnUpdateMutate L hm old ob)) (ObjAzureMachine m)"
  "settles_objects L (\<lambda>ob. lift_st (AzureMachinePool_OnUpdateMutate L old ob)) (ObjAzureMachinePool p)"
  "0 \<le> desired_replicas q \<Longrightarrow> settles_objects L (\<lambda>ob. lift_st (MachinePool_OnUpdateMutate L old ob)) (ObjMachinePool q)"
proof -
  show "settles_objects L (\<lambda>ob. lift_st (Cluster_OnUpdateMutate L h old ob)) (ObjCluster c)"
    by (rule settles_objectsI [OF cluster_updates.settling_mutation_axioms])
      (simp_all add: update_mutation_of_repairs apply_object_patches_def default_patches_def)
  show "settles_objects L (\<lambda>ob. lift_st (AzureCluster_OnUpdateMutate L ha old ob)) (ObjAzureCluster a)"
    by (rule settles_objectsI [OF azurecluster_updates.settling_mutation_axioms])
      (simp_all add: update_mutation_of_repairs apply_object_patches_def default_patches_def)
  show "settles_objects L (\<lambda>ob. lift_st (AzureMachine_OnUpdateMutate L hm old ob)) (ObjAzureMachine m)"
    by (rule settles_objectsI [OF machine_updates.settling_mutation_axioms])
      (simp_all add: update_mutation_of_repairs apply_object_patches_def default_patches_def)
  show "settles_objects L (\<lambda>ob. lift_st (AzureMachinePool_OnUpdateMutate L old ob)) (ObjAzureMachinePool p)"
    by (rule settles_objectsI [OF no_repairs.settling_mutation_axioms [of apply_pool_patch]])
      (simp_all add: update_mutation_of_repairs apply_object_patches_def default_patches_def)
  show "settles_objects L (\<lambda>ob. lift_st (MachinePool_OnUpdateMutate L old ob)) (ObjMachinePool q)"
    if "0 \<le> desired_replicas q"
    unfolding settles_objects_def
  proof (intro allI impI)
    fix s ps s' assume "lift_st (MachinePool_OnUpdateMutate L old (ObjMachinePool q)) s = (Ok ps, s')"
    then have "with_defaults L (lib_MachinePool L) q [] (ensureAutoscalingAnnotations q) = Ok ps"
      by (simp add: lift_st_def update_mutation_of_repairs)
    from with_defaults_split [OF this] obtain capi where "ps = ensureAutoscalingAnnotations q @ capi"
      "with_defaults L (lib_MachinePool L) q [] [] = Ok capi" by blast
    moreover have "ensureAutoscalingAnnotations (autoscaled q) = []" using autoscaled_sizes [OF that] by blast
    ultimately show "\<exists>own capi. ps = own @ capi \<and> default_patches L (ObjMachinePool q) = Ok capi \<and>
        (\<forall>t. lift_st (MachinePool_OnUpdateMutate L old (apply_object_patches (ObjMachinePool q) own)) t =
          (default_patches L (apply_object_patches (ObjMachinePool q) own), t))"
      by (intro exI [of _ "ensureAutoscalingAnnotations q"] exI [of _ capi])
        (simp add: apply_object_patches_def default_patches_def lift_st_def update_mutation_of_repairs apply_autoscaled)
  qed
qed


text \<open>The handler of Clusters in a complete program, and its mutation of a new Cluster.\<close>

definition demo_new_decoder :: decoder where
  "demo_new_decoder = demo_decoder\<lparr>dec_Cluster := (\<lambda>s. Inr demo_new_cluster)\<rparr>"

definition demo_app_config :: app_config where
  "demo_app_config = \<lparr>cfg_BaseDomain = ''k8s.io'', cfg_CertFile = '''', cfg_KeyFile = '''', cfg_Address = '''',
     cfg_AvailabilityZones = '''', cfg_Location = ''westeurope''\<rparr>"

definition demo_app_client :: kube_api where
  "demo_app_client = demo_installation demo_releases [label_AzureOperatorVersion \<mapsto> ''5.0.0'']"

definition demo_app_webhooks :: "webhook list" where
  "demo_app_webhooks = all_webhooks demo_lib (0, 0) demo_new_decoder demo_app_config demo_app_client
     (demo_kube demo_releases) demo_sku_api"

definition demo_new_handler :: cluster_handler where
  "demo_new_handler = demo_cluster_handler\<lparr>clh_decoder := demo_new_decoder\<rparr>"

lemma demo_app_handlers:
  "getAllHandlers demo_lib (0, 0) demo_new_decoder demo_app_config (Some ()) (Some demo_app_client)
     (Some (demo_kube demo_releases)) (Some demo_sku_api) = Ok demo_app_webhooks"
  by (simp add: getAllHandlers_Ok_iff demo_app_webhooks_def demo_app_config_def)

lemma demo_app_cluster_webhook:
  "cluster_webhook demo_lib (0, 0) demo_new_handler \<in> set demo_app_webhooks"
  "wh_OnCreateMutate (cluster_webhook demo_lib (0, 0) demo_new_handler) =
     Some (\<lambda>ob. lift_st (Cluster_OnCreateMutate demo_lib demo_new_handler ob))"
  "wh_Decode (cluster_webhook demo_lib (0, 0) demo_new_handler) raw = Ok (ObjCluster demo_new_cluster)"
  by (simp_all add: demo_app_webhooks_def all_webhooks_def Let_def demo_new_handler_def demo_cluster_handler_def
      cluster_webhook_def Cluster_Decode_def decode_with_Ok_iff demo_new_decoder_def demo_app_config_def demo_app_client_def)

lemma demo_app_mutation:
  obtains ps where "Cluster_OnCreateMutate demo_lib demo_new_handler (ObjCluster demo_new_cluster) = Ok ps"
proof -
  have "Cluster_OnCreateMutate demo_lib demo_new_handler = Cluster_OnCreateMutate demo_lib demo_cluster_handler"
    by (simp add: fun_eq_iff Cluster_OnCreateMutate_def Cluster_ensureControlPlaneEndpointHost_def demo_new_handler_def)
  with demo_mutation_succeeds that show thesis by metis
qed


end
