(* ===== verification/OwnPatches.thy ===== *)
theory OwnPatches
  imports Documents Reinvocation
begin

text \<open>
  The patches of the mutations on the documents they are made for. A handler computes its patches from a
  decoded object; the API server applies them to the JSON document that was submitted. This theory says,
  for every mutation, when its patches can be applied, and that the document then holds the object with the
  patches applied.
\<close>

section \<open>The patches of the handlers\<close>

definition version_labels :: "string set" where
  "version_labels = {label_ReleaseVersion, label_AzureOperatorVersion, label_ClusterOperatorVersion}"

definition sets_version_label :: "patch_operation \<Rightarrow> bool" where
  "sets_version_label p \<longleftrightarrow> (\<exists>l\<in>version_labels. \<exists>v. p = PatchAdd (label_path l) (PV_string v))"

definition cluster_adds :: "patch_operation \<Rightarrow> bool" where
  "cluster_adds p \<longleftrightarrow> sets_version_label p \<or>
     (\<exists>n. p = PatchAdd ''/spec/clusterNetwork'' (PV_ClusterNetwork n)) \<or>
     (\<exists>s. p = PatchAdd ''/spec/controlPlaneEndpoint/host'' (PV_string s)) \<or>
     p = PatchAdd ''/spec/controlPlaneEndpoint/port'' (PV_int (uint ControlPlaneEndpointPort))"

definition azurecluster_adds :: "patch_operation \<Rightarrow> bool" where
  "azurecluster_adds p \<longleftrightarrow> sets_version_label p \<or>
     (\<exists>b. p = PatchAdd ''/spec/networkSpec/apiServerLB'' (PV_LoadBalancer b)) \<or>
     (\<exists>s. p = PatchAdd ''/spec/controlPlaneEndpoint/host'' (PV_string s)) \<or>
     p = PatchAdd ''/spec/controlPlaneEndpoint/port'' (PV_int (uint ControlPlaneEndpointPort)) \<or>
     (\<exists>s. p = PatchAdd ''/spec/location'' (PV_string s))"

definition machine_adds :: "patch_operation \<Rightarrow> bool" where
  "machine_adds p \<longleftrightarrow> sets_version_label p \<or>
     (\<exists>s. p = PatchAdd ''/spec/location'' (PV_string s)) \<or>
     (\<exists>s. p = PatchAdd ''/spec/osDisk/cachingType'' (PV_string s))"

definition pool_adds :: "patch_operation \<Rightarrow> bool" where
  "pool_adds p \<longleftrightarrow> sets_version_label p \<or>
     (\<exists>s. p = PatchAdd ''/spec/location'' (PV_string s)) \<or>
     (\<exists>s. p = PatchAdd ''/spec/template/osDisk/managedDisk/storageAccountType'' (PV_string s)) \<or>
     (\<exists>ds. p = PatchAdd ''/spec/template/dataDisks'' (PV_DataDisks ds))"

lemma label_tokens: "tokens (label_path l) = [''metadata'', ''labels'', l]"
proof -
  have "CHR ''/'' \<notin> set (escapeJSONPatchString l)" "unescape_token (escapeJSONPatchString l) = l"
    using escape_round_trip [of l] by simp_all
  then show ?thesis by (simp add: tokens_def label_path_def Split1_plain)
qed

lemma spec_tokens [simp]:
  "tokens ''/spec/clusterNetwork'' = [''spec'', ''clusterNetwork'']"
  "tokens ''/spec/controlPlaneEndpoint/host'' = [''spec'', ''controlPlaneEndpoint'', ''host'']"
  "tokens ''/spec/controlPlaneEndpoint/port'' = [''spec'', ''controlPlaneEndpoint'', ''port'']"
  "tokens ''/spec/networkSpec/apiServerLB'' = [''spec'', ''networkSpec'', ''apiServerLB'']"
  "tokens ''/spec/location'' = [''spec'', ''location'']"
  "tokens ''/spec/osDisk/cachingType'' = [''spec'', ''osDisk'', ''cachingType'']"
  "tokens ''/spec/template/osDisk/managedDisk/storageAccountType'' =
     [''spec'', ''template'', ''osDisk'', ''managedDisk'', ''storageAccountType'']"
  "tokens ''/spec/template/dataDisks'' = [''spec'', ''template'', ''dataDisks'']"
  by (simp_all add: tokens_def)

lemma member_names [simp]:
  "\<not> index_like ''clusterNetwork''" "\<not> index_like ''host''" "\<not> index_like ''port''" "\<not> index_like ''apiServerLB''"
  "\<not> index_like ''location''" "\<not> index_like ''cachingType''" "\<not> index_like ''storageAccountType''"
  "\<not> index_like ''dataDisks''"
  by code_simp+

lemma version_label_names: "l \<in> version_labels \<Longrightarrow> \<not> index_like l"
proof -
  have "\<not> index_like label_ReleaseVersion" "\<not> index_like label_AzureOperatorVersion"
    "\<not> index_like label_ClusterOperatorVersion"
    by code_simp+
  then show "l \<in> version_labels \<Longrightarrow> \<not> index_like l" by (auto simp: version_labels_def)
qed

lemma apply_PatchAdd_at:
  assumes "apply_patch enc (PatchAdd path v) d = Some d'" and "tokens path = ts" and "member_path ts"
  shows "at ts (Some d') = Some (enc v)" and "apart ts us \<Longrightarrow> at us (Some d') = at us (Some d)"
  using apply_PatchAdd(2) [of path enc v d d'] apply_patch_frame(1) [of "PatchAdd path v" enc d d' us] assms
  by (simp_all add: PatchAdd_def)

text \<open>A member below \<^verbatim>\<open>spec\<close> does not concern the metadata; a label is one entry of them.\<close>

lemma spec_added:
  assumes "apply_patch enc (PatchAdd path v) d = Some d'" and "tokens path = ''spec'' # ts" and "member_path (''spec'' # ts)"
  shows "meta_document d m \<Longrightarrow> meta_document d' m"
    and "at (''spec'' # ts) (Some d') = Some (enc v)"
    and "apart ts us \<Longrightarrow> at (''spec'' # us) (Some d') = at (''spec'' # us) (Some d)"
  using apply_PatchAdd_at [OF assms] by (simp_all add: meta_document_def)

lemma label_added:
  assumes "l \<in> version_labels" and "apply_patch (encode K) (PatchAdd (label_path l) (PV_string v)) d = Some d'"
  shows "meta_document d m \<Longrightarrow> meta_document d' (m\<lparr>om_labels := (om_labels m)(l \<mapsto> v)\<rparr>)"
    and "at (''spec'' # us) (Some d') = at (''spec'' # us) (Some d)"
proof -
  have m: "member_path [''metadata'', ''labels'', l]" using version_label_names [OF assms(1)] by simp
  note at = apply_PatchAdd_at [OF assms(2) label_tokens m]
  show "meta_document d' (m\<lparr>om_labels := (om_labels m)(l \<mapsto> v)\<rparr>)" if "meta_document d m"
  proof -
    have "holds entry None (at [''metadata'', ''labels'', k] (Some d')) (((om_labels m)(l \<mapsto> v)) k)" for k
      using that at(1) at(2) [of "[''metadata'', ''labels'', k]"]
      by (cases "k = l") (simp_all add: meta_document_def entry_def)
    then show ?thesis using that by (simp add: meta_document_def at(2))
  qed
  show "at (''spec'' # us) (Some d') = at (''spec'' # us) (Some d)" by (simp add: at(2))
qed

lemma sets_version_label_addition: "sets_version_label p \<Longrightarrow> adds_member p"
  by (auto simp: sets_version_label_def label_tokens version_label_names)

lemmas document_defs = cluster_document_def azurecluster_document_def machine_document_def pool_document_def
  endpoint_document_def

lemma endpoint_port_written: "port_of (encode K (PV_int (uint ControlPlaneEndpointPort))) = Some ControlPlaneEndpointPort"
  using ParseInt_format_int [of 32 443] by (simp add: ControlPlaneEndpointPort_def)

lemma cluster_documents:
  assumes "reads_back K"
  shows "document_additions (encode K) (cluster_document K) apply_cluster_patch cluster_adds"
proof
  fix p assume p: "cluster_adds p"
  then show "adds_member p"
    by (auto simp: cluster_adds_def sets_version_label_addition)
  fix d c d' assume d: "cluster_document K d c" and d': "apply_patch (encode K) p d = Some d'"
  from p consider (label) l v where "l \<in> version_labels" "p = PatchAdd (label_path l) (PV_string v)"
    | (network) n where "p = PatchAdd ''/spec/clusterNetwork'' (PV_ClusterNetwork n)"
    | (host) s where "p = PatchAdd ''/spec/controlPlaneEndpoint/host'' (PV_string s)"
    | (port) "p = PatchAdd ''/spec/controlPlaneEndpoint/port'' (PV_int (uint ControlPlaneEndpointPort))"
    by (auto simp: cluster_adds_def sets_version_label_def)
  then show "cluster_document K d' (apply_cluster_patch c p)"
  proof cases
    case label
    with d label_added [OF label(1) d' [unfolded label(2)]] show ?thesis by (simp add: document_defs)
  next
    case network
    with d spec_added [OF d' [unfolded network] spec_tokens(1)] assms show ?thesis
      by (simp add: document_defs reads_back_def)
  next
    case host
    with d spec_added [OF d' [unfolded host] spec_tokens(2)] show ?thesis by (simp add: document_defs)
  next
    case port
    with d spec_added [OF d' [unfolded port] spec_tokens(3)] endpoint_port_written [of K] show ?thesis
      by (simp add: document_defs del: encode.simps)
  qed
qed

lemma azurecluster_documents:
  assumes "reads_back K"
  shows "document_additions (encode K) (azurecluster_document K) apply_azurecluster_patch azurecluster_adds"
proof
  fix p assume p: "azurecluster_adds p"
  then show "adds_member p"
    by (auto simp: azurecluster_adds_def sets_version_label_addition)
  fix d c d' assume d: "azurecluster_document K d c" and d': "apply_patch (encode K) p d = Some d'"
  from p consider (label) l v where "l \<in> version_labels" "p = PatchAdd (label_path l) (PV_string v)"
    | (balancer) b where "p = PatchAdd ''/spec/networkSpec/apiServerLB'' (PV_LoadBalancer b)"
    | (host) s where "p = PatchAdd ''/spec/controlPlaneEndpoint/host'' (PV_string s)"
    | (port) "p = PatchAdd ''/spec/controlPlaneEndpoint/port'' (PV_int (uint ControlPlaneEndpointPort))"
    | (location) s where "p = PatchAdd ''/spec/location'' (PV_string s)"
    by (auto simp: azurecluster_adds_def sets_version_label_def)
  then show "azurecluster_document K d' (apply_azurecluster_patch c p)"
  proof cases
    case label
    with d label_added [OF label(1) d' [unfolded label(2)]] show ?thesis by (simp add: document_defs)
  next
    case balancer
    with d spec_added [OF d' [unfolded balancer] spec_tokens(4)] assms show ?thesis
      by (simp add: document_defs reads_back_def)
  next
    case host
    with d spec_added [OF d' [unfolded host] spec_tokens(2)] show ?thesis by (simp add: document_defs)
  next
    case port
    with d spec_added [OF d' [unfolded port] spec_tokens(3)] endpoint_port_written [of K] show ?thesis
      by (simp add: document_defs del: encode.simps)
  next
    case location
    with d spec_added [OF d' [unfolded location] spec_tokens(5)] show ?thesis by (simp add: document_defs)
  qed
qed

interpretation machine_documents: document_additions "encode K" machine_document apply_machine_patch machine_adds for K
proof
  fix p assume p: "machine_adds p"
  then show "adds_member p"
    by (auto simp: machine_adds_def sets_version_label_addition)
  fix d c d' assume d: "machine_document d c" and d': "apply_patch (encode K) p d = Some d'"
  from p consider (label) l v where "l \<in> version_labels" "p = PatchAdd (label_path l) (PV_string v)"
    | (location) s where "p = PatchAdd ''/spec/location'' (PV_string s)"
    | (caching) s where "p = PatchAdd ''/spec/osDisk/cachingType'' (PV_string s)"
    by (auto simp: machine_adds_def sets_version_label_def)
  then show "machine_document d' (apply_machine_patch c p)"
  proof cases
    case label
    with d label_added [OF label(1) d' [unfolded label(2)]] show ?thesis by (simp add: document_defs)
  next
    case location
    with d spec_added [OF d' [unfolded location] spec_tokens(5)] show ?thesis by (simp add: document_defs)
  next
    case caching
    with d spec_added [OF d' [unfolded caching] spec_tokens(6)] show ?thesis by (simp add: document_defs)
  qed
qed

lemma pool_documents:
  assumes "reads_back K"
  shows "document_additions (encode K) (pool_document K) apply_pool_patch pool_adds"
proof
  fix p assume p: "pool_adds p"
  then show "adds_member p"
    by (auto simp: pool_adds_def sets_version_label_addition)
  fix d c d' assume d: "pool_document K d c" and d': "apply_patch (encode K) p d = Some d'"
  from p consider (label) l v where "l \<in> version_labels" "p = PatchAdd (label_path l) (PV_string v)"
    | (location) s where "p = PatchAdd ''/spec/location'' (PV_string s)"
    | (storage) s where "p = PatchAdd ''/spec/template/osDisk/managedDisk/storageAccountType'' (PV_string s)"
    | (disks) ds where "p = PatchAdd ''/spec/template/dataDisks'' (PV_DataDisks ds)"
    by (auto simp: pool_adds_def sets_version_label_def)
  then show "pool_document K d' (apply_pool_patch c p)"
  proof cases
    case label
    with d label_added [OF label(1) d' [unfolded label(2)]] show ?thesis by (simp add: document_defs)
  next
    case location
    with d spec_added [OF d' [unfolded location] spec_tokens(5)] show ?thesis by (simp add: document_defs)
  next
    case storage
    with d spec_added [OF d' [unfolded storage] spec_tokens(7)] show ?thesis by (simp add: document_defs)
  next
    case disks
    with d spec_added [OF d' [unfolded disks] spec_tokens(8)] assms show ?thesis
      by (simp add: document_defs reads_back_def)
  qed
qed

text \<open>The size annotations of a machine pool are added, or replaced where they are present.\<close>

definition mpool_document :: "json \<Rightarrow> machine_pool \<Rightarrow> bool" where
  "mpool_document d c \<longleftrightarrow> meta_document d (mp_meta c)"

definition mpool_owns :: "machine_pool \<Rightarrow> patch_operation \<Rightarrow> bool" where
  "mpool_owns c p \<longleftrightarrow> sets_version_label p \<or>
     (\<exists>a\<in>{annotation_NodePoolMinSize, annotation_NodePoolMaxSize}. \<exists>v. p = PatchAdd (annotation_path a) (PV_string v) \<or>
        p = PatchReplace (annotation_path a) (PV_string v) \<and> om_annotations (mp_meta c) a \<noteq> None)"

lemma size_annotation_names:
  "\<not> index_like annotation_NodePoolMinSize" "\<not> index_like annotation_NodePoolMaxSize"
  by code_simp+

lemma replace_as_add:
  assumes "member_path ts" and "at ts slot \<noteq> None"
  shows "edit_slot ts (ReplaceValue v) slot = edit_slot ts (AddValue v) slot"
  using assms
proof (induction ts "ReplaceValue v" slot rule: edit_slot.induct)
  case (2 k ks m)
  then show ?case by (cases ks) auto
next
  case (3 k ks xs)
  then show ?case by (cases ks) (auto split: option.splits simp del: edit_array.simps)
qed auto

lemma annotation_added:
  assumes "p = PatchAdd (annotation_path a) (PV_string v) \<or>
      p = PatchReplace (annotation_path a) (PV_string v) \<and> om_annotations m a \<noteq> None"
    and "\<not> index_like a" and "meta_document d m"
  shows "apply_patch (encode K) p d = apply_patch (encode K) (PatchAdd (annotation_path a) (PV_string v)) d"
    and "apply_patch (encode K) p d = Some d' \<Longrightarrow>
      meta_document d' (m\<lparr>om_annotations := (om_annotations m)(a \<mapsto> v)\<rparr>)"
proof -
  let ?q = "PatchAdd (annotation_path a) (PV_string v)"
  have mp: "member_path [''metadata'', ''annotations'', a]" using assms(2) by simp
  have "at [''metadata'', ''annotations'', a] (Some d) \<noteq> None" if "om_annotations m a \<noteq> None"
  proof
    assume "at [''metadata'', ''annotations'', a] (Some d) = None"
    moreover have "holds entry None (at [''metadata'', ''annotations'', a] (Some d)) (om_annotations m a)"
      using assms(3) by (simp add: meta_document_def)
    ultimately show False using that by (simp add: holds_def)
  qed
  then show eq: "apply_patch (encode K) p d = apply_patch (encode K) ?q d"
    using assms(1) replace_as_add [OF mp, of "Some d"]
    by (auto simp: apply_patch_def edit_of_def PatchReplace_def PatchAdd_def annotation_tokens)
  show "meta_document d' (m\<lparr>om_annotations := (om_annotations m)(a \<mapsto> v)\<rparr>)" if "apply_patch (encode K) p d = Some d'"
  proof -
    note at = apply_PatchAdd_at [OF that [unfolded eq] annotation_tokens mp]
    have "holds entry None (at [''metadata'', ''annotations'', k] (Some d')) (((om_annotations m)(a \<mapsto> v)) k)" for k
      using assms(3) at(1) at(2) [of "[''metadata'', ''annotations'', k]"]
      by (cases "k = a") (simp_all add: meta_document_def entry_def)
    then show ?thesis using assms(3) by (simp add: meta_document_def at(2))
  qed
qed

lemma apply_mpool_annotation:
  assumes "p = PatchAdd (annotation_path a) (PV_string v) \<or> p = PatchReplace (annotation_path a) (PV_string v)"
  shows "apply_mpool_patch c p = c\<lparr>mp_meta := (mp_meta c)\<lparr>om_annotations := (om_annotations (mp_meta c))(a \<mapsto> v)\<rparr>\<rparr>"
  using patch_meta_annotation [OF assms, of "mp_meta c"] assms
    apply_map_patch_add [of annotations_prefix _ a v] apply_map_patch_replace [of annotations_prefix _ a v]
  by (auto simp: apply_mpool_patch_def annotation_path_def annotations_prefix_def simp del: apply_map_patch.simps)

interpretation mpool_documents: document_patches "encode K" mpool_document apply_mpool_patch mpool_owns for K
proof
  fix c :: machine_pool and p d d' assume p: "mpool_owns c p"
  consider (label) l v where "l \<in> version_labels" "p = PatchAdd (label_path l) (PV_string v)"
    | (size) a v where "\<not> index_like a" "p = PatchAdd (annotation_path a) (PV_string v) \<or>
        p = PatchReplace (annotation_path a) (PV_string v) \<and> om_annotations (mp_meta c) a \<noteq> None"
    using p size_annotation_names unfolding mpool_owns_def sets_version_label_def by blast
  note kinds = this
  then show place: "member_path (tokens (po_Path p))"
  proof cases
    case label
    then show ?thesis by (simp add: PatchAdd_def label_tokens version_label_names)
  next
    case size
    then show ?thesis by (auto simp: PatchAdd_def PatchReplace_def annotation_tokens)
  qed
  assume d: "mpool_document d c"
  from kinds show "apply_patch (encode K) p d = None \<longleftrightarrow> \<not> holder d p"
  proof cases
    case label
    then show ?thesis using apply_PatchAdd(1) by (metis label_tokens member_path_Cons version_label_names)
  next
    case size
    have "member_path (tokens (annotation_path a))" using size(1) by (simp add: annotation_tokens)
    moreover have "holder d p = holder d (PatchAdd (annotation_path a) (PV_string v))"
      using size(2) by (auto simp: holder_def PatchAdd_def PatchReplace_def)
    ultimately show ?thesis
      using annotation_added(1) [OF size(2,1), of d] d apply_PatchAdd(1) by (simp add: mpool_document_def)
  qed
  show "mpool_document d' (apply_mpool_patch c p)" if "apply_patch (encode K) p d = Some d'"
    using kinds
  proof cases
    case label
    with d label_added(1) [OF label(1) that [unfolded label(2)]] show ?thesis by (simp add: mpool_document_def)
  next
    case size
    then have "apply_mpool_patch c p = c\<lparr>mp_meta := (mp_meta c)\<lparr>om_annotations := (om_annotations (mp_meta c))(a \<mapsto> v)\<rparr>\<rparr>"
      by (intro apply_mpool_annotation) blast
    with annotation_added(2) [OF size(2,1), of d K d'] d that show ?thesis by (simp add: mpool_document_def)
  qed
next
  fix c p q assume p: "mpool_owns c p" and q: "mpool_owns c q"
  have "om_annotations (mp_meta (apply_mpool_patch c q)) a \<noteq> None" if "om_annotations (mp_meta c) a \<noteq> None" for a
    using that by (simp add: apply_mpool_patch_def patch_meta_def split: patch_value.split)
  with p show "mpool_owns (apply_mpool_patch c q) p" unfolding mpool_owns_def by blast
qed

definition spark_document :: "json \<Rightarrow> spark \<Rightarrow> bool" where
  "spark_document d c \<longleftrightarrow> meta_document d (sp_meta c)"

interpretation spark_documents: document_additions "encode K" spark_document apply_spark_patch sets_version_label for K
proof
  fix p assume p: "sets_version_label p"
  then show "adds_member p" by (rule sets_version_label_addition)
  fix d c d' assume d: "spark_document d c" and d': "apply_patch (encode K) p d = Some d'"
  from p obtain l v where l: "l \<in> version_labels" "p = PatchAdd (label_path l) (PV_string v)"
    by (auto simp: sets_version_label_def)
  with d label_added [OF l(1) d' [unfolded l(2)]] show "spark_document d' (apply_spark_patch c p)"
    by (simp add: spark_document_def)
qed

section \<open>The patches a handler makes itself\<close>

text \<open>Repairs that write to fixed places, no two of which lie in one another.\<close>

definition writes_at :: "(patch_operation \<Rightarrow> bool) \<Rightarrow> 'a repair \<Rightarrow> string \<Rightarrow> bool" where
  "writes_at adds f q \<longleftrightarrow> (\<forall>c p. f c = Ok (Some p) \<longrightarrow> adds p \<and> po_Path p = q)"

abbreviation separate :: "string list \<Rightarrow> bool" where
  "separate qs \<equiv> sorted_wrt (\<lambda>q q'. apart (tokens q) (tokens q')) qs"

lemma repairs_write:
  assumes "list_all2 (writes_at adds) fs qs" and "collect_patches (map (\<lambda>f. f c) fs) = Ok ps"
  shows "\<forall>p\<in>set ps. adds p" and "set (map po_Path ps) \<subseteq> set qs" and "separate qs \<Longrightarrow> separate (map po_Path ps)"
proof -
  have "(\<forall>p\<in>set ps. adds p) \<and> set (map po_Path ps) \<subseteq> set qs \<and> (separate qs \<longrightarrow> separate (map po_Path ps))"
    using assms
  proof (induction fs qs arbitrary: ps rule: list_all2_induct)
    case (Cons f fs q qs)
    then obtain r rs where r: "f c = Ok r" "ps = opt_patch r @ rs" and rs: "collect_patches (map (\<lambda>f. f c) fs) = Ok rs"
      by (auto simp: bind_res_Ok_iff)
    from Cons.IH [OF rs] r Cons.hyps(1) show ?case by (cases r) (auto simp: writes_at_def)
  qed simp
  then show "\<forall>p\<in>set ps. adds p" and "set (map po_Path ps) \<subseteq> set qs" and "separate qs \<Longrightarrow> separate (map po_Path ps)"
    by blast+
qed

context document_additions begin

lemma repaired_document:
  assumes "list_all2 (writes_at adds) fs qs" and "separate qs" and "collect_patches (map (\<lambda>f. f c) fs) = Ok ps"
    and "document d c"
  shows "if \<forall>p\<in>set ps. holder d p then \<exists>d'. apply_patches enc ps d = Some d' \<and> document d' (foldl app c ps)
    else apply_patches enc ps d = None"
  using repairs_write(1,3) [OF assms(1,3)] assms(2,4) by (intro patched_document) (simp_all add: sorted_wrt_map)

end

lemma sets_version_label_PatchAdd [simp]:
  "l \<in> version_labels \<Longrightarrow> sets_version_label (PatchAdd (label_path l) (PV_string v))"
  by (auto simp: sets_version_label_def)

lemma version_labels_in [simp]:
  "label_ReleaseVersion \<in> version_labels" "label_AzureOperatorVersion \<in> version_labels"
  "label_ClusterOperatorVersion \<in> version_labels"
  by (simp_all add: version_labels_def)

lemmas added_labels = release_label.added operator_label.added azure_operator_component.added
  cluster_operator_component.added

lemma po_Path_PatchAdd [simp]: "po_Path (PatchAdd q v) = q" "po_Path (PatchReplace q v) = q"
  by (simp_all add: PatchAdd_def PatchReplace_def)

lemma label_path_tokens [simp]: "tokens (label_path l) = [''metadata'', ''labels'', l]"
  by (rule label_tokens)

lemmas separate_simps = operator_labels_differ operator_labels_differ [symmetric]

definition Cluster_places :: "string list" where
  "Cluster_places = [''/spec/clusterNetwork'', ''/spec/controlPlaneEndpoint/host'',
     ''/spec/controlPlaneEndpoint/port'', label_path label_AzureOperatorVersion]"

definition AzureCluster_places :: "string list" where
  "AzureCluster_places = [''/spec/controlPlaneEndpoint/host'', ''/spec/controlPlaneEndpoint/port'', ''/spec/location'',
     ''/spec/networkSpec/apiServerLB'', label_path label_AzureOperatorVersion]"

definition AzureMachine_places :: "string list" where
  "AzureMachine_places = [''/spec/location'', ''/spec/osDisk/cachingType'', label_path label_AzureOperatorVersion]"

definition AzureMachinePool_places :: "string list" where
  "AzureMachinePool_places = [''/spec/location'', ''/spec/template/osDisk/managedDisk/storageAccountType'',
     ''/spec/template/dataDisks'', label_path label_ReleaseVersion, label_path label_AzureOperatorVersion]"

lemma places_separate:
  "separate Cluster_places" "separate AzureCluster_places" "separate AzureMachine_places"
  "separate AzureMachinePool_places"
  "separate [label_path label_AzureOperatorVersion, label_path label_ClusterOperatorVersion]"
  "separate [''/spec/networkSpec/apiServerLB'', label_path label_AzureOperatorVersion, label_path label_ClusterOperatorVersion]"
  "separate [label_path label_ReleaseVersion, label_path label_AzureOperatorVersion]"
  by (simp_all add: Cluster_places_def AzureCluster_places_def AzureMachine_places_def AzureMachinePool_places_def
      separate_simps)

lemma repairs_write_at:
  "list_all2 (writes_at cluster_adds) (Cluster_repairs h) Cluster_places"
  "list_all2 (writes_at azurecluster_adds) (AzureCluster_repairs ha) AzureCluster_places"
  "list_all2 (writes_at machine_adds) (AzureMachine_repairs hm) AzureMachine_places"
  "list_all2 (writes_at sets_version_label) (MachinePool_repairs hq)
     [label_path label_ReleaseVersion, label_path label_AzureOperatorVersion]"
  "list_all2 (writes_at sets_version_label) (Spark_repairs hs) [label_path label_ReleaseVersion]"
  by (auto simp: writes_at_def patch_if_def split: if_splits dest!: added_labels
      simp: Cluster_repairs_def Cluster_places_def cluster_adds_def Cluster_ensureClusterNetwork_def
        Cluster_ensureControlPlaneEndpointHost_def Cluster_ensureControlPlaneEndpointPort_def
      simp: AzureCluster_repairs_def AzureCluster_places_def azurecluster_adds_def AzureCluster_ensureLocation_def
        AzureCluster_ensureControlPlaneEndpointHost_def AzureCluster_ensureControlPlaneEndpointPort_def
        ensureAPIServerLB_def Let_def
      simp: AzureMachine_repairs_def AzureMachine_places_def machine_adds_def AzureMachine_ensureLocation_def
        AzureMachine_ensureOSDiskCachingType_def MachinePool_repairs_def Spark_repairs_def)

lemma update_repairs_write_at:
  "list_all2 (writes_at cluster_adds) (Cluster_update_repairs h)
     [label_path label_AzureOperatorVersion, label_path label_ClusterOperatorVersion]"
  "list_all2 (writes_at azurecluster_adds) (AzureCluster_update_repairs ha)
     [''/spec/networkSpec/apiServerLB'', label_path label_AzureOperatorVersion, label_path label_ClusterOperatorVersion]"
  "list_all2 (writes_at machine_adds) AzureMachine_update_repairs [''/spec/osDisk/cachingType'']"
  by (auto simp: writes_at_def patch_if_def split: if_splits dest!: added_labels
      simp: Cluster_update_repairs_def cluster_adds_def AzureCluster_update_repairs_def azurecluster_adds_def
        ensureAPIServerLB_def Let_def AzureMachine_update_repairs_def machine_adds_def
        AzureMachine_ensureOSDiskCachingType_def)

lemma pool_repairs_write_at:
  "list_all2 (writes_at pool_adds) (AzureMachinePool_repairs h s) AzureMachinePool_places"
proof -
  have "writes_at pool_adds (\<lambda>c. fst (AzureMachinePool_ensureStorageAccountType h c s))
      ''/spec/template/osDisk/managedDisk/storageAccountType''"
    unfolding writes_at_def pool_adds_def
    by (metis (no_types, lifting) ensureStorageAccountType_cases option.distinct(1) option.inject po_Path_PatchAdd(1)
        prod.collapse)
  then show ?thesis
    by (auto simp: AzureMachinePool_repairs_def AzureMachinePool_places_def writes_at_def pool_adds_def
        AzureMachinePool_ensureLocation_def AzureMachinePool_ensureDataDisks_def split: if_splits dest!: added_labels)
qed

section \<open>Every handler\<close>

definition object_document :: "codec \<Rightarrow> json \<Rightarrow> object \<Rightarrow> bool" where
  "object_document K d ob \<longleftrightarrow> (case ob of
       ObjCluster c \<Rightarrow> cluster_document K d c
     | ObjAzureCluster c \<Rightarrow> azurecluster_document K d c
     | ObjAzureMachine c \<Rightarrow> machine_document d c
     | ObjAzureMachinePool c \<Rightarrow> pool_document K d c
     | ObjMachinePool c \<Rightarrow> mpool_document d c
     | ObjSpark c \<Rightarrow> spark_document d c
     | _ \<Rightarrow> True)"

text \<open>A mutation whose own patches do to the document what they do to the object.\<close>

definition mutates_documents :: "lib \<Rightarrow> codec \<Rightarrow> (object \<Rightarrow> (patch_operation list) vm_prog) \<Rightarrow> object \<Rightarrow> bool" where
  "mutates_documents L K mutate ob \<longleftrightarrow> (\<forall>s ps s' d. mutate ob s = (Ok ps, s') \<longrightarrow> object_document K d ob \<longrightarrow>
     (\<exists>own capi. ps = own @ capi \<and> default_patches L ob = Ok capi \<and>
       (if \<forall>p\<in>set own. holder d p
        then \<exists>d'. apply_patches (encode K) own d = Some d' \<and> object_document K d' (apply_object_patches ob own)
        else apply_patches (encode K) own d = None)))"

lemma mutates_documentsI:
  assumes "document_additions (encode K) doc app adds" and "list_all2 (writes_at adds) fs qs" and "separate qs"
    and mut: "mutate (mk c) = lift_st (bind_res (collect_patches (map (\<lambda>f. f c) fs)) (with_defaults L api c sk))"
    and app: "\<And>ps. apply_object_patches (mk c) ps = mk (foldl app c ps)"
    and def: "default_patches L (mk c) = with_defaults L api c sk []"
    and doc: "\<And>d c. object_document K d (mk c) \<longleftrightarrow> doc d c"
  shows "mutates_documents L K mutate (mk c)"
  unfolding mutates_documents_def
proof (intro allI impI)
  fix s ps s' d assume "mutate (mk c) s = (Ok ps, s')" and d: "object_document K d (mk c)"
  then obtain own where own: "collect_patches (map (\<lambda>f. f c) fs) = Ok own" and w: "with_defaults L api c sk own = Ok ps"
    by (auto simp: mut lift_st_def bind_res_Ok_iff)
  from with_defaults_split [OF w] obtain capi where c: "ps = own @ capi" "with_defaults L api c sk [] = Ok capi" by blast
  have "if \<forall>p\<in>set own. holder d p
      then \<exists>d'. apply_patches (encode K) own d = Some d' \<and> doc d' (foldl app c own)
      else apply_patches (encode K) own d = None"
    using document_additions.repaired_document [OF assms(1-3) own] d by (simp add: doc)
  then show "\<exists>own capi. ps = own @ capi \<and> default_patches L (mk c) = Ok capi \<and>
      (if \<forall>p\<in>set own. holder d p
       then \<exists>d'. apply_patches (encode K) own d = Some d' \<and> object_document K d' (apply_object_patches (mk c) own)
       else apply_patches (encode K) own d = None)"
    by (intro exI [of _ own] exI [of _ capi]) (simp add: c def app doc)
qed

lemma creations_document:
  "reads_back K \<Longrightarrow> mutates_documents L K (\<lambda>ob. lift_st (Cluster_OnCreateMutate L h ob)) (ObjCluster c)"
  "reads_back K \<Longrightarrow> mutates_documents L K (\<lambda>ob. lift_st (AzureCluster_OnCreateMutate L ha ob)) (ObjAzureCluster a)"
  "mutates_documents L K (\<lambda>ob. lift_st (AzureMachine_OnCreateMutate L hm ob)) (ObjAzureMachine m)"
proof -
  show "mutates_documents L K (\<lambda>ob. lift_st (Cluster_OnCreateMutate L h ob)) (ObjCluster c)" if "reads_back K"
    by (rule mutates_documentsI [OF cluster_documents [OF that] repairs_write_at(1) places_separate(1)])
      (simp_all add: mutation_of_repairs apply_object_patches_def default_patches_def object_document_def)
  show "mutates_documents L K (\<lambda>ob. lift_st (AzureCluster_OnCreateMutate L ha ob)) (ObjAzureCluster a)" if "reads_back K"
    by (rule mutates_documentsI [OF azurecluster_documents [OF that] repairs_write_at(2) places_separate(2)])
      (simp_all add: mutation_of_repairs apply_object_patches_def default_patches_def object_document_def)
  show "mutates_documents L K (\<lambda>ob. lift_st (AzureMachine_OnCreateMutate L hm ob)) (ObjAzureMachine m)"
    by (rule mutates_documentsI [OF machine_documents.document_additions_axioms repairs_write_at(3) places_separate(3)])
      (simp_all add: mutation_of_repairs apply_object_patches_def default_patches_def object_document_def)
qed

lemma updates_document:
  "reads_back K \<Longrightarrow> mutates_documents L K (\<lambda>ob. lift_st (Cluster_OnUpdateMutate L h old ob)) (ObjCluster c)"
  "reads_back K \<Longrightarrow> mutates_documents L K (\<lambda>ob. lift_st (AzureCluster_OnUpdateMutate L ha old ob)) (ObjAzureCluster a)"
  "mutates_documents L K (\<lambda>ob. lift_st (AzureMachine_OnUpdateMutate L hm old ob)) (ObjAzureMachine m)"
  "reads_back K \<Longrightarrow> mutates_documents L K (\<lambda>ob. lift_st (AzureMachinePool_OnUpdateMutate L old ob)) (ObjAzureMachinePool p)"
proof -
  show "mutates_documents L K (\<lambda>ob. lift_st (Cluster_OnUpdateMutate L h old ob)) (ObjCluster c)" if "reads_back K"
    by (rule mutates_documentsI [OF cluster_documents [OF that] update_repairs_write_at(1) places_separate(5)])
      (simp_all add: update_mutation_of_repairs apply_object_patches_def default_patches_def object_document_def)
  show "mutates_documents L K (\<lambda>ob. lift_st (AzureCluster_OnUpdateMutate L ha old ob)) (ObjAzureCluster a)" if "reads_back K"
    by (rule mutates_documentsI [OF azurecluster_documents [OF that] update_repairs_write_at(2) places_separate(6)])
      (simp_all add: update_mutation_of_repairs apply_object_patches_def default_patches_def object_document_def)
  show "mutates_documents L K (\<lambda>ob. lift_st (AzureMachine_OnUpdateMutate L hm old ob)) (ObjAzureMachine m)"
    by (rule mutates_documentsI [OF machine_documents.document_additions_axioms update_repairs_write_at(3)])
      (simp_all add: update_mutation_of_repairs apply_object_patches_def default_patches_def object_document_def)
  show "mutates_documents L K (\<lambda>ob. lift_st (AzureMachinePool_OnUpdateMutate L old ob)) (ObjAzureMachinePool p)" if "reads_back K"
    by (rule mutates_documentsI [OF pool_documents [OF that], of "[]" "[]"])
      (simp_all add: update_mutation_of_repairs apply_object_patches_def default_patches_def object_document_def)
qed

lemma pool_creation_document:
  assumes "reads_back K"
  shows "mutates_documents L K (AzureMachinePool_OnCreateMutate L h) (ObjAzureMachinePool c)"
  unfolding mutates_documents_def
proof (intro allI impI)
  fix s ps s' d assume m: "AzureMachinePool_OnCreateMutate L h (ObjAzureMachinePool c) s = (Ok ps, s')"
    and d: "object_document K d (ObjAzureMachinePool c)"
  from m obtain own where own: "collect_patches (map (\<lambda>f. f c) (AzureMachinePool_repairs h s)) = Ok own"
    and w: "with_defaults L (lib_AzureMachinePool L) c [''/spec/template/sshPublicKey''] own = Ok ps"
    by (auto simp: AzureMachinePool_OnCreateMutate_def AzureMachinePool_repairs_def outcome_simps)
  from with_defaults_split [OF w] obtain capi where c: "ps = own @ capi"
    "with_defaults L (lib_AzureMachinePool L) c [''/spec/template/sshPublicKey''] [] = Ok capi" by blast
  note document_additions.repaired_document [OF pool_documents [OF assms] pool_repairs_write_at places_separate(4) own, of d]
  then show "\<exists>own capi. ps = own @ capi \<and> default_patches L (ObjAzureMachinePool c) = Ok capi \<and>
      (if \<forall>p\<in>set own. holder d p
       then \<exists>d'. apply_patches (encode K) own d = Some d' \<and>
         object_document K d' (apply_object_patches (ObjAzureMachinePool c) own)
       else apply_patches (encode K) own d = None)"
    using d by (intro exI [of _ own] exI [of _ capi]) (simp add: c default_patches_def object_document_def apply_object_patches_def)
qed

lemma size_patch_places:
  assumes "autoscaling_min w (mget m annotation_NodePoolMinSize) = (w', ps)"
    and "qs = autoscaling_max w' (mget m annotation_NodePoolMaxSize)"
  shows "map po_Path ps \<in> {[], [annotation_path annotation_NodePoolMinSize]}"
    and "map po_Path qs \<in> {[], [annotation_path annotation_NodePoolMaxSize]}"
    and "\<forall>p\<in>set (ps @ qs). \<exists>a\<in>{annotation_NodePoolMinSize, annotation_NodePoolMaxSize}. \<exists>v.
      p = PatchAdd (annotation_path a) (PV_string v) \<or>
      p = PatchReplace (annotation_path a) (PV_string v) \<and> m a \<noteq> None"
  using assms
  by (auto simp: autoscaling_min_def autoscaling_max_def annotation_value_def mget_def split: if_splits option.splits)

lemma size_patches_own:
  shows "\<forall>p\<in>set (ensureAutoscalingAnnotations c). mpool_owns c p"
    and "separate (map po_Path (ensureAutoscalingAnnotations c))"
    and "set (map po_Path (ensureAutoscalingAnnotations c)) \<subseteq>
      {annotation_path annotation_NodePoolMinSize, annotation_path annotation_NodePoolMaxSize}"
proof -
  define m where "m = om_annotations (mp_meta c)"
  define w where "w = (case mp_Replicas c of None \<Rightarrow> word_of_int defaultReplicas | Some r \<Rightarrow> r)"
  obtain w' ps where ps: "autoscaling_min w (mget m annotation_NodePoolMinSize) = (w', ps)" by fastforce
  define qs where "qs = autoscaling_max w' (mget m annotation_NodePoolMaxSize)"
  have e: "ensureAutoscalingAnnotations c = ps @ qs"
    by (simp add: ensureAutoscalingAnnotations_def Let_def ps qs_def flip: w_def m_def)
  note places = size_patch_places [OF ps qs_def]
  show "\<forall>p\<in>set (ensureAutoscalingAnnotations c). mpool_owns c p"
    using places(3) unfolding e mpool_owns_def m_def by blast
  show "separate (map po_Path (ensureAutoscalingAnnotations c))"
    using places(1,2) size_annotations_differ by (auto simp: e annotation_tokens)
  show "set (map po_Path (ensureAutoscalingAnnotations c)) \<subseteq>
      {annotation_path annotation_NodePoolMinSize, annotation_path annotation_NodePoolMaxSize}"
    using places(1,2) by (auto simp: e)
qed

lemma mpool_mutation_documents:
  assumes "list_all2 (writes_at sets_version_label) fs qs" and "separate qs"
    and "set qs \<subseteq> {label_path label_ReleaseVersion, label_path label_AzureOperatorVersion}"
    and mut: "mutate (ObjMachinePool c) = lift_st (bind_res (collect_patches (map (\<lambda>f. f c) fs))
      (\<lambda>result. with_defaults L (lib_MachinePool L) c [] (result @ ensureAutoscalingAnnotations c)))"
  shows "mutates_documents L K mutate (ObjMachinePool c)"
  unfolding mutates_documents_def
proof (intro allI impI)
  fix s ps s' d assume "mutate (ObjMachinePool c) s = (Ok ps, s')" and d: "object_document K d (ObjMachinePool c)"
  then obtain ls where ls: "collect_patches (map (\<lambda>f. f c) fs) = Ok ls"
    and w: "with_defaults L (lib_MachinePool L) c [] (ls @ ensureAutoscalingAnnotations c) = Ok ps"
    by (auto simp: mut lift_st_def bind_res_Ok_iff)
  let ?own = "ls @ ensureAutoscalingAnnotations c"
  from with_defaults_split [OF w] obtain capi where c: "ps = ?own @ capi"
    "with_defaults L (lib_MachinePool L) c [] [] = Ok capi" by blast
  note ls' = repairs_write [OF assms(1) ls]
  have "mpool_owns c p" if "sets_version_label p" for p using that by (simp add: mpool_owns_def)
  then have "\<forall>p\<in>set ?own. mpool_owns c p" using ls'(1) size_patches_own(1) [of c] unfolding set_append by blast
  moreover have "apart (tokens q) (tokens q')" if "q \<in> set (map po_Path ls)"
    "q' \<in> set (map po_Path (ensureAutoscalingAnnotations c))" for q q'
  proof -
    have "q \<in> {label_path label_ReleaseVersion, label_path label_AzureOperatorVersion}"
      using that(1) ls'(2) assms(3) by blast
    moreover have "q' \<in> {annotation_path annotation_NodePoolMinSize, annotation_path annotation_NodePoolMaxSize}"
      using that(2) size_patches_own(3) [of c] by blast
    ultimately show ?thesis by (auto simp: annotation_tokens)
  qed
  then have "separate (map po_Path ?own)"
    using ls'(3) [OF assms(2)] size_patches_own(2) [of c] by (auto simp: sorted_wrt_append)
  then have "sorted_wrt (\<lambda>p q. apart (tokens (po_Path p)) (tokens (po_Path q))) ?own"
    by (simp add: sorted_wrt_map del: map_append)
  moreover have "mpool_document d c" using d by (simp add: object_document_def)
  ultimately have "if \<forall>p\<in>set ?own. holder d p
      then \<exists>d'. apply_patches (encode K) ?own d = Some d' \<and> mpool_document d' (foldl apply_mpool_patch c ?own)
      else apply_patches (encode K) ?own d = None"
    by (rule mpool_documents.patched_document)
  then show "\<exists>own capi. ps = own @ capi \<and> default_patches L (ObjMachinePool c) = Ok capi \<and>
      (if \<forall>p\<in>set own. holder d p
       then \<exists>d'. apply_patches (encode K) own d = Some d' \<and>
         object_document K d' (apply_object_patches (ObjMachinePool c) own)
       else apply_patches (encode K) own d = None)"
    using c by (intro exI [of _ ?own] exI [of _ capi])
      (simp add: default_patches_def object_document_def apply_object_patches_def del: foldl_append set_append)
qed

lemma machinepool_documents:
  "mutates_documents L K (\<lambda>ob. lift_st (MachinePool_OnCreateMutate L hq ob)) (ObjMachinePool q)"
  "mutates_documents L K (\<lambda>ob. lift_st (MachinePool_OnUpdateMutate L old ob)) (ObjMachinePool q)"
proof -
  show "mutates_documents L K (\<lambda>ob. lift_st (MachinePool_OnCreateMutate L hq ob)) (ObjMachinePool q)"
    by (rule mpool_mutation_documents [OF repairs_write_at(4) places_separate(7)]) (simp_all add: mutation_of_repairs)
  show "mutates_documents L K (\<lambda>ob. lift_st (MachinePool_OnUpdateMutate L old ob)) (ObjMachinePool q)"
    by (rule mpool_mutation_documents [of "[]" "[]"]) (simp_all add: update_mutation_of_repairs)
qed

lemma spark_creation_document:
  "mutates_documents L K (\<lambda>ob. lift_st (Spark_OnCreateMutate hs ob)) (ObjSpark k)"
  unfolding mutates_documents_def
proof (intro allI impI)
  fix s ps s' d assume "lift_st (Spark_OnCreateMutate hs (ObjSpark k)) s = (Ok ps, s')" and "object_document K d (ObjSpark k)"
  then show "\<exists>own capi. ps = own @ capi \<and> default_patches L (ObjSpark k) = Ok capi \<and>
      (if \<forall>p\<in>set own. holder d p
       then \<exists>d'. apply_patches (encode K) own d = Some d' \<and> object_document K d' (apply_object_patches (ObjSpark k) own)
       else apply_patches (encode K) own d = None)"
    using spark_documents.repaired_document [OF repairs_write_at(5), of k hs ps d K]
    by (intro exI [of _ ps] exI [of _ "[]"])
      (simp add: lift_st_def mutation_of_repairs default_patches_def object_document_def apply_object_patches_def)
qed

lemma handlers_mutate_documents:
  assumes "reads_back K"
    and "getAllHandlers L now U cfg logger client reader vmcaps = Ok handlers" and "h \<in> set handlers"
    and "wh_OnCreateMutate h = Some mutate \<or> (\<exists>m old. wh_OnUpdateMutate h = Some m \<and> mutate = m old)"
    and "wh_Decode h raw = Ok ob"
  shows "mutates_documents L K mutate ob"
proof -
  from assms(2) obtain c r v where hs: "handlers = all_webhooks L now U cfg c r v" by (auto simp: outcome_simps)
  from assms(1,3-5) show ?thesis
    unfolding hs all_webhooks_def Let_def
    by (auto simp: webhook_defs intro!: creations_document updates_document pool_creation_document machinepool_documents
        spark_creation_document dest!: cluster_decoder.typed azurecluster_decoder.typed azuremachine_decoder.typed
        azuremachinepool_decoder.typed machinepool_decoder.typed spark_decoder.typed)
qed

text \<open>C7. What the patches of a mutation do to the submitted document, for every handler and for created and
  updated objects: the answer is the handler's own patches followed by those with the defaults; the own patches
  can be applied exactly when each place they write to lies in an object of the document (so that a document
  without the member "labels" or "controlPlaneEndpoint" cannot be repaired), and the patched document is one
  of the patched object.\<close>

theorem mutations_refined_by_documents:
  assumes "reads_back K"
    and "getAllHandlers L now U cfg logger client reader vmcaps = Ok handlers" and "h \<in> set handlers"
    and "wh_OnCreateMutate h = Some mutate \<or> (\<exists>m old. wh_OnUpdateMutate h = Some m \<and> mutate = m old)"
    and "wh_Decode h raw = Ok ob" and "object_document K d ob"
    and "mutate ob s = (Ok ps, s')"
  shows "\<exists>own capi. ps = own @ capi \<and> default_patches L ob = Ok capi \<and>
     (if \<forall>p\<in>set own. holder d p
      then \<exists>d'. apply_patches (encode K) own d = Some d' \<and> object_document K d' (apply_object_patches ob own)
      else apply_patches (encode K) own d = None)"
  using handlers_mutate_documents [OF assms(1-5)] assms(6,7) unfolding mutates_documents_def by blast

section \<open>A document for the witnesses\<close>

text \<open>The new Cluster as it is submitted, with or without a member for its endpoint.\<close>

definition demo_cluster_json :: "json option \<Rightarrow> json" where
  "demo_cluster_json ep = JObj
     [''metadata'' \<mapsto> JObj [''name'' \<mapsto> JStr ''c'', ''namespace'' \<mapsto> JStr ''org'',
        ''labels'' \<mapsto> JObj [label_Organization \<mapsto> JStr ''acme'', label_Cluster \<mapsto> JStr ''c'']],
      ''spec'' \<mapsto> JObj (Map.empty(''controlPlaneEndpoint'' := ep))]"

lemma demo_cluster_document:
  assumes "ep = None \<or> ep = Some (JObj Map.empty)"
  shows "cluster_document K (demo_cluster_json ep) demo_new_cluster"
  using assms
  by (auto simp: cluster_document_def meta_document_def endpoint_document_def demo_cluster_json_def demo_new_cluster_def
      demo_meta_def holds_def entry_def split: option.split)

lemma demo_host_patch:
  assumes "Cluster_OnCreateMutate demo_lib demo_new_handler (ObjCluster demo_new_cluster) = Ok ps"
  shows "\<exists>s. PatchAdd ''/spec/controlPlaneEndpoint/host'' (PV_string s) \<in> set ps"
  using assms
  by (auto simp: Cluster_OnCreateMutate_def Cluster_ensureControlPlaneEndpointHost_def demo_new_cluster_def patch_if_def
      outcome_simps Cons_eq_map_conv)

theorem mutations_refined_by_documents_witness:
  "\<exists>ps. Cluster_OnCreateMutate demo_lib demo_new_handler (ObjCluster demo_new_cluster) = Ok ps \<and>
     apply_patches (encode demo_codec) ps (demo_cluster_json None) = None"
proof -
  let ?d = "demo_cluster_json None"
  obtain ps where ps: "Cluster_OnCreateMutate demo_lib demo_new_handler (ObjCluster demo_new_cluster) = Ok ps"
    by (rule demo_app_mutation)
  have d: "object_document demo_codec ?d (ObjCluster demo_new_cluster)"
    by (simp add: object_document_def demo_cluster_document)
  have "default_patches demo_lib (ObjCluster demo_new_cluster) = Ok []"
    by (simp add: default_patches_def with_defaults_def GenerateFromObjectDiff_def sort_patches_def)
  with mutations_refined_by_documents [OF demo_codec_reads_back demo_app_handlers demo_app_cluster_webhook(1)
      disjI1 [OF demo_app_cluster_webhook(2)] demo_app_cluster_webhook(3) d, of demo_vm_empty ps demo_vm_empty] ps
  have "(\<forall>p\<in>set ps. holder ?d p) \<or> apply_patches (encode demo_codec) ps ?d = None"
    by (auto simp: lift_st_def split: if_splits)
  moreover obtain s where "PatchAdd ''/spec/controlPlaneEndpoint/host'' (PV_string s) \<in> set ps"
    using demo_host_patch [OF ps] by blast
  moreover have "\<not> holder ?d (PatchAdd ''/spec/controlPlaneEndpoint/host'' (PV_string s))" for s
    by (simp add: holder_def demo_cluster_json_def)
  ultimately show ?thesis using ps by blast
qed

end
