(* ===== verification/Creation.thy ===== *)
theory Creation
  imports OwnPatches
begin

text \<open>
  The creation of an object as the API server drives it: the object is posted to the mutating endpoint, the
  patches of the answer are applied to the submitted document, and the result is posted to the validating
  endpoint. This theory shows what a user has to submit for the two endpoints of the program to agree, so that
  the object is created.
\<close>

section \<open>Patches that spare a part of the document\<close>

definition spares :: "patch_operation list \<Rightarrow> string list list \<Rightarrow> bool" where
  "spares ps areas \<longleftrightarrow> (\<forall>p\<in>set ps. member_path (tokens (po_Path p)) \<and> (\<forall>us\<in>set areas. apart (tokens (po_Path p)) us))"

lemma apart_append: "apart ts us \<Longrightarrow> apart ts (us @ vs)"
proof (induction us arbitrary: ts)
  case (Cons u us)
  then show ?case by (cases ts) auto
qed simp

lemma spared_at:
  assumes "spares ps areas" and "us \<in> set areas" and "apply_patches enc ps d = Some d'"
  shows "at (us @ vs) (Some d') = at (us @ vs) (Some d)"
  using assms(1,3)
proof (induction ps arbitrary: d)
  case (Cons p ps)
  then obtain d1 where d1: "apply_patch enc p d = Some d1" "apply_patches enc ps d1 = Some d'"
    by (auto split: Option.bind_splits)
  have "member_path (tokens (po_Path p))" "apart (tokens (po_Path p)) us"
    using Cons.prems(1) assms(2) by (simp_all add: spares_def)
  note apply_patch_frame(1) [OF this(1) d1(1) apart_append [OF this(2)], of vs]
  moreover have "spares ps areas" using Cons.prems(1) by (simp add: spares_def)
  ultimately show ?case using Cons.IH [OF _ d1(2)] by simp
qed simp

section \<open>What a document says of an object\<close>

lemma meta_document_unique:
  assumes "meta_document d m" and "meta_document d m'"
  shows "om_name m = om_name m' \<and> om_namespace m = om_namespace m' \<and> om_labels m = om_labels m' \<and>
    om_annotations m = om_annotations m'"
  using assms unfolding meta_document_def fun_eq_iff by (blast intro: holds_unique)

lemma endpoint_document_unique: "endpoint_document d e \<Longrightarrow> endpoint_document d e' \<Longrightarrow> e = e'"
  unfolding endpoint_document_def by (cases e; cases e') (auto dest: holds_unique)

text \<open>The filter looks at the namespace and three labels.\<close>

lemma filter_agrees:
  assumes "om_namespace m = om_namespace m'"
    and "\<And>l. l \<in> {label_ReleaseVersion, capi_ClusterLabelName, label_Cluster} \<Longrightarrow> om_labels m l = om_labels m' l"
  shows "IsObjectReconciledByLegacyRelease r m (TryGetOwnerCluster k (Some m)) =
    IsObjectReconciledByLegacyRelease r m' (TryGetOwnerCluster k (Some m'))"
proof -
  have "mget (om_labels m) l = mget (om_labels m') l" if "l \<in> {label_ReleaseVersion, capi_ClusterLabelName, label_Cluster}" for l
    using assms(2) [OF that] by (simp add: mget_def)
  then show ?thesis
    by (simp add: IsObjectReconciledByLegacyRelease_def TryFindReleaseForObject_def TryGetOwnerCluster_cases assms(1)
        cong: if_cong)
qed

lemma version_labels_only:
  "capi_ClusterLabelName \<noteq> label_AzureOperatorVersion" "label_Cluster \<noteq> label_AzureOperatorVersion"
  "label_ReleaseVersion \<noteq> label_AzureOperatorVersion" "label_Organization \<noteq> label_AzureOperatorVersion"
  by (simp_all add: capi_ClusterLabelName_def label_Cluster_def label_ReleaseVersion_def label_Organization_def
      label_AzureOperatorVersion_def)

lemma label_path_inject [simp]: "label_path l = label_path k \<longleftrightarrow> l = k"
  by (metis label_tokens list.inject)

text \<open>What a patch on a version label, or below \<^verbatim>\<open>spec\<close>, leaves of the metadata.\<close>

definition meta_kept :: "string \<Rightarrow> object_meta \<Rightarrow> object_meta \<Rightarrow> bool" where
  "meta_kept l m m' \<longleftrightarrow> om_name m' = om_name m \<and> om_namespace m' = om_namespace m \<and>
     om_annotations m' = om_annotations m \<and> (\<forall>k. k \<noteq> l \<longrightarrow> om_labels m' k = om_labels m k)"

lemma cluster_patch_keeps:
  assumes "cluster_adds p" and "po_Path p \<in> set Cluster_places"
  shows "meta_kept label_AzureOperatorVersion (cl_meta c) (cl_meta (apply_cluster_patch c p))"
  using assms by (auto simp: cluster_adds_def sets_version_label_def Cluster_places_def meta_kept_def)

lemma azurecluster_patch_keeps:
  assumes "azurecluster_adds p" and "po_Path p \<in> set AzureCluster_places"
  shows "meta_kept label_AzureOperatorVersion (ac_meta c) (ac_meta (apply_azurecluster_patch c p))"
  using assms by (auto simp: azurecluster_adds_def sets_version_label_def AzureCluster_places_def meta_kept_def)

lemma patches_keep:
  assumes "\<And>c p. p \<in> set ps \<Longrightarrow> meta_kept l (mt c) (mt (app c p))"
  shows "meta_kept l (mt c) (mt (foldl app c ps))"
  using assms
proof (induction ps arbitrary: c)
  case (Cons p ps)
  have "meta_kept l (mt (app c p)) (mt (foldl app (app c p) ps))" using Cons by simp
  moreover have "meta_kept l (mt c) (mt (app c p))" using Cons.prems by simp
  ultimately show ?case by (simp add: meta_kept_def)
qed (simp add: meta_kept_def)

text \<open>The object in the document that a mutation's patches make of the submitted one.\<close>

lemma mutated_document:
  assumes "document_additions (encode K) doc app adds" and "list_all2 (writes_at adds) fs qs" and "separate qs"
    and "collect_patches (map (\<lambda>f. f c) fs) = Ok own" and "doc d c"
    and "apply_patches (encode K) (own @ capi) d = Some d'"
    and "\<And>d1. apply_patches (encode K) capi d1 = Some d' \<Longrightarrow> doc d1 (foldl app c own) \<Longrightarrow> doc d' (foldl app c own)"
  shows "doc d' (foldl app c own)"
proof -
  from assms(6) obtain d1 where d1: "apply_patches (encode K) own d = Some d1" "apply_patches (encode K) capi d1 = Some d'"
    by (auto simp: apply_patches_append split: Option.bind_splits)
  have "doc d1 (foldl app c own)"
    using document_additions.repaired_document [OF assms(1-5)] d1(1) by (auto split: if_splits)
  then show ?thesis by (rule assms(7) [OF d1(2)])
qed

section \<open>The two endpoints\<close>

lemma mutating_endpoint_patches:
  assumes "carries H request rq" and "ar_DryRun rq \<noteq> Some True" and "decode (ar_Object rq) = Ok ob"
    and "reconciled_by_legacy f ob = Ok True" and "m ob s = (Ok ps, s')"
  shows "mutator_NewCreateHandler H f decode m request s = (mutator_reply H rq (Ok ps), s')"
  unfolding mutator_NewCreateHandler_def mutator_newHttpHandler_carries [OF assms(1,2)] mutate_created_eq
  by (simp add: assms(3-5))

lemma validating_endpoint_admits:
  assumes "carries H request rq" and "serialises H" and "decode (ar_Object rq) = Ok ob"
    and "reconciled_by_legacy f ob = Ok True" and "v ob s = (Ok (), s')"
  shows "\<exists>reply. validator_NewCreateHandler H f decode v request s = (Ok reply, s') \<and> admits reply (ar_UID rq)"
proof -
  have "validate_created f decode v \<lparr>rv_Request = Some rq\<rparr> s = (Ok (), s')"
    using assms(3-5) by (auto simp: validate_created_Ok_iff)
  then show ?thesis
    using validator_reply_iff(1) [OF assms(2), of rq "Ok ()" "ar_UID rq"]
    by (simp add: validator_NewCreateHandler_def validator_newHttpHandler_carries [OF assms(1)])
qed

text \<open>
  One creation, as the API server drives it: the review of the submitted object, the patches the
  mutation answers, and the review of the patched document.
\<close>

definition resubmits :: "http_lib \<Rightarrow> codec \<Rightarrow> (string \<Rightarrow> json) \<Rightarrow> http_request \<Rightarrow> admission_request \<Rightarrow>
    patch_operation list \<Rightarrow> http_request \<Rightarrow> admission_request \<Rightarrow> bool" where
  "resubmits H K parse first rq ps second rq' \<longleftrightarrow> carries H first rq \<and> ar_DryRun rq \<noteq> Some True \<and>
     apply_patches (encode K) ps (parse (ar_Object rq)) = Some (parse (ar_Object rq')) \<and> carries H second rq'"

lemma both_endpoints:
  assumes "resubmits H K parse first rq ps second rq'" and "serialises H"
    and "decode (ar_Object rq) = Ok ob" and "reconciled_by_legacy f ob = Ok True" and "m ob s = (Ok ps, s')"
    and "decode (ar_Object rq') = Ok ob'" and "reconciled_by_legacy f ob' = Ok True" and "v ob' t = (Ok (), t')"
  shows "mutator_NewCreateHandler H f decode m first s = (mutator_reply H rq (Ok ps), s') \<and>
    (\<exists>reply. validator_NewCreateHandler H f decode v second t = (Ok reply, t') \<and> admits reply (ar_UID rq'))"
  using assms mutating_endpoint_patches [of H first rq decode ob f m s ps s']
    validating_endpoint_admits [of H second rq' decode ob' f v t t']
  by (simp add: resubmits_def)

section \<open>A new Cluster\<close>

text \<open>What a document of the patched object says of the object decoded from it.\<close>

lemma cluster_document_unique:
  assumes "cluster_document K d c" and "cluster_document K d c'"
  shows "cl_ClusterNetwork c = cl_ClusterNetwork c' \<and> cl_ControlPlaneEndpoint c = cl_ControlPlaneEndpoint c' \<and>
    om_name (cl_meta c) = om_name (cl_meta c') \<and> om_namespace (cl_meta c) = om_namespace (cl_meta c') \<and>
    om_labels (cl_meta c) = om_labels (cl_meta c') \<and> om_annotations (cl_meta c) = om_annotations (cl_meta c')"
  using assms meta_document_unique [of d "cl_meta c" "cl_meta c'"]
    endpoint_document_unique [of d "cl_ControlPlaneEndpoint c" "cl_ControlPlaneEndpoint c'"]
    holds_unique [of "de_network K" None "at [''spec'', ''clusterNetwork''] (Some d)"]
  by (simp add: cluster_document_def del: at.simps)

definition cluster_areas :: "string list list" where
  "cluster_areas = [[''metadata''], [''spec'', ''controlPlaneEndpoint''], [''spec'', ''clusterNetwork'']]"

lemma cluster_document_spared:
  assumes "spares ps cluster_areas" and "apply_patches enc ps d = Some d'" and "cluster_document K d c"
  shows "cluster_document K d' c"
proof -
  have "at (''metadata'' # vs) (Some d') = at (''metadata'' # vs) (Some d)"
    "at (''spec'' # ''controlPlaneEndpoint'' # vs) (Some d') = at (''spec'' # ''controlPlaneEndpoint'' # vs) (Some d)"
    "at (''spec'' # ''clusterNetwork'' # vs) (Some d') = at (''spec'' # ''clusterNetwork'' # vs) (Some d)" for vs
    using spared_at [OF assms(1) _ assms(2), of "[''metadata'']" vs]
      spared_at [OF assms(1) _ assms(2), of "[''spec'', ''controlPlaneEndpoint'']" vs]
      spared_at [OF assms(1) _ assms(2), of "[''spec'', ''clusterNetwork'']" vs]
    by (simp_all add: cluster_areas_def)
  with assms(3) show ?thesis by (simp add: cluster_document_def meta_document_def endpoint_document_def)
qed

lemma cluster_repaired:
  assumes "collect_patches (map (\<lambda>f. f c) (Cluster_repairs h)) = Ok own"
    and "cl_ClusterNetwork c = None \<or> canonical_network c"
    and "ep_Host (cl_ControlPlaneEndpoint c) \<in>
           {'''', GetControlPlaneEndpointHost (om_name (cl_meta c)) (clh_baseDomain h)}"
    and "ep_Port (cl_ControlPlaneEndpoint c) \<in> {0, ControlPlaneEndpointPort}"
  shows "canonical_network (apply_cluster_patches c own)" and "canonical_endpoint (clh_baseDomain h) (apply_cluster_patches c own)"
proof -
  from assms(1) obtain r where r: "CopyAzureOperatorVersionLabelFromAzureClusterCR (clh_ctrlClient h) (cl_meta c) = Ok r"
    and own: "own = opt_patch (if cl_ClusterNetwork c = None
            then Some (PatchAdd ''/spec/clusterNetwork'' (PV_ClusterNetwork defaultClusterNetwork)) else None) @
       opt_patch (if ep_Host (cl_ControlPlaneEndpoint c) = ''''
            then Some (PatchAdd ''/spec/controlPlaneEndpoint/host''
              (PV_string (GetControlPlaneEndpointHost (om_name (cl_meta c)) (clh_baseDomain h)))) else None) @
       opt_patch (if ep_Port (cl_ControlPlaneEndpoint c) = 0
            then Some (PatchAdd ''/spec/controlPlaneEndpoint/port'' (PV_int (uint ControlPlaneEndpointPort)))
            else None) @ opt_patch r"
    by (auto simp: Cluster_repairs_def outcome_simps Cluster_ensureClusterNetwork_def
        Cluster_ensureControlPlaneEndpointHost_def Cluster_ensureControlPlaneEndpointPort_def
        patch_if_def Cons_eq_map_conv simp del: collect_patches.simps)
  show "canonical_network (apply_cluster_patches c own)" and "canonical_endpoint (clh_baseDomain h) (apply_cluster_patches c own)"
    using r assms(2-4) unfolding own
    by (elim operator_label_patch_cases; cases "cl_ControlPlaneEndpoint c";
      auto simp: apply_cluster_patches_def canonical_network_def canonical_endpoint_def defaultClusterNetwork_def)+
qed

text \<open>The two endpoints of the resource, as the program registers them.\<close>

lemma cluster_create_routes:
  assumes "RegisterWebhookHandlers L H now U cfg logger (Some k) (Some r) (Some v) = Ok routes"
  defines "f \<equiv> \<lparr>hf_ctrlReader = r, hf_ctrlClient = k\<rparr>"
    and "h \<equiv> \<lparr>clh_baseDomain = cfg_BaseDomain cfg, clh_decoder = U, clh_ctrlReader = r, clh_ctrlClient = k\<rparr>"
  shows "route routes ''/mutate/cluster/create'' =
      Some (mutator_NewCreateHandler H f (Cluster_Decode h) (\<lambda>ob. lift_st (Cluster_OnCreateMutate L h ob)))"
    and "route routes ''/validate/cluster/create'' =
      Some (validator_NewCreateHandler H f (Cluster_Decode h) (\<lambda>ob. lift_st (Cluster_OnCreateValidate L h now ob)))"
  using assms(1)
  by (simp_all add: route_def RegisterWebhookHandlers_Ok_iff all_webhooks_def Let_def register_def webhook_defs
      resource_defs f_def h_def)

text \<open>What a user may leave to the program when a Cluster is created, and what the program asks for.\<close>

definition creatable_cluster :: "lib \<Rightarrow> cluster_handler \<Rightarrow> cluster \<Rightarrow> bool" where
  "creatable_cluster L h c \<longleftrightarrow>
     (cl_ClusterNetwork c = None \<or> canonical_network c) \<and>
     ep_Host (cl_ControlPlaneEndpoint c) \<in> {'''', GetControlPlaneEndpointHost (om_name (cl_meta c)) (clh_baseDomain h)} \<and>
     ep_Port (cl_ControlPlaneEndpoint c) \<in> {0, ControlPlaneEndpointPort} \<and>
     (\<exists>org. om_labels (cl_meta c) label_Organization = Some org \<and>
        kube_getOrganization (clh_ctrlClient h) (AsDNSLabelName (lib_unicode L) org) = Inr ()) \<and>
     om_annotations (cl_meta c) annotation_UpdateScheduleTargetTime = None \<and>
     om_annotations (cl_meta c) annotation_UpdateScheduleTargetRelease = None"

lemma created_cluster_valid:
  assumes "creatable_cluster L h c" and "collect_patches (map (\<lambda>f. f c) (Cluster_repairs h)) = Ok own"
    and "cluster_document K d (apply_cluster_patches c own)" and "cluster_document K d c'"
    and "crd_ValidateCreate (lib_Cluster L) c' = None"
  shows "Cluster_OnCreateValidate L h now (ObjCluster c') = Ok ()"
    and "IsObjectReconciledByLegacyRelease r (cl_meta c') (TryGetOwnerCluster k (Some (cl_meta c'))) =
      IsObjectReconciledByLegacyRelease r (cl_meta c) (TryGetOwnerCluster k (Some (cl_meta c)))"
proof -
  let ?c1 = "apply_cluster_patches c own"
  have kept: "meta_kept label_AzureOperatorVersion (cl_meta c) (cl_meta ?c1)"
    unfolding apply_cluster_patches_def
    using repairs_write(1,2) [OF repairs_write_at(1) assms(2)] by (intro patches_keep cluster_patch_keeps) auto
  note same = cluster_document_unique [OF assms(3,4)]
  have "canonical_network ?c1" "canonical_endpoint (clh_baseDomain h) ?c1"
    using cluster_repaired [OF assms(2)] assms(1) by (auto simp: creatable_cluster_def)
  then have "canonical_network c'" "canonical_endpoint (clh_baseDomain h) c'"
    using same by (simp_all add: canonical_network_def canonical_endpoint_def)
  moreover have "om_labels (cl_meta c') label_Organization = om_labels (cl_meta c) label_Organization"
    using same kept version_labels_only by (simp add: meta_kept_def)
  moreover have "om_annotations (cl_meta c') = om_annotations (cl_meta c)" using same kept by (simp add: meta_kept_def)
  ultimately show "Cluster_OnCreateValidate L h now (ObjCluster c') = Ok ()"
    using assms(1,5) unfolding creatable_cluster_def Cluster_OnCreateValidate_def
    by (auto simp: outcome_simps ValidateClusterAnnotationUpgradeTime_eq target_time_def)
  show "IsObjectReconciledByLegacyRelease r (cl_meta c') (TryGetOwnerCluster k (Some (cl_meta c'))) =
      IsObjectReconciledByLegacyRelease r (cl_meta c) (TryGetOwnerCluster k (Some (cl_meta c)))"
    using same kept version_labels_only by (intro filter_agrees) (auto simp: meta_kept_def)
qed

text \<open>C25. A Cluster is created as the two endpoints of the program intend it: when a user leaves network, host and
  port of a new Cluster unset, or gives the canonical values, names an existing organization and schedules no
  upgrade, then the mutating endpoint answers with patches, and the object decoded from the patched document is
  admitted by the validating endpoint, if its type accepts it and the type's defaults concern other members.\<close>

theorem created_cluster_is_admitted:
  assumes "RegisterWebhookHandlers L H now U cfg logger (Some k) (Some r) (Some v) = Ok routes"
    and "route routes ''/mutate/cluster/create'' = Some mutate"
    and "route routes ''/validate/cluster/create'' = Some validate"
    and "h = \<lparr>clh_baseDomain = cfg_BaseDomain cfg, clh_decoder = U, clh_ctrlReader = r, clh_ctrlClient = k\<rparr>"
    and "serialises H" and "reads_back K"
    and "\<And>raw c. dec_Cluster U raw = Inr c \<Longrightarrow> cluster_document K (parse raw) c"
    and "resubmits H K parse first rq ps second rq'"
    and "dec_Cluster U (ar_Object rq) = Inr c" and "creatable_cluster L h c"
    and "IsObjectReconciledByLegacyRelease r (cl_meta c) (TryGetOwnerCluster k (Some (cl_meta c))) = Ok True"
    and "Cluster_OnCreateMutate L h (ObjCluster c) = Ok ps"
    and "default_patches L (ObjCluster c) = Ok capi" and "spares capi cluster_areas"
    and "dec_Cluster U (ar_Object rq') = Inr c'" and "crd_ValidateCreate (lib_Cluster L) c' = None"
  shows "mutate first s = (mutator_reply H rq (Ok ps), s) \<and>
    (\<exists>reply. validate second t = (Ok reply, t) \<and> admits reply (ar_UID rq'))"
proof -
  let ?f = "\<lparr>hf_ctrlReader = r, hf_ctrlClient = k\<rparr>"
  let ?d = "parse (ar_Object rq)" and ?d' = "parse (ar_Object rq')"
  obtain own where own: "collect_patches (map (\<lambda>f. f c) (Cluster_repairs h)) = Ok own" and ps: "ps = own @ capi"
    using assms(12,13) by (auto simp: mutation_of_repairs default_patches_def bind_res_Ok_iff with_defaults_Ok_iff)
  have d': "apply_patches (encode K) (own @ capi) ?d = Some ?d'" using assms(8) by (simp add: resubmits_def ps)
  have "cluster_document K ?d' (foldl apply_cluster_patch c own)"
    by (rule mutated_document [OF cluster_documents [OF assms(6)] repairs_write_at(1) places_separate(1) own
        assms(7) [OF assms(9)] d']) (rule cluster_document_spared [OF assms(14)])
  then have "cluster_document K ?d' (apply_cluster_patches c own)" by (simp add: apply_cluster_patches_def)
  note valid = created_cluster_valid [OF assms(10) own this assms(7) [OF assms(15)] assms(16)]
  have routes: "mutate = mutator_NewCreateHandler H ?f (Cluster_Decode h) (\<lambda>ob. lift_st (Cluster_OnCreateMutate L h ob))"
    "validate = validator_NewCreateHandler H ?f (Cluster_Decode h) (\<lambda>ob. lift_st (Cluster_OnCreateValidate L h now ob))"
    using assms(2,3) cluster_create_routes [OF assms(1)] by (simp_all add: assms(4))
  have U: "clh_decoder h = U" by (simp add: assms(4))
  show ?thesis
    unfolding routes
    by (rule both_endpoints [OF assms(8,5), where ob = "ObjCluster c" and ob' = "ObjCluster c'"])
      (simp_all add: Cluster_Decode_def decode_with_Ok_iff reconciled_by_legacy_def lift_st_def U assms(9,11,12,15) valid)
qed

section \<open>A new AzureCluster\<close>

definition azurecluster_areas :: "string list list" where
  "azurecluster_areas = [[''metadata''], [''spec'', ''controlPlaneEndpoint''], [''spec'', ''location''],
     [''spec'', ''networkSpec'', ''apiServerLB'']]"

lemma azurecluster_document_spared:
  assumes "spares ps azurecluster_areas" and "apply_patches enc ps d = Some d'" and "azurecluster_document K d c"
  shows "azurecluster_document K d' c"
proof -
  have "at (''metadata'' # vs) (Some d') = at (''metadata'' # vs) (Some d)"
    "at (''spec'' # ''controlPlaneEndpoint'' # vs) (Some d') = at (''spec'' # ''controlPlaneEndpoint'' # vs) (Some d)"
    "at (''spec'' # ''location'' # vs) (Some d') = at (''spec'' # ''location'' # vs) (Some d)"
    "at (''spec'' # ''networkSpec'' # ''apiServerLB'' # vs) (Some d') = at (''spec'' # ''networkSpec'' # ''apiServerLB'' # vs) (Some d)"
    for vs
    using spared_at [OF assms(1) _ assms(2), of "[''metadata'']" vs]
      spared_at [OF assms(1) _ assms(2), of "[''spec'', ''controlPlaneEndpoint'']" vs]
      spared_at [OF assms(1) _ assms(2), of "[''spec'', ''location'']" vs]
      spared_at [OF assms(1) _ assms(2), of "[''spec'', ''networkSpec'', ''apiServerLB'']" vs]
    by (simp_all add: azurecluster_areas_def)
  with assms(3) show ?thesis by (simp add: azurecluster_document_def meta_document_def endpoint_document_def)
qed

lemma azurecluster_document_unique:
  assumes "azurecluster_document K d c" and "azurecluster_document K d c'"
  shows "ac_ControlPlaneEndpoint c = ac_ControlPlaneEndpoint c' \<and> ac_Location c = ac_Location c' \<and>
    om_name (ac_meta c) = om_name (ac_meta c') \<and> om_namespace (ac_meta c) = om_namespace (ac_meta c') \<and>
    om_labels (ac_meta c) = om_labels (ac_meta c') \<and> om_annotations (ac_meta c) = om_annotations (ac_meta c')"
  using assms meta_document_unique [of d "ac_meta c" "ac_meta c'"]
    endpoint_document_unique [of d "ac_ControlPlaneEndpoint c" "ac_ControlPlaneEndpoint c'"]
    holds_unique [of string_of "''''" "at [''spec'', ''location''] (Some d)"]
  by (simp add: azurecluster_document_def del: at.simps)

lemma azurecluster_repaired:
  assumes "collect_patches (map (\<lambda>f. f c) (AzureCluster_repairs h)) = Ok own"
    and "ep_Host (ac_ControlPlaneEndpoint c) \<in>
           {'''', GetControlPlaneEndpointHost (om_name (ac_meta c)) (ach_baseDomain h)}"
    and "ep_Port (ac_ControlPlaneEndpoint c) \<in> {0, ControlPlaneEndpointPort}" and "ac_Location c \<in> {'''', ach_location h}"
  shows "azurecluster_canonical_endpoint (ach_baseDomain h) (apply_azurecluster_patches c own)"
    and "ac_Location (apply_azurecluster_patches c own) = ach_location h"
proof -
  from assms(1) obtain q r where q: "ensureAPIServerLB c = Ok q"
    and r: "EnsureComponentVersionLabelFromRelease (ach_ctrlReader h) (ac_meta c) ''azure-operator''
      label_AzureOperatorVersion = Ok r"
    and own: "own = opt_patch (if ep_Host (ac_ControlPlaneEndpoint c) = ''''
            then Some (PatchAdd ''/spec/controlPlaneEndpoint/host''
              (PV_string (GetControlPlaneEndpointHost (om_name (ac_meta c)) (ach_baseDomain h)))) else None) @
       opt_patch (if ep_Port (ac_ControlPlaneEndpoint c) = 0
            then Some (PatchAdd ''/spec/controlPlaneEndpoint/port'' (PV_int (uint ControlPlaneEndpointPort)))
            else None) @
       opt_patch (if ac_Location c = '''' then Some (PatchAdd ''/spec/location'' (PV_string (ach_location h)))
            else None) @ opt_patch q @ opt_patch r"
    by (auto simp: AzureCluster_repairs_def outcome_simps AzureCluster_ensureLocation_def
        AzureCluster_ensureControlPlaneEndpointHost_def AzureCluster_ensureControlPlaneEndpointPort_def
        patch_if_def Cons_eq_map_conv simp del: collect_patches.simps)
  show "azurecluster_canonical_endpoint (ach_baseDomain h) (apply_azurecluster_patches c own)"
    and "ac_Location (apply_azurecluster_patches c own) = ach_location h"
    using r q assms(2-4) unfolding own
    by (elim component_label_patch_cases ensureAPIServerLB_cases; cases "ac_ControlPlaneEndpoint c";
      auto simp: apply_azurecluster_patches_def azurecluster_canonical_endpoint_def)+
qed

lemma azurecluster_create_routes:
  assumes "RegisterWebhookHandlers L H now U cfg logger (Some k) (Some r) (Some v) = Ok routes"
  defines "f \<equiv> \<lparr>hf_ctrlReader = r, hf_ctrlClient = k\<rparr>"
    and "h \<equiv> \<lparr>ach_baseDomain = cfg_BaseDomain cfg, ach_ctrlReader = r, ach_ctrlClient = k, ach_decoder = U,
      ach_location = cfg_Location cfg\<rparr>"
  shows "route routes ''/mutate/azurecluster/create'' =
      Some (mutator_NewCreateHandler H f (AzureCluster_Decode L) (\<lambda>ob. lift_st (AzureCluster_OnCreateMutate L h ob)))"
    and "route routes ''/validate/azurecluster/create'' =
      Some (validator_NewCreateHandler H f (AzureCluster_Decode L) (\<lambda>ob. lift_st (AzureCluster_OnCreateValidate L h ob)))"
  using assms(1)
  by (simp_all add: route_def RegisterWebhookHandlers_Ok_iff all_webhooks_def Let_def register_def webhook_defs
      resource_defs f_def h_def)

definition creatable_azurecluster :: "lib \<Rightarrow> azurecluster_handler \<Rightarrow> azure_cluster \<Rightarrow> bool" where
  "creatable_azurecluster L h c \<longleftrightarrow>
     ep_Host (ac_ControlPlaneEndpoint c) \<in> {'''', GetControlPlaneEndpointHost (om_name (ac_meta c)) (ach_baseDomain h)} \<and>
     ep_Port (ac_ControlPlaneEndpoint c) \<in> {0, ControlPlaneEndpointPort} \<and> ac_Location c \<in> {'''', ach_location h} \<and>
     (\<exists>org. om_labels (ac_meta c) label_Organization = Some org \<and>
        kube_getOrganization (ach_ctrlClient h) (AsDNSLabelName (lib_unicode L) org) = Inr ())"

lemma created_azurecluster_valid:
  assumes "creatable_azurecluster L h c" and "collect_patches (map (\<lambda>f. f c) (AzureCluster_repairs h)) = Ok own"
    and "azurecluster_document K d (apply_azurecluster_patches c own)" and "azurecluster_document K d c'"
    and "ignore_fields [''metadata.Name'', ''spec.networkSpec.subnets'', ''spec.SubscriptionID'']
      (crd_ValidateCreate (lib_AzureCluster L) c') = Ok None"
  shows "AzureCluster_OnCreateValidate L h (ObjAzureCluster c') = Ok ()"
    and "IsObjectReconciledByLegacyRelease r (ac_meta c') (TryGetOwnerCluster k (Some (ac_meta c'))) =
      IsObjectReconciledByLegacyRelease r (ac_meta c) (TryGetOwnerCluster k (Some (ac_meta c)))"
proof -
  let ?c1 = "apply_azurecluster_patches c own"
  have kept: "meta_kept label_AzureOperatorVersion (ac_meta c) (ac_meta ?c1)"
    unfolding apply_azurecluster_patches_def
    using repairs_write(1,2) [OF repairs_write_at(2) assms(2)] by (intro patches_keep azurecluster_patch_keeps) auto
  note same = azurecluster_document_unique [OF assms(3,4)]
  have "azurecluster_canonical_endpoint (ach_baseDomain h) ?c1" "ac_Location ?c1 = ach_location h"
    using azurecluster_repaired [OF assms(2)] assms(1) by (auto simp: creatable_azurecluster_def)
  then have "azurecluster_canonical_endpoint (ach_baseDomain h) c'" "ac_Location c' = ach_location h"
    using same by (simp_all add: azurecluster_canonical_endpoint_def)
  moreover have "om_labels (ac_meta c') label_Organization = om_labels (ac_meta c) label_Organization"
    using same kept version_labels_only by (simp add: meta_kept_def)
  ultimately show "AzureCluster_OnCreateValidate L h (ObjAzureCluster c') = Ok ()"
    using assms(1,5) unfolding creatable_azurecluster_def AzureCluster_OnCreateValidate_def
    by (auto simp: outcome_simps simp del: ignore_fields.simps)
  show "IsObjectReconciledByLegacyRelease r (ac_meta c') (TryGetOwnerCluster k (Some (ac_meta c'))) =
      IsObjectReconciledByLegacyRelease r (ac_meta c) (TryGetOwnerCluster k (Some (ac_meta c)))"
    using same kept version_labels_only by (intro filter_agrees) (auto simp: meta_kept_def)
qed

text \<open>C29. An AzureCluster of a legacy release is created as the two endpoints intend it, under these conditions: the
  user leaves host, port and location unset or gives the expected values, and names an existing organization;
  the type accepts the patched object, but for the fields the program ignores; and the type's defaults concern
  neither the API server load balancer nor endpoint, location or metadata. Then the object decoded from the
  document with the mutation's patches is admitted.\<close>

theorem created_azurecluster_is_admitted:
  assumes "RegisterWebhookHandlers L H now U cfg logger (Some k) (Some r) (Some v) = Ok routes"
    and "route routes ''/mutate/azurecluster/create'' = Some mutate"
    and "route routes ''/validate/azurecluster/create'' = Some validate"
    and "h = \<lparr>ach_baseDomain = cfg_BaseDomain cfg, ach_ctrlReader = r, ach_ctrlClient = k, ach_decoder = U,
      ach_location = cfg_Location cfg\<rparr>"
    and "serialises H" and "reads_back K"
    and "\<And>raw c. dec_AzureCluster (lib_Deserializer L) raw = Inr c \<Longrightarrow> azurecluster_document K (parse raw) c"
    and "resubmits H K parse first rq ps second rq'"
    and "dec_AzureCluster (lib_Deserializer L) (ar_Object rq) = Inr c" and "creatable_azurecluster L h c"
    and "IsObjectReconciledByLegacyRelease r (ac_meta c) (TryGetOwnerCluster k (Some (ac_meta c))) = Ok True"
    and "AzureCluster_OnCreateMutate L h (ObjAzureCluster c) = Ok ps"
    and "default_patches L (ObjAzureCluster c) = Ok capi" and "spares capi azurecluster_areas"
    and "dec_AzureCluster (lib_Deserializer L) (ar_Object rq') = Inr c'"
    and "ignore_fields [''metadata.Name'', ''spec.networkSpec.subnets'', ''spec.SubscriptionID'']
      (crd_ValidateCreate (lib_AzureCluster L) c') = Ok None"
  shows "mutate first s = (mutator_reply H rq (Ok ps), s) \<and>
    (\<exists>reply. validate second t = (Ok reply, t) \<and> admits reply (ar_UID rq'))"
proof -
  let ?f = "\<lparr>hf_ctrlReader = r, hf_ctrlClient = k\<rparr>"
  let ?d = "parse (ar_Object rq)" and ?d' = "parse (ar_Object rq')"
  obtain own where own: "collect_patches (map (\<lambda>f. f c) (AzureCluster_repairs h)) = Ok own" and ps: "ps = own @ capi"
    using assms(12,13) by (auto simp: mutation_of_repairs default_patches_def bind_res_Ok_iff with_defaults_Ok_iff)
  have d': "apply_patches (encode K) (own @ capi) ?d = Some ?d'" using assms(8) by (simp add: resubmits_def ps)
  have "azurecluster_document K ?d' (foldl apply_azurecluster_patch c own)"
    by (rule mutated_document [OF azurecluster_documents [OF assms(6)] repairs_write_at(2) places_separate(2) own
        assms(7) [OF assms(9)] d']) (rule azurecluster_document_spared [OF assms(14)])
  then have "azurecluster_document K ?d' (apply_azurecluster_patches c own)" by (simp add: apply_azurecluster_patches_def)
  note valid = created_azurecluster_valid [OF assms(10) own this assms(7) [OF assms(15)] assms(16)]
  have routes: "mutate = mutator_NewCreateHandler H ?f (AzureCluster_Decode L) (\<lambda>ob. lift_st (AzureCluster_OnCreateMutate L h ob))"
    "validate = validator_NewCreateHandler H ?f (AzureCluster_Decode L) (\<lambda>ob. lift_st (AzureCluster_OnCreateValidate L h ob))"
    using assms(2,3) azurecluster_create_routes [OF assms(1)] by (simp_all add: assms(4))
  show ?thesis
    unfolding routes
    by (rule both_endpoints [OF assms(8,5), where ob = "ObjAzureCluster c" and ob' = "ObjAzureCluster c'"])
      (simp_all add: AzureCluster_Decode_def decode_with_Ok_iff reconciled_by_legacy_def lift_st_def
        assms(9,11,12,15) valid)
qed

section \<open>A new node pool\<close>

definition pool_areas :: "string list list" where
  "pool_areas = [[''metadata''], [''spec'', ''location''],
     [''spec'', ''template'', ''osDisk'', ''managedDisk'', ''storageAccountType''], [''spec'', ''template'', ''dataDisks'']]"

lemma pool_document_spared:
  assumes "spares ps pool_areas" and "apply_patches enc ps d = Some d'" and "pool_document K d c"
  shows "pool_document K d' c"
proof -
  have "at (us @ vs) (Some d') = at (us @ vs) (Some d)" if "us \<in> set pool_areas" for us vs
    using spared_at [OF assms(1) that assms(2)] .
  from this [of "[''metadata'']"] this [of "[''spec'', ''location'']"]
    this [of "[''spec'', ''template'', ''osDisk'', ''managedDisk'', ''storageAccountType'']"]
    this [of "[''spec'', ''template'', ''dataDisks'']"] assms(3)
  show ?thesis by (simp add: pool_areas_def pool_document_def meta_document_def)
qed

lemma pool_document_unique:
  assumes "pool_document K d c" and "pool_document K d c'"
  shows "amp_Location c = amp_Location c' \<and> amp_StorageAccountType c = amp_StorageAccountType c' \<and>
    amp_DataDisks c = amp_DataDisks c' \<and> om_labels (amp_meta c) = om_labels (amp_meta c')"
  using assms meta_document_unique [of d "amp_meta c" "amp_meta c'"]
    holds_unique [of string_of "''''" "at [''spec'', ''location''] (Some d)"]
    holds_unique [of string_of "''''" "at [''spec'', ''template'', ''osDisk'', ''managedDisk'', ''storageAccountType''] (Some d)"]
    holds_unique [of "de_disks K" "[]" "at [''spec'', ''template'', ''dataDisks''] (Some d)"]
  by (simp add: pool_document_def del: at.simps)

definition creatable_pool :: "azuremachinepool_handler \<Rightarrow> azure_machine_pool \<Rightarrow> bool" where
  "creatable_pool h c \<longleftrightarrow> amp_StorageAccountType c = '''' \<and> amp_DataDisks c = [] \<and>
     amp_Location c \<in> {'''', aph_location h} \<and> amp_SSHPublicKey c = '''' \<and>
     ValidateOrganizationLabelMatchesCluster (aph_ctrlClient h) (amp_meta c) = Ok ()"

lemma pool_repaired:
  assumes "collect_patches (map (\<lambda>f. f c) (AzureMachinePool_repairs h s)) = Ok own" and "creatable_pool h c"
  obtains b where "HasCapability (aph_vmcaps h) (aph_location h) (amp_VMSize c) CapabilityPremiumIO s =
      (Ok b, snd (AzureMachinePool_ensureStorageAccountType h c s))"
    and "amp_Location (apply_pool_patches c own) = aph_location h"
    and "amp_DataDisks (apply_pool_patches c own) = desiredDataDisks"
    and "amp_StorageAccountType (apply_pool_patches c own) = (if b then PremiumLRS else StandardLRS)"
    and "om_labels (amp_meta (apply_pool_patches c own)) label_Organization = om_labels (amp_meta c) label_Organization"
    and "om_labels (amp_meta (apply_pool_patches c own)) label_Cluster = om_labels (amp_meta c) label_Cluster"
proof -
  note c = assms(2) [unfolded creatable_pool_def]
  obtain q s' where q: "AzureMachinePool_ensureStorageAccountType h c s = (q, s')" by fastforce
  from assms(1) obtain r1 r2 q' where r: "EnsureReleaseVersionLabel (aph_ctrlClient h) (amp_meta c) = Ok r1"
       "CopyAzureOperatorVersionLabelFromAzureClusterCR (aph_ctrlClient h) (amp_meta c) = Ok r2" and q': "q = Ok q'"
    and own: "own = opt_patch (if 0 < length (amp_Location c) then None
            else Some (PatchAdd ''/spec/location'' (PV_string (aph_location h)))) @ opt_patch q' @
       opt_patch (Some (PatchAdd ''/spec/template/dataDisks'' (PV_DataDisks desiredDataDisks))) @
       opt_patch r1 @ opt_patch r2"
    using c
    by (auto simp: AzureMachinePool_repairs_def AzureMachinePool_ensureLocation_def
        AzureMachinePool_ensureDataDisks_def outcome_simps q Cons_eq_map_conv split: if_splits simp del: collect_patches.simps)
  from q q' c obtain b where b: "q' = Some (PatchAdd ''/spec/template/osDisk/managedDisk/storageAccountType''
        (PV_string (if b then PremiumLRS else StandardLRS)))"
      "HasCapability (aph_vmcaps h) (aph_location h) (amp_VMSize c) CapabilityPremiumIO s = (Ok b, s')"
    by (auto elim!: ensureStorageAccountType_cases split: if_splits)
  have other: "label_Organization \<noteq> label_ReleaseVersion" "label_Organization \<noteq> label_AzureOperatorVersion"
    "label_Cluster \<noteq> label_ReleaseVersion" "label_Cluster \<noteq> label_AzureOperatorVersion"
    by (simp_all add: label_Organization_def label_ReleaseVersion_def label_AzureOperatorVersion_def label_Cluster_def)
  let ?c1 = "apply_pool_patches c own"
  have "amp_Location ?c1 = aph_location h \<and> amp_DataDisks ?c1 = desiredDataDisks \<and>
      amp_StorageAccountType ?c1 = (if b then PremiumLRS else StandardLRS) \<and>
      om_labels (amp_meta ?c1) label_Organization = om_labels (amp_meta c) label_Organization \<and>
      om_labels (amp_meta ?c1) label_Cluster = om_labels (amp_meta c) label_Cluster"
    using r c other unfolding own
    by (elim release_label_patch_cases operator_label_patch_cases) (auto simp: apply_pool_patches_def b(1))
  with b(2) that q show thesis by simp
qed

lemma created_pool_valid:
  assumes "creatable_pool h c" and "collect_patches (map (\<lambda>f. f c) (AzureMachinePool_repairs h s)) = Ok own"
    and "pool_document K d (apply_pool_patches c own)" and "pool_document K d c'"
    and "amp_VMSize c' = amp_VMSize c" and "amp_AcceleratedNetworking c' = amp_AcceleratedNetworking c"
    and "amp_SSHPublicKey c' = amp_SSHPublicKey c" and "crd_ValidateCreate (lib_AzureMachinePool L) c' = None"
    and "vm_extends (snd (AzureMachinePool_ensureStorageAccountType h c s)) t"
    and "big_enough (aph_vmcaps h) t c'"
    and "amp_AcceleratedNetworking c = Some True \<Longrightarrow> supports (aph_vmcaps h) t c' CapabilityAcceleratedNetworking"
  shows "AzureMachinePool_OnCreateValidate L h (ObjAzureMachinePool c') t = (Ok (), t)"
proof -
  obtain b where b: "HasCapability (aph_vmcaps h) (aph_location h) (amp_VMSize c) CapabilityPremiumIO s =
      (Ok b, snd (AzureMachinePool_ensureStorageAccountType h c s))"
    and own: "amp_Location (apply_pool_patches c own) = aph_location h"
      "amp_DataDisks (apply_pool_patches c own) = desiredDataDisks"
      "amp_StorageAccountType (apply_pool_patches c own) = (if b then PremiumLRS else StandardLRS)"
      "om_labels (amp_meta (apply_pool_patches c own)) label_Organization = om_labels (amp_meta c) label_Organization"
      "om_labels (amp_meta (apply_pool_patches c own)) label_Cluster = om_labels (amp_meta c) label_Cluster"
    by (rule pool_repaired [OF assms(2,1)])
  note same = pool_document_unique [OF assms(3,4)] own
  have "ValidateOrganizationLabelMatchesCluster (aph_ctrlClient h) (amp_meta c') = Ok ()"
    using assms(1) same unfolding creatable_pool_def organization_matches_cluster by metis
  then have fields: "pool_fields_fit L h c'"
    using assms(1,7,8) same by (simp add: pool_fields_fit_def creatable_pool_def)
  have "supports (aph_vmcaps h) t c' CapabilityPremiumIO" if b
    using settled_questions(3) [OF b assms(9)] that same assms(5) by (simp add: supports_def)
  then have "capabilities_fit (aph_vmcaps h) t c'"
    using assms(6,10,11) same by (auto simp: capabilities_fit_def split: if_splits)
  with fields show ?thesis
    by (auto simp: AzureMachinePool_OnCreateValidate_def pool_fields_fit_def capabilities_fit_def outcome_simps
        AzureMachinePool_checkSSHKeyIsEmpty_def checkDataDisks_def AzureMachinePool_checkLocation_def settled_checks
        simp del: organization_matches_cluster)
qed

lemma pool_create_routes:
  assumes "RegisterWebhookHandlers L H now U cfg logger (Some k) (Some r) (Some v) = Ok routes"
  defines "f \<equiv> \<lparr>hf_ctrlReader = r, hf_ctrlClient = k\<rparr>"
    and "h \<equiv> \<lparr>aph_ctrlClient = k, aph_decoder = U, aph_location = cfg_Location cfg, aph_vmcaps = v\<rparr>"
  shows "route routes ''/mutate/azuremachinepool/create'' =
      Some (mutator_NewCreateHandler H f (AzureMachinePool_Decode h) (AzureMachinePool_OnCreateMutate L h))"
    and "route routes ''/validate/azuremachinepool/create'' =
      Some (validator_NewCreateHandler H f (AzureMachinePool_Decode h) (AzureMachinePool_OnCreateValidate L h))"
  using assms(1)
  by (simp_all add: route_def RegisterWebhookHandlers_Ok_iff all_webhooks_def Let_def register_def webhook_defs
      resource_defs f_def h_def)

lemma pool_mutation_parts:
  assumes "AzureMachinePool_OnCreateMutate L h (ObjAzureMachinePool c) s = (Ok ps, s')"
  shows "\<exists>own. collect_patches (map (\<lambda>f. f c) (AzureMachinePool_repairs h s)) = Ok own \<and>
      with_defaults L (lib_AzureMachinePool L) c [''/spec/template/sshPublicKey''] own = Ok ps"
    and "s' = snd (AzureMachinePool_ensureStorageAccountType h c s)"
proof -
  show "\<exists>own. collect_patches (map (\<lambda>f. f c) (AzureMachinePool_repairs h s)) = Ok own \<and>
      with_defaults L (lib_AzureMachinePool L) c [''/spec/template/sshPublicKey''] own = Ok ps"
    using assms by (auto simp: AzureMachinePool_OnCreateMutate_def AzureMachinePool_repairs_def outcome_simps)
  show "s' = snd (AzureMachinePool_ensureStorageAccountType h c s)"
    using assms by (auto simp: AzureMachinePool_OnCreateMutate_def outcome_simps)
qed

text \<open>C27. A node pool is created as the two endpoints intend it: when a user leaves storage account type, data disks
  and location to the program and names the organization of the pool's cluster, then the mutating endpoint asks
  for the capabilities of the machine type and answers with patches, and the object decoded from the patched
  document is admitted while the cache still knows that answer, if the machine type has the memory, the CPUs and
  the network the pool asks for, its type accepts it, and the type's defaults concern other members.\<close>

theorem created_pool_is_admitted:
  assumes "RegisterWebhookHandlers L H now U cfg logger (Some k) (Some r) (Some v) = Ok routes"
    and "route routes ''/mutate/azuremachinepool/create'' = Some mutate"
    and "route routes ''/validate/azuremachinepool/create'' = Some validate"
    and "h = \<lparr>aph_ctrlClient = k, aph_decoder = U, aph_location = cfg_Location cfg, aph_vmcaps = v\<rparr>"
    and "serialises H" and "reads_back K"
    and "\<And>raw c. dec_AzureMachinePool U raw = Inr c \<Longrightarrow> pool_document K (parse raw) c"
    and "resubmits H K parse first rq ps second rq'"
    and "dec_AzureMachinePool U (ar_Object rq) = Inr c" and "creatable_pool h c"
    and "IsObjectReconciledByLegacyRelease r (amp_meta c) (TryGetOwnerCluster k (Some (amp_meta c))) = Ok True"
    and "AzureMachinePool_OnCreateMutate L h (ObjAzureMachinePool c) s = (Ok ps, s')"
    and "default_patches L (ObjAzureMachinePool c) = Ok capi" and "spares capi pool_areas"
    and "dec_AzureMachinePool U (ar_Object rq') = Inr c'"
    and "amp_VMSize c' = amp_VMSize c" and "amp_AcceleratedNetworking c' = amp_AcceleratedNetworking c"
    and "amp_SSHPublicKey c' = amp_SSHPublicKey c" and "crd_ValidateCreate (lib_AzureMachinePool L) c' = None"
    and "IsObjectReconciledByLegacyRelease r (amp_meta c') (TryGetOwnerCluster k (Some (amp_meta c'))) = Ok True"
    and "vm_extends s' t" and "big_enough v t c'"
    and "amp_AcceleratedNetworking c = Some True \<Longrightarrow> supports v t c' CapabilityAcceleratedNetworking"
  shows "mutate first s = (mutator_reply H rq (Ok ps), s') \<and>
    (\<exists>reply. validate second t = (Ok reply, t) \<and> admits reply (ar_UID rq'))"
proof -
  let ?f = "\<lparr>hf_ctrlReader = r, hf_ctrlClient = k\<rparr>"
  let ?d = "parse (ar_Object rq)" and ?d' = "parse (ar_Object rq')"
  note parts = pool_mutation_parts [OF assms(12)]
  obtain own where own: "collect_patches (map (\<lambda>f. f c) (AzureMachinePool_repairs h s)) = Ok own" and ps: "ps = own @ capi"
    using parts(1) assms(13) unfolding default_patches_def by (auto dest: with_defaults_split)
  note s' = parts(2)
  have d': "apply_patches (encode K) (own @ capi) ?d = Some ?d'" using assms(8) by (simp add: resubmits_def ps)
  have "pool_document K ?d' (foldl apply_pool_patch c own)"
    by (rule mutated_document [OF pool_documents [OF assms(6)] pool_repairs_write_at places_separate(4) own
        assms(7) [OF assms(9)] d']) (rule pool_document_spared [OF assms(14)])
  then have doc: "pool_document K ?d' (apply_pool_patches c own)" by (simp add: apply_pool_patches_def)
  have h: "aph_decoder h = U" "aph_vmcaps h = v" by (simp_all add: assms(4))
  have valid: "AzureMachinePool_OnCreateValidate L h (ObjAzureMachinePool c') t = (Ok (), t)"
    by (rule created_pool_valid [OF assms(10) own doc assms(7) [OF assms(15)] assms(16-19)])
      (simp_all add: h assms(21-23) flip: s')
  have routes: "mutate = mutator_NewCreateHandler H ?f (AzureMachinePool_Decode h) (AzureMachinePool_OnCreateMutate L h)"
    "validate = validator_NewCreateHandler H ?f (AzureMachinePool_Decode h) (AzureMachinePool_OnCreateValidate L h)"
    using assms(2,3) pool_create_routes [OF assms(1)] by (simp_all add: assms(4))
  show ?thesis
    unfolding routes
    by (rule both_endpoints [OF assms(8,5), where ob = "ObjAzureMachinePool c" and ob' = "ObjAzureMachinePool c'"])
      (simp_all add: AzureMachinePool_Decode_def decode_with_Ok_iff reconciled_by_legacy_def h
        assms(9,11,12,15,20) valid)
qed

section \<open>Creations for the witnesses\<close>

text \<open>Requests whose body names the object, and two objects behind the names.\<close>

definition demo_posted :: "string \<Rightarrow> admission_request" where
  "demo_posted raw = demo_review_request\<lparr>ar_Object := raw\<rparr>"

definition demo_post :: "string \<Rightarrow> http_request" where
  "demo_post raw = \<lparr>rq_ContentType = ''application/json'', rq_Body = Inr raw\<rparr>"

definition demo_posting :: http_lib where
  "demo_posting = demo_http\<lparr>hl_DecodeReview := (\<lambda>raw. Inr \<lparr>rv_Request = Some (demo_posted raw)\<rparr>)\<rparr>"

definition demo_two :: "'a \<Rightarrow> 'a \<Rightarrow> string \<Rightarrow> 'a" where
  "demo_two x y raw = (if raw = ''first'' then x else y)"

lemma demo_posting_serialises: "serialises demo_posting"
  by (simp add: serialises_def demo_posting_def demo_http_def)

lemma demo_resubmits:
  "apply_patches (encode K) ps d = Some d' \<Longrightarrow>
    resubmits demo_posting K (demo_two d d') (demo_post ''first'') (demo_posted ''first'') ps (demo_post ''second'')
      (demo_posted ''second'')"
  by (simp add: resubmits_def carries_def demo_posting_def demo_post_def demo_posted_def demo_two_def demo_review_request_def)

lemma demo_posted_object [simp]: "ar_Object (demo_posted raw) = raw" "ar_UID (demo_posted raw) = ''u1''"
  by (simp_all add: demo_posted_def demo_review_request_def)

text \<open>An installation on a legacy release, with one cluster.\<close>

definition demo_world :: kube_api where
  "demo_world = demo_org_kube [demo_release ''v1.0.0'' ''active'' [\<lparr>cmp_Name = ''azure-operator'', cmp_Version = ''5.0.0''\<rparr>]]
     (demo_labels(label_AzureOperatorVersion \<mapsto> ''5.0.0''))"

lemma demo_world_legacy:
  "om_labels m label_ReleaseVersion = Some ''v1.0.0'' \<Longrightarrow> IsObjectReconciledByLegacyRelease demo_world m oc = Ok True"
  by (simp add: IsObjectReconciledByLegacyRelease_def TryFindReleaseForObject_def FindRelease_def demo_world_def
      demo_org_kube_def demo_installation_def demo_kube_def demo_release_def release_cr_name_def HasPrefix_def mget_def
      IsLegacy_def ContainsAzureOperator_def GetComponentVersionsFromReleaseCR_def azureOperatorComponentName_def)

lemma demo_world_operator:
  "CopyAzureOperatorVersionLabelFromAzureClusterCR demo_world (demo_meta n demo_labels as) =
     Ok (Some (PatchAdd (label_path label_AzureOperatorVersion) (PV_string ''5.0.0'')))"
  by (simp add: CopyAzureOperatorVersionLabelFromAzureClusterCR_def getLabelValueFromAzureCluster_def demo_world_def mget_def
      demo_azure_cluster_def)

lemma demo_world_organization: "kube_getOrganization demo_world n = Inr ()"
  by (simp add: demo_world_def demo_org_kube_def demo_installation_def demo_kube_def)

definition demo_bare_cluster :: cluster where
  "demo_bare_cluster = \<lparr>cl_meta = demo_meta ''c'' demo_labels Map.empty, cl_ClusterNetwork = None,
     cl_ControlPlaneEndpoint = \<lparr>ep_Host = '''', ep_Port = 0\<rparr>, cl_Conditions = [], cl_rest = ''''\<rparr>"

definition demo_metadata_json :: json where
  "demo_metadata_json = JObj [''name'' \<mapsto> JStr ''c'', ''namespace'' \<mapsto> JStr ''org'',
     ''labels'' \<mapsto> JObj (\<lambda>l. map_option JStr (demo_labels l))]"

lemma demo_metadata_document:
  "meta_document (JObj [''metadata'' \<mapsto> demo_metadata_json, ''spec'' \<mapsto> sp]) (demo_meta ''c'' demo_labels Map.empty)"
  by (auto simp: meta_document_def demo_metadata_json_def demo_meta_def holds_def entry_def split: option.split)

definition demo_bare_json :: json where
  "demo_bare_json = JObj [''metadata'' \<mapsto> demo_metadata_json,
     ''spec'' \<mapsto> JObj [''controlPlaneEndpoint'' \<mapsto> JObj Map.empty]]"

lemma demo_bare_document: "cluster_document K demo_bare_json demo_bare_cluster"
  using demo_metadata_document
  by (simp add: cluster_document_def endpoint_document_def demo_bare_json_def demo_bare_cluster_def holds_def)

definition demo_bare_patches :: "patch_operation list" where
  "demo_bare_patches = [PatchAdd ''/spec/clusterNetwork'' (PV_ClusterNetwork defaultClusterNetwork),
     PatchAdd ''/spec/controlPlaneEndpoint/host'' (PV_string ''api.c.k8s.io''),
     PatchAdd ''/spec/controlPlaneEndpoint/port'' (PV_int 443),
     PatchAdd (label_path label_AzureOperatorVersion) (PV_string ''5.0.0'')]"

lemma demo_bare_repairs:
  assumes "clh_baseDomain h = ''k8s.io''" and "clh_ctrlClient h = demo_world"
  shows "collect_patches (map (\<lambda>f. f demo_bare_cluster) (Cluster_repairs h)) = Ok demo_bare_patches"
  using demo_world_operator
  by (simp add: Cluster_repairs_def Cluster_ensureClusterNetwork_def Cluster_ensureControlPlaneEndpointHost_def
      Cluster_ensureControlPlaneEndpointPort_def patch_if_def assms demo_bare_cluster_def demo_bare_patches_def
      GetControlPlaneEndpointHost_def ControlPlaneEndpointPort_def)

lemma demo_bare_patched:
  obtains d' where "apply_patches (encode demo_codec) demo_bare_patches demo_bare_json = Some d'"
    and "cluster_document demo_codec d' (apply_cluster_patches demo_bare_cluster demo_bare_patches)"
proof -
  have "\<forall>p\<in>set demo_bare_patches. holder demo_bare_json p"
    by (simp add: demo_bare_patches_def holder_def demo_bare_json_def demo_metadata_json_def)
  moreover have "collect_patches (map (\<lambda>f. f demo_bare_cluster) (Cluster_repairs (demo_cluster_handler\<lparr>clh_ctrlClient := demo_world\<rparr>))) =
      Ok demo_bare_patches"
    by (rule demo_bare_repairs) (simp_all add: demo_cluster_handler_def)
  note document_additions.repaired_document [OF cluster_documents [OF demo_codec_reads_back] repairs_write_at(1)
      places_separate(1) this demo_bare_document]
  ultimately show thesis using that by (auto simp: apply_cluster_patches_def)
qed

theorem created_cluster_is_admitted_witness:
  "\<exists>U routes validate reply.
     RegisterWebhookHandlers demo_lib demo_posting (0, 0) U demo_app_config (Some ()) (Some demo_world) (Some demo_world)
       (Some demo_sku_api) = Ok routes \<and> route routes ''/validate/cluster/create'' = Some validate \<and>
     validate (demo_post ''second'') demo_vm_empty = (Ok reply, demo_vm_empty) \<and> admits reply ''u1''"
proof -
  let ?c' = "apply_cluster_patches demo_bare_cluster demo_bare_patches"
  let ?U = "demo_decoder\<lparr>dec_Cluster := (\<lambda>raw. Inr (demo_two demo_bare_cluster ?c' raw))\<rparr>"
  let ?h = "\<lparr>clh_baseDomain = cfg_BaseDomain demo_app_config, clh_decoder = ?U, clh_ctrlReader = demo_world,
    clh_ctrlClient = demo_world\<rparr>"
  obtain d' where d': "apply_patches (encode demo_codec) demo_bare_patches demo_bare_json = Some d'"
    "cluster_document demo_codec d' ?c'" by (rule demo_bare_patched)
  obtain routes where routes: "RegisterWebhookHandlers demo_lib demo_posting (0, 0) ?U demo_app_config (Some ())
      (Some demo_world) (Some demo_world) (Some demo_sku_api) = Ok routes"
    by (simp add: RegisterWebhookHandlers_Ok_iff demo_app_config_def)
  have reads: "cluster_document demo_codec (demo_two demo_bare_json d' raw) c" if "dec_Cluster ?U raw = Inr c" for raw c
    using that d'(2) demo_bare_document by (auto simp: demo_two_def split: if_splits)
  have mut: "Cluster_OnCreateMutate demo_lib ?h (ObjCluster demo_bare_cluster) = Ok demo_bare_patches"
    by (simp add: mutation_of_repairs demo_bare_repairs demo_app_config_def with_defaults_nothing GenerateFromObjectDiff_def
        sort_patches_def with_defaults_def)
  have creatable: "creatable_cluster demo_lib ?h demo_bare_cluster"
    by (simp add: creatable_cluster_def demo_bare_cluster_def demo_world_organization)
  have none: "default_patches demo_lib (ObjCluster demo_bare_cluster) = Ok []"
    by (simp add: default_patches_def with_defaults_def GenerateFromObjectDiff_def sort_patches_def)
  have dec: "dec_Cluster ?U (ar_Object (demo_posted ''first'')) = Inr demo_bare_cluster"
    "dec_Cluster ?U (ar_Object (demo_posted ''second'')) = Inr ?c'"
    by (simp_all add: demo_two_def)
  have legacy: "IsObjectReconciledByLegacyRelease demo_world (cl_meta demo_bare_cluster) oc = Ok True" for oc
    by (rule demo_world_legacy) (simp add: demo_bare_cluster_def)
  note created_cluster_is_admitted [OF routes cluster_create_routes [OF routes] refl demo_posting_serialises
      demo_codec_reads_back reads demo_resubmits [OF d'(1)] dec(1) creatable legacy mut none _ dec(2)]
  then show ?thesis using routes cluster_create_routes(2) [OF routes] by (fastforce simp: spares_def)
qed

definition demo_bare_azurecluster :: azure_cluster where
  "demo_bare_azurecluster = \<lparr>ac_meta = demo_meta ''c'' demo_labels Map.empty, ac_Location = '''',
     ac_ControlPlaneEndpoint = \<lparr>ep_Host = '''', ep_Port = 0\<rparr>,
     ac_APIServerLB = \<lparr>lb_Name = '''', lb_SKU = '''', lb_Type = '''', lb_FrontendIPs = [], lb_rest = ''''\<rparr>, ac_rest = ''''\<rparr>"

definition demo_bare_azure_json :: json where
  "demo_bare_azure_json = JObj [''metadata'' \<mapsto> demo_metadata_json,
     ''spec'' \<mapsto> JObj [''controlPlaneEndpoint'' \<mapsto> JObj Map.empty, ''networkSpec'' \<mapsto> JObj Map.empty]]"

lemma demo_bare_azure_document: "azurecluster_document K demo_bare_azure_json demo_bare_azurecluster"
  using demo_metadata_document
  by (simp add: azurecluster_document_def endpoint_document_def demo_bare_azure_json_def demo_bare_azurecluster_def holds_def)

definition demo_bare_azure_patches :: "patch_operation list" where
  "demo_bare_azure_patches = [PatchAdd ''/spec/controlPlaneEndpoint/host'' (PV_string ''api.c.k8s.io''),
     PatchAdd ''/spec/controlPlaneEndpoint/port'' (PV_int 443), PatchAdd ''/spec/location'' (PV_string ''westeurope''),
     PatchAdd ''/spec/networkSpec/apiServerLB'' (PV_LoadBalancer (standardAPIServerLB ''c'')),
     PatchAdd (label_path label_AzureOperatorVersion) (PV_string ''5.0.0'')]"

lemma demo_world_component:
  "EnsureComponentVersionLabelFromRelease demo_world (demo_meta n demo_labels as) ''azure-operator'' label_AzureOperatorVersion =
     Ok (Some (PatchAdd (label_path label_AzureOperatorVersion) (PV_string ''5.0.0'')))"
  by (simp add: EnsureComponentVersionLabelFromRelease_def GetComponentVersionsFromRelease_def FindRelease_def
      demo_world_def demo_org_kube_def demo_installation_def demo_kube_def demo_release_def release_cr_name_def
      HasPrefix_def mget_def GetComponentVersionsFromReleaseCR_def outcome_simps Let_def)

lemma demo_bare_azure_repairs:
  assumes "ach_baseDomain h = ''k8s.io''" and "ach_ctrlReader h = demo_world" and "ach_location h = ''westeurope''"
  shows "collect_patches (map (\<lambda>f. f demo_bare_azurecluster) (AzureCluster_repairs h)) = Ok demo_bare_azure_patches"
  using demo_world_component
  by (simp add: AzureCluster_repairs_def AzureCluster_ensureControlPlaneEndpointHost_def ensureAPIServerLB_def
      AzureCluster_ensureControlPlaneEndpointPort_def AzureCluster_ensureLocation_def patch_if_def assms
      demo_bare_azurecluster_def demo_bare_azure_patches_def GetControlPlaneEndpointHost_def ControlPlaneEndpointPort_def
      standardAPIServerLB_def)

theorem created_azurecluster_is_admitted_witness:
  "\<exists>L U routes validate reply.
     RegisterWebhookHandlers L demo_posting (0, 0) U demo_app_config (Some ()) (Some demo_world) (Some demo_world)
       (Some demo_sku_api) = Ok routes \<and> route routes ''/validate/azurecluster/create'' = Some validate \<and>
     validate (demo_post ''second'') demo_vm_empty = (Ok reply, demo_vm_empty) \<and> admits reply ''u1''"
proof -
  let ?c' = "apply_azurecluster_patches demo_bare_azurecluster demo_bare_azure_patches"
  let ?U = "demo_decoder\<lparr>dec_AzureCluster := (\<lambda>raw. Inr (demo_two demo_bare_azurecluster ?c' raw))\<rparr>"
  let ?L = "demo_lib\<lparr>lib_Deserializer := ?U\<rparr>"
  let ?h = "\<lparr>ach_baseDomain = cfg_BaseDomain demo_app_config, ach_ctrlReader = demo_world, ach_ctrlClient = demo_world,
    ach_decoder = ?U, ach_location = cfg_Location demo_app_config\<rparr>"
  have own: "collect_patches (map (\<lambda>f. f demo_bare_azurecluster) (AzureCluster_repairs ?h)) = Ok demo_bare_azure_patches"
    by (rule demo_bare_azure_repairs) (simp_all add: demo_app_config_def)
  have "\<forall>p\<in>set demo_bare_azure_patches. holder demo_bare_azure_json p"
    by (simp add: demo_bare_azure_patches_def holder_def demo_bare_azure_json_def demo_metadata_json_def)
  then obtain d' where d': "apply_patches (encode demo_codec) demo_bare_azure_patches demo_bare_azure_json = Some d'"
    "azurecluster_document demo_codec d' ?c'"
    using document_additions.repaired_document [OF azurecluster_documents [OF demo_codec_reads_back] repairs_write_at(2)
        places_separate(2) own demo_bare_azure_document]
    by (auto simp: apply_azurecluster_patches_def)
  obtain routes where routes: "RegisterWebhookHandlers ?L demo_posting (0, 0) ?U demo_app_config (Some ())
      (Some demo_world) (Some demo_world) (Some demo_sku_api) = Ok routes"
    by (simp add: RegisterWebhookHandlers_Ok_iff demo_app_config_def)
  have reads: "azurecluster_document demo_codec (demo_two demo_bare_azure_json d' raw) c"
    if "dec_AzureCluster (lib_Deserializer ?L) raw = Inr c" for raw c
    using that d'(2) demo_bare_azure_document by (auto simp: demo_two_def split: if_splits)
  have mut: "AzureCluster_OnCreateMutate ?L ?h (ObjAzureCluster demo_bare_azurecluster) = Ok demo_bare_azure_patches"
    using own by (simp add: mutation_of_repairs GenerateFromObjectDiff_def sort_patches_def with_defaults_def
        skipped_network_paths_def SkipForPath_def)
  have creatable: "creatable_azurecluster ?L ?h demo_bare_azurecluster"
    by (simp add: creatable_azurecluster_def demo_bare_azurecluster_def demo_world_organization)
  have none: "default_patches ?L (ObjAzureCluster demo_bare_azurecluster) = Ok []"
    by (simp add: default_patches_def with_defaults_def GenerateFromObjectDiff_def sort_patches_def
        skipped_network_paths_def SkipForPath_def)
  have dec: "dec_AzureCluster (lib_Deserializer ?L) (ar_Object (demo_posted ''first'')) = Inr demo_bare_azurecluster"
    "dec_AzureCluster (lib_Deserializer ?L) (ar_Object (demo_posted ''second'')) = Inr ?c'"
    by (simp_all add: demo_two_def)
  have legacy: "IsObjectReconciledByLegacyRelease demo_world (ac_meta demo_bare_azurecluster) oc = Ok True" for oc
    by (rule demo_world_legacy) (simp add: demo_bare_azurecluster_def)
  note created_azurecluster_is_admitted [OF routes azurecluster_create_routes [OF routes] refl demo_posting_serialises
      demo_codec_reads_back reads demo_resubmits [OF d'(1)] dec(1) creatable legacy mut none _ dec(2)]
  then show ?thesis using routes azurecluster_create_routes(2) [OF routes] by (fastforce simp: spares_def)
qed

definition demo_pool_json :: json where
  "demo_pool_json = JObj [''metadata'' \<mapsto> JObj [''name'' \<mapsto> JStr ''p'', ''namespace'' \<mapsto> JStr ''org'',
       ''labels'' \<mapsto> JObj (\<lambda>l. map_option JStr (demo_labels l))],
     ''spec'' \<mapsto> JObj [''location'' \<mapsto> JStr ''westeurope'',
       ''template'' \<mapsto> JObj [''osDisk'' \<mapsto> JObj [''managedDisk'' \<mapsto> JObj Map.empty]]]]"

lemma demo_pool_document: "pool_document K demo_pool_json (demo_pool demo_labels '''' [])"
  by (auto simp: pool_document_def meta_document_def demo_pool_json_def demo_pool_def demo_meta_def holds_def entry_def
      split: option.split)

definition demo_pool_patches :: "patch_operation list" where
  "demo_pool_patches = [PatchAdd ''/spec/template/osDisk/managedDisk/storageAccountType'' (PV_string PremiumLRS),
     PatchAdd ''/spec/template/dataDisks'' (PV_DataDisks desiredDataDisks),
     PatchAdd (label_path label_AzureOperatorVersion) (PV_string ''5.0.0'')]"

definition demo_world_pool_handler :: "decoder \<Rightarrow> azuremachinepool_handler" where
  "demo_world_pool_handler U = \<lparr>aph_ctrlClient = demo_world, aph_decoder = U, aph_location = cfg_Location demo_app_config,
     aph_vmcaps = demo_sku_api\<rparr>"

lemma demo_pool_repairs:
  "AzureMachinePool_ensureStorageAccountType (demo_world_pool_handler U) (demo_pool demo_labels '''' []) demo_vm_empty =
     (Ok (Some (PatchAdd ''/spec/template/osDisk/managedDisk/storageAccountType'' (PV_string PremiumLRS))), demo_vm_cached)"
  "collect_patches (map (\<lambda>f. f (demo_pool demo_labels '''' []))
     (AzureMachinePool_repairs (demo_world_pool_handler U) demo_vm_empty)) = Ok demo_pool_patches"
proof -
  show st: "AzureMachinePool_ensureStorageAccountType (demo_world_pool_handler U) (demo_pool demo_labels '''' []) demo_vm_empty =
     (Ok (Some (PatchAdd ''/spec/template/osDisk/managedDisk/storageAccountType'' (PV_string PremiumLRS))), demo_vm_cached)"
    by (simp add: AzureMachinePool_ensureStorageAccountType_def demo_pool_def demo_world_pool_handler_def demo_app_config_def
        demo_answers bind_st_def lift_st_def Let_def)
  have "EnsureReleaseVersionLabel k (demo_meta n demo_labels as) = Ok None" for k n as
    by (simp add: EnsureReleaseVersionLabel_def mget_def)
  with st demo_world_operator show "collect_patches (map (\<lambda>f. f (demo_pool demo_labels '''' []))
     (AzureMachinePool_repairs (demo_world_pool_handler U) demo_vm_empty)) = Ok demo_pool_patches"
    by (simp add: AzureMachinePool_repairs_def AzureMachinePool_ensureLocation_def AzureMachinePool_ensureDataDisks_def
        demo_pool_patches_def demo_pool_def demo_world_pool_handler_def)
qed

lemma demo_world_pool_mutation:
  "AzureMachinePool_OnCreateMutate demo_lib (demo_world_pool_handler U) (ObjAzureMachinePool (demo_pool demo_labels '''' []))
     demo_vm_empty = (Ok demo_pool_patches, demo_vm_cached)"
proof -
  have "EnsureReleaseVersionLabel k (demo_meta n demo_labels as) = Ok None" for k n as
    by (simp add: EnsureReleaseVersionLabel_def mget_def)
  with demo_pool_repairs(1) [of U] demo_world_operator show ?thesis
    by (simp add: AzureMachinePool_OnCreateMutate_def AzureMachinePool_ensureLocation_def
        AzureMachinePool_ensureDataDisks_def demo_pool_patches_def demo_pool_def demo_world_pool_handler_def
        GenerateFromObjectDiff_def sort_patches_def with_defaults_def SkipForPath_def bind_st_def lift_st_def)
qed

theorem created_pool_is_admitted_witness:
  "\<exists>U routes validate reply.
     RegisterWebhookHandlers demo_lib demo_posting (0, 0) U demo_app_config (Some ()) (Some demo_world) (Some demo_world)
       (Some demo_sku_api) = Ok routes \<and> route routes ''/validate/azuremachinepool/create'' = Some validate \<and>
     validate (demo_post ''second'') demo_vm_cached = (Ok reply, demo_vm_cached) \<and> admits reply ''u1''"
proof -
  let ?c = "demo_pool demo_labels '''' []"
  let ?c' = "apply_pool_patches ?c demo_pool_patches"
  let ?U = "demo_decoder\<lparr>dec_AzureMachinePool := (\<lambda>raw. Inr (demo_two ?c ?c' raw))\<rparr>"
  let ?h = "demo_world_pool_handler ?U"
  have "\<forall>p\<in>set demo_pool_patches. holder demo_pool_json p"
    by (simp add: demo_pool_patches_def holder_def demo_pool_json_def)
  then obtain d' where d': "apply_patches (encode demo_codec) demo_pool_patches demo_pool_json = Some d'"
    "pool_document demo_codec d' ?c'"
    using document_additions.repaired_document [OF pool_documents [OF demo_codec_reads_back] pool_repairs_write_at
        places_separate(4) demo_pool_repairs(2) demo_pool_document]
    by (auto simp: apply_pool_patches_def)
  obtain routes where routes: "RegisterWebhookHandlers demo_lib demo_posting (0, 0) ?U demo_app_config (Some ())
      (Some demo_world) (Some demo_world) (Some demo_sku_api) = Ok routes"
    by (simp add: RegisterWebhookHandlers_Ok_iff demo_app_config_def)
  have reads: "pool_document demo_codec (demo_two demo_pool_json d' raw) c" if "dec_AzureMachinePool ?U raw = Inr c" for raw c
    using that d'(2) demo_pool_document by (auto simp: demo_two_def split: if_splits)
  have creatable: "creatable_pool ?h ?c"
    by (simp add: creatable_pool_def demo_pool_def demo_world_pool_handler_def demo_app_config_def demo_world_def
        organization_matches_cluster)
  have none: "default_patches demo_lib (ObjAzureMachinePool ?c) = Ok []"
    by (simp add: default_patches_def with_defaults_def GenerateFromObjectDiff_def sort_patches_def SkipForPath_def)
  have dec: "dec_AzureMachinePool ?U (ar_Object (demo_posted ''first'')) = Inr ?c"
    "dec_AzureMachinePool ?U (ar_Object (demo_posted ''second'')) = Inr ?c'"
    by (simp_all add: demo_two_def)
  have fields: "amp_VMSize ?c' = ''D4''" "amp_Location ?c' = ''westeurope''" "amp_AcceleratedNetworking ?c' = Some True"
    "amp_SSHPublicKey ?c' = ''''" "om_labels (amp_meta ?c') label_ReleaseVersion = Some ''v1.0.0''"
    using operator_labels_differ
    by (simp_all add: apply_pool_patches_def demo_pool_patches_def demo_pool_def)
  have legacy: "IsObjectReconciledByLegacyRelease demo_world (amp_meta ?c) oc = Ok True" for oc
    by (rule demo_world_legacy) (simp add: demo_pool_def)
  have legacy': "IsObjectReconciledByLegacyRelease demo_world (amp_meta ?c') oc = Ok True" for oc
    by (rule demo_world_legacy) (simp add: fields)
  have fit: "big_enough demo_sku_api demo_vm_cached ?c'" "supports demo_sku_api demo_vm_cached ?c' CapabilityAcceleratedNetworking"
    by (simp_all add: big_enough_def supports_def fields demo_answers)
  have same: "amp_VMSize ?c' = amp_VMSize ?c" "amp_AcceleratedNetworking ?c' = amp_AcceleratedNetworking ?c"
    "amp_SSHPublicKey ?c' = amp_SSHPublicKey ?c"
    by (simp_all add: fields) (simp_all add: demo_pool_def)
  have valid: "crd_ValidateCreate (lib_AzureMachinePool demo_lib) ?c' = None" by simp
  note created_pool_is_admitted [OF routes pool_create_routes [OF routes] refl demo_posting_serialises
      demo_codec_reads_back reads demo_resubmits [OF d'(1)] dec(1) creatable [unfolded demo_world_pool_handler_def]
      legacy demo_world_pool_mutation [unfolded demo_world_pool_handler_def] none _ dec(2) same valid legacy' vm_extends_refl
      fit(1) fit(2)]
  then show ?thesis using routes pool_create_routes(2) [OF routes] by (fastforce simp: spares_def)
qed

end
