(* ===== verification/Defaults.thy ===== *)
theory Defaults
  imports Creation
begin

text \<open>
  Which value wins when a mutation and the defaults of a resource's type write to the same place. The
  mutations compute the defaults on the submitted object, not on the one they have repaired, and append
  these patches to their own.
\<close>

lemma replace_is_add:
  assumes "member_path ts" and "edit_slot ts (ReplaceValue v) slot = Some r"
  shows "edit_slot ts (AddValue v) slot = Some r"
  using assms
proof (induction ts "ReplaceValue v" slot arbitrary: r rule: edit_slot.induct)
  case (2 k ks m)
  then show ?case by (cases ks) (auto split: if_splits)
next
  case (3 k ks xs)
  then show ?case by (cases ks) (auto split: option.splits simp del: edit_array.simps)
qed (auto split: if_splits)

definition writes :: "patch_operation \<Rightarrow> bool" where
  "writes p \<longleftrightarrow> po_Operation p \<in> {''add'', ''replace''} \<and> member_path (tokens (po_Path p))"

lemma written_at:
  assumes "writes p" and "apply_patch enc p d = Some d'"
  shows "at (tokens (po_Path p)) (Some d') = Some (enc (po_Value p))"
proof -
  from assms obtain r where "edit_slot (tokens (po_Path p)) (AddValue (enc (po_Value p))) (Some d) = Some r" "r = Some d'"
    by (auto simp: writes_def apply_patch_def edit_of_def dest: replace_is_add split: Option.bind_splits if_splits)
  with at_added [OF _ this(1)] assms(1) show ?thesis by (simp add: writes_def)
qed

lemma last_write_wins:
  assumes "writes p" and "spares qs [tokens (po_Path p)]" and "apply_patches enc (ps @ p # qs) d = Some d'"
  shows "at (tokens (po_Path p)) (Some d') = Some (enc (po_Value p))"
proof -
  from assms(3) obtain d1 d2 where d: "apply_patch enc p d1 = Some d2" "apply_patches enc qs d2 = Some d'"
    by (auto simp: apply_patches_append split: Option.bind_splits)
  from spared_at [OF assms(2) _ d(2), of "tokens (po_Path p)" "[]"] written_at [OF assms(1) d(1)] show ?thesis by simp
qed

text \<open>C8. The defaults of the type win, for every handler and for created and updated objects: whatever value the
  handler's own patch writes to a place, if the type's defaults write to it too, then the patched document
  has the type's value there, because the handler's repair is not seen by the defaults, which come last.\<close>

theorem type_defaults_win:
  assumes "reads_back K"
    and "getAllHandlers L now U cfg logger client reader vmcaps = Ok handlers" and "h \<in> set handlers"
    and "wh_OnCreateMutate h = Some mutate \<or> (\<exists>m old. wh_OnUpdateMutate h = Some m \<and> mutate = m old)"
    and "wh_Decode h raw = Ok ob" and "object_document K d ob" and "mutate ob s = (Ok ps, s')"
    and "default_patches L ob = Ok (before @ p # after)" and "writes p" and "spares after [tokens (po_Path p)]"
    and "apply_patches (encode K) ps d = Some d'"
  shows "at (tokens (po_Path p)) (Some d') = Some (encode K (po_Value p))"
proof -
  from handlers_mutate_documents [OF assms(1-5)] assms(6,7) obtain own capi
    where "ps = own @ capi" "default_patches L ob = Ok capi"
    unfolding mutates_documents_def by blast
  with assms(8) have "ps = (own @ before) @ p # after" by simp
  with last_write_wins [OF assms(9,10)] assms(11) show ?thesis by blast
qed


section \<open>A machine whose type has a default of its own\<close>

definition demo_bare_machine :: azure_machine where
  "demo_bare_machine = \<lparr>am_meta = demo_meta ''c'' demo_labels Map.empty, am_Location = '''', am_VMSize = ''D4'',
     am_FailureDomain = None, am_SSHPublicKey = '''', am_OSDiskCachingType = '''', am_rest = ''''\<rparr>"

definition demo_machine_json :: json where
  "demo_machine_json = JObj [''metadata'' \<mapsto> demo_metadata_json, ''spec'' \<mapsto> JObj [''osDisk'' \<mapsto> JObj Map.empty]]"

definition demo_default :: patch_operation where
  "demo_default = PatchAdd ''/spec/osDisk/cachingType'' (PV_string ''None'')"

definition demo_default_lib :: lib where
  "demo_default_lib = demo_lib\<lparr>lib_CreatePatch := (\<lambda>a b. Inr [demo_default]),
     lib_AzureMachine := demo_crd\<lparr>crd_Default := (\<lambda>c. c\<lparr>am_OSDiskCachingType := ''None''\<rparr>)\<rparr>,
     lib_Deserializer := demo_decoder\<lparr>dec_AzureMachine := (\<lambda>raw. Inr demo_bare_machine)\<rparr>\<rparr>"

definition demo_default_handler :: azuremachine_handler where
  "demo_default_handler = \<lparr>amh_ctrlClient = demo_world, amh_decoder = demo_decoder, amh_location = ''westeurope'',
     amh_vmcaps = demo_sku_api\<rparr>"

definition demo_machine_patches :: "patch_operation list" where
  "demo_machine_patches = [PatchAdd ''/spec/location'' (PV_string ''westeurope''),
     PatchAdd ''/spec/osDisk/cachingType'' (PV_string OSDiskCachingType),
     PatchAdd (label_path label_AzureOperatorVersion) (PV_string ''5.0.0''), demo_default]"

lemma demo_default_patches: "default_patches demo_default_lib (ObjAzureMachine demo_bare_machine) = Ok ([] @ demo_default # [])"
  by (simp add: default_patches_def with_defaults_def GenerateFromObjectDiff_def demo_default_lib_def sort_patches_def
      SkipForPath_def HasPrefix_def demo_default_def demo_crd_def)

lemma demo_machine_repairs:
  "collect_patches (map (\<lambda>f. f demo_bare_machine) (AzureMachine_repairs demo_default_handler)) =
     Ok [PatchAdd ''/spec/location'' (PV_string ''westeurope''),
       PatchAdd ''/spec/osDisk/cachingType'' (PV_string OSDiskCachingType),
       PatchAdd (label_path label_AzureOperatorVersion) (PV_string ''5.0.0'')]"
  using demo_world_operator
  by (simp add: AzureMachine_repairs_def AzureMachine_ensureLocation_def AzureMachine_ensureOSDiskCachingType_def
      patch_if_def demo_bare_machine_def demo_default_handler_def)

lemma demo_machine_mutation:
  "AzureMachine_OnCreateMutate demo_default_lib demo_default_handler (ObjAzureMachine demo_bare_machine) =
     Ok demo_machine_patches"
  using demo_default_patches
  by (auto simp: mutation_of_repairs demo_machine_repairs default_patches_def with_defaults_Ok_iff demo_machine_patches_def)

theorem type_defaults_win_witness:
  "\<exists>d'. AzureMachine_OnCreateMutate demo_default_lib demo_default_handler (ObjAzureMachine demo_bare_machine) =
       Ok demo_machine_patches \<and>
     PatchAdd ''/spec/osDisk/cachingType'' (PV_string ''ReadWrite'') \<in> set demo_machine_patches \<and>
     apply_patches (encode demo_codec) demo_machine_patches demo_machine_json = Some d' \<and>
     at [''spec'', ''osDisk'', ''cachingType''] (Some d') = Some (JStr ''None'')"
proof -
  let ?ob = "ObjAzureMachine demo_bare_machine"
  let ?h = "azuremachine_webhook demo_default_lib demo_default_handler"
  let ?hs = "all_webhooks demo_default_lib (0, 0) demo_decoder demo_app_config demo_world demo_world demo_sku_api"
  have handlers: "getAllHandlers demo_default_lib (0, 0) demo_decoder demo_app_config (Some ()) (Some demo_world)
      (Some demo_world) (Some demo_sku_api) = Ok ?hs"
    by (simp add: getAllHandlers_Ok_iff demo_app_config_def)
  have h: "?h \<in> set ?hs" by (simp add: all_webhooks_def Let_def demo_default_handler_def demo_app_config_def)
  let ?m = "\<lambda>ob. lift_st (AzureMachine_OnCreateMutate demo_default_lib demo_default_handler ob)"
  have m: "wh_OnCreateMutate ?h = Some ?m" "wh_Decode ?h '''' = Ok ?ob"
    by (simp_all add: azuremachine_webhook_def AzureMachine_Decode_def decode_with_Ok_iff demo_default_lib_def)
  have d: "object_document demo_codec demo_machine_json ?ob"
    using demo_metadata_document
    by (simp add: object_document_def machine_document_def demo_machine_json_def demo_bare_machine_def holds_def)
  have mut: "?m ?ob demo_vm_empty = (Ok demo_machine_patches, demo_vm_empty)"
    by (simp add: lift_st_def demo_machine_mutation)
  have w: "writes demo_default" "spares [] [tokens (po_Path demo_default)]"
    by (simp_all add: writes_def spares_def demo_default_def PatchAdd_def)
  obtain d' where d': "apply_patches (encode demo_codec) demo_machine_patches demo_machine_json = Some d'"
    by (simp add: demo_machine_patches_def demo_machine_json_def demo_metadata_json_def demo_default_def apply_patch_def
        edit_of_def PatchAdd_def label_tokens)
  from type_defaults_win [OF demo_codec_reads_back handlers h disjI1 [OF m(1)] m(2) d mut demo_default_patches w d']
  have "at [''spec'', ''osDisk'', ''cachingType''] (Some d') = Some (JStr ''None'')"
    by (simp add: demo_default_def PatchAdd_def)
  with d' demo_machine_mutation show ?thesis by (auto simp: demo_machine_patches_def OSDiskCachingType_def)
qed

end
