(* ===== verification/Histories.thy ===== *)
theory Histories
  imports Server
begin

text \<open>
  What the running server guarantees of the objects of every resource, from their creation on and over
  all later updates: the API server posts the objects of its store to the webhooks of a server that was
  started from the command line, and stores what they admit.
\<close>

section \<open>What the validations protect\<close>

text \<open>The view of an object that no update of a live object may change.\<close>

datatype identity =
    ClusterIdentity "(32 word option \<times> string \<times> network_ranges option) option" api_endpoint "string option"
  | AzureClusterIdentity api_endpoint "string option"
  | AzureMachineIdentity string "string option" "string option"
  | AzureMachinePoolIdentity string string "string option option" "bool option" "string option"
  | MachinePoolIdentity "string multiset" "string option"
  | NoIdentity

fun object_identity :: "object \<Rightarrow> identity" where
  "object_identity (ObjCluster c) =
     ClusterIdentity (cluster_network_view c) (cl_ControlPlaneEndpoint c) (om_labels (cl_meta c) label_Organization)"
| "object_identity (ObjAzureCluster c) =
     AzureClusterIdentity (ac_ControlPlaneEndpoint c) (om_labels (ac_meta c) label_Organization)"
| "object_identity (ObjAzureMachine c) =
     AzureMachineIdentity (am_Location c) (failure_domain c) (om_labels (am_meta c) label_Organization)"
| "object_identity (ObjAzureMachinePool c) =
     AzureMachinePoolIdentity (amp_Location c) (amp_StorageAccountType c) (spot_view c) (amp_AcceleratedNetworking c)
       (om_labels (amp_meta c) label_Organization)"
| "object_identity (ObjMachinePool c) =
     MachinePoolIdentity (mset (mp_FailureDomains c)) (om_labels (mp_meta c) label_Organization)"
| "object_identity _ = NoIdentity"

text \<open>The objects the updating validations look at: the others are being deleted, or are node pools of a
  release that is reconciled by the upstream controllers.\<close>

fun protected :: "lib \<Rightarrow> object \<Rightarrow> bool" where
  "protected L (ObjCluster c) = (\<not> being_deleted (cl_meta c))"
| "protected L (ObjAzureCluster c) = (\<not> being_deleted (ac_meta c))"
| "protected L (ObjAzureMachine c) = (\<not> being_deleted (am_meta c))"
| "protected L (ObjAzureMachinePool c) = (\<not> unguarded_pool L c)"
| "protected L (ObjMachinePool c) = (\<not> being_deleted (mp_meta c))"
| "protected L _ = True"

text \<open>What creation demands and the later updates compare: that the object belongs to the installation. The location
  of an AzureCluster is demanded at its creation but not compared on updates, so it is not among these.\<close>

fun installed :: "app_config \<Rightarrow> object \<Rightarrow> bool" where
  "installed cfg (ObjCluster c) \<longleftrightarrow> canonical_network c \<and> canonical_endpoint (cfg_BaseDomain cfg) c"
| "installed cfg (ObjAzureCluster c) \<longleftrightarrow> azurecluster_canonical_endpoint (cfg_BaseDomain cfg) c"
| "installed cfg (ObjAzureMachine c) \<longleftrightarrow> am_Location c = cfg_Location cfg \<and> am_SSHPublicKey c = ''''"
| "installed cfg (ObjAzureMachinePool c) \<longleftrightarrow> amp_Location c = cfg_Location cfg \<and> amp_SSHPublicKey c = '''' \<and>
     amp_DataDisks c = desiredDataDisks \<and> amp_StorageAccountType c \<in> {StandardLRS, PremiumLRS}"
| "installed cfg _ \<longleftrightarrow> True"

abbreviation object_name :: "object \<Rightarrow> string option" where
  "object_name ob \<equiv> map_option om_name (object_metadata ob)"

lemma canonical_network_view:
  "canonical_network c \<longleftrightarrow> cluster_network_view c = Some (Some ControlPlaneEndpointPort, ServiceDomain,
     Some \<lparr>nr_CIDRBlocks = Some [ClusterNetworkServiceCIDR]\<rparr>)"
  by (auto simp: canonical_network_def cluster_network_view_def)

text \<open>Each of the creating validations.\<close>

lemma created_objects_installed:
  "Cluster_OnCreateValidate L clh now (ObjCluster cl) = Ok () \<Longrightarrow>
     canonical_network cl \<and> canonical_endpoint (clh_baseDomain clh) cl"
  "AzureCluster_OnCreateValidate L ach (ObjAzureCluster ac) = Ok () \<Longrightarrow>
     azurecluster_canonical_endpoint (ach_baseDomain ach) ac"
  "AzureMachine_OnCreateValidate L amh (ObjAzureMachine am) s = (Ok (), s') \<Longrightarrow>
     am_Location am = amh_location amh \<and> am_SSHPublicKey am = ''''"
  "AzureMachinePool_OnCreateValidate L aph (ObjAzureMachinePool amp) s = (Ok (), s') \<Longrightarrow>
     amp_Location amp = aph_location aph \<and> amp_SSHPublicKey amp = '''' \<and>
     amp_DataDisks amp = desiredDataDisks \<and> amp_StorageAccountType amp \<in> {StandardLRS, PremiumLRS}"
  by (auto simp: Cluster_OnCreateValidate_def AzureCluster_OnCreateValidate_def AzureMachine_OnCreateValidate_def
      AzureMachine_checkSSHKeyIsEmpty_def AzureMachine_validateLocation_def AzureMachinePool_OnCreateValidate_def
      AzureMachinePool_checkSSHKeyIsEmpty_def checkDataDisks_def AzureMachinePool_checkLocation_def outcome_simps
      simp del: ignore_fields.simps organization_matches_cluster dest!: checkStorageAccountTypeIsValid_Ok(2))

text \<open>Each of the updating validations.\<close>

lemma updated_objects_keep_identity:
  "Cluster_OnUpdateValidate L clh now (ObjCluster cl) (ObjCluster cl') = Ok () \<Longrightarrow> \<not> being_deleted (cl_meta cl') \<Longrightarrow>
     object_identity (ObjCluster cl) = object_identity (ObjCluster cl')"
  "AzureCluster_OnUpdateValidate L ach (ObjAzureCluster ac) (ObjAzureCluster ac') = Ok () \<Longrightarrow>
     \<not> being_deleted (ac_meta ac') \<Longrightarrow> object_identity (ObjAzureCluster ac) = object_identity (ObjAzureCluster ac')"
  "AzureMachine_OnUpdateValidate L amh (ObjAzureMachine am) (ObjAzureMachine am') = Ok () \<Longrightarrow>
     \<not> being_deleted (am_meta am') \<Longrightarrow> object_identity (ObjAzureMachine am) = object_identity (ObjAzureMachine am')"
  "AzureMachinePool_OnUpdateValidate L aph (ObjAzureMachinePool amp) (ObjAzureMachinePool amp') s = (Ok (), s') \<Longrightarrow>
     \<not> unguarded_pool L amp' \<Longrightarrow> object_identity (ObjAzureMachinePool amp) = object_identity (ObjAzureMachinePool amp')"
  "MachinePool_OnUpdateValidate L (ObjMachinePool mp) (ObjMachinePool mp') = Ok () \<Longrightarrow>
     \<not> being_deleted (mp_meta mp') \<Longrightarrow> object_identity (ObjMachinePool mp) = object_identity (ObjMachinePool mp')"
proof -
  assume "AzureMachinePool_OnUpdateValidate L aph (ObjAzureMachinePool amp) (ObjAzureMachinePool amp') s = (Ok (), s')"
    "\<not> unguarded_pool L amp'"
  then show "object_identity (ObjAzureMachinePool amp) = object_identity (ObjAzureMachinePool amp')"
    using pool_update.guards [of L aph amp amp'] unfolding pool_step_def by auto
qed (use cluster_update.guards [of L clh cl cl'] azurecluster_update.guards [of L ach ac ac']
    machine_update.guards [of L amh am am'] machinepool_update.guards [of L mp mp'] in
  \<open>auto simp: cluster_step_def azurecluster_step_def machine_step_def machinepool_step_def cluster_identity_def
      simp del: split_paired_Ex\<close>)

lemma updated_objects_stay_clean:
  "AzureMachine_OnUpdateValidate L amh (ObjAzureMachine am) (ObjAzureMachine am') = Ok () \<Longrightarrow>
     \<not> being_deleted (am_meta am') \<Longrightarrow> am_SSHPublicKey am' = ''''"
  "AzureMachinePool_OnUpdateValidate L aph (ObjAzureMachinePool amp) (ObjAzureMachinePool amp') s = (Ok (), s') \<Longrightarrow>
     \<not> unguarded_pool L amp' \<Longrightarrow> amp_SSHPublicKey amp' = '''' \<and> amp_DataDisks amp' = desiredDataDisks"
  by (auto simp: machine_update_Ok_iff elim!: pool_update_Ok)


section \<open>The registered validations\<close>

lemma webhook_create:
  assumes "h \<in> set (all_webhooks L now U cfg c r v)" and "wh_OnCreateValidate h = Some m"
    and "wh_Decode h raw = Ok ob" and "m ob s = (Ok (), s')"
  shows "installed cfg ob"
  using assms unfolding all_webhooks_def Let_def list.set insert_iff empty_iff
  by (elim disjE; clarsimp simp: webhook_defs Cluster_Decode_def AzureCluster_Decode_def
      AzureMachine_Decode_def AzureMachinePool_Decode_def MachinePool_Decode_def decode_with_Ok_iff lift_st_def)
    (drule created_objects_installed; force)+

lemma webhook_update:
  assumes "h \<in> set (all_webhooks L now U cfg c r v)" and "wh_OnUpdateValidate h = Some m"
    and "wh_Decode h raw = Ok old" and "wh_Decode h raw' = Ok new"
    and "m old new s = (Ok (), s')" and "protected L new"
  shows "object_identity old = object_identity new \<and>
     (installed cfg old \<longrightarrow> object_name old = object_name new \<longrightarrow> installed cfg new)"
  using assms unfolding all_webhooks_def Let_def list.set insert_iff empty_iff
  by (elim disjE; clarsimp simp: webhook_defs Cluster_Decode_def AzureCluster_Decode_def AzureConfig_Decode_def
      AzureMachine_Decode_def AzureMachinePool_Decode_def MachinePool_Decode_def AzureClusterConfig_Decode_def
      decode_with_Ok_iff lift_st_def canonical_network_view canonical_endpoint_def azurecluster_canonical_endpoint_def
      simp del: object_identity.simps)
    ((frule (1) updated_objects_keep_identity)?, (frule (1) updated_objects_stay_clean)?, simp)+

text \<open>The routes of the validations.\<close>

lemma validation_routes:
  assumes "h \<in> set (all_webhooks L now U cfg c r v)"
    and "routes = concat (map (register H f f) (all_webhooks L now U cfg c r v))"
  shows "route routes (''/validate/'' @ wh_Resource h @ ''/create'') =
      map_option (validator_NewCreateHandler H f (wh_Decode h)) (wh_OnCreateValidate h)"
    and "route routes (''/validate/'' @ wh_Resource h @ ''/update'') =
      map_option (validator_NewUpdateHandler H f (wh_Decode h)) (wh_OnUpdateValidate h)"
  using assms(1) unfolding assms(2) route_def
  by (auto simp: all_webhooks_def Let_def register_def webhook_defs resource_defs)

section \<open>The life of an object\<close>

text \<open>
  A review that a server started in the environment \<open>pf\<close> admits when it is posted to \<open>path\<close>. The clock
  and the state of the machine type cache may be any; the configuration is the one the command line gave.
\<close>

definition server_admission ::
    "platform \<Rightarrow> lib \<Rightarrow> http_lib \<Rightarrow> decoder \<Rightarrow> clock \<Rightarrow> app_config \<Rightarrow> kube_api \<Rightarrow> kube_api \<Rightarrow> string \<Rightarrow> admission_request \<Rightarrow> bool" where
  "server_admission pf L H U now cfg client reader path rq \<longleftrightarrow>
     (\<exists>parts line request s reply s' uid.
        mainError pf L H now U = Serves parts \<and> srv_config parts = cfg \<and>
        pf_NewClients pf userAgent = Inr client \<and> pf_NewCache pf = Inr reader \<and>
        rl_Method line = ''POST'' \<and> rl_Path line = path \<and> carries H request rq \<and>
        ServeHTTP (srv_handler parts) line request s = (Ok (WebhookReply reply), s') \<and> admits reply uid)"

abbreviation server_webhooks :: "platform \<Rightarrow> lib \<Rightarrow> decoder \<Rightarrow> clock \<Rightarrow> app_config \<Rightarrow> kube_api \<Rightarrow> kube_api \<Rightarrow> webhook list" where
  "server_webhooks pf L U now cfg client reader \<equiv>
     all_webhooks L now U cfg client reader (NewAzureAPI (pf_ListComplete pf))"

lemma server_admission_route:
  assumes "server_admission pf L H U now cfg client reader path rq"
  obtains f routes handler request s reply s' uid
  where "Parse (pf_kingpin pf) = Some cfg" and "f = \<lparr>hf_ctrlReader = reader, hf_ctrlClient = client\<rparr>"
    and "routes = concat (map (register H f f) (server_webhooks pf L U now cfg client reader))"
    and "route routes path = Some handler" and "carries H request rq"
    and "handler request s = (Ok reply, s')" and "admits reply uid"
proof -
  from assms obtain parts line request s reply s' uid where
    m: "mainError pf L H now U = Serves parts" "srv_config parts = cfg" "pf_NewClients pf userAgent = Inr client"
      "pf_NewCache pf = Inr reader" and l: "rl_Path line = path" and q: "carries H request rq" "admits reply uid"
    and e: "ServeHTTP (srv_handler parts) line request s = (Ok (WebhookReply reply), s')"
    unfolding server_admission_def by blast
  define f where "f = \<lparr>hf_ctrlReader = reader, hf_ctrlClient = client\<rparr>"
  define routes where "routes = concat (map (register H f f) (server_webhooks pf L U now cfg client reader))"
  have h: "Parse (pf_kingpin pf) = Some cfg" "srv_handler parts = served_table pf routes"
    using m by (auto simp: mainError_Serves_iff RegisterWebhookHandlers_Ok_iff routes_def f_def)
  have p: "map fst routes = served_paths" unfolding routes_def by (rule registered_paths)
  have "endpoint_of pf routes path request s = (Ok (WebhookReply reply), s')"
    using e unfolding h(2) ServeHTTP_served_table [OF p] by (auto simp: l lift_st_def split: if_splits)
  then obtain handler where "route routes path = Some handler" "handler request s = (Ok reply, s')"
    by (auto simp: endpoint_of_def healthCheck_def as_endpoint_def bind_st_def lift_st_def route_def
        split: if_splits option.splits prod.splits outcome.splits)
  with that h(1) f_def routes_def q show thesis by blast
qed


text \<open>An object of a legacy release comes to life when its creation is admitted; later its updates are stored
  when they are admitted. The server runs with one command line \<open>args\<close>; every review may meet another state of
  the platform, that is, other releases, organizations and clusters at the API server and other listings of
  Azure. The API server does not let an update change the name of an object.\<close>

type_synonym command_line = "flag_decl list \<Rightarrow> str_map option"

definition comes_to_life ::
    "command_line \<Rightarrow> lib \<Rightarrow> http_lib \<Rightarrow> decoder \<Rightarrow> object \<Rightarrow> bool" where
  "comes_to_life args L H U ob \<longleftrightarrow>
     (\<exists>pf now cfg client reader h rq. pf_kingpin pf = args \<and>
        h \<in> set (server_webhooks pf L U now cfg client reader) \<and>
        server_admission pf L H U now cfg client reader (''/validate/'' @ wh_Resource h @ ''/create'') rq \<and>
        wh_Decode h (ar_Object rq) = Ok ob \<and>
        reconciled_by_legacy \<lparr>hf_ctrlReader = reader, hf_ctrlClient = client\<rparr> ob = Ok True)"

definition is_updated ::
    "command_line \<Rightarrow> lib \<Rightarrow> http_lib \<Rightarrow> decoder \<Rightarrow> object \<Rightarrow> object \<Rightarrow> bool" where
  "is_updated args L H U old new \<longleftrightarrow>
     (\<exists>pf now cfg client reader h rq. pf_kingpin pf = args \<and>
        h \<in> set (server_webhooks pf L U now cfg client reader) \<and>
        server_admission pf L H U now cfg client reader (''/validate/'' @ wh_Resource h @ ''/update'') rq \<and>
        wh_Decode h (ar_OldObject rq) = Ok old \<and> wh_Decode h (ar_Object rq) = Ok new \<and>
        reconciled_by_legacy \<lparr>hf_ctrlReader = reader, hf_ctrlClient = client\<rparr> new = Ok True \<and>
        object_name old = object_name new \<and> protected L new)"

lemma comes_to_life_installed:
  assumes "comes_to_life args L H U ob" and "serialises H"
  shows "\<exists>cfg. Parse args = Some cfg \<and> installed cfg ob"
proof -
  from assms(1) obtain pf now cfg client reader h rq where
    k: "pf_kingpin pf = args" and h: "h \<in> set (server_webhooks pf L U now cfg client reader)"
      "server_admission pf L H U now cfg client reader (''/validate/'' @ wh_Resource h @ ''/create'') rq"
      "wh_Decode h (ar_Object rq) = Ok ob"
      "reconciled_by_legacy \<lparr>hf_ctrlReader = reader, hf_ctrlClient = client\<rparr> ob = Ok True"
    unfolding comes_to_life_def by blast
  from server_admission_route [OF h(2)] obtain f routes handler request s reply s' uid where
    c: "Parse (pf_kingpin pf) = Some cfg" "f = \<lparr>hf_ctrlReader = reader, hf_ctrlClient = client\<rparr>"
    and r: "routes = concat (map (register H f f) (server_webhooks pf L U now cfg client reader))"
      "route routes (''/validate/'' @ wh_Resource h @ ''/create'') = Some handler"
    and a: "carries H request rq" "handler request s = (Ok reply, s')" "admits reply uid" .
  from r(2) obtain m where m: "wh_OnCreateValidate h = Some m" "validator_NewCreateHandler H f (wh_Decode h) m = handler"
    unfolding validation_routes [OF h(1) r(1)] map_option_eq_Some by blast
  from a m(2) have "validator_newHttpHandler H (validate_created f (wh_Decode h) m) request s = (Ok reply, s')"
    by (simp add: validator_NewCreateHandler_def)
  with a(3) obtain t where "validate_created f (wh_Decode h) m \<lparr>rv_Request = Some rq\<rparr> s = (Ok (), t)"
    using endpoint_admits_iff [OF a(1) assms(2), of "validate_created f (wh_Decode h) m" s uid] by metis
  then have "m ob s = (Ok (), t)"
    using h(3,4) unfolding validate_created_Ok_iff c(2) by auto
  with webhook_create [OF h(1) m(1) h(3)] c(1) k show ?thesis by blast
qed

lemma is_updated_keeps:
  assumes "is_updated args L H U old new" and "serialises H" and "Parse args = Some cfg"
  shows "object_identity old = object_identity new" and "object_name old = object_name new"
    and "installed cfg old \<Longrightarrow> installed cfg new"
proof -
  from assms(1) obtain pf now cfg' client reader h rq where
    k: "pf_kingpin pf = args" and h: "h \<in> set (server_webhooks pf L U now cfg' client reader)"
      "server_admission pf L H U now cfg' client reader (''/validate/'' @ wh_Resource h @ ''/update'') rq"
      "wh_Decode h (ar_OldObject rq) = Ok old" "wh_Decode h (ar_Object rq) = Ok new"
      "reconciled_by_legacy \<lparr>hf_ctrlReader = reader, hf_ctrlClient = client\<rparr> new = Ok True"
    and n: "object_name old = object_name new" "protected L new"
    unfolding is_updated_def by blast
  from server_admission_route [OF h(2)] obtain f routes handler request s reply s' uid where
    c: "Parse (pf_kingpin pf) = Some cfg'" "f = \<lparr>hf_ctrlReader = reader, hf_ctrlClient = client\<rparr>"
    and r: "routes = concat (map (register H f f) (server_webhooks pf L U now cfg' client reader))"
      "route routes (''/validate/'' @ wh_Resource h @ ''/update'') = Some handler"
    and a: "carries H request rq" "handler request s = (Ok reply, s')" "admits reply uid" .
  from r(2) obtain m where m: "wh_OnUpdateValidate h = Some m" "validator_NewUpdateHandler H f (wh_Decode h) m = handler"
    unfolding validation_routes [OF h(1) r(1)] map_option_eq_Some by blast
  from a m(2) have "validator_newHttpHandler H (validate_updated f (wh_Decode h) m) request s = (Ok reply, s')"
    by (simp add: validator_NewUpdateHandler_def)
  with a(3) obtain t where "validate_updated f (wh_Decode h) m \<lparr>rv_Request = Some rq\<rparr> s = (Ok (), t)"
    using endpoint_admits_iff [OF a(1) assms(2), of "validate_updated f (wh_Decode h) m" s uid] by metis
  then have "m old new s = (Ok (), t)"
    using h(3,4,5) unfolding validate_updated_Ok_iff c(2) by auto
  from webhook_update [OF h(1) m(1) h(3,4) this n(2)] c(1) k assms(3) n(1)
  show "object_identity old = object_identity new" and "object_name old = object_name new"
    and "installed cfg old \<Longrightarrow> installed cfg new"
    by simp_all
qed

text \<open>C2. The life of an object of a legacy release, from an admitted creation over any number of admitted updates
  while it is live, that is, while it is not being deleted and, for a node pool, not of a release that is
  reconciled upstream (the validations look at no other updates). It keeps the view of its resource that may
  not change: a Cluster its network, endpoint and organization; an AzureCluster its endpoint and organization;
  a machine its location, failure domain and organization; a node pool its location, storage type, spot
  options, accelerated networking and organization; a MachinePool its zones and organization. And what
  creation demanded of it stays so: a Cluster has the installation's network and endpoint, an AzureCluster its
  endpoint (its location is demanded at creation too, but no update compares it), machines and node pools are in
  the installation's location without SSH keys, and node pools have exactly the desired data disks and one of
  the two storage types. Every review may meet another state of the API server and other listings of Azure.\<close>

theorem objects_keep_what_creation_demanded:
  assumes "serialises H" and "comes_to_life args L H U created" and "(is_updated args L H U)\<^sup>*\<^sup>* created ob"
  shows "\<exists>cfg. Parse args = Some cfg \<and> installed cfg ob \<and>
     object_identity ob = object_identity created \<and> object_name ob = object_name created"
proof -
  from comes_to_life_installed [OF assms(2,1)] obtain cfg where
    cfg: "Parse args = Some cfg" "installed cfg created" by blast
  from assms(3) have "installed cfg ob \<and> object_identity ob = object_identity created \<and>
      object_name ob = object_name created"
  proof (induction rule: rtranclp_induct)
    case base
    from cfg(2) show ?case by simp
  next
    case (step y z)
    from is_updated_keeps [OF step.hyps(2) assms(1) cfg(1)] step.IH show ?case by simp
  qed
  with cfg(1) show ?thesis by blast
qed


section \<open>The life of one cluster\<close>

text \<open>A server whose reviews create a Cluster on release 1.0.0 and then move it to release 1.1.0.\<close>

definition demo_life_request :: "string \<Rightarrow> admission_request" where
  "demo_life_request body = demo_review_request\<lparr>ar_Object := (if body = ''create'' then ''old'' else ''new'')\<rparr>"

definition demo_life_http :: http_lib where
  "demo_life_http = demo_http\<lparr>hl_DecodeReview := (\<lambda>body. Inr \<lparr>rv_Request = Some (demo_life_request body)\<rparr>)\<rparr>"

lemma demo_life_http:
  "carries demo_life_http (demo_http_request\<lparr>rq_Body := Inr body\<rparr>) (demo_life_request body)" "serialises demo_life_http"
  by (simp_all add: carries_def serialises_def demo_life_http_def demo_http_def demo_http_request_def)

definition demo_life_decoder :: decoder where
  "demo_life_decoder = demo_decoder\<lparr>dec_Cluster :=
     (\<lambda>raw. Inr (demo_running_cluster (if raw = ''old'' then ''v1.0.0'' else ''v1.1.0'')))\<rparr>"

definition demo_life_reader :: kube_api where
  "demo_life_reader = demo_kube (map (\<lambda>n. demo_release n ''active''
     [\<lparr>cmp_Name = ''azure-operator'', cmp_Version = ''5.0.0''\<rparr>]) [''v1.0.0'', ''v1.1.0''])"

abbreviation demo_life_client :: kube_api where
  "demo_life_client \<equiv> demo_installation demo_releases demo_labels"

definition demo_life_config :: app_config where
  "demo_life_config = \<lparr>cfg_BaseDomain = ''k8s.io'', cfg_CertFile = ''tls.crt'', cfg_KeyFile = ''tls.key'',
     cfg_Address = '':8080'', cfg_AvailabilityZones = '''', cfg_Location = ''westeurope''\<rparr>"

abbreviation demo_life_platform :: platform where
  "demo_life_platform \<equiv> demo_platform demo_life_client demo_life_reader"

abbreviation demo_life_webhook :: webhook where
  "demo_life_webhook \<equiv> cluster_webhook demo_lib (0, 0) \<lparr>clh_baseDomain = ''k8s.io'', clh_decoder = demo_life_decoder,
     clh_ctrlReader = demo_life_reader, clh_ctrlClient = demo_life_client\<rparr>"

lemma demo_life_webhook:
  "demo_life_webhook \<in> set (server_webhooks pf demo_lib demo_life_decoder (0, 0) demo_life_config
     demo_life_client demo_life_reader)"
  by (simp add: all_webhooks_def Let_def demo_life_config_def)

lemma demo_life_legacy:
  "reconciled_by_legacy \<lparr>hf_ctrlReader = demo_life_reader, hf_ctrlClient = c\<rparr>
     (ObjCluster (demo_running_cluster ''v1.0.0'')) = Ok True"
  "reconciled_by_legacy \<lparr>hf_ctrlReader = demo_life_reader, hf_ctrlClient = c\<rparr>
     (ObjCluster (demo_running_cluster ''v1.1.0'')) = Ok True"
  by (simp_all add: reconciled_by_legacy_def IsObjectReconciledByLegacyRelease_def TryFindReleaseForObject_def
      FindRelease_def demo_life_reader_def demo_kube_def demo_release_def release_cr_name_def HasPrefix_def mget_def
      IsLegacy_def ContainsAzureOperator_def GetComponentVersionsFromReleaseCR_def azureOperatorComponentName_def
      demo_running_cluster_def)

text \<open>A handler of the server that accepts the review makes the server admit it.\<close>

lemma demo_life_admission:
  assumes "cleanPath path = path" and "path \<noteq> ''/healthz''"
    and "route (concat (map (register demo_life_http f f)
       (server_webhooks demo_life_platform demo_lib demo_life_decoder (0, 0) demo_life_config demo_life_client
         demo_life_reader))) path = Some (validator_newHttpHandler demo_life_http u)"
    and "f = \<lparr>hf_ctrlReader = demo_life_reader, hf_ctrlClient = demo_life_client\<rparr>"
    and "u \<lparr>rv_Request = Some (demo_life_request body)\<rparr> demo_vm_empty = (Ok (), s')"
  shows "server_admission demo_life_platform demo_lib demo_life_http demo_life_decoder (0, 0) demo_life_config
     demo_life_client demo_life_reader path (demo_life_request body)"
proof -
  let ?line = "\<lparr>rl_Method = ''POST'', rl_Host = ''localhost'', rl_Path = path\<rparr>"
  let ?request = "demo_http_request\<lparr>rq_Body := Inr body\<rparr>"
  let ?routes = "concat (map (register demo_life_http f f)
       (server_webhooks demo_life_platform demo_lib demo_life_decoder (0, 0) demo_life_config demo_life_client
         demo_life_reader))"
  obtain parts where s: "mainError demo_life_platform demo_lib demo_life_http (0, 0) demo_life_decoder = Serves parts"
    using demo_platform_starts by blast
  have c: "srv_config parts = demo_life_config" "srv_handler parts = served_table demo_life_platform ?routes"
    using s assms(4) by (auto simp: mainError_Serves_iff RegisterWebhookHandlers_Ok_iff Parse_def demo_platform_def
        demo_life_config_def mget_def)
  have p: "map fst ?routes = served_paths" by (rule registered_paths)
  from assms(5) obtain reply t where reply:
    "validator_newHttpHandler demo_life_http u ?request demo_vm_empty = (Ok reply, t)"
    "admits reply (ar_UID (demo_life_request body))"
    using endpoint_admits_iff [OF demo_life_http, where u = u and s = demo_vm_empty
        and uid = "ar_UID (demo_life_request body)"] by blast
  from reply(1) have "ServeHTTP (srv_handler parts) ?line ?request demo_vm_empty = (Ok (WebhookReply reply), t)"
    unfolding c(2) ServeHTTP_served_table [OF p]
    using assms(1,2,3) by (simp add: endpoint_of_def route_def as_endpoint_def bind_st_def lift_st_def)
  then show ?thesis
    unfolding server_admission_def using s c(1) reply(2) demo_life_http(1)
    by (intro exI [of _ parts] exI [of _ ?line] exI [of _ ?request] exI [of _ demo_vm_empty] exI [of _ reply]
        exI [of _ t] exI [of _ "ar_UID (demo_life_request body)"]) (simp add: demo_platform_def)
qed


lemma clean_cluster_paths:
  "cleanPath ''/validate/cluster/create'' = ''/validate/cluster/create''"
  "cleanPath ''/validate/cluster/update'' = ''/validate/cluster/update''"
  by code_simp+

lemma demo_life_created:
  "comes_to_life (pf_kingpin demo_life_platform) demo_lib demo_life_http demo_life_decoder (ObjCluster (demo_running_cluster ''v1.0.0''))"
proof -
  let ?f = "\<lparr>hf_ctrlReader = demo_life_reader, hf_ctrlClient = demo_life_client\<rparr>"
  let ?h = "demo_life_webhook"
  let ?c = "demo_running_cluster ''v1.0.0''"
  let ?v = "\<lambda>ob. lift_st (Cluster_OnCreateValidate demo_lib \<lparr>clh_baseDomain = ''k8s.io'', clh_decoder = demo_life_decoder,
     clh_ctrlReader = demo_life_reader, clh_ctrlClient = demo_life_client\<rparr> (0, 0) ob)"
  have m: "wh_OnCreateValidate ?h = Some ?v" "wh_Resource ?h = ''cluster''" "wh_Decode ?h ''old'' = Ok (ObjCluster ?c)"
    by (simp_all add: cluster_webhook_def Cluster_Resource_def Cluster_Decode_def decode_with_Ok_iff demo_life_decoder_def)
  have "Cluster_OnCreateValidate demo_lib \<lparr>clh_baseDomain = ''k8s.io'', clh_decoder = demo_life_decoder,
     clh_ctrlReader = demo_life_reader, clh_ctrlClient = demo_life_client\<rparr> (0, 0) (ObjCluster ?c) = Ok ()"
    by (simp add: Cluster_OnCreateValidate_def outcome_simps ValidateClusterAnnotationUpgradeTime_eq target_time_def
        demo_running_cluster_def canonical_network_def canonical_endpoint_def defaultClusterNetwork_def
        GetControlPlaneEndpointHost_def ControlPlaneEndpointPort_def demo_installation_def demo_kube_def)
  then have "validate_created ?f (wh_Decode ?h) ?v \<lparr>rv_Request = Some (demo_life_request ''create'')\<rparr> demo_vm_empty
      = (Ok (), demo_vm_empty)"
    using m(3) by (simp add: validate_created_Ok_iff demo_life_request_def demo_life_legacy lift_st_def) blast
  from demo_life_admission [where path = "''/validate/cluster/create''" and body = "''create''"
      and u = "validate_created ?f (wh_Decode ?h) ?v", OF _ _ _ refl this]
  have "server_admission demo_life_platform demo_lib demo_life_http demo_life_decoder (0, 0) demo_life_config
      demo_life_client demo_life_reader (''/validate/'' @ wh_Resource ?h @ ''/create'') (demo_life_request ''create'')"
    using validation_routes(1) [OF demo_life_webhook refl, of demo_life_http ?f] m(1,2)
    by (simp add: validator_NewCreateHandler_def clean_cluster_paths)
  then show ?thesis
    unfolding comes_to_life_def using demo_life_webhook m(3) demo_life_legacy(1)
    by (intro exI [of _ demo_life_platform] exI [of _ "(0, 0)"] exI [of _ demo_life_config] exI [of _ demo_life_client] exI [of _ demo_life_reader]
        exI [of _ ?h] exI [of _ "demo_life_request ''create''"]) (simp add: demo_life_request_def)
qed


lemma demo_life_updated:
  "is_updated (pf_kingpin demo_life_platform) demo_lib demo_life_http demo_life_decoder
     (ObjCluster (demo_running_cluster ''v1.0.0'')) (ObjCluster (demo_running_cluster ''v1.1.0''))"
proof -
  let ?f = "\<lparr>hf_ctrlReader = demo_life_reader, hf_ctrlClient = demo_life_client\<rparr>"
  let ?h = "demo_life_webhook"
  let ?a = "demo_running_cluster ''v1.0.0''" and ?b = "demo_running_cluster ''v1.1.0''"
  let ?v = "\<lambda>old ob. lift_st (Cluster_OnUpdateValidate demo_lib \<lparr>clh_baseDomain = ''k8s.io'',
     clh_decoder = demo_life_decoder, clh_ctrlReader = demo_life_reader, clh_ctrlClient = demo_life_client\<rparr> (0, 0) old ob)"
  have m: "wh_OnUpdateValidate ?h = Some ?v" "wh_Resource ?h = ''cluster''" "wh_Decode ?h ''old'' = Ok (ObjCluster ?a)"
    "wh_Decode ?h ''new'' = Ok (ObjCluster ?b)"
    by (simp_all add: cluster_webhook_def Cluster_Resource_def Cluster_Decode_def decode_with_Ok_iff demo_life_decoder_def)
  have raw: "ar_OldObject (demo_life_request ''update'') = ''old''" "ar_Object (demo_life_request ''update'') = ''new''"
    by (simp_all add: demo_life_request_def demo_review_request_def)
  have "?v (ObjCluster ?a) (ObjCluster ?b) demo_vm_empty = (Ok (), demo_vm_empty)"
    using demo_upgrade_accepted_by by (simp add: demo_installation_available lift_st_def)
  then have "validate_updated ?f (wh_Decode ?h) ?v \<lparr>rv_Request = Some (demo_life_request ''update'')\<rparr> demo_vm_empty
      = (Ok (), demo_vm_empty)"
    using m(3,4) by (simp add: validate_updated_Ok_iff raw demo_life_legacy) blast
  from demo_life_admission [where path = "''/validate/cluster/update''" and body = "''update''"
      and u = "validate_updated ?f (wh_Decode ?h) ?v", OF _ _ _ refl this]
  have "server_admission demo_life_platform demo_lib demo_life_http demo_life_decoder (0, 0) demo_life_config
      demo_life_client demo_life_reader (''/validate/'' @ wh_Resource ?h @ ''/update'') (demo_life_request ''update'')"
    using validation_routes(2) [OF demo_life_webhook refl, of demo_life_http ?f] m(1,2)
    by (simp add: validator_NewUpdateHandler_def clean_cluster_paths)
  then show ?thesis
    unfolding is_updated_def using demo_life_webhook m(3,4) demo_life_legacy(2)
    by (intro exI [of _ demo_life_platform] exI [of _ "(0, 0)"] exI [of _ demo_life_config] exI [of _ demo_life_client] exI [of _ demo_life_reader]
        exI [of _ ?h] exI [of _ "demo_life_request ''update''"]) (simp add: raw, simp add: demo_running_cluster_def)
qed

theorem objects_keep_what_creation_demanded_witness:
  "\<exists>cfg. Parse (pf_kingpin demo_life_platform) = Some cfg \<and>
     installed cfg (ObjCluster (demo_running_cluster ''v1.1.0''))"
proof -
  have "(is_updated (pf_kingpin demo_life_platform) demo_lib demo_life_http demo_life_decoder)\<^sup>*\<^sup>*
      (ObjCluster (demo_running_cluster ''v1.0.0'')) (ObjCluster (demo_running_cluster ''v1.1.0''))"
    by (rule r_into_rtranclp) (rule demo_life_updated)
  from objects_keep_what_creation_demanded [OF demo_life_http(2) demo_life_created this] show ?thesis by blast
qed

end
