(* ===== verification/Chart.thy ===== *)
theory Chart
  imports Histories
begin

text \<open>
  The chart that installs the program (\<^verbatim>\<open>helm/azure-admission-controller\<close>): the webhooks it registers with the
  API server, and the container it runs the program in. This theory shows that the two sides fit together:
  every registered webhook reaches the handler of its resource, and every handler is registered, and from
  the values of the chart follow the configuration of the server and whether it starts.
\<close>

section \<open>webhook.yaml\<close>

datatype hook_operation = CREATE | UPDATE

text \<open>A webhook: the path the API server posts to, and the objects and the operation it is called for.\<close>

datatype webhook_rule =
  webhook_rule (hk_path: string) (hk_apiGroup: string) (hk_resource: string) (hk_apiVersion: string)
    (hk_operation: hook_operation)

definition mutating_webhooks :: "webhook_rule list" where
  "mutating_webhooks =
     [webhook_rule ''/mutate/azurecluster/create'' ''infrastructure.cluster.x-k8s.io'' ''azureclusters'' ''v1alpha3'' CREATE,
      webhook_rule ''/mutate/azurecluster/update'' ''infrastructure.cluster.x-k8s.io'' ''azureclusters'' ''v1alpha3'' UPDATE,
      webhook_rule ''/mutate/azuremachine/create'' ''infrastructure.cluster.x-k8s.io'' ''azuremachines'' ''v1alpha3'' CREATE,
      webhook_rule ''/mutate/azuremachine/update'' ''infrastructure.cluster.x-k8s.io'' ''azuremachines'' ''v1alpha3'' UPDATE,
      webhook_rule ''/mutate/azuremachinepool/create'' ''exp.infrastructure.cluster.x-k8s.io'' ''azuremachinepools'' ''v1alpha3'' CREATE,
      webhook_rule ''/mutate/azuremachinepool/update'' ''exp.infrastructure.cluster.x-k8s.io'' ''azuremachinepools'' ''v1alpha3'' UPDATE,
      webhook_rule ''/mutate/cluster/create'' ''cluster.x-k8s.io'' ''clusters'' ''v1alpha3'' CREATE,
      webhook_rule ''/mutate/cluster/update'' ''cluster.x-k8s.io'' ''clusters'' ''v1alpha3'' UPDATE,
      webhook_rule ''/mutate/machinepool/create'' ''exp.cluster.x-k8s.io'' ''machinepools'' ''v1alpha3'' CREATE,
      webhook_rule ''/mutate/machinepool/update'' ''exp.cluster.x-k8s.io'' ''machinepools'' ''v1alpha3'' UPDATE,
      webhook_rule ''/mutate/spark/create'' ''core.giantswarm.io'' ''sparks'' ''v1alpha1'' CREATE]"

definition validating_webhooks :: "webhook_rule list" where
  "validating_webhooks =
     [webhook_rule ''/validate/azureconfig/update'' ''provider.giantswarm.io'' ''azureconfigs'' ''v1alpha1'' UPDATE,
      webhook_rule ''/validate/azureclusterconfig/update'' ''core.giantswarm.io'' ''azureclusterconfigs'' ''v1alpha1'' UPDATE,
      webhook_rule ''/validate/azuremachinepool/create'' ''exp.infrastructure.cluster.x-k8s.io'' ''azuremachinepools'' ''v1alpha3'' CREATE,
      webhook_rule ''/validate/azuremachinepool/update'' ''exp.infrastructure.cluster.x-k8s.io'' ''azuremachinepools'' ''v1alpha3'' UPDATE,
      webhook_rule ''/validate/azurecluster/create'' ''infrastructure.cluster.x-k8s.io'' ''azureclusters'' ''v1alpha3'' CREATE,
      webhook_rule ''/validate/azurecluster/update'' ''infrastructure.cluster.x-k8s.io'' ''azureclusters'' ''v1alpha3'' UPDATE,
      webhook_rule ''/validate/azuremachine/create'' ''infrastructure.cluster.x-k8s.io'' ''azuremachines'' ''v1alpha3'' CREATE,
      webhook_rule ''/validate/azuremachine/update'' ''infrastructure.cluster.x-k8s.io'' ''azuremachines'' ''v1alpha3'' UPDATE,
      webhook_rule ''/validate/cluster/create'' ''cluster.x-k8s.io'' ''clusters'' ''v1alpha3'' CREATE,
      webhook_rule ''/validate/cluster/update'' ''cluster.x-k8s.io'' ''clusters'' ''v1alpha3'' UPDATE,
      webhook_rule ''/validate/machinepool/create'' ''exp.cluster.x-k8s.io'' ''machinepools'' ''v1alpha3'' CREATE,
      webhook_rule ''/validate/machinepool/update'' ''exp.cluster.x-k8s.io'' ''machinepools'' ''v1alpha3'' UPDATE]"


text \<open>The paths the API server posts an object of a resource to.\<close>

definition called_for :: "string \<Rightarrow> hook_operation \<Rightarrow> webhook_rule list \<Rightarrow> string list" where
  "called_for resource operation hooks =
     map hk_path (filter (\<lambda>k. hk_resource k = resource \<and> hk_operation k = operation) hooks)"

section \<open>Webhooks and handlers\<close>

text \<open>The resource of a webhook as the API server names it.\<close>

abbreviation plural :: "webhook \<Rightarrow> string" where
  "plural h \<equiv> wh_Resource h @ ''s''"

fun validating_handler :: "http_lib \<Rightarrow> http_handler_factory \<Rightarrow> webhook \<Rightarrow> hook_operation \<Rightarrow> http_handler option" where
  "validating_handler H f h CREATE = map_option (validator_NewCreateHandler H f (wh_Decode h)) (wh_OnCreateValidate h)"
| "validating_handler H f h UPDATE = map_option (validator_NewUpdateHandler H f (wh_Decode h)) (wh_OnUpdateValidate h)"

fun mutating_handler :: "http_lib \<Rightarrow> http_handler_factory \<Rightarrow> webhook \<Rightarrow> hook_operation \<Rightarrow> http_handler option" where
  "mutating_handler H f h CREATE = map_option (mutator_NewCreateHandler H f (wh_Decode h)) (wh_OnCreateMutate h)"
| "mutating_handler H f h UPDATE = map_option (mutator_NewUpdateHandler H f (wh_Decode h)) (wh_OnUpdateMutate h)"

lemma chart_paths_clean: "k \<in> set (mutating_webhooks @ validating_webhooks) \<Longrightarrow> cleanPath (hk_path k) = hk_path k"
proof -
  have "\<forall>k\<in>set (mutating_webhooks @ validating_webhooks). cleanPath (hk_path k) = hk_path k" by code_simp
  then show "k \<in> set (mutating_webhooks @ validating_webhooks) \<Longrightarrow> cleanPath (hk_path k) = hk_path k" by blast
qed

text \<open>The chart's webhooks by resource.\<close>

lemma chart_calls:
  "\<forall>res\<in>set [AzureCluster_Resource, AzureMachine_Resource, AzureMachinePool_Resource, Cluster_Resource, MachinePool_Resource].
     called_for (res @ ''s'') CREATE validating_webhooks = [''/validate/'' @ res @ ''/create''] \<and>
     called_for (res @ ''s'') UPDATE validating_webhooks = [''/validate/'' @ res @ ''/update''] \<and>
     called_for (res @ ''s'') CREATE mutating_webhooks = [''/mutate/'' @ res @ ''/create''] \<and>
     called_for (res @ ''s'') UPDATE mutating_webhooks = [''/mutate/'' @ res @ ''/update'']"
  "\<forall>res\<in>set [AzureConfig_Resource, AzureClusterConfig_Resource].
     called_for (res @ ''s'') CREATE validating_webhooks = [] \<and>
     called_for (res @ ''s'') UPDATE validating_webhooks = [''/validate/'' @ res @ ''/update''] \<and>
     called_for (res @ ''s'') CREATE mutating_webhooks = [] \<and> called_for (res @ ''s'') UPDATE mutating_webhooks = []"
  "called_for (Spark_Resource @ ''s'') CREATE validating_webhooks = []"
  "called_for (Spark_Resource @ ''s'') UPDATE validating_webhooks = []"
  "called_for (Spark_Resource @ ''s'') CREATE mutating_webhooks = [''/mutate/'' @ Spark_Resource @ ''/create'']"
  "called_for (Spark_Resource @ ''s'') UPDATE mutating_webhooks = []"
  by code_simp+

lemmas chart_calls_by_resource = chart_calls [unfolded list.set ball_simps]

lemma webhook_calls:
  assumes "h \<in> set (all_webhooks L now U cfg c r v)"
  shows "called_for (plural h) CREATE validating_webhooks =
      (if wh_OnCreateValidate h = None then [] else [''/validate/'' @ wh_Resource h @ ''/create''])"
    and "called_for (plural h) UPDATE validating_webhooks =
      (if wh_OnUpdateValidate h = None then [] else [''/validate/'' @ wh_Resource h @ ''/update''])"
    and "called_for (plural h) CREATE mutating_webhooks =
      (if wh_OnCreateMutate h = None then [] else [''/mutate/'' @ wh_Resource h @ ''/create''])"
    and "called_for (plural h) UPDATE mutating_webhooks =
      (if wh_OnUpdateMutate h = None then [] else [''/mutate/'' @ wh_Resource h @ ''/update''])"
  using assms unfolding all_webhooks_def Let_def list.set insert_iff empty_iff
  by (elim disjE; simp add: webhook_defs chart_calls_by_resource)+

lemma mutation_routes:
  assumes "h \<in> set (all_webhooks L now U cfg c r v)"
    and "routes = concat (map (register H f f) (all_webhooks L now U cfg c r v))"
  shows "route routes (''/mutate/'' @ wh_Resource h @ ''/create'') =
      map_option (mutator_NewCreateHandler H f (wh_Decode h)) (wh_OnCreateMutate h)"
    and "route routes (''/mutate/'' @ wh_Resource h @ ''/update'') =
      map_option (mutator_NewUpdateHandler H f (wh_Decode h)) (wh_OnUpdateMutate h)"
  using assms(1) unfolding assms(2) route_def
  by (auto simp: all_webhooks_def Let_def register_def webhook_defs resource_defs)

text \<open>The routes of a webhook are the ones registered for its resource.\<close>

lemma called_routes:
  assumes "h \<in> set (all_webhooks L now U cfg c r v)"
    and "routes = concat (map (register H f f) (all_webhooks L now U cfg c r v))"
  shows "map (route routes) (called_for (plural h) operation validating_webhooks) =
      map Some (case validating_handler H f h operation of None \<Rightarrow> [] | Some m \<Rightarrow> [m])"
    and "map (route routes) (called_for (plural h) operation mutating_webhooks) =
      map Some (case mutating_handler H f h operation of None \<Rightarrow> [] | Some m \<Rightarrow> [m])"
  using validation_routes [OF assms] mutation_routes [OF assms] webhook_calls [OF assms(1)]
  by (cases operation; simp split: option.split)+


text \<open>What a started server does with a request the API server posts to a path.\<close>

definition posted_to :: "server_parts \<Rightarrow> string \<Rightarrow> string \<Rightarrow> endpoint" where
  "posted_to parts host path =
     ServeHTTP (srv_handler parts) \<lparr>rl_Method = ''POST'', rl_Host = host, rl_Path = path\<rparr>"

lemma called_paths_clean:
  assumes "p \<in> set (called_for resource operation hooks)" and "set hooks \<subseteq> set (mutating_webhooks @ validating_webhooks)"
  shows "cleanPath p = p" and "p \<noteq> ''/healthz''"
proof -
  from assms obtain k where k: "k \<in> set (mutating_webhooks @ validating_webhooks)" "p = hk_path k"
    by (auto simp: called_for_def)
  show "cleanPath p = p" using chart_paths_clean [OF k(1)] k(2) by simp
  have "\<forall>k\<in>set (mutating_webhooks @ validating_webhooks). hk_path k \<noteq> ''/healthz''"
    by (simp add: mutating_webhooks_def validating_webhooks_def)
  from bspec [OF this k(1)] k(2) show "p \<noteq> ''/healthz''" by simp
qed

lemma posted_to_called:
  assumes "srv_handler parts = served_table pf routes" and "map fst routes = served_paths"
    and "map (route routes) paths = map Some handlers"
    and "\<And>p. p \<in> set paths \<Longrightarrow> cleanPath p = p \<and> p \<noteq> ''/healthz''"
  shows "map (posted_to parts host) paths = map as_endpoint handlers"
proof -
  have "posted_to parts host p = as_endpoint hd" if "p \<in> set paths" "route routes p = Some hd" for p hd
    using assms(4) [OF that(1)] that(2)
    by (simp add: posted_to_def assms(1) ServeHTTP_served_table [OF assms(2)] endpoint_of_def route_def)
  moreover from assms(3) have "list_all2 (\<lambda>p hd. route routes p = Some hd) paths handlers"
    by (simp add: list_all2_map1 list_all2_map2 list.rel_eq [symmetric])
  ultimately show ?thesis
    by (auto simp: list_all2_conv_all_nth intro!: nth_equalityI)
qed

text \<open>C17. The chart and the program agree: for every resource and operation the API server calls the mutating
  and then the validating webhooks that the chart registers, and at a started server these calls reach exactly
  the handlers the program has for this resource and operation, each once; where the program has none, none
  is registered.\<close>

theorem chart_webhooks_reach_handlers:
  assumes "main pf L H now U = Serves parts"
    and "pf_NewClients pf userAgent = Inr client" and "pf_NewCache pf = Inr reader"
    and "h \<in> set (server_webhooks pf L U now (srv_config parts) client reader)"
    and "f = \<lparr>hf_ctrlReader = reader, hf_ctrlClient = client\<rparr>"
  shows "map (posted_to parts host)
       (called_for (plural h) operation mutating_webhooks @ called_for (plural h) operation validating_webhooks) =
     map as_endpoint
       ((case mutating_handler H f h operation of None \<Rightarrow> [] | Some m \<Rightarrow> [m]) @
        (case validating_handler H f h operation of None \<Rightarrow> [] | Some m \<Rightarrow> [m]))"
proof -
  define routes where "routes = concat (map (register H f f) (server_webhooks pf L U now (srv_config parts) client reader))"
  have p: "map fst routes = served_paths" unfolding routes_def by (rule registered_paths)
  from assms(1-3) have t: "srv_handler parts = served_table pf routes"
    by (auto simp: main_Serves_iff mainError_Serves_iff RegisterWebhookHandlers_Ok_iff routes_def assms(5))
  note clean = called_paths_clean [where hooks = mutating_webhooks] called_paths_clean [where hooks = validating_webhooks]
  show ?thesis unfolding map_append
    using posted_to_called [OF t p called_routes(2) [OF assms(4) routes_def]]
      posted_to_called [OF t p called_routes(1) [OF assms(4) routes_def]] clean
    by simp
qed


section \<open>deployment.yaml, secret.yaml, values.yaml\<close>

record chart_values =
  cv_endpointBase :: string
  cv_location :: string
  cv_clientID :: string
  cv_clientSecret :: string
  cv_tenantID :: string
  cv_subscriptionID :: string

definition default_values :: chart_values where
  "default_values = \<lparr>cv_endpointBase = ''k8s.test.westeurope.azure.gigantic.io'', cv_location = ''westeurope'',
     cv_clientID = '''', cv_clientSecret = '''', cv_tenantID = '''', cv_subscriptionID = ''''\<rparr>"

text \<open>The arguments of the program in the container, after its own name, and its environment, which is read from
  the secret with these values.\<close>

definition container_args :: "chart_values \<Rightarrow> string list" where
  "container_args V =
     [''--tls-cert-file=/certs/ca.crt'', ''--tls-key-file=/certs/tls.key'',
      ''--base-domain='' @ cv_endpointBase V, ''--location='' @ cv_location V]"

definition container_env :: "chart_values \<Rightarrow> str_map" where
  "container_env V =
     [''AZURE_CLIENT_ID'' \<mapsto> cv_clientID V, ''AZURE_CLIENT_SECRET'' \<mapsto> cv_clientSecret V,
      ''AZURE_TENANT_ID'' \<mapsto> cv_tenantID V, ''AZURE_SUBSCRIPTION_ID'' \<mapsto> cv_subscriptionID V]"

text \<open>The value that arguments of the form \<open>--name=value\<close> give to a flag.\<close>

definition flag_value :: "string list \<Rightarrow> string \<Rightarrow> string option" where
  "flag_value args name =
     map_option (drop (length name + 3)) (find (\<lambda>a. HasPrefix a (''--'' @ name @ ''='')) args)"

text \<open>What the command line library does with such arguments: it accepts them when every required flag is
  given (and no flag is declared twice), and a flag has the given value, or else its default.\<close>

definition reads_arguments :: "string list \<Rightarrow> (flag_decl list \<Rightarrow> str_map option) \<Rightarrow> bool" where
  "reads_arguments args kingpin \<longleftrightarrow>
     (\<forall>flags. distinct (map fl_Name flags) \<longrightarrow> (\<forall>fl\<in>set flags. fl_Required fl \<longrightarrow> flag_value args (fl_Name fl) \<noteq> None) \<longrightarrow>
        (\<exists>m. kingpin flags = Some m \<and>
           (\<forall>fl\<in>set flags. m (fl_Name fl) =
              (case flag_value args (fl_Name fl) of Some v \<Rightarrow> Some v | None \<Rightarrow> fl_Default fl))))"

text \<open>The environment of a program that the chart runs; the names of the variables are those of the Azure library.\<close>

definition deployed :: "chart_values \<Rightarrow> platform \<Rightarrow> bool" where
  "deployed V pf \<longleftrightarrow> reads_arguments (container_args V) (pf_kingpin pf) \<and>
     (\<forall>n. pf_Getenv pf n = mget (container_env V) n) \<and>
     pf_ClientID pf = ''AZURE_CLIENT_ID'' \<and> pf_ClientSecret pf = ''AZURE_CLIENT_SECRET'' \<and>
     pf_SubscriptionID pf = ''AZURE_SUBSCRIPTION_ID'' \<and> pf_TenantID pf = ''AZURE_TENANT_ID''"

definition chart_config :: "chart_values \<Rightarrow> app_config" where
  "chart_config V = \<lparr>cfg_BaseDomain = cv_endpointBase V, cfg_CertFile = ''/certs/ca.crt'',
     cfg_KeyFile = ''/certs/tls.key'', cfg_Address = '':8080'', cfg_AvailabilityZones = '''', cfg_Location = cv_location V\<rparr>"

lemma container_flags:
  "flag_value (container_args V) ''tls-cert-file'' = Some ''/certs/ca.crt''"
  "flag_value (container_args V) ''tls-key-file'' = Some ''/certs/tls.key''"
  "flag_value (container_args V) ''base-domain'' = Some (cv_endpointBase V)"
  "flag_value (container_args V) ''location'' = Some (cv_location V)"
  "flag_value (container_args V) ''address'' = None"
  by (simp_all add: flag_value_def container_args_def HasPrefix_def)

lemma deployed_config:
  assumes "deployed V pf"
  shows "Parse (pf_kingpin pf) = Some (chart_config V)"
proof -
  have "\<forall>fl\<in>set config_flags. fl_Required fl \<longrightarrow> flag_value (container_args V) (fl_Name fl) \<noteq> None"
    by (simp add: config_flags_def container_flags)
  moreover have "distinct (map fl_Name config_flags)" by (simp add: config_flags_def)
  moreover from assms have "reads_arguments (container_args V) (pf_kingpin pf)" by (simp add: deployed_def)
  ultimately obtain m where m: "pf_kingpin pf config_flags = Some m"
    "\<forall>fl\<in>set config_flags. m (fl_Name fl) =
      (case flag_value (container_args V) (fl_Name fl) of Some v \<Rightarrow> Some v | None \<Rightarrow> fl_Default fl)"
    unfolding reads_arguments_def by blast
  from m(2) have "m ''base-domain'' = Some (cv_endpointBase V)" "m ''location'' = Some (cv_location V)"
    "m ''tls-cert-file'' = Some ''/certs/ca.crt''" "m ''tls-key-file'' = Some ''/certs/tls.key''" "m ''address'' = Some '':8080''"
    by (simp_all add: config_flags_def container_flags defaultAddress_def)
  then show ?thesis by (simp add: Parse_def m(1) chart_config_def mget_def)
qed

text \<open>C18. The program in the container that the chart describes starts, once clients, cache and credentials can be
  set up, exactly when the values of the chart leave neither the base domain, the location nor one of the four
  Azure credentials empty; it then has the values of the chart as its configuration. With the default values it
  does not start.\<close>

theorem deployed_program_starts_iff:
  assumes "deployed V pf"
    and "pf_newLogger pf = Inr ()" and "pf_InClusterConfig pf = Inr ()" and "pf_NewClients pf userAgent = Inr client"
    and "pf_NewDynamicRESTMapper pf = Inr ()" and "pf_NewCache pf = Inr reader"
    and "pf_WaitForCacheSync pf = SyncAnswer True" and "pf_GetSettings pf = Inr ()" and "pf_GetAuthorizer pf = Inr ()"
  shows "((\<exists>parts. main pf L H now U = Serves parts \<and> srv_config parts = chart_config V) \<longleftrightarrow>
      '''' \<notin> {cv_endpointBase V, cv_location V, cv_clientID V, cv_clientSecret V, cv_subscriptionID V, cv_tenantID V}) \<and>
    (\<forall>parts. main pf L H now U = Serves parts \<longrightarrow> srv_config parts = chart_config V) \<and>
    (V = default_values \<longrightarrow> (\<nexists>parts. main pf L H now U = Serves parts))"
proof -
  have env: "'''' \<notin> pf_Getenv pf ` set (envVarNames pf) \<longleftrightarrow>
      '''' \<notin> {cv_clientID V, cv_clientSecret V, cv_subscriptionID V, cv_tenantID V}"
    using assms(1) by (auto simp: deployed_def envVarNames_def container_env_def mget_def)
  show ?thesis
    by (auto simp: main_Serves_iff mainError_Serves_iff RegisterWebhookHandlers_Ok_iff deployed_config [OF assms(1)]
        assms(2-9) env chart_config_def default_values_def simp del: image_insert)
qed


section \<open>An installation of the chart\<close>

definition demo_values :: chart_values where
  "demo_values = default_values\<lparr>cv_clientID := ''id'', cv_clientSecret := ''secret'', cv_tenantID := ''tenant'',
     cv_subscriptionID := ''subscription''\<rparr>"

definition demo_kingpin :: "string list \<Rightarrow> flag_decl list \<Rightarrow> str_map option" where
  "demo_kingpin args flags =
     Some (\<lambda>n. case flag_value args n of
        Some v \<Rightarrow> Some v
      | None \<Rightarrow> Option.bind (map_of (map (\<lambda>fl. (fl_Name fl, fl_Default fl)) flags) n) id)"

lemma demo_kingpin_reads: "reads_arguments args (demo_kingpin args)"
proof -
  have "map_of (map (\<lambda>fl. (fl_Name fl, fl_Default fl)) flags) (fl_Name fl) = Some (fl_Default fl)"
    if "distinct (map fl_Name flags)" "fl \<in> set flags" for flags :: "flag_decl list" and fl
    using that by (intro map_of_is_SomeI) (auto simp: comp_def)
  then show ?thesis by (auto simp: reads_arguments_def demo_kingpin_def split: option.split)
qed

definition demo_deployment :: "chart_values \<Rightarrow> platform" where
  "demo_deployment V = demo_life_platform\<lparr>pf_kingpin := demo_kingpin (container_args V),
     pf_Getenv := (\<lambda>n. mget (container_env V) n)\<rparr>"

lemma demo_deployment:
  "deployed V (demo_deployment V)" "pf_newLogger (demo_deployment V) = Inr ()"
  "pf_InClusterConfig (demo_deployment V) = Inr ()" "pf_NewClients (demo_deployment V) userAgent = Inr demo_life_client"
  "pf_NewDynamicRESTMapper (demo_deployment V) = Inr ()" "pf_NewCache (demo_deployment V) = Inr demo_life_reader"
  "pf_WaitForCacheSync (demo_deployment V) = SyncAnswer True" "pf_GetSettings (demo_deployment V) = Inr ()"
  "pf_GetAuthorizer (demo_deployment V) = Inr ()"
  by (simp_all add: deployed_def demo_deployment_def demo_kingpin_reads demo_platform_def)

theorem deployed_program_starts_iff_witness:
  "(\<exists>parts. main (demo_deployment demo_values) demo_lib demo_life_http (0, 0) demo_life_decoder = Serves parts \<and>
      srv_config parts = chart_config demo_values) \<and>
   (\<nexists>parts. main (demo_deployment default_values) demo_lib demo_life_http (0, 0) demo_life_decoder = Serves parts)"
proof
  have "'''' \<notin> {cv_endpointBase demo_values, cv_location demo_values, cv_clientID demo_values,
      cv_clientSecret demo_values, cv_subscriptionID demo_values, cv_tenantID demo_values}"
    by (simp add: demo_values_def default_values_def)
  with deployed_program_starts_iff [OF demo_deployment [of demo_values], THEN conjunct1, THEN iffD2]
  show "\<exists>parts. main (demo_deployment demo_values) demo_lib demo_life_http (0, 0) demo_life_decoder = Serves parts \<and>
      srv_config parts = chart_config demo_values"
    by blast
  from deployed_program_starts_iff [OF demo_deployment [of default_values], THEN conjunct2, THEN conjunct2]
  show "\<nexists>parts. main (demo_deployment default_values) demo_lib demo_life_http (0, 0) demo_life_decoder = Serves parts"
    by blast
qed

theorem chart_webhooks_reach_handlers_witness:
  "\<exists>parts mutate validate. main demo_life_platform demo_lib demo_life_http (0, 0) demo_life_decoder = Serves parts \<and>
     map (posted_to parts ''localhost'') [''/mutate/cluster/create'', ''/validate/cluster/create''] =
       [as_endpoint mutate, as_endpoint validate]"
proof -
  obtain parts where parts: "main demo_life_platform demo_lib demo_life_http (0, 0) demo_life_decoder = Serves parts"
    using demo_platform_starts unfolding main_Serves_iff by blast
  then have "srv_config parts = demo_life_config"
    by (auto simp: main_Serves_iff mainError_Serves_iff Parse_def demo_platform_def demo_life_config_def mget_def)
  then have h: "demo_life_webhook \<in> set (server_webhooks demo_life_platform demo_lib demo_life_decoder (0, 0)
      (srv_config parts) demo_life_client demo_life_reader)"
    using demo_life_webhook by simp
  have clients: "pf_NewClients demo_life_platform userAgent = Inr demo_life_client"
    "pf_NewCache demo_life_platform = Inr demo_life_reader"
    by (simp_all add: demo_platform_def)
  have calls: "called_for (plural demo_life_webhook) CREATE mutating_webhooks @
      called_for (plural demo_life_webhook) CREATE validating_webhooks =
      [''/mutate/cluster/create'', ''/validate/cluster/create'']"
    using chart_calls(1) by (simp add: cluster_webhook_def) (simp add: Cluster_Resource_def)
  from chart_webhooks_reach_handlers [OF parts clients h refl, where operation = CREATE and host = "''localhost''"] parts
  show ?thesis unfolding calls by (auto simp: cluster_webhook_def)
qed

end
