(* ===== verification/Builders.thy ===== *)
theory Builders
  imports Cluster AzureCluster AzureMachinePool MachinePool
begin

text \<open>
  The builders of test objects (\<^verbatim>\<open>internal/test\<close>): a base object with a generated name, changed by a list of
  options. Fields that the handlers do not read, but the builders write, extend the records of the
  resources. The versions of the API groups, the random numbers and the clock are arguments. What the tests
  build agrees with what the handlers demand.
\<close>

section \<open>random.go\<close>

definition letters :: string where "letters = ''abcdefghijklmnopqrstuvwxyz''"

text \<open>The \<open>i\<close>-th call of \<open>rand.Intn(n)\<close> answers \<open>intn i n\<close>.\<close>

definition GenerateName :: "(nat \<Rightarrow> nat \<Rightarrow> nat) \<Rightarrow> string" where
  "GenerateName intn = map (\<lambda>i. letters ! intn i (length letters)) [0..<5]"

lemma GenerateName_letters:
  assumes "\<And>i n. 0 < n \<Longrightarrow> intn i n < n"
  shows "length (GenerateName intn) = 5 \<and> set (GenerateName intn) \<subseteq> set letters"
proof -
  have "intn i (length letters) < length letters" for i by (rule assms) (simp add: letters_def)
  then have "letters ! intn i (length letters) \<in> set letters" for i by (rule nth_mem)
  then show ?thesis by (auto simp: GenerateName_def)
qed

definition set_labels :: "(str_map \<Rightarrow> str_map) \<Rightarrow> object_meta \<Rightarrow> object_meta" where
  "set_labels f m = m\<lparr>om_labels := f (om_labels m)\<rparr>"

lemma set_labels_simps [simp]:
  "om_name (set_labels f m) = om_name m" "om_namespace (set_labels f m) = om_namespace m"
  "om_labels (set_labels f m) = f (om_labels m)" "om_annotations (set_labels f m) = om_annotations m"
  "om_deletionTimestamp (set_labels f m) = om_deletionTimestamp m"
  by (simp_all add: set_labels_def)

section \<open>Cluster\<close>

record built_cluster = cluster +
  bcl_Kind :: string
  bcl_APIVersion :: string

definition cluster_Name :: "string \<Rightarrow> built_cluster \<Rightarrow> built_cluster" where
  "cluster_Name name c = c\<lparr>cl_meta := set_labels (\<lambda>ls. ls(capi_ClusterLabelName \<mapsto> name, label_Cluster \<mapsto> name))
     ((cl_meta c)\<lparr>om_name := name\<rparr>)\<rparr>"

definition cluster_Labels :: "str_map \<Rightarrow> built_cluster \<Rightarrow> built_cluster" where
  "cluster_Labels labels c = c\<lparr>cl_meta := set_labels (\<lambda>ls. ls ++ labels) (cl_meta c)\<rparr>"

definition cluster_ControlPlaneEndpoint :: "string \<Rightarrow> 32 word \<Rightarrow> built_cluster \<Rightarrow> built_cluster" where
  "cluster_ControlPlaneEndpoint host port c = c\<lparr>cl_ControlPlaneEndpoint := \<lparr>ep_Host = host, ep_Port = port\<rparr>\<rparr>"

definition cluster_WithDeletionTimestamp :: "int \<Rightarrow> built_cluster \<Rightarrow> built_cluster" where
  "cluster_WithDeletionTimestamp now c = c\<lparr>cl_meta := (cl_meta c)\<lparr>om_deletionTimestamp := Some now\<rparr>\<rparr>"

definition BuildCluster ::
    "string \<Rightarrow> (nat \<Rightarrow> nat \<Rightarrow> nat) \<Rightarrow> (built_cluster \<Rightarrow> built_cluster) list \<Rightarrow> built_cluster" where
  "BuildCluster groupVersion intn opts =
     (let clusterName = GenerateName intn;
          cluster = \<lparr>cl_meta = \<lparr>om_name = clusterName, om_namespace = ''org-giantswarm'',
              om_labels = [label_AzureOperatorVersion \<mapsto> ''5.0.0'', capi_ClusterLabelName \<mapsto> clusterName,
                label_Cluster \<mapsto> clusterName, label_Organization \<mapsto> ''giantswarm'',
                label_ReleaseVersion \<mapsto> ''13.0.0-alpha4''],
              om_annotations = Map.empty, om_deletionTimestamp = None, om_rest = ''''\<rparr>,
            cl_ClusterNetwork = Some \<lparr>cn_APIServerPort = Some 443, cn_ServiceDomain = ''cluster.local'',
              cn_Services = Some \<lparr>nr_CIDRBlocks = Some [''172.31.0.0/16'']\<rparr>, cn_rest = ''''\<rparr>,
            cl_ControlPlaneEndpoint = \<lparr>ep_Host = '''', ep_Port = 0\<rparr>, cl_Conditions = [], cl_rest = '''',
            bcl_Kind = ''Cluster'', bcl_APIVersion = groupVersion\<rparr>
      in foldl (\<lambda>c opt. opt c) cluster opts)"

text \<open>\<open>byt, _ := json.Marshal(...)\<close>: after an error the bytes are nil.\<close>

definition BuildClusterAsJson ::
    "(built_cluster \<Rightarrow> go_error + string) \<Rightarrow> string \<Rightarrow> (nat \<Rightarrow> nat \<Rightarrow> nat) \<Rightarrow> (built_cluster \<Rightarrow> built_cluster) list \<Rightarrow> string" where
  "BuildClusterAsJson marshal groupVersion intn opts =
     (case marshal (BuildCluster groupVersion intn opts) of Inl _ \<Rightarrow> '''' | Inr byt \<Rightarrow> byt)"

section \<open>AzureCluster\<close>

record subnet_spec =
  sub_Role :: string
  sub_Name :: string

record built_azure_cluster = azure_cluster +
  bac_Kind :: string
  bac_APIVersion :: string
  bac_ResourceGroup :: string
  bac_Subnets :: "subnet_spec list"

definition test_endpoint_host :: "string \<Rightarrow> string" where
  "test_endpoint_host name = ''api.'' @ name @ ''.k8s.test.westeurope.azure.gigantic.io''"

definition azurecluster_Name :: "string \<Rightarrow> built_azure_cluster \<Rightarrow> built_azure_cluster" where
  "azurecluster_Name name c = c\<lparr>
     ac_meta := set_labels (\<lambda>ls. ls(capi_ClusterLabelName \<mapsto> name, label_Cluster \<mapsto> name)) ((ac_meta c)\<lparr>om_name := name\<rparr>),
     bac_ResourceGroup := name,
     ac_ControlPlaneEndpoint := (ac_ControlPlaneEndpoint c)\<lparr>ep_Host := test_endpoint_host name\<rparr>,
     ac_APIServerLB := (ac_APIServerLB c)\<lparr>lb_Name := APIServerLBName name,
       lb_FrontendIPs := [\<lparr>fi_Name = APIServerLBFrontendIPName name, fi_rest = ''''\<rparr>]\<rparr>\<rparr>"

definition azurecluster_Labels :: "str_map \<Rightarrow> built_azure_cluster \<Rightarrow> built_azure_cluster" where
  "azurecluster_Labels labels c = c\<lparr>ac_meta := set_labels (\<lambda>ls. ls ++ labels) (ac_meta c)\<rparr>"

definition azurecluster_Location :: "string \<Rightarrow> built_azure_cluster \<Rightarrow> built_azure_cluster" where
  "azurecluster_Location location c = c\<lparr>ac_Location := location\<rparr>"

definition azurecluster_ControlPlaneEndpoint :: "string \<Rightarrow> 32 word \<Rightarrow> built_azure_cluster \<Rightarrow> built_azure_cluster" where
  "azurecluster_ControlPlaneEndpoint host port c = c\<lparr>ac_ControlPlaneEndpoint := \<lparr>ep_Host = host, ep_Port = port\<rparr>\<rparr>"

definition azurecluster_WithDeletionTimestamp :: "int \<Rightarrow> built_azure_cluster \<Rightarrow> built_azure_cluster" where
  "azurecluster_WithDeletionTimestamp now c = c\<lparr>ac_meta := (ac_meta c)\<lparr>om_deletionTimestamp := Some now\<rparr>\<rparr>"

definition BuildAzureCluster ::
    "string \<Rightarrow> (nat \<Rightarrow> nat \<Rightarrow> nat) \<Rightarrow> (built_azure_cluster \<Rightarrow> built_azure_cluster) list \<Rightarrow> built_azure_cluster" where
  "BuildAzureCluster groupVersion intn opts =
     (let clusterName = GenerateName intn;
          azureCluster = \<lparr>ac_meta = \<lparr>om_name = clusterName, om_namespace = ''org-giantswarm'',
              om_labels = [label_AzureOperatorVersion \<mapsto> ''5.0.0'', capi_ClusterLabelName \<mapsto> clusterName,
                label_Cluster \<mapsto> clusterName, label_Organization \<mapsto> ''giantswarm'',
                label_ReleaseVersion \<mapsto> ''13.0.0-alpha4''],
              om_annotations = Map.empty, om_deletionTimestamp = None, om_rest = ''''\<rparr>,
            ac_Location = ''westeurope'',
            ac_ControlPlaneEndpoint = \<lparr>ep_Host = test_endpoint_host clusterName, ep_Port = 443\<rparr>,
            ac_APIServerLB = \<lparr>lb_Name = APIServerLBName clusterName, lb_SKU = APIServerLBSKU, lb_Type = APIServerLBType,
              lb_FrontendIPs = [\<lparr>fi_Name = APIServerLBFrontendIPName clusterName, fi_rest = ''''\<rparr>], lb_rest = ''''\<rparr>,
            ac_rest = '''', bac_Kind = ''AzureCluster'', bac_APIVersion = groupVersion, bac_ResourceGroup = clusterName,
            bac_Subnets = [\<lparr>sub_Role = ''control-plane'', sub_Name = MasterSubnetName clusterName\<rparr>,
              \<lparr>sub_Role = ''node'', sub_Name = clusterName\<rparr>]\<rparr>
      in foldl (\<lambda>c opt. opt c) azureCluster opts)"

definition BuildAzureClusterAsJson ::
    "(built_azure_cluster \<Rightarrow> go_error + string) \<Rightarrow> string \<Rightarrow> (nat \<Rightarrow> nat \<Rightarrow> nat) \<Rightarrow>
     (built_azure_cluster \<Rightarrow> built_azure_cluster) list \<Rightarrow> string" where
  "BuildAzureClusterAsJson marshal groupVersion intn opts =
     (case marshal (BuildAzureCluster groupVersion intn opts) of Inl _ \<Rightarrow> '''' | Inr byt \<Rightarrow> byt)"

section \<open>AzureMachinePool\<close>

definition pool_AcceleratedNetworking :: "bool option \<Rightarrow> azure_machine_pool \<Rightarrow> azure_machine_pool" where
  "pool_AcceleratedNetworking acceleratedNetworking p = p\<lparr>amp_AcceleratedNetworking := acceleratedNetworking\<rparr>"

definition pool_Cluster :: "string \<Rightarrow> azure_machine_pool \<Rightarrow> azure_machine_pool" where
  "pool_Cluster clusterName p = p\<lparr>amp_meta := set_labels (\<lambda>ls. ls(capi_ClusterLabelName \<mapsto> clusterName)) (amp_meta p)\<rparr>"

definition pool_DataDisks :: "data_disk list \<Rightarrow> azure_machine_pool \<Rightarrow> azure_machine_pool" where
  "pool_DataDisks dataDisks p = p\<lparr>amp_DataDisks := dataDisks\<rparr>"

definition pool_Location :: "string \<Rightarrow> azure_machine_pool \<Rightarrow> azure_machine_pool" where
  "pool_Location location p = p\<lparr>amp_Location := location\<rparr>"

definition pool_Organization :: "string \<Rightarrow> azure_machine_pool \<Rightarrow> azure_machine_pool" where
  "pool_Organization org p = p\<lparr>amp_meta := (set_labels (\<lambda>ls. ls(label_Organization \<mapsto> org)) (amp_meta p))
     \<lparr>om_namespace := ''org-'' @ org\<rparr>\<rparr>"

definition label_MachinePool :: string where "label_MachinePool = ''giantswarm.io/machine-pool''"

definition pool_Name :: "string \<Rightarrow> azure_machine_pool \<Rightarrow> azure_machine_pool" where
  "pool_Name name p = p\<lparr>amp_meta := set_labels (\<lambda>ls. ls(label_MachinePool \<mapsto> name)) ((amp_meta p)\<lparr>om_name := name\<rparr>)\<rparr>"

definition pool_SpotVMOptions :: "spot_vm_options option \<Rightarrow> azure_machine_pool \<Rightarrow> azure_machine_pool" where
  "pool_SpotVMOptions opts p = p\<lparr>amp_SpotVMOptions := opts\<rparr>"

definition pool_StorageAccountType :: "string \<Rightarrow> azure_machine_pool \<Rightarrow> azure_machine_pool" where
  "pool_StorageAccountType storageAccountType p = p\<lparr>amp_StorageAccountType := storageAccountType\<rparr>"

definition pool_VMSize :: "string \<Rightarrow> azure_machine_pool \<Rightarrow> azure_machine_pool" where
  "pool_VMSize vmsize p = p\<lparr>amp_VMSize := vmsize\<rparr>"

definition pool_WithDeletionTimestamp :: "int \<Rightarrow> azure_machine_pool \<Rightarrow> azure_machine_pool" where
  "pool_WithDeletionTimestamp now p = p\<lparr>amp_meta := (amp_meta p)\<lparr>om_deletionTimestamp := Some now\<rparr>\<rparr>"

definition BuildAzureMachinePool ::
    "(nat \<Rightarrow> nat \<Rightarrow> nat) \<Rightarrow> (azure_machine_pool \<Rightarrow> azure_machine_pool) list \<Rightarrow> azure_machine_pool" where
  "BuildAzureMachinePool intn opts =
     (let nodepoolName = GenerateName intn;
          azureMachinePool = \<lparr>amp_meta = \<lparr>om_name = nodepoolName, om_namespace = ''org-giantswarm'',
              om_labels = [label_AzureOperatorVersion \<mapsto> ''5.0.0'', label_Cluster \<mapsto> ''ab123'',
                capi_ClusterLabelName \<mapsto> ''ab123'', label_MachinePool \<mapsto> nodepoolName,
                label_Organization \<mapsto> ''giantswarm'', label_ReleaseVersion \<mapsto> ''13.0.0''],
              om_annotations = Map.empty, om_deletionTimestamp = None, om_rest = ''''\<rparr>,
            amp_Location = ''westeurope'', amp_VMSize = ''Standard_D4_v3'', amp_SSHPublicKey = '''',
            amp_AcceleratedNetworking = Some True, amp_SpotVMOptions = None, amp_StorageAccountType = ''Standard_LRS'',
            amp_DataDisks =
              [\<lparr>dd_NameSuffix = ''docker'', dd_DiskSizeGB = 100, dd_Lun = Some 21, dd_rest = ''''\<rparr>,
               \<lparr>dd_NameSuffix = ''kubelet'', dd_DiskSizeGB = 100, dd_Lun = Some 22, dd_rest = ''''\<rparr>],
            amp_rest = ''''\<rparr>
      in foldl (\<lambda>p opt. opt p) azureMachinePool opts)"

definition BuildAzureMachinePoolAsJson ::
    "(azure_machine_pool \<Rightarrow> go_error + string) \<Rightarrow> (nat \<Rightarrow> nat \<Rightarrow> nat) \<Rightarrow>
     (azure_machine_pool \<Rightarrow> azure_machine_pool) list \<Rightarrow> string" where
  "BuildAzureMachinePoolAsJson marshal intn opts =
     (case marshal (BuildAzureMachinePool intn opts) of Inl _ \<Rightarrow> '''' | Inr byt \<Rightarrow> byt)"

section \<open>MachinePool\<close>

record built_machine_pool = machine_pool +
  bmp_BootstrapNamespace :: string
  bmp_BootstrapName :: string

definition mpool_AzureMachinePool :: "string \<Rightarrow> built_machine_pool \<Rightarrow> built_machine_pool" where
  "mpool_AzureMachinePool azureMachinePoolName p = p\<lparr>mp_InfraName := azureMachinePoolName\<rparr>"

definition mpool_FailureDomains :: "string list \<Rightarrow> built_machine_pool \<Rightarrow> built_machine_pool" where
  "mpool_FailureDomains failureDomains p = p\<lparr>mp_FailureDomains := failureDomains\<rparr>"

definition mpool_Name :: "string \<Rightarrow> built_machine_pool \<Rightarrow> built_machine_pool" where
  "mpool_Name name p = p\<lparr>mp_meta := set_labels (\<lambda>ls. ls(label_MachinePool \<mapsto> name)) ((mp_meta p)\<lparr>om_name := name\<rparr>)\<rparr>"

definition mpool_Organization :: "string \<Rightarrow> built_machine_pool \<Rightarrow> built_machine_pool" where
  "mpool_Organization org p =
     (let namespace = ''org-'' @ org in
      p\<lparr>mp_meta := (set_labels (\<lambda>ls. ls(label_Organization \<mapsto> org)) (mp_meta p))\<lparr>om_namespace := namespace\<rparr>,
        mp_InfraNamespace := namespace, bmp_BootstrapNamespace := namespace\<rparr>)"

definition mpool_Annotation :: "string \<Rightarrow> string \<Rightarrow> built_machine_pool \<Rightarrow> built_machine_pool" where
  "mpool_Annotation name val p =
     p\<lparr>mp_meta := (mp_meta p)\<lparr>om_annotations := (om_annotations (mp_meta p))(name \<mapsto> val)\<rparr>\<rparr>"

definition mpool_Replicas :: "32 word \<Rightarrow> built_machine_pool \<Rightarrow> built_machine_pool" where
  "mpool_Replicas replicas p =
     mpool_Annotation annotation_NodePoolMaxSize (format_int (sint replicas))
       (mpool_Annotation annotation_NodePoolMinSize (format_int (sint replicas)) (p\<lparr>mp_Replicas := Some replicas\<rparr>))"

definition mpool_WithDeletionTimestamp :: "int \<Rightarrow> built_machine_pool \<Rightarrow> built_machine_pool" where
  "mpool_WithDeletionTimestamp now p = p\<lparr>mp_meta := (mp_meta p)\<lparr>om_deletionTimestamp := Some now\<rparr>\<rparr>"

definition BuildMachinePool ::
    "(nat \<Rightarrow> nat \<Rightarrow> nat) \<Rightarrow> (built_machine_pool \<Rightarrow> built_machine_pool) list \<Rightarrow> built_machine_pool" where
  "BuildMachinePool intn opts =
     (let nodepoolName = GenerateName intn;
          machinePool = \<lparr>mp_meta = \<lparr>om_name = nodepoolName, om_namespace = ''org-giantswarm'',
              om_labels = [label_AzureOperatorVersion \<mapsto> ''5.0.0'', label_Cluster \<mapsto> ''ab123'',
                capi_ClusterLabelName \<mapsto> ''ab123'', label_MachinePool \<mapsto> nodepoolName,
                label_Organization \<mapsto> ''giantswarm'', label_ReleaseVersion \<mapsto> ''13.0.0''],
              om_annotations = [annotation_NodePoolMinSize \<mapsto> ''1'', annotation_NodePoolMaxSize \<mapsto> ''1''],
              om_deletionTimestamp = None, om_rest = ''''\<rparr>,
            mp_Replicas = None, mp_FailureDomains = [], mp_InfraNamespace = ''org-giantswarm'', mp_InfraName = ''ab123'',
            mp_rest = '''', bmp_BootstrapNamespace = ''org-giantswarm'', bmp_BootstrapName = ''ab123''\<rparr>
      in foldl (\<lambda>p opt. opt p) machinePool opts)"

definition BuildMachinePoolAsJson ::
    "(built_machine_pool \<Rightarrow> go_error + string) \<Rightarrow> (nat \<Rightarrow> nat \<Rightarrow> nat) \<Rightarrow>
     (built_machine_pool \<Rightarrow> built_machine_pool) list \<Rightarrow> string" where
  "BuildMachinePoolAsJson marshal intn opts =
     (case marshal (BuildMachinePool intn opts) of Inl _ \<Rightarrow> '''' | Inr byt \<Rightarrow> byt)"

section \<open>Built objects pass the checks\<close>

lemma foldl_option_invariant: "P x \<Longrightarrow> (\<And>y opt. opt \<in> set opts \<Longrightarrow> P y \<Longrightarrow> P (opt y)) \<Longrightarrow> P (foldl (\<lambda>y opt. opt y) x opts)"
  by (induction opts arbitrary: x) auto

text \<open>No option touches the network of a built Cluster.\<close>

definition cluster_options :: "(built_cluster \<Rightarrow> built_cluster) set" where
  "cluster_options = range cluster_Name \<union> range cluster_Labels \<union>
     {opt. \<exists>host port. opt = cluster_ControlPlaneEndpoint host port} \<union> range cluster_WithDeletionTimestamp"

lemma built_cluster_network:
  assumes "set opts \<subseteq> cluster_options"
  shows "Cluster_validateClusterNetwork (cluster.truncate (BuildCluster v intn opts)) = Ok ()"
  unfolding BuildCluster_def Let_def
proof (rule foldl_option_invariant)
  fix c :: built_cluster and opt assume "opt \<in> set opts" "Cluster_validateClusterNetwork (cluster.truncate c) = Ok ()"
  then show "Cluster_validateClusterNetwork (cluster.truncate (opt c)) = Ok ()"
    using assms by (auto simp: cluster_options_def cluster_Name_def cluster_Labels_def cluster_ControlPlaneEndpoint_def
        cluster_WithDeletionTimestamp_def validateClusterNetwork_Ok_iff canonical_network_def cluster.truncate_def)
qed (simp add: validateClusterNetwork_Ok_iff canonical_network_def cluster.truncate_def ControlPlaneEndpointPort_def
    ServiceDomain_def ClusterNetworkServiceCIDR_def)

text \<open>The options of a built AzureCluster but the one that sets the endpoint.\<close>

definition azurecluster_options :: "(built_azure_cluster \<Rightarrow> built_azure_cluster) set" where
  "azurecluster_options = range azurecluster_Name \<union> range azurecluster_Labels \<union> range azurecluster_Location \<union>
     range azurecluster_WithDeletionTimestamp"

definition test_base_domain :: string where "test_base_domain = ''k8s.test.westeurope.azure.gigantic.io''"

definition azurecluster_standard :: "azure_cluster \<Rightarrow> bool" where
  "azurecluster_standard c \<longleftrightarrow> azurecluster_canonical_endpoint test_base_domain c \<and>
     ac_APIServerLB c = standardAPIServerLB (om_name (ac_meta c))"

lemma test_endpoint_host_canonical: "test_endpoint_host name = GetControlPlaneEndpointHost name test_base_domain"
  by (simp add: test_endpoint_host_def GetControlPlaneEndpointHost_def test_base_domain_def)

lemma built_azurecluster_standard:
  assumes "set opts \<subseteq> azurecluster_options"
  shows "azurecluster_standard (azure_cluster.truncate (BuildAzureCluster v intn opts))"
  unfolding BuildAzureCluster_def Let_def
proof (rule foldl_option_invariant)
  fix c :: built_azure_cluster and opt assume "opt \<in> set opts" "azurecluster_standard (azure_cluster.truncate c)"
  then show "azurecluster_standard (azure_cluster.truncate (opt c))"
    using assms by (auto simp: azurecluster_options_def azurecluster_Name_def azurecluster_Labels_def
        azurecluster_Location_def azurecluster_WithDeletionTimestamp_def azurecluster_standard_def
        azurecluster_canonical_endpoint_def standardAPIServerLB_def azure_cluster.truncate_def test_endpoint_host_canonical)
qed (simp add: azurecluster_standard_def azurecluster_canonical_endpoint_def standardAPIServerLB_def
    azure_cluster.truncate_def test_endpoint_host_canonical ControlPlaneEndpointPort_def)

text \<open>The options of a built node pool that leave disks and storage alone.\<close>

definition pool_options :: "(azure_machine_pool \<Rightarrow> azure_machine_pool) set" where
  "pool_options = range pool_AcceleratedNetworking \<union> range pool_Cluster \<union> range pool_Location \<union>
     range pool_Organization \<union> range pool_Name \<union> range pool_SpotVMOptions \<union> range pool_VMSize \<union>
     range pool_WithDeletionTimestamp"

lemma built_pool_checks:
  assumes "set opts \<subseteq> pool_options"
  shows "checkDataDisks (BuildAzureMachinePool intn opts) = Ok () \<and>
     AzureMachinePool_checkSSHKeyIsEmpty (BuildAzureMachinePool intn opts) = Ok () \<and>
     amp_StorageAccountType (BuildAzureMachinePool intn opts) = StandardLRS"
  unfolding BuildAzureMachinePool_def Let_def
proof (rule foldl_option_invariant)
  fix p :: azure_machine_pool and opt
  assume "opt \<in> set opts" "checkDataDisks p = Ok () \<and> AzureMachinePool_checkSSHKeyIsEmpty p = Ok () \<and>
    amp_StorageAccountType p = StandardLRS"
  then show "checkDataDisks (opt p) = Ok () \<and> AzureMachinePool_checkSSHKeyIsEmpty (opt p) = Ok () \<and>
    amp_StorageAccountType (opt p) = StandardLRS"
    using assms by (auto simp: pool_options_def pool_AcceleratedNetworking_def pool_Cluster_def pool_Location_def
        pool_Organization_def pool_Name_def pool_SpotVMOptions_def pool_VMSize_def pool_WithDeletionTimestamp_def
        checkDataDisks_def AzureMachinePool_checkSSHKeyIsEmpty_def)
qed (simp add: checkDataDisks_def AzureMachinePool_checkSSHKeyIsEmpty_def desiredDataDisks_def StandardLRS_def outcome_simps)

text \<open>The options of a built MachinePool; the number of replicas is not negative.\<close>

definition mpool_options :: "(built_machine_pool \<Rightarrow> built_machine_pool) set" where
  "mpool_options = range mpool_AzureMachinePool \<union> range mpool_FailureDomains \<union> range mpool_Name \<union>
     range mpool_Organization \<union> mpool_Replicas ` {r. 0 \<le> sint r} \<union> range mpool_WithDeletionTimestamp"

definition sized :: "machine_pool \<Rightarrow> bool" where
  "sized p \<longleftrightarrow> (\<exists>r :: 32 word. 0 \<le> sint r \<and>
     om_annotations (mp_meta p) annotation_NodePoolMinSize = Some (format_int (sint r)) \<and>
     om_annotations (mp_meta p) annotation_NodePoolMaxSize = Some (format_int (sint r)))"

lemma sized_needs_no_repair: "sized p \<Longrightarrow> ensureAutoscalingAnnotations p = []"
  by (auto simp: sized_def ensureAutoscalingAnnotations_def autoscaling_min_def autoscaling_max_def mget_def
      parse_annotation_value Let_def split: option.splits)

lemma built_mpool_sized:
  assumes "set opts \<subseteq> mpool_options"
  shows "sized (machine_pool.truncate (BuildMachinePool intn opts))"
  unfolding BuildMachinePool_def Let_def
proof (rule foldl_option_invariant)
  fix p :: built_machine_pool and opt assume "opt \<in> set opts" and p: "sized (machine_pool.truncate p)"
  with assms have "opt \<in> mpool_options" by blast
  with p show "sized (machine_pool.truncate (opt p))"
    by (auto simp: mpool_options_def mpool_AzureMachinePool_def mpool_FailureDomains_def mpool_Name_def
        mpool_Organization_def mpool_Replicas_def mpool_Annotation_def mpool_WithDeletionTimestamp_def sized_def
        machine_pool.truncate_def Let_def)
next
  have "nat_digits 1 = ''1''" by (subst nat_digits.simps) (simp add: digit_char_def char_of_def bit_0)
  then have "format_int (sint (1 :: 32 word)) = ''1''" by (simp add: format_int_def)
  then show "sized (machine_pool.truncate \<lparr>mp_meta = \<lparr>om_name = GenerateName intn, om_namespace = ''org-giantswarm'',
      om_labels = [label_AzureOperatorVersion \<mapsto> ''5.0.0'', label_Cluster \<mapsto> ''ab123'',
        capi_ClusterLabelName \<mapsto> ''ab123'', label_MachinePool \<mapsto> GenerateName intn,
        label_Organization \<mapsto> ''giantswarm'', label_ReleaseVersion \<mapsto> ''13.0.0''],
      om_annotations = [annotation_NodePoolMinSize \<mapsto> ''1'', annotation_NodePoolMaxSize \<mapsto> ''1''],
      om_deletionTimestamp = None, om_rest = ''''\<rparr>,
    mp_Replicas = None, mp_FailureDomains = [], mp_InfraNamespace = ''org-giantswarm'', mp_InfraName = ''ab123'',
    mp_rest = '''', bmp_BootstrapNamespace = ''org-giantswarm'', bmp_BootstrapName = ''ab123''\<rparr>)"
    unfolding sized_def
    by (intro exI [of _ 1]) (simp add: machine_pool.truncate_def annotation_NodePoolMinSize_def annotation_NodePoolMaxSize_def)
qed

text \<open>The fixtures of the tests are objects the handlers accept: whatever names, labels, organizations, sizes,
  replicas and locations are chosen, a built Cluster has the canonical network, a built AzureCluster the canonical
  endpoint and load balancer of its name, a built AzureMachinePool the required disks, storage and no SSH key, and
  the autoscaler annotations of a built MachinePool need no repair.\<close>

theorem built_objects_are_valid:
  assumes "set copts \<subseteq> cluster_options" and "set aopts \<subseteq> azurecluster_options" and "set popts \<subseteq> pool_options"
    and "set mopts \<subseteq> mpool_options"
  shows "Cluster_validateClusterNetwork (cluster.truncate (BuildCluster v intn copts)) = Ok () \<and>
    AzureCluster_validateControlPlaneEndpoint (azure_cluster.truncate (BuildAzureCluster w intn aopts)) test_base_domain = Ok () \<and>
    ensureAPIServerLB (azure_cluster.truncate (BuildAzureCluster w intn aopts)) = Ok None \<and>
    checkDataDisks (BuildAzureMachinePool intn popts) = Ok () \<and>
    AzureMachinePool_checkSSHKeyIsEmpty (BuildAzureMachinePool intn popts) = Ok () \<and>
    checkStorageAccountTypeIsValid azure (BuildAzureMachinePool intn popts) s = (Ok (), s) \<and>
    ensureAutoscalingAnnotations (machine_pool.truncate (BuildMachinePool intn mopts)) = []"
  using built_cluster_network [OF assms(1)] built_azurecluster_standard [OF assms(2), of w intn]
    built_pool_checks [OF assms(3), of intn] sized_needs_no_repair [OF built_mpool_sized [OF assms(4)]]
  by (auto simp: azurecluster_standard_def azurecluster_endpoint_Ok_iff ensureAPIServerLB_def
      checkStorageAccountTypeIsValid_def lift_st_def)

theorem built_objects_are_valid_witness:
  "ensureAutoscalingAnnotations (machine_pool.truncate (BuildMachinePool (\<lambda>i n. i)
     [mpool_Name ''np1'', mpool_Organization ''acme'', mpool_Replicas 3])) = []"
  using built_objects_are_valid [of "[]" "[]" "[]" "[mpool_Name ''np1'', mpool_Organization ''acme'', mpool_Replicas 3]"
      "''''" "\<lambda>i n. i" "''''" demo_sku_api demo_vm_empty]
  by (simp add: mpool_options_def)

end
