(* ===== verification/Admission.thy ===== *)
theory Admission
  imports HttpHandler Json
begin

text \<open>
  The older admission handler (\<^verbatim>\<open>pkg/admission\<close>), a copy of the one in \<^verbatim>\<open>pkg/mutator\<close> that the program does
  not register, and the runner of test cases in files that is built on it (\<^verbatim>\<open>pkg/testrunner\<close>). The copies
  are compared with the originals. Files, YAML and the library that applies JSON patches are arguments.
\<close>

section \<open>patch.go\<close>

definition admission_PatchReplace :: "string \<Rightarrow> patch_value \<Rightarrow> patch_operation" where
  "admission_PatchReplace path v = \<lparr>po_Operation = ''replace'', po_Path = path, po_Value = v\<rparr>"

definition admission_PatchAdd :: "string \<Rightarrow> patch_value \<Rightarrow> patch_operation" where
  "admission_PatchAdd path v = \<lparr>po_Operation = ''add'', po_Path = path, po_Value = v\<rparr>"

text \<open>The comment on the constructor: an added member is set whether or not it was there before.\<close>

lemma admission_PatchAdd_sets:
  "apply_patch enc (admission_PatchAdd path v) (JObj m) = Some (JObj (m(k \<mapsto> enc v)))" if "tokens path = [k]"
  using that by (simp add: apply_patch_def edit_of_def admission_PatchAdd_def)

section \<open>admission.go\<close>

definition admission_InternalError :: go_error where
  "admission_InternalError = Opaque ''internal admission controller error''"

definition admission_extractName :: "http_lib \<Rightarrow> admission_request \<Rightarrow> string" where
  "admission_extractName H request =
     (if ar_Name request \<noteq> '''' then ar_Name request
      else (case hl_DecodeNames H (ar_Object request) of
          Inl err \<Rightarrow> ''<unknown>''
        | Inr (name, generateName) \<Rightarrow>
            if name \<noteq> '''' then name
            else if generateName \<noteq> '''' then generateName @ ''<generated>''
            else ''<unknown>''))"

text \<open>The response carries neither the kind nor the version of a review.\<close>

definition admission_writeResponse :: "http_lib \<Rightarrow> admission_response \<Rightarrow> http_reply" where
  "admission_writeResponse H response =
     (case hl_MarshalReview H '''' '''' response of
        Inl err \<Rightarrow> StatusOnly StatusInternalServerError
      | Inr resp \<Rightarrow> ReviewReply '''' '''' response)"

definition admission_errorResponse :: "string \<Rightarrow> go_error \<Rightarrow> admission_response" where
  "admission_errorResponse uid err = \<lparr>rs_Allowed = False, rs_UID = uid,
     rs_Result = Some \<lparr>rst_Reason = '''', rst_Code = 0, rst_Error = err\<rparr>,
     rs_Patch = None, rs_PatchType = None\<rparr>"

definition admission_allowed :: "string \<Rightarrow> string \<Rightarrow> admission_response" where
  "admission_allowed uid patchData = \<lparr>rs_Allowed = True, rs_UID = uid, rs_Result = None,
     rs_Patch = Some patchData, rs_PatchType = Some ''JSONPatch''\<rparr>"

definition admission_Handler ::
    "http_lib \<Rightarrow> (admission_request \<Rightarrow> ('s, patch_operation list, go_error) prog) \<Rightarrow> http_request \<Rightarrow> ('s, http_reply, go_error) prog" where
  "admission_Handler H admit =
     with_review H (\<lambda>review.
       bind_st (lift_st (deref (rv_Request review))) (\<lambda>rq.
       on_error (admit rq)
         (\<lambda>err. Ok (admission_writeResponse H (admission_errorResponse (ar_UID rq) err)))
         (\<lambda>patch. Ok (case hl_MarshalPatch H patch of
             Inl err \<Rightarrow> admission_writeResponse H (admission_errorResponse (ar_UID rq) admission_InternalError)
           | Inr patchData \<Rightarrow> admission_writeResponse H (admission_allowed (ar_UID rq) patchData)))))"

text \<open>A reply without the kind and version of its review.\<close>

fun untyped :: "http_reply \<Rightarrow> http_reply" where
  "untyped (ReviewReply kind version response) = ReviewReply '''' '''' response"
| "untyped (StatusOnly code) = StatusOnly code"

lemma admission_copies:
  "admission_PatchReplace = PatchReplace" "admission_PatchAdd = PatchAdd" "admission_extractName = extractName"
  "admission_errorResponse = mutator_errorResponse" "admission_allowed = mutator_allowed"
  "admission_InternalError = InternalError"
  by (simp_all add: fun_eq_iff admission_PatchReplace_def PatchReplace_def admission_PatchAdd_def PatchAdd_def
      admission_extractName_def extractName_def admission_errorResponse_def mutator_errorResponse_def
      admission_allowed_def mutator_allowed_def admission_InternalError_def InternalError_def)

text \<open>
  The older handler answers like the one of \<^verbatim>\<open>pkg/mutator\<close>, but for the kind and version of the review, if
  reviews can be serialised with these as well as without them.
\<close>

theorem admission_handler_is_mutator_handler:
  assumes "\<And>r. (\<exists>e. hl_MarshalReview H '''' '''' r = Inl e) \<longleftrightarrow>
      (\<exists>e. hl_MarshalReview H ''AdmissionReview'' ''admission.k8s.io/v1'' r = Inl e)"
  shows "admission_Handler H admit rq s =
    (case mutator_Handler H admit rq s of (Ok reply, s') \<Rightarrow> (Ok (untyped reply), s') | other \<Rightarrow> other)"
proof -
  have w: "admission_writeResponse H r = untyped (writeResponse H r)" for r
    using assms [of r] by (auto simp: admission_writeResponse_def writeResponse_def split: sum.splits)
  show ?thesis
    by (auto simp: admission_Handler_def mutator_Handler_def with_review_def on_error_def bind_st_def lift_st_def
        deref_def patch_reply_def admission_copies w split: option.splits sum.splits prod.splits outcome.splits)
qed

section \<open>runner.go\<close>

text \<open>
  A test case as its file says it, with the configuration and the objects as values of the YAML library, and
  what the runner uses of its element type \<open>'o\<close> and of libraries.
\<close>

record testcaseDefinition =
  tc_Config :: json
  tc_Object :: json
  tc_Expected :: json
  tc_Operation :: string
  tc_Error :: string
  tc_Namespace :: string

record runner_request = admission_request +
  rr_Resource :: string
  rr_Operation :: string

record 'o runner =
  ru_CreateAdmitter :: "string \<Rightarrow> go_error + (runner_request \<Rightarrow> patch_operation list res)"
  ru_Resource :: string
  ru_Decode :: "string \<Rightarrow> go_error + 'o"
  ru_Marshal :: "'o \<Rightarrow> go_error + string"
  ru_Kind :: "'o \<Rightarrow> string"
  ru_Name :: "'o \<Rightarrow> go_error + string"

record runner_lib =
  ul_Testcase :: "string \<Rightarrow> go_error + testcaseDefinition"
  ul_yaml :: "json \<Rightarrow> go_error + string"
  ul_json :: "json \<Rightarrow> go_error + string"
  ul_JSONToYAML :: "string \<Rightarrow> go_error + string"
  ul_MarshalPatch :: "patch_operation list \<Rightarrow> go_error + string"
  ul_ApplyPatch :: "string \<Rightarrow> string \<Rightarrow> go_error + string"
  ul_Error :: "go_error \<Rightarrow> string"

text \<open>A failed requirement ends the test case.\<close>

datatype test_failure = UnexpectedError go_error | MissingError | NotEqual string string

definition require_NoError :: "go_error + 'a \<Rightarrow> ('a, test_failure) outcome" where
  "require_NoError r = (case r of Inl err \<Rightarrow> Err (UnexpectedError err) | Inr x \<Rightarrow> Ok x)"

definition require_Equal :: "string \<Rightarrow> string \<Rightarrow> (unit, test_failure) outcome" where
  "require_Equal expected actual = (if expected = actual then Ok () else Err (NotEqual expected actual))"

lemma require_simps [outcome_simps]:
  "require_NoError r = Ok x \<longleftrightarrow> r = Inr x" "require_Equal a b = Ok u \<longleftrightarrow> a = b"
  by (auto simp: require_NoError_def require_Equal_def split: sum.splits)

definition parseObject :: "'o runner \<Rightarrow> string \<Rightarrow> ('o, test_failure) outcome" where
  "parseObject R src = require_NoError (ru_Decode R src)"

definition objectToRequest :: "'o runner \<Rightarrow> 'o \<Rightarrow> string \<Rightarrow> string \<Rightarrow> (runner_request, test_failure) outcome" where
  "objectToRequest R ob namespace operation =
     bind_res (require_NoError (ru_Marshal R ob)) (\<lambda>serialized.
     bind_res (require_NoError (ru_Name R ob)) (\<lambda>name.
     Ok \<lparr>ar_UID = ''example'', ar_Kind = ru_Kind R ob, ar_Namespace = namespace, ar_Name = name,
       ar_Object = serialized, ar_OldObject = '''', ar_DryRun = None,
       rr_Resource = ru_Resource R, rr_Operation = operation\<rparr>))"

definition applyPatch :: "'o runner \<Rightarrow> runner_lib \<Rightarrow> 'o \<Rightarrow> patch_operation list \<Rightarrow> ('o, test_failure) outcome" where
  "applyPatch R U ob patch =
     bind_res (require_NoError (ru_Marshal R ob)) (\<lambda>serializedObject.
     bind_res (require_NoError (ul_MarshalPatch U patch)) (\<lambda>serializedPatch.
     bind_res (require_NoError (ul_ApplyPatch U serializedPatch serializedObject)) (\<lambda>updated.
     parseObject R updated)))"

definition asYaml :: "runner_lib \<Rightarrow> go_error + string \<Rightarrow> (string, test_failure) outcome" where
  "asYaml U json = bind_res (require_NoError json) (\<lambda>serialized. require_NoError (ul_JSONToYAML U serialized))"

text \<open>The end of a test case: the answer of the admitter against what the test case expects.\<close>

fun judge ::
    "'o runner \<Rightarrow> runner_lib \<Rightarrow> testcaseDefinition \<Rightarrow> 'o \<Rightarrow> patch_operation list res \<Rightarrow> (unit, test_failure) outcome" where
  "judge R U testcase sourceObject Panic = Panic"
| "judge R U testcase sourceObject (Err err) =
     (if tc_Error testcase \<noteq> '''' then require_Equal (tc_Error testcase) (ul_Error U err)
      else Err (UnexpectedError err))"
| "judge R U testcase sourceObject (Ok patch) =
     (if tc_Error testcase \<noteq> '''' then Err MissingError
      else bind_res (applyPatch R U sourceObject patch) (\<lambda>updatedObject.
        bind_res (asYaml U (ul_json U (tc_Expected testcase))) (\<lambda>expected.
        bind_res (asYaml U (ru_Marshal R updatedObject)) (\<lambda>actual.
        require_Equal expected actual))))"

definition runTestcase :: "'o runner \<Rightarrow> runner_lib \<Rightarrow> go_error + string \<Rightarrow> (unit, test_failure) outcome" where
  "runTestcase R U file =
     bind_res (require_NoError file) (\<lambda>data.
     bind_res (require_NoError (ul_Testcase U data)) (\<lambda>testcase.
     bind_res (require_NoError (ul_yaml U (tc_Object testcase))) (\<lambda>objectYaml.
     let namespace = (if tc_Namespace testcase = '''' then ''default'' else tc_Namespace testcase) in
     bind_res (parseObject R objectYaml) (\<lambda>sourceObject.
     bind_res (objectToRequest R sourceObject namespace (tc_Operation testcase)) (\<lambda>request.
     bind_res (require_NoError (ul_yaml U (tc_Config testcase))) (\<lambda>config.
     bind_res (require_NoError (ru_CreateAdmitter R config)) (\<lambda>admitter.
     judge R U testcase sourceObject (admitter request))))))))"

text \<open>Each file is a subtest of its own.\<close>

definition RunTestcases ::
    "'o runner \<Rightarrow> runner_lib \<Rightarrow> go_error + (string \<times> (go_error + string)) list \<Rightarrow>
     ((string \<times> (unit, test_failure) outcome) list, test_failure) outcome" where
  "RunTestcases R U files =
     bind_res (require_NoError files) (\<lambda>fs. Ok (map (\<lambda>(name, data). (name, runTestcase R U data)) fs))"

lemma judge_Ok_iff [outcome_simps]:
  "judge R U testcase src r = Ok u \<longleftrightarrow>
     (if tc_Error testcase \<noteq> '''' then \<exists>err. r = Err err \<and> tc_Error testcase = ul_Error U err
      else \<exists>patch ob y. r = Ok patch \<and> applyPatch R U src patch = Ok ob \<and>
        asYaml U (ul_json U (tc_Expected testcase)) = Ok y \<and> asYaml U (ru_Marshal R ob) = Ok y)"
  by (cases r) (auto simp: outcome_simps)

text \<open>
  What a passed test case says, if the library applies patches as the standard has it and equal YAML means
  equal JSON: an expected error is the text of the refusal; without one, the patches of the admitter turn
  the object it was shown into a document that the element type reads as the expected one.
\<close>

theorem passed_test_case_error:
  assumes "runTestcase R U (Inr data) = Ok ()" and "ul_Testcase U data = Inr testcase" and "tc_Error testcase \<noteq> ''''"
  shows "\<exists>config admitter rq err. ru_CreateAdmitter R config = Inr admitter \<and> admitter rq = Err err \<and>
     ul_Error U err = tc_Error testcase"
  using assms unfolding runTestcase_def Let_def by (simp add: outcome_simps) metis

theorem passed_test_case_patches:
  assumes "runTestcase R U (Inr data) = Ok ()" and "ul_Testcase U data = Inr testcase" and "tc_Error testcase = ''''"
    and rfc: "\<And>ps sp doc new. ul_MarshalPatch U ps = Inr sp \<Longrightarrow> ul_ApplyPatch U sp doc = Inr new \<Longrightarrow>
      apply_patches enc ps (parse doc) = Some (parse new)"
    and yaml: "\<And>a b y. ul_JSONToYAML U a = Inr y \<Longrightarrow> ul_JSONToYAML U b = Inr y \<Longrightarrow> parse a = parse b"
    and json: "\<And>j a. ul_json U j = Inr a \<Longrightarrow> parse a = j"
  shows "\<exists>config admitter rq patch new ob out. ru_CreateAdmitter R config = Inr admitter \<and> admitter rq = Ok patch \<and>
     apply_patches enc patch (parse (ar_Object rq)) = Some (parse new) \<and>
     ru_Decode R new = Inr ob \<and> ru_Marshal R ob = Inr out \<and> parse out = tc_Expected testcase"
proof -
  from assms(1-3) obtain src rq config admitter patch ob y where
    rq: "objectToRequest R src (if tc_Namespace testcase = '''' then ''default'' else tc_Namespace testcase)
        (tc_Operation testcase) = Ok rq"
    and adm: "ru_CreateAdmitter R config = Inr admitter" "admitter rq = Ok patch"
    and ob: "applyPatch R U src patch = Ok ob"
    and e: "asYaml U (ul_json U (tc_Expected testcase)) = Ok y" and a: "asYaml U (ru_Marshal R ob) = Ok y"
    unfolding runTestcase_def Let_def by (simp add: outcome_simps) metis
  from ob rq obtain sp new where n: "ul_MarshalPatch U patch = Inr sp" "ul_ApplyPatch U sp (ar_Object rq) = Inr new"
    "ru_Decode R new = Inr ob"
    by (auto simp: applyPatch_def objectToRequest_def parseObject_def outcome_simps)
  from e a obtain x out where "ul_json U (tc_Expected testcase) = Inr x" "ul_JSONToYAML U x = Inr y"
    "ru_Marshal R ob = Inr out" "ul_JSONToYAML U out = Inr y"
    by (auto simp: asYaml_def outcome_simps)
  with adm n rfc [OF n(1,2)] show ?thesis using yaml json by metis
qed

end
