(* ===== verification/Folders.thy ===== *)
theory Folders
  imports Library
begin

text \<open>
  The custom resources of an integration test (\<^verbatim>\<open>integration/util\<close>): every YAML file below a folder is
  read, unmarshalled by its kind, and created or deleted through a client. The YAML library and the client
  are arguments; walking a file tree is the standard library's and is modelled here. What is created is
  what is asked to be deleted again; what the API server makes of that is a hypothesis.
\<close>

section \<open>Walking a file tree\<close>

text \<open>
  What is found under a path: nothing that can be examined, a file with the outcome of reading it, a folder
  that cannot be listed, or a folder with its entries.
\<close>

datatype fs_node =
    Gone go_error
  | FileOf "go_error + string"
  | Closed go_error
  | Folder "(string \<times> fs_node) list"

text \<open>The paths \<open>filepath.Walk\<close> visits, in its order: a folder before its entries, which are sorted by name.\<close>

function entries :: "string \<Rightarrow> fs_node \<Rightarrow> (string \<times> fs_node) list" where
  "entries path (Gone err) = [(path, Gone err)]"
| "entries path (FileOf r) = [(path, FileOf r)]"
| "entries path (Closed err) = [(path, Closed err)]"
| "entries path (Folder ns) = (path, Folder ns) #
     concat (map (\<lambda>(name, n). entries (path @ ''/'' @ name) n) (sort_key fst ns))"
  by pat_completeness auto

termination
proof (relation "measure (\<lambda>(path, n). size n)", goal_cases)
  case (2 path ns e name n)
  then have "(name, n) \<in> set ns" by simp
  then have "size n \<le> size_list (size_prod (\<lambda>_. 0) size) ns"
    by (induction ns) auto
  then show ?case by simp
qed simp

fun walk_entries :: "(string \<times> fs_node \<Rightarrow> ('s, unit, go_error) prog) \<Rightarrow> (string \<times> fs_node) list \<Rightarrow> ('s, unit, go_error) prog" where
  "walk_entries visit [] = lift_st (Ok ())"
| "walk_entries visit (e # es) = bind_st (visit e) (\<lambda>_. walk_entries visit es)"

definition Walk :: "string \<Rightarrow> fs_node \<Rightarrow> (string \<times> fs_node \<Rightarrow> ('s, unit, go_error) prog) \<Rightarrow> ('s, unit, go_error) prog" where
  "Walk root node visit = walk_entries visit (entries root node)"

text \<open>\<open>filepath.Ext\<close>: the last element of the path from its last dot on.\<close>

definition Ext :: "string \<Rightarrow> string" where
  "Ext path =
     (case dropWhile (\<lambda>c. c \<noteq> CHR ''.'' \<and> c \<noteq> CHR ''/'') (rev path) of
        c # cs \<Rightarrow> if c = CHR ''.''
          then CHR ''.'' # rev (takeWhile (\<lambda>c. c \<noteq> CHR ''.'' \<and> c \<noteq> CHR ''/'') (rev path)) else ''''
      | [] \<Rightarrow> '''')"

section \<open>Unmarshalling\<close>

datatype cr_type =
    CR_Namespace | CR_NamespaceList | CR_Organization | CR_Cluster | CR_MachinePool | CR_AzureCluster
  | CR_AzureMachine | CR_AzureMachinePool | CR_Release | CR_Spark

record cr =
  cr_Type :: cr_type
  cr_Namespace :: string
  cr_Name :: string
  cr_rest :: string

record yaml_lib =
  ya_Kind :: "string \<Rightarrow> go_error + string"
  ya_Unmarshal :: "string \<Rightarrow> cr_type \<Rightarrow> go_error + cr"

definition type_of_kind :: "string \<Rightarrow> cr_type option" where
  "type_of_kind kind =
     (if kind = ''Namespace'' then Some CR_Namespace
      else if kind = ''NamespaceList'' then Some CR_NamespaceList
      else if kind = ''Organization'' then Some CR_Organization
      else if kind = ''Cluster'' then Some CR_Cluster
      else if kind = ''MachinePool'' then Some CR_MachinePool
      else if kind = ''AzureCluster'' then Some CR_AzureCluster
      else if kind = ''AzureMachine'' then Some CR_AzureMachine
      else if kind = ''AzureMachinePool'' then Some CR_AzureMachinePool
      else if kind = ''Release'' then Some CR_Release
      else if kind = ''Spark'' then Some CR_Spark
      else None)"

definition unmarshal :: "yaml_lib \<Rightarrow> string \<Rightarrow> cr res" where
  "unmarshal Y bs =
     bind_res (of_lib (ya_Kind Y bs)) (\<lambda>kind.
       case type_of_kind kind of
         None \<Rightarrow> Err (Micro (E_integration Integration_unknownKindError))
       | Some t \<Rightarrow> of_lib (ya_Unmarshal Y bs t))"

section \<open>Creating and deleting\<close>

record 's cr_client =
  cc_Create :: "cr \<Rightarrow> ('s, unit, go_error) prog"
  cc_Delete :: "cr \<Rightarrow> ('s, unit, go_error) prog"

text \<open>
  Both callbacks ignore the error of the walk and ask the file for its kind: without a file information
  this panics, and a folder that cannot be listed counts as visited.
\<close>

definition cr_at :: "yaml_lib \<Rightarrow> string \<times> fs_node \<Rightarrow> (cr option) res" where
  "cr_at Y = (\<lambda>(path, node). case node of
       Gone err \<Rightarrow> Panic
     | Closed err \<Rightarrow> Ok None
     | Folder ns \<Rightarrow> Ok None
     | FileOf r \<Rightarrow>
         if Ext path \<noteq> ''.yaml'' \<and> Ext path \<noteq> ''.yml'' then Ok None
         else bind_res (of_lib r) (\<lambda>bs. bind_res (unmarshal Y bs) (\<lambda>ob. Ok (Some ob))))"

definition visit_crs :: "yaml_lib \<Rightarrow> (cr \<Rightarrow> ('s, unit, go_error) prog) \<Rightarrow> string \<times> fs_node \<Rightarrow> ('s, unit, go_error) prog" where
  "visit_crs Y act e =
     bind_st (lift_st (cr_at Y e)) (\<lambda>r. case r of None \<Rightarrow> lift_st (Ok ()) | Some ob \<Rightarrow> act ob)"

definition CreateCRsInFolder :: "yaml_lib \<Rightarrow> 's cr_client \<Rightarrow> string \<Rightarrow> fs_node \<Rightarrow> ('s, unit, go_error) prog" where
  "CreateCRsInFolder Y client crsFolder node = Walk crsFolder node (visit_crs Y (cc_Create client))"

definition DeleteCRsInFolder :: "yaml_lib \<Rightarrow> 's cr_client \<Rightarrow> string \<Rightarrow> fs_node \<Rightarrow> ('s, unit, go_error) prog" where
  "DeleteCRsInFolder Y client crsFolder node = Walk crsFolder node (visit_crs Y (\<lambda>ob s.
     case cc_Delete client ob s of
       (Err err, s') \<Rightarrow> if IsNotFound err then (Ok (), s') else (Err err, s')
     | r \<Rightarrow> r))"

section \<open>What the walk does\<close>

lemma Ext_last_element:
  assumes "CHR ''/'' \<notin> set name"
  shows "Ext (path @ ''/'' @ name) = Ext name"
proof -
  let ?P = "\<lambda>c. c \<noteq> CHR ''.'' \<and> c \<noteq> CHR ''/''"
  show ?thesis
  proof (cases "CHR ''.'' \<in> set name")
    case True
    then have x: "CHR ''.'' \<in> set (rev name)" "\<not> ?P (CHR ''.'')" by simp_all
    then obtain c cs where "dropWhile ?P (rev name) = c # cs" by (cases "dropWhile ?P (rev name)") auto
    then show ?thesis
      using dropWhile_append1 [of _ "rev name" ?P, OF x] takeWhile_append1 [of _ "rev name" ?P, OF x]
      by (simp add: Ext_def)
  next
    case False
    with assms have all: "?P x" if "x \<in> set (rev name)" for x using that by auto
    have "dropWhile ?P (rev name @ CHR ''/'' # rev path) = dropWhile ?P (CHR ''/'' # rev path)"
      by (rule dropWhile_append2) (rule all)
    moreover have "dropWhile ?P (rev name) = []" using all by (simp only: dropWhile_eq_Nil_conv) blast
    ultimately show ?thesis by (simp add: Ext_def del: dropWhile_eq_Nil_conv)
  qed
qed

text \<open>A folder that does not exist makes both functions panic, before anything is done.\<close>

lemma missing_folder_panics:
  "CreateCRsInFolder Y client crsFolder (Gone err) s = (Panic, s)"
  "DeleteCRsInFolder Y client crsFolder (Gone err) s = (Panic, s)"
  by (simp_all add: CreateCRsInFolder_def DeleteCRsInFolder_def Walk_def visit_crs_def cr_at_def bind_st_def lift_st_def)

text \<open>A folder that cannot be listed is skipped without an error.\<close>

lemma closed_folder_is_skipped:
  "CreateCRsInFolder Y client crsFolder (Closed err) s = (Ok (), s)"
  by (simp add: CreateCRsInFolder_def Walk_def visit_crs_def cr_at_def bind_st_def lift_st_def)

text \<open>The objects of a walk, when every file can be unmarshalled.\<close>

fun crs_of :: "yaml_lib \<Rightarrow> (string \<times> fs_node) list \<Rightarrow> cr list res" where
  "crs_of Y [] = Ok []"
| "crs_of Y (e # es) =
     bind_res (cr_at Y e) (\<lambda>r. bind_res (crs_of Y es) (\<lambda>obs. Ok ((case r of None \<Rightarrow> [] | Some ob \<Rightarrow> [ob]) @ obs)))"

fun each :: "(cr \<Rightarrow> ('s, unit, go_error) prog) \<Rightarrow> cr list \<Rightarrow> ('s, unit, go_error) prog" where
  "each act [] = lift_st (Ok ())"
| "each act (ob # obs) = bind_st (act ob) (\<lambda>_. each act obs)"

lemma walk_is_each:
  "crs_of Y es = Ok obs \<Longrightarrow> walk_entries (visit_crs Y act) es = each act obs"
proof (induction es arbitrary: obs)
  case (Cons e es)
  from Cons.prems obtain r os where "cr_at Y e = Ok r" "crs_of Y es = Ok os"
    "obs = (case r of None \<Rightarrow> [] | Some ob \<Rightarrow> [ob]) @ os"
    by (auto simp: outcome_simps)
  with Cons.IH [of os] show ?case by (cases r) (simp_all add: visit_crs_def)
qed simp

lemma walk_Ok_crs:
  "walk_entries (visit_crs Y act) es s = (Ok (), s') \<Longrightarrow> \<exists>obs. crs_of Y es = Ok obs \<and> each act obs s = (Ok (), s')"
proof (induction es arbitrary: s)
  case Nil
  then show ?case by simp
next
  case (Cons e es)
  from Cons.prems obtain s1 where v: "visit_crs Y act e s = (Ok (), s1)"
    and rest: "walk_entries (visit_crs Y act) es s1 = (Ok (), s')"
    by (auto simp: outcome_simps)
  from v obtain r where r: "cr_at Y e = Ok r"
    and s1: "(case r of None \<Rightarrow> lift_st (Ok ()) | Some ob \<Rightarrow> act ob) s = (Ok (), s1)"
    by (auto simp: visit_crs_def outcome_simps)
  from Cons.IH [OF rest] obtain obs where "crs_of Y es = Ok obs" "each act obs s1 = (Ok (), s')" by blast
  with r s1 show ?case by (cases r) (auto simp: outcome_simps)
qed

text \<open>An error ends the walk: what was created before it stays, nothing after it is looked at.\<close>

lemma walk_stops_at_error:
  assumes "crs_of Y es = Ok obs" and "each act obs s = (Ok (), s1)" and "cr_at Y e = Err err"
  shows "walk_entries (visit_crs Y act) (es @ e # fs) s = (Err err, s1)"
proof -
  have "walk_entries (visit_crs Y act) (es @ fs) s = walk_entries (visit_crs Y act) fs s1"
    if "walk_entries (visit_crs Y act) es s = (Ok (), s1)" for es fs s
    using that by (induction es arbitrary: s) (auto simp: outcome_simps bind_st_def split: prod.splits outcome.splits)
  then show ?thesis
    using assms walk_is_each [OF assms(1), of act] by (simp add: visit_crs_def bind_st_def lift_st_def)
qed

section \<open>The round trip\<close>

text \<open>
  What the API server documents. An object is created unless one of its kind and name exists, and is
  stored in some form. A delete says that the object is not there, or it is accepted: the object is removed,
  or stays and is marked as being deleted while it has finalizers. What belongs to it, as the contents of a
  namespace or the objects it owns, may be removed or marked along with it; nothing else changes.
\<close>

type_synonym cr_key = "cr_type \<times> string \<times> string"

definition cr_key :: "cr \<Rightarrow> cr_key" where
  "cr_key ob = (cr_Type ob, cr_Namespace ob, cr_Name ob)"

definition creates_objects :: "('k \<rightharpoonup> cr) cr_client \<Rightarrow> (cr \<Rightarrow> 'k) \<Rightarrow> bool" where
  "creates_objects client key \<longleftrightarrow> (\<forall>ob m m'. cc_Create client ob m = (Ok (), m') \<longrightarrow>
     m (key ob) = None \<and> (\<exists>stored. m' = m(key ob \<mapsto> stored)))"

text \<open>Gone, or marked as being deleted.\<close>

definition going :: "('v \<Rightarrow> bool) \<Rightarrow> ('k \<rightharpoonup> 'v) \<Rightarrow> 'k \<Rightarrow> bool" where
  "going marked m k \<longleftrightarrow> (\<forall>v. m k = Some v \<longrightarrow> marked v)"

definition only_deletes :: "('v \<Rightarrow> bool) \<Rightarrow> ('k \<Rightarrow> bool) \<Rightarrow> ('k \<rightharpoonup> 'v) \<Rightarrow> ('k \<rightharpoonup> 'v) \<Rightarrow> bool" where
  "only_deletes marked touched m m' \<longleftrightarrow>
     (\<forall>k. m' k \<noteq> m k \<longrightarrow> touched k \<and> m k \<noteq> None \<and> going marked m' k)"

definition deletes_objects ::
    "('k \<rightharpoonup> 'v) cr_client \<Rightarrow> (cr \<Rightarrow> 'k) \<Rightarrow> ('v \<Rightarrow> bool) \<Rightarrow> ('k \<Rightarrow> 'k \<Rightarrow> bool) \<Rightarrow> bool" where
  "deletes_objects client key marked belongs \<longleftrightarrow> (\<forall>ob m.
     if m (key ob) = None then \<exists>err. cc_Delete client ob m = (Err err, m) \<and> IsNotFound err
     else \<exists>m'. cc_Delete client ob m = (Ok (), m') \<and> going marked m' (key ob) \<and>
       only_deletes marked (\<lambda>k. k = key ob \<or> belongs k (key ob)) m m')"

lemma only_deletes_refl: "only_deletes marked touched m m"
  by (simp add: only_deletes_def)

lemma only_deletes_going: "only_deletes marked touched m m' \<Longrightarrow> going marked m k \<Longrightarrow> going marked m' k"
  unfolding only_deletes_def going_def by metis

lemma only_deletes_untouched: "only_deletes marked touched m m' \<Longrightarrow> \<not> touched k \<Longrightarrow> m' k = m k"
  unfolding only_deletes_def by blast

lemma only_deletes_trans:
  assumes "only_deletes marked f m1 m2" and "only_deletes marked g m2 m3"
    and "\<And>k. f k \<or> g k \<Longrightarrow> h k"
  shows "only_deletes marked h m1 m3"
  using assms unfolding only_deletes_def going_def by metis

lemma each_create:
  assumes "creates_objects client key"
  shows "each (cc_Create client) obs m = (Ok (), m') \<Longrightarrow>
    (\<forall>k. k \<notin> key ` set obs \<longrightarrow> m' k = m k) \<and> (\<forall>k\<in>key ` set obs. m k = None \<and> m' k \<noteq> None)"
proof (induction obs arbitrary: m)
  case (Cons ob obs)
  then obtain m1 where c: "cc_Create client ob m = (Ok (), m1)" and r: "each (cc_Create client) obs m1 = (Ok (), m')"
    by (auto simp: outcome_simps)
  from c assms obtain x where "m (key ob) = None" "m1 = m(key ob \<mapsto> x)" unfolding creates_objects_def by blast
  note m1 = Cons.IH [OF r]
  from m1 \<open>m1 = m(key ob \<mapsto> x)\<close> have fresh: "key ob \<notin> key ` set obs" by auto
  with m1 \<open>m1 = m(key ob \<mapsto> x)\<close> have "m' (key ob) = Some x" by simp
  with m1 fresh \<open>m (key ob) = None\<close> \<open>m1 = m(key ob \<mapsto> x)\<close> show ?case
    by (auto split: if_splits)
qed (simp add: lift_st_def)

abbreviation delete_present :: "'s cr_client \<Rightarrow> cr \<Rightarrow> ('s, unit, go_error) prog" where
  "delete_present client \<equiv> \<lambda>ob s. case cc_Delete client ob s of
       (Err err, s') \<Rightarrow> if IsNotFound err then (Ok (), s') else (Err err, s')
     | r \<Rightarrow> r"

lemma one_delete:
  assumes "deletes_objects client key marked belongs"
  obtains m' where "delete_present client ob m = (Ok (), m')" "going marked m' (key ob)"
    "only_deletes marked (\<lambda>k. k = key ob \<or> belongs k (key ob)) m m'"
proof (cases "m (key ob)")
  case None
  with assms obtain err where "cc_Delete client ob m = (Err err, m)" "IsNotFound err"
    unfolding deletes_objects_def by meson
  with None that [of m] show thesis by (simp add: going_def only_deletes_refl)
next
  case (Some x)
  then have "m (key ob) \<noteq> None" by simp
  with assms obtain m' where "cc_Delete client ob m = (Ok (), m')" "going marked m' (key ob)"
    "only_deletes marked (\<lambda>k. k = key ob \<or> belongs k (key ob)) m m'"
    unfolding deletes_objects_def by meson
  with that [of m'] show thesis by simp
qed

lemma each_delete:
  assumes "deletes_objects client key marked belongs"
  shows "\<exists>m'. each (delete_present client) obs m = (Ok (), m') \<and> (\<forall>k\<in>key ` set obs. going marked m' k) \<and>
    only_deletes marked (\<lambda>k. \<exists>j\<in>key ` set obs. k = j \<or> belongs k j) m m'"
proof (induction obs arbitrary: m)
  case Nil
  then show ?case by (simp add: lift_st_def only_deletes_refl)
next
  case (Cons ob obs)
  obtain m1 where m1: "delete_present client ob m = (Ok (), m1)" "going marked m1 (key ob)"
    "only_deletes marked (\<lambda>k. k = key ob \<or> belongs k (key ob)) m m1"
    by (rule one_delete [OF assms])
  from Cons.IH [of m1] obtain m2 where m2: "each (delete_present client) obs m1 = (Ok (), m2)"
    "\<forall>k\<in>key ` set obs. going marked m2 k" "only_deletes marked (\<lambda>k. \<exists>j\<in>key ` set obs. k = j \<or> belongs k j) m1 m2"
    by blast
  from m1(1) m2(1) have "each (delete_present client) (ob # obs) m = (Ok (), m2)" by (simp add: bind_st_def)
  moreover have "going marked m2 (key ob)" by (rule only_deletes_going [OF m2(3) m1(2)])
  moreover have "only_deletes marked (\<lambda>k. \<exists>j\<in>key ` set (ob # obs). k = j \<or> belongs k j) m m2"
    by (rule only_deletes_trans [OF m1(3) m2(3)]) auto
  ultimately show ?case using m2(2) by auto
qed


section \<open>A folder\<close>

text \<open>
  A store whose namespaces have a finalizer, which takes the contents of a namespace away with it, and a
  YAML library for files that consist of a kind.
\<close>

definition demo_marked :: "cr \<Rightarrow> bool" where
  "demo_marked v \<longleftrightarrow> cr_rest v = ''deletionTimestamp''"

definition demo_belongs :: "cr_key \<Rightarrow> cr_key \<Rightarrow> bool" where
  "demo_belongs k j \<longleftrightarrow> fst j = CR_Namespace \<and> fst k \<noteq> CR_Namespace \<and> fst (snd k) = snd (snd j)"

definition demo_cr_client :: "(cr_key \<rightharpoonup> cr) cr_client" where
  "demo_cr_client = \<lparr>
     cc_Create = (\<lambda>ob m. if m (cr_key ob) = None then (Ok (), m(cr_key ob \<mapsto> ob))
       else (Err (StatusError \<lparr>st_Reason = ''AlreadyExists'', st_Message = '''', st_Details = None\<rparr>), m)),
     cc_Delete = (\<lambda>ob m. case m (cr_key ob) of
       None \<Rightarrow> (Err (StatusError \<lparr>st_Reason = ''NotFound'', st_Message = '''', st_Details = None\<rparr>), m)
     | Some v \<Rightarrow> if cr_Type ob = CR_Namespace
         then (Ok (), \<lambda>k. if k = cr_key ob then Some (v\<lparr>cr_rest := ''deletionTimestamp''\<rparr>)
           else if demo_belongs k (cr_key ob) then None else m k)
         else (Ok (), m(cr_key ob := None)))\<rparr>"

definition demo_yaml :: yaml_lib where
  "demo_yaml = \<lparr>ya_Kind = Inr,
     ya_Unmarshal = (\<lambda>bs t. Inr \<lparr>cr_Type = t, cr_Namespace = (if t = CR_Namespace then '''' else ''Namespace''), cr_Name = bs,
       cr_rest = ''''\<rparr>)\<rparr>"

definition demo_folder :: fs_node where
  "demo_folder = Folder [(''README.md'', FileOf (Inr ''text'')), (''0.yaml'', FileOf (Inr ''Namespace'')),
     (''sub'', Folder [(''1.yml'', FileOf (Inr ''Cluster''))])]"

lemma demo_client_creates: "creates_objects demo_cr_client cr_key"
  by (auto simp: creates_objects_def demo_cr_client_def split: if_splits)

lemma demo_client_deletes: "deletes_objects demo_cr_client cr_key demo_marked demo_belongs"
  by (auto simp: deletes_objects_def demo_cr_client_def IsNotFound_def only_deletes_def going_def demo_marked_def
      eq_commute [of None] split: option.splits if_splits)


end
