(* ===== verification/TestEnv.thy ===== *)
theory TestEnv
  imports Library Mux
begin

text \<open>
  The environment of the integration tests (\<^verbatim>\<open>integration/env\<close>, \<^verbatim>\<open>integration/values\<close>): the variables that have to
  be set, the base domain and the location of a live installation, and the values of the chart. Environment
  variables are a function; the client configuration and the parser of URLs are arguments.
\<close>

section \<open>common.go\<close>

text \<open>\<open>if v == "" { panic(...) }\<close>.\<close>

definition require_env :: "(string \<Rightarrow> string) \<Rightarrow> string \<Rightarrow> string res" where
  "require_env getenv name = (if getenv name = '''' then Panic else Ok (getenv name))"

definition EnvVarCircleSHA :: string where "EnvVarCircleSHA = ''CIRCLE_SHA1''"
definition EnvVarE2EKubeconfig :: string where "EnvVarE2EKubeconfig = ''E2E_KUBECONFIG''"
definition EnvVarAzureClientID :: string where "EnvVarAzureClientID = ''AZURE_CLIENTID''"
definition EnvVarAzureClientSecret :: string where "EnvVarAzureClientSecret = ''AZURE_CLIENTSECRET''"
definition EnvVarAzureSubscriptionID :: string where "EnvVarAzureSubscriptionID = ''AZURE_SUBSCRIPTIONID''"
definition EnvVarAzureTenantID :: string where "EnvVarAzureTenantID = ''AZURE_TENANTID''"

record common_env =
  ce_circleSHA :: string
  ce_kubeconfig :: string
  ce_azureClientID :: string
  ce_azureClientSecret :: string
  ce_azureTenantID :: string
  ce_azureSubscriptionID :: string

definition common_init :: "(string \<Rightarrow> string) \<Rightarrow> common_env res" where
  "common_init getenv =
     bind_res (require_env getenv EnvVarCircleSHA) (\<lambda>circleSHA.
     bind_res (require_env getenv EnvVarE2EKubeconfig) (\<lambda>kubeconfig.
     bind_res (require_env getenv EnvVarAzureClientID) (\<lambda>azureClientID.
     bind_res (require_env getenv EnvVarAzureClientSecret) (\<lambda>azureClientSecret.
     bind_res (require_env getenv EnvVarAzureSubscriptionID) (\<lambda>azureSubscriptionID.
     bind_res (require_env getenv EnvVarAzureTenantID) (\<lambda>azureTenantID.
     Ok \<lparr>ce_circleSHA = circleSHA, ce_kubeconfig = kubeconfig, ce_azureClientID = azureClientID,
       ce_azureClientSecret = azureClientSecret, ce_azureTenantID = azureTenantID,
       ce_azureSubscriptionID = azureSubscriptionID\<rparr>))))))"

lemma require_env_Ok_iff [outcome_simps]: "require_env getenv n = Ok v \<longleftrightarrow> v = getenv n \<and> v \<noteq> ''''"
  by (auto simp: require_env_def)

lemma common_init_succeeds_iff:
  "(\<exists>env. common_init getenv = Ok env) \<longleftrightarrow>
     '''' \<notin> getenv ` {EnvVarCircleSHA, EnvVarE2EKubeconfig, EnvVarAzureClientID, EnvVarAzureClientSecret,
       EnvVarAzureSubscriptionID, EnvVarAzureTenantID}"
  by (auto simp: common_init_def outcome_simps)

section \<open>liveinstallation.go\<close>

text \<open>\<open>path.Clean\<close> on the elements of a path that need not be rooted: a step up at its beginning stays.\<close>

fun clean_relative :: "string list \<Rightarrow> string list \<Rightarrow> string list" where
  "clean_relative acc [] = rev acc"
| "clean_relative acc (s # ss) =
     (if s = [] \<or> s = ''.'' then clean_relative acc ss
      else if s = ''..'' \<and> acc \<noteq> [] \<and> hd acc \<noteq> ''..'' then clean_relative (tl acc) ss
      else clean_relative (s # acc) ss)"

definition path_Clean :: "string \<Rightarrow> string" where
  "path_Clean p =
     (if p = '''' then ''.''
      else if hd p = CHR ''/'' then path_Clean_rooted p
      else (case clean_relative [] (segments p) of [] \<Rightarrow> ''.'' | ss \<Rightarrow> Join ''/'' ss))"

definition path_Join :: "string list \<Rightarrow> string" where
  "path_Join elems = (case filter (\<lambda>e. e \<noteq> '''') elems of [] \<Rightarrow> '''' | es \<Rightarrow> path_Clean (Join ''/'' es))"

definition envVarBaseDomain :: string where "envVarBaseDomain = ''E2E_BASE_DOMAIN''"

record live_env =
  le_e2eBaseDomain :: string
  le_kubeconfig :: string
  le_location :: string

definition live_kubeconfig :: "(string \<Rightarrow> string) \<Rightarrow> string res" where
  "live_kubeconfig getenv =
     (if getenv EnvVarE2EKubeconfig \<noteq> '''' then Ok (getenv EnvVarE2EKubeconfig)
      else bind_res (require_env getenv ''HOME'') (\<lambda>homeDir.
        Ok (path_Join [homeDir, ''.kube'', ''config''])))"

text \<open>\<open>buildConfig\<close> gives the host of the API server, \<open>hostname\<close> the host name of an URL; the errors of both panic.\<close>

definition live_base_domain ::
    "(string \<Rightarrow> string) \<Rightarrow> (string \<Rightarrow> go_error + string) \<Rightarrow> (string \<Rightarrow> go_error + string) \<Rightarrow> string \<Rightarrow> string res" where
  "live_base_domain getenv buildConfig hostname kubeconfig =
     (if getenv envVarBaseDomain \<noteq> '''' then Ok (getenv envVarBaseDomain)
      else (case buildConfig kubeconfig of
          Inl err \<Rightarrow> Panic
        | Inr host \<Rightarrow>
            (case hostname host of
               Inl err \<Rightarrow> Panic
             | Inr h \<Rightarrow> Ok (Join ''.'' ((Split1 (CHR ''.'') h)[0 := ''k8s''])))))"

definition live_init ::
    "(string \<Rightarrow> string) \<Rightarrow> (string \<Rightarrow> go_error + string) \<Rightarrow> (string \<Rightarrow> go_error + string) \<Rightarrow> live_env res" where
  "live_init getenv buildConfig hostname =
     bind_res (live_kubeconfig getenv) (\<lambda>kubeconfig.
     bind_res (live_base_domain getenv buildConfig hostname kubeconfig) (\<lambda>e2eBaseDomain.
     let parts = Split1 (CHR ''.'') e2eBaseDomain in
       if 2 < length parts
       then Ok \<lparr>le_e2eBaseDomain = e2eBaseDomain, le_kubeconfig = kubeconfig, le_location = parts ! 2\<rparr>
       else Panic))"

text \<open>The location of a live installation: whether the base domain is given or taken from the host name of
  the API server, whose first part is replaced, the location is the third of its parts; a name with fewer than
  three parts makes the process panic instead.\<close>

theorem live_installation_location:
  assumes "\<forall>p\<in>set parts. CHR ''.'' \<notin> set p" and "parts \<noteq> []"
    and "getenv EnvVarE2EKubeconfig \<noteq> ''''"
    and "getenv envVarBaseDomain = Join ''.'' parts \<and> getenv envVarBaseDomain \<noteq> '''' \<or>
      getenv envVarBaseDomain = '''' \<and> hd parts = ''k8s'' \<and>
      (\<exists>host. buildConfig (getenv EnvVarE2EKubeconfig) = Inr host \<and> hostname host = Inr (Join ''.'' (''g8s'' # tl parts)))"
  shows "live_init getenv buildConfig hostname =
     (if 2 < length parts
      then Ok \<lparr>le_e2eBaseDomain = Join ''.'' parts, le_kubeconfig = getenv EnvVarE2EKubeconfig, le_location = parts ! 2\<rparr>
      else Panic)"
proof -
  have sp: "Split1 (CHR ''.'') (Join ''.'' parts) = parts"
    using assms(1,2) by (intro Split1_Join) auto
  have "Split1 (CHR ''.'') (Join ''.'' (''g8s'' # tl parts)) = ''g8s'' # tl parts"
    using assms(1,2) by (intro Split1_Join) (auto dest: list.set_sel(2))
  then have "live_base_domain getenv buildConfig hostname (getenv EnvVarE2EKubeconfig) = Ok (Join ''.'' parts)"
    using assms(2,4) by (auto simp: live_base_domain_def) (metis list.collapse)+
  then show ?thesis
    using assms(3) by (simp add: live_init_def live_kubeconfig_def sp Let_def)
qed

theorem live_installation_location_witness:
  "live_init (\<lambda>n. if n = ''E2E_KUBECONFIG'' then ''cfg'' else '''') (\<lambda>_. Inr ''https://g8s.ghost.westeurope.io'')
     (\<lambda>_. Inr ''g8s.ghost.westeurope.io'') =
   Ok \<lparr>le_e2eBaseDomain = ''k8s.ghost.westeurope.io'', le_kubeconfig = ''cfg'', le_location = ''westeurope''\<rparr>"
  using live_installation_location [of "[''k8s'', ''ghost'', ''westeurope'', ''io'']"
      "\<lambda>n. if n = ''E2E_KUBECONFIG'' then ''cfg'' else ''''" "\<lambda>_. Inr ''https://g8s.ghost.westeurope.io''"
      "\<lambda>_. Inr ''g8s.ghost.westeurope.io''"]
  by (auto simp: EnvVarE2EKubeconfig_def envVarBaseDomain_def)

section \<open>values.go\<close>

text \<open>
  \<open>text/template\<close> for templates whose only actions are fields: text and field names. Parsing fails at an
  action that is not closed, executing it at a field the data do not have.
\<close>

datatype template_node = TextNode char | FieldNode string

function template_Parse :: "string \<Rightarrow> template_node list option" where
  "template_Parse [] = Some []"
| "template_Parse (c # s) =
     (if HasPrefix (c # s) ''{{.'' then
        (let name = takeWhile (\<lambda>d. d \<noteq> CHR ''}'') (drop 2 s); rest = dropWhile (\<lambda>d. d \<noteq> CHR ''}'') (drop 2 s) in
          if HasPrefix rest ''}}'' then map_option ((#) (FieldNode name)) (template_Parse (drop 2 rest)) else None)
      else map_option ((#) (TextNode c)) (template_Parse s))"
  by pat_completeness auto

termination
proof (relation "measure length", goal_cases)
  case (2 c s name rest)
  have "length rest \<le> length (drop 2 s)" unfolding 2 by (rule length_dropWhile_le)
  then show ?case by simp
qed simp_all

fun template_Execute :: "template_node list \<Rightarrow> str_map \<Rightarrow> string option" where
  "template_Execute [] dat = Some ''''"
| "template_Execute (TextNode c # ns) dat = map_option ((#) c) (template_Execute ns dat)"
| "template_Execute (FieldNode n # ns) dat =
     (case dat n of None \<Rightarrow> None | Some v \<Rightarrow> map_option ((@) v) (template_Execute ns dat))"

definition newline :: string where "newline = [char_of (10::nat)]"

definition values_Template :: string where
  "values_Template =
     ''workloadCluster:'' @ newline @
     ''  kubernetes:'' @ newline @
     ''    api:'' @ newline @
     ''      endpointBase: k8s.test.westeurope.azure.gigantic.io'' @ newline @
     ''provider:'' @ newline @
     ''  location: westeurope'' @ newline @
     ''registry:'' @ newline @
     ''  domain: quay.io'' @ newline @
     newline @
     ''azureSecret:'' @ newline @
     ''  service:'' @ newline @
     ''    azure:'' @ newline @
     ''      clientID: {{.ClientID}}'' @ newline @
     ''      clientSecret: {{.ClientSecret}}'' @ newline @
     ''      tenantID: {{.TenantID}}'' @ newline @
     ''      subscriptionID: {{.SubscriptionID}}'' @ newline"

definition values_YAML :: "string \<Rightarrow> string \<Rightarrow> string \<Rightarrow> string \<Rightarrow> string res" where
  "values_YAML clientID clientSecret subscriptionID tenantID =
     (case template_Parse values_Template of
        None \<Rightarrow> Err (Opaque ''template'')
      | Some tmpl \<Rightarrow>
          (case template_Execute tmpl [''ClientID'' \<mapsto> clientID, ''ClientSecret'' \<mapsto> clientSecret,
              ''SubscriptionID'' \<mapsto> subscriptionID, ''TenantID'' \<mapsto> tenantID] of
             None \<Rightarrow> Err (Opaque ''template'')
           | Some tpl \<Rightarrow> Ok tpl))"

lemma values_nodes: "template_Parse values_Template = Some
   (map TextNode (''workloadCluster:'' @ newline @ ''  kubernetes:'' @ newline @ ''    api:'' @ newline @
      ''      endpointBase: k8s.test.westeurope.azure.gigantic.io'' @ newline @ ''provider:'' @ newline @
      ''  location: westeurope'' @ newline @ ''registry:'' @ newline @ ''  domain: quay.io'' @ newline @ newline @
      ''azureSecret:'' @ newline @ ''  service:'' @ newline @ ''    azure:'' @ newline @ ''      clientID: '') @
    FieldNode ''ClientID'' # map TextNode (newline @ ''      clientSecret: '') @
    FieldNode ''ClientSecret'' # map TextNode (newline @ ''      tenantID: '') @
    FieldNode ''TenantID'' # map TextNode (newline @ ''      subscriptionID: '') @
    FieldNode ''SubscriptionID'' # map TextNode newline)"
  by code_simp

lemma execute_text: "template_Execute (map TextNode s @ ns) dat = map_option ((@) s) (template_Execute ns dat)"
  by (induction s) (auto simp: option.map_comp comp_def option.map_ident)

text \<open>Rendering never fails, and each credential stands unchanged in its line.\<close>

lemma values_YAML_renders:
  "values_YAML clientID clientSecret subscriptionID tenantID = Ok
     (''workloadCluster:'' @ newline @ ''  kubernetes:'' @ newline @ ''    api:'' @ newline @
      ''      endpointBase: k8s.test.westeurope.azure.gigantic.io'' @ newline @ ''provider:'' @ newline @
      ''  location: westeurope'' @ newline @ ''registry:'' @ newline @ ''  domain: quay.io'' @ newline @ newline @
      ''azureSecret:'' @ newline @ ''  service:'' @ newline @ ''    azure:'' @ newline @
      ''      clientID: '' @ clientID @ newline @ ''      clientSecret: '' @ clientSecret @ newline @
      ''      tenantID: '' @ tenantID @ newline @ ''      subscriptionID: '' @ subscriptionID @ newline)"
  using execute_text [of newline "[]"]
  by (simp add: values_YAML_def values_nodes execute_text del: map_append map_map list.map)

end
