(* ===== verification/TestSupport.thy ===== *)
theory TestSupport
  imports App
begin

text \<open>
  Stubs of the unit tests: fake Kubernetes clients, a decoder that decodes nothing and the stubbed listing of
  machine types (\<^verbatim>\<open>pkg/unittest\<close>, \<^verbatim>\<open>pkg/azureupdate/common.go\<close>), and the handlers that accept and change nothing
  (the mocks of \<^verbatim>\<open>pkg/validator\<close> and \<^verbatim>\<open>pkg/mutator\<close>). The fake clients of the libraries are arguments.
\<close>

section \<open>Schemes\<close>

text \<open>Registering the types of packages, named by their import, in a scheme that the calls change.\<close>

fun AddToScheme :: "(string \<Rightarrow> 'sc \<Rightarrow> go_error option \<times> 'sc) \<Rightarrow> string list \<Rightarrow> 'sc \<Rightarrow> go_error + 'sc" where
  "AddToScheme add [] scheme = Inr scheme"
| "AddToScheme add (p # ps) scheme =
     (case add p scheme of (Some err, _) \<Rightarrow> Inl err | (None, scheme') \<Rightarrow> AddToScheme add ps scheme')"

definition must_AddToScheme :: "(string \<Rightarrow> 'sc \<Rightarrow> go_error option \<times> 'sc) \<Rightarrow> string list \<Rightarrow> 'sc \<Rightarrow> 'sc res" where
  "must_AddToScheme add ps scheme =
     (case AddToScheme add ps scheme of Inl err \<Rightarrow> Panic | Inr scheme' \<Rightarrow> Ok scheme')"

section \<open>Fake clients\<close>

record ('c, 'k, 'g) fakeK8sClient =
  fk_ctrlClient :: 'c
  fk_k8sClient :: 'k
  fk_g8sclient :: 'g

definition fake_schemes :: "string list" where
  "fake_schemes = [''corev1alpha1'', ''capiexp'', ''capzexp'', ''capi'', ''capz'', ''providerv1alpha1'',
     ''releasev1alpha1'', ''securityv1alpha1'']"

text \<open>The error of the last registration is dropped.\<close>

definition FakeK8sClient ::
    "(string \<Rightarrow> 'sc \<Rightarrow> go_error option \<times> 'sc) \<Rightarrow> 'sc \<Rightarrow> ('sc \<Rightarrow> 'c) \<Rightarrow> 'k \<Rightarrow> 'g \<Rightarrow> (('c, 'k, 'g) fakeK8sClient) res" where
  "FakeK8sClient add newScheme newFakeClientWithScheme k8sclient g8sclient =
     bind_res (must_AddToScheme add fake_schemes newScheme) (\<lambda>scheme.
     let scheme' = snd (add ''fakek8s'' scheme) in
     Ok \<lparr>fk_ctrlClient = newFakeClientWithScheme scheme', fk_k8sClient = k8sclient, fk_g8sclient = g8sclient\<rparr>)"

text \<open>The clients it offers; the rest are nil.\<close>

definition fake_CRDClient :: "('c, 'k, 'g) fakeK8sClient \<Rightarrow> 'x option" where "fake_CRDClient f = None"
definition fake_CtrlCache :: "('c, 'k, 'g) fakeK8sClient \<Rightarrow> 'c" where "fake_CtrlCache f = fk_ctrlClient f"
definition fake_CtrlClient :: "('c, 'k, 'g) fakeK8sClient \<Rightarrow> 'c" where "fake_CtrlClient f = fk_ctrlClient f"
definition fake_DynClient :: "('c, 'k, 'g) fakeK8sClient \<Rightarrow> 'x option" where "fake_DynClient f = None"
definition fake_ExtClient :: "('c, 'k, 'g) fakeK8sClient \<Rightarrow> 'x option" where "fake_ExtClient f = None"
definition fake_G8sClient :: "('c, 'k, 'g) fakeK8sClient \<Rightarrow> 'g" where "fake_G8sClient f = fk_g8sclient f"
definition fake_K8sClient :: "('c, 'k, 'g) fakeK8sClient \<Rightarrow> 'k" where "fake_K8sClient f = fk_k8sClient f"
definition fake_RESTClient :: "('c, 'k, 'g) fakeK8sClient \<Rightarrow> 'x option" where "fake_RESTClient f = None"
definition fake_RESTConfig :: "('c, 'k, 'g) fakeK8sClient \<Rightarrow> 'x option" where "fake_RESTConfig f = None"
definition fake_Scheme :: "('c, 'k, 'g) fakeK8sClient \<Rightarrow> 'x option" where "fake_Scheme f = None"

text \<open>\<^verbatim>\<open>pkg/azureupdate\<close> has a fake client of its own.\<close>

definition azureupdate_schemes :: "string list" where
  "azureupdate_schemes = [''v1'', ''corev1alpha1'', ''capiexp'', ''capzexp'', ''capi'', ''capz'', ''providerv1alpha1'',
     ''releasev1alpha1'']"

definition getFakeCtrlClient ::
    "(string \<Rightarrow> 'sc \<Rightarrow> go_error option \<times> 'sc) \<Rightarrow> 'sc \<Rightarrow> ('sc \<Rightarrow> 'c) \<Rightarrow> 'c res" where
  "getFakeCtrlClient add newScheme newFakeClientWithScheme =
     bind_res (must_AddToScheme add azureupdate_schemes newScheme) (\<lambda>scheme. Ok (newFakeClientWithScheme scheme))"

text \<open>Both either give a client or panic, at the first package that cannot be registered.\<close>

lemma AddToScheme_Inl_iff:
  "(\<exists>err. AddToScheme add ps scheme = Inl err) \<longleftrightarrow>
     (\<exists>qs p rs scheme'. ps = qs @ p # rs \<and> AddToScheme add qs scheme = Inr scheme' \<and> fst (add p scheme') \<noteq> None)"
proof (induction ps arbitrary: scheme)
  case (Cons p ps)
  show ?case
  proof (cases "add p scheme")
    case (Pair e scheme')
    show ?thesis
    proof (cases e)
      case None
      with Pair Cons.IH [of scheme'] show ?thesis
        by (auto simp: Cons_eq_append_conv) (metis AddToScheme.simps(2) append_Cons case_prod_conv option.simps(4))+
    next
      case (Some err)
      then have "p # ps = [] @ p # ps \<and> AddToScheme add [] scheme = Inr scheme \<and> fst (add p scheme) \<noteq> None"
        using Pair by simp
      moreover have "AddToScheme add (p # ps) scheme = Inl err" using Some Pair by simp
      ultimately show ?thesis by blast
    qed
  qed
qed simp

section \<open>Decoder and listing\<close>

text \<open>The object that is to be filled stays as it is.\<close>

definition FakeDecoder_Decode :: "string \<Rightarrow> 'o \<Rightarrow> go_error + 'o" where
  "FakeDecoder_Decode data into = Inr into"

definition NewResourceSkuStubAPI :: "sku_cache \<Rightarrow> sku_api" where
  "NewResourceSkuStubAPI stubbedSKUs = (\<lambda>k flt. Ok stubbedSKUs)"

definition NewEmptyResourceSkuStubAPI :: sku_api where
  "NewEmptyResourceSkuStubAPI = NewResourceSkuStubAPI Map.empty"

text \<open>Over a stub the look-up of a machine type is the look-up in the stubbed table, at every location, from an
  empty cache and from one the stub has filled.\<close>

lemma getSKU_stub:
  assumes "location \<noteq> ''''" and "vmType \<noteq> ''''" and "skus v location \<in> {None, Some stubbed}"
  shows "fst (getSKU (NewResourceSkuStubAPI stubbed) location vmType v) =
     (case stubbed vmType of None \<Rightarrow> Err (vm_err VM_skuNotFoundError) | Some sku \<Rightarrow> Ok sku)"
  using assms by (auto simp: getSKU_def initCache_def NewResourceSkuStubAPI_def bind_st_def split: option.splits)

lemma getSKU_empty_stub:
  "location \<noteq> '''' \<Longrightarrow> vmType \<noteq> '''' \<Longrightarrow>
   fst (getSKU NewEmptyResourceSkuStubAPI location vmType \<lparr>skus = Map.empty, calls = n\<rparr>) = Err (vm_err VM_skuNotFoundError)"
  using getSKU_stub [of location vmType "\<lparr>skus = Map.empty, calls = n\<rparr>" Map.empty]
  by (simp add: NewEmptyResourceSkuStubAPI_def)

section \<open>Mocks\<close>

definition validator_WebhookHandlerMock :: "(string \<Rightarrow> object res) \<Rightarrow> webhook" where
  "validator_WebhookHandlerMock DecodeFunc = \<lparr>wh_Resource = ''mock_type'', wh_Decode = DecodeFunc,
     wh_OnCreateValidate = Some (\<lambda>ob. lift_st (Ok ())), wh_OnUpdateValidate = Some (\<lambda>old ob. lift_st (Ok ())),
     wh_OnCreateMutate = None, wh_OnUpdateMutate = None\<rparr>"

definition mutator_WebhookHandlerMock :: "(string \<Rightarrow> object res) \<Rightarrow> webhook" where
  "mutator_WebhookHandlerMock DecodeFunc = \<lparr>wh_Resource = ''mock_type'', wh_Decode = DecodeFunc,
     wh_OnCreateValidate = None, wh_OnUpdateValidate = None,
     wh_OnCreateMutate = Some (\<lambda>ob. lift_st (Ok [])), wh_OnUpdateMutate = Some (\<lambda>old ob. lift_st (Ok []))\<rparr>"

text \<open>With a mock behind it, an endpoint refuses a creation exactly for the reasons of the HTTP layer: the object
  cannot be decoded or the filter cannot decide; whether the filter lets it through makes no difference.\<close>

lemma mock_validates:
  assumes "wh_OnCreateValidate (validator_WebhookHandlerMock dec) = Some m"
  shows "validate_created f (wh_Decode (validator_WebhookHandlerMock dec)) m \<lparr>rv_Request = Some rq\<rparr> s =
    (bind_res (dec (ar_Object rq)) (\<lambda>ob. bind_res (reconciled_by_legacy f ob) (\<lambda>_. Ok ())), s)"
  using assms
  by (cases "dec (ar_Object rq)"; cases "reconciled_by_legacy f (case dec (ar_Object rq) of Ok ob \<Rightarrow> ob)")
    (auto simp: validator_WebhookHandlerMock_def validate_created_def bind_st_def lift_st_def deref_def)

lemma mock_mutates:
  assumes "wh_OnCreateMutate (mutator_WebhookHandlerMock dec) = Some m"
    and "dec (ar_Object rq) = Ok ob" and "reconciled_by_legacy f ob = Ok b"
  shows "mutate_created f (wh_Decode (mutator_WebhookHandlerMock dec)) m rq s = (Ok [], s)"
  using assms by (auto simp: mutator_WebhookHandlerMock_def mutate_created_def bind_st_def lift_st_def)

end
