(* ===== verification/LiveTests.thy ===== *)
theory LiveTests
  imports Server TestEnv TestSupport
begin

text \<open>
  The support of the tests that run against a live installation
  (\<^verbatim>\<open>integration/test/validateliveresources\<close>): a client that forbids writing, and the set-up of clients, of the
  listings of machine types and of the Azure environment variables. A test is a program over the calls of a
  client that may end early; the clients themselves are arguments.
\<close>

section \<open>Tests\<close>

text \<open>\<open>t.Fatal\<close> and \<open>t.Fatalf\<close> end the test where they are called.\<close>

datatype test_end = Fatal go_error | Fatalf string

definition fatal_on :: "go_error + 'a \<Rightarrow> ('a, test_end) outcome" where
  "fatal_on r = (case r of Inl err \<Rightarrow> Err (Fatal err) | Inr x \<Rightarrow> Ok x)"

fun fatal_on_res :: "'a res \<Rightarrow> ('a, test_end) outcome" where
  "fatal_on_res (Ok x) = Ok x"
| "fatal_on_res (Err err) = Err (Fatal err)"
| "fatal_on_res Panic = Panic"

lemma fatal_on_Ok_iff [outcome_simps]: "fatal_on r = Ok x \<longleftrightarrow> r = Inr x"
  by (auto simp: fatal_on_def split: sum.splits)

section \<open>readonlyclient.go\<close>

text \<open>The calls of \<open>client.Client\<close> on objects of type \<open>'o\<close>.\<close>

datatype 'o client_call =
    CallGet string string
  | CallList string
  | CallCreate 'o
  | CallDelete 'o
  | CallUpdate 'o
  | CallPatch 'o string
  | CallDeleteAllOf 'o
  | CallStatus

type_synonym ('s, 'o, 'r) ctrl_client = "'o client_call \<Rightarrow> ('s, 'r, test_end) prog"

definition readonly_fatal :: "('s, 'a, test_end) prog" where
  "readonly_fatal = lift_st (Err (Fatalf
     ''It is forbidden to call write functions in a test that is executed on a live installation.''))"

fun ReadOnlyCtrlClient :: "('s, 'o, 'r) ctrl_client \<Rightarrow> ('s, 'o, 'r) ctrl_client" where
  "ReadOnlyCtrlClient client (CallGet namespace name) = client (CallGet namespace name)"
| "ReadOnlyCtrlClient client (CallList opts) = client (CallList opts)"
| "ReadOnlyCtrlClient client (CallCreate ob) = readonly_fatal"
| "ReadOnlyCtrlClient client (CallDelete ob) = readonly_fatal"
| "ReadOnlyCtrlClient client (CallUpdate ob) = readonly_fatal"
| "ReadOnlyCtrlClient client (CallPatch ob patch) = readonly_fatal"
| "ReadOnlyCtrlClient client (CallDeleteAllOf ob) = readonly_fatal"
| "ReadOnlyCtrlClient client CallStatus = readonly_fatal"

text \<open>A test calls the client and goes on with what it answers.\<close>

datatype ('o, 'r, 'a) test_program = Return 'a | CallThen "'o client_call" "'r \<Rightarrow> ('o, 'r, 'a) test_program"

primrec run_test :: "('s, 'o, 'r) ctrl_client \<Rightarrow> ('o, 'r, 'a) test_program \<Rightarrow> ('s, 'a, test_end) prog" where
  "run_test client (Return x) = lift_st (Ok x)"
| "run_test client (CallThen q k) = bind_st (client q) (\<lambda>r. run_test client (k r))"

definition reads_keep_state :: "('s, 'o, 'r) ctrl_client \<Rightarrow> bool" where
  "reads_keep_state client \<longleftrightarrow>
     (\<forall>namespace name s. snd (client (CallGet namespace name) s) = s) \<and> (\<forall>opts s. snd (client (CallList opts) s) = s)"

lemma readonly_keeps_state:
  "reads_keep_state client \<Longrightarrow> snd (ReadOnlyCtrlClient client q s) = s"
  by (cases q) (auto simp: reads_keep_state_def readonly_fatal_def lift_st_def)

lemma readonly_answers:
  "ReadOnlyCtrlClient client q s = (Ok r, s') \<Longrightarrow> client q s = (Ok r, s')"
  by (cases q) (auto simp: readonly_fatal_def lift_st_def)

text \<open>A test on a live installation changes nothing: whatever a test does with the read-only client, the
  installation stays as it was, and a test that comes to its end behaved exactly as with the client itself.\<close>

theorem read_only_client_never_writes:
  assumes "reads_keep_state client"
  shows "snd (run_test (ReadOnlyCtrlClient client) test s) = s \<and>
    (\<forall>x. fst (run_test (ReadOnlyCtrlClient client) test s) = Ok x \<longrightarrow> run_test client test s = (Ok x, s))"
proof (induction test)
  case (Return x)
  show ?case by (simp add: lift_st_def)
next
  case (CallThen q k)
  have s: "snd (ReadOnlyCtrlClient client q s) = s" by (rule readonly_keeps_state [OF assms])
  then obtain o1 where q: "ReadOnlyCtrlClient client q s = (o1, s)" by (metis surjective_pairing)
  show ?case
  proof (cases o1)
    case (Ok r)
    with q have "client q s = (Ok r, s)" using readonly_answers by fastforce
    with q Ok show ?thesis using CallThen.IH [OF rangeI, of r] by (simp add: bind_st_def)
  qed (simp_all add: q bind_st_def)
qed

section \<open>helpers.go\<close>

definition live_schemes :: "string list" where
  "live_schemes = [''providerv1alpha1'', ''corev1alpha1'', ''corev1'', ''capi'', ''capiexp'', ''capz'', ''capzexp'',
     ''releasev1alpha1'', ''securityv1alpha1'']"

definition NewReadOnlyCtrlClient ::
    "(string \<Rightarrow> go_error + 'cfg) \<Rightarrow> (string \<Rightarrow> 'sc \<Rightarrow> go_error option \<times> 'sc) \<Rightarrow> 'sc \<Rightarrow> ('cfg \<Rightarrow> go_error + 'm) \<Rightarrow>
     ('cfg \<Rightarrow> 'sc \<Rightarrow> 'm \<Rightarrow> go_error + ('s, 'o, 'r) ctrl_client) \<Rightarrow> string \<Rightarrow> (('s, 'o, 'r) ctrl_client, test_end) outcome" where
  "NewReadOnlyCtrlClient buildConfig add newScheme newMapper newClient kubeconfig =
     bind_res (fatal_on (buildConfig kubeconfig)) (\<lambda>restConfig.
     bind_res (fatal_on (AddToScheme add live_schemes newScheme)) (\<lambda>runtimeScheme.
     bind_res (fatal_on (newMapper restConfig)) (\<lambda>mapper.
     bind_res (fatal_on (newClient restConfig runtimeScheme mapper)) (\<lambda>ctrlClient.
     Ok (ReadOnlyCtrlClient ctrlClient)))))"

definition NewVMCapabilities :: "platform \<Rightarrow> unit option \<Rightarrow> (sku_api \<times> vmsku, test_end) outcome" where
  "NewVMCapabilities pf logger =
     bind_res (fatal_on (pf_GetSettings pf)) (\<lambda>settings.
     bind_res (fatal_on (pf_GetAuthorizer pf)) (\<lambda>authorizer.
     fatal_on_res (VMSKU_New \<lparr>vmc_Azure = Some (NewAzureAPI (pf_ListComplete pf)), vmc_Logger = logger\<rparr>)))"

text \<open>The environment of the process is a map; \<open>os.Setenv\<close> is an argument, and so are the names of the variables.\<close>

definition fatal_on_st :: "('s, 'a, go_error) prog \<Rightarrow> ('s, 'a, test_end) prog" where
  "fatal_on_st m = (\<lambda>s. (fatal_on_res (fst (m s)), snd (m s)))"

definition SetAzureEnvironmentVariables ::
    "platform \<Rightarrow> string \<Rightarrow> (string \<Rightarrow> string \<Rightarrow> go_error + str_map) \<Rightarrow>
     (string \<Rightarrow> string \<Rightarrow> (str_map, unit, go_error) prog) \<Rightarrow> (str_map, unit, test_end) prog" where
  "SetAzureEnvironmentVariables pf environmentName getSecret setenv =
     bind_st (lift_st (fatal_on (getSecret ''giantswarm'' ''credential-default''))) (\<lambda>data.
     bind_st (fatal_on_st (setenv environmentName ''AzurePublicCloud'')) (\<lambda>_.
     bind_st (fatal_on_st (setenv (pf_TenantID pf) (mget data ''azure.azureoperator.tenantid''))) (\<lambda>_.
     bind_st (fatal_on_st (setenv (pf_SubscriptionID pf) (mget data ''azure.azureoperator.subscriptionid''))) (\<lambda>_.
     bind_st (fatal_on_st (setenv (pf_ClientID pf) (mget data ''azure.azureoperator.clientid''))) (\<lambda>_.
     fatal_on_st (setenv (pf_ClientSecret pf) (mget data ''azure.azureoperator.clientsecret'')))))))"

text \<open>With the variables set from the secret, the program's own check of its environment passes exactly when
  the secret has the four entries.\<close>

lemma azure_variables_pass_start_up:
  assumes "\<And>n v env. setenv n v env = (Ok (), env(n \<mapsto> v))" and "distinct (environmentName # envVarNames pf)"
    and "getSecret ''giantswarm'' ''credential-default'' = Inr data"
  shows "\<exists>env'. SetAzureEnvironmentVariables pf environmentName getSecret setenv env = (Ok (), env') \<and>
    (check_env (mget env') (envVarNames pf) = Serves () \<longleftrightarrow>
      '''' \<notin> mget data ` {''azure.azureoperator.tenantid'', ''azure.azureoperator.subscriptionid'',
        ''azure.azureoperator.clientid'', ''azure.azureoperator.clientsecret''})"
proof -
  have ne: "pf_TenantID pf \<noteq> pf_SubscriptionID pf" "pf_TenantID pf \<noteq> pf_ClientID pf"
      "pf_TenantID pf \<noteq> pf_ClientSecret pf" "pf_SubscriptionID pf \<noteq> pf_ClientID pf"
      "pf_SubscriptionID pf \<noteq> pf_ClientSecret pf" "pf_ClientID pf \<noteq> pf_ClientSecret pf"
    using assms(2) by (simp_all add: envVarNames_def eq_commute)
  show ?thesis
    by (simp add: SetAzureEnvironmentVariables_def bind_st_def lift_st_def fatal_on_def fatal_on_st_def assms(1,3)
        check_env_Serves envVarNames_def ne ne [symmetric])
qed

section \<open>A deleting test\<close>

text \<open>A client of a store of names, and a test that deletes what it finds.\<close>

definition demo_ctrl_client :: "(string set, string, bool) ctrl_client" where
  "demo_ctrl_client q = (\<lambda>s. case q of
       CallGet _ n \<Rightarrow> (Ok (n \<in> s), s)
     | CallDelete n \<Rightarrow> (Ok (n \<in> s), s - {n})
     | _ \<Rightarrow> (Ok True, s))"

definition demo_test :: "(string, bool, unit) test_program" where
  "demo_test = CallThen (CallGet ''org'' ''c'') (\<lambda>present.
     if present then CallThen (CallDelete ''c'') (\<lambda>_. Return ()) else Return ())"

theorem read_only_client_never_writes_witness:
  "snd (run_test demo_ctrl_client demo_test {''c''}) = {} \<and>
   snd (run_test (ReadOnlyCtrlClient demo_ctrl_client) demo_test {''c''}) = {''c''}"
proof -
  have "reads_keep_state demo_ctrl_client" by (simp add: reads_keep_state_def demo_ctrl_client_def)
  from read_only_client_never_writes [OF this, of demo_test "{''c''}"] show ?thesis
    by (simp add: demo_test_def demo_ctrl_client_def bind_st_def lift_st_def)
qed

end
