(* ===== verification/Spec2Isabelle.thy ===== *)
theory Spec2Isabelle
  imports PanicFree CacheRuns Defaults Chart Builders Admission Folders LiveTests
begin

text \<open>
  A model of azure-admission-controller: an HTTP server that the Kubernetes API server asks to validate
  and to mutate the resources of Azure clusters (Cluster, AzureCluster, AzureMachine, AzureMachinePool,
  MachinePool, Spark, AzureConfig, AzureClusterConfig).

  How the program is put together. \<^verbatim>\<open>main.go\<close> reads the command line (\<^verbatim>\<open>pkg/config\<close>), builds the clients
  and a multiplexer, and calls \<^verbatim>\<open>RegisterWebhookHandlers\<close> (\<^verbatim>\<open>pkg/app\<close>), which builds one webhook handler for
  every resource and registers up to four HTTP handlers for it; then it serves until it is told to end. An HTTP handler (\<^verbatim>\<open>pkg/validator\<close>, \<^verbatim>\<open>pkg/mutator\<close>) reads an
  admission review, decodes the object, asks the filter (\<^verbatim>\<open>pkg/filter\<close>) whether the object belongs to a
  legacy release, and only then calls the method of the resource. The methods share the checks of
  \<^verbatim>\<open>internal\<close> and \<^verbatim>\<open>pkg/generic\<close>; those of machines and node pools also ask for the capabilities of machine
  types, which are cached in the one piece of state of the program (\<^verbatim>\<open>internal/vmcapabilities\<close>).

  Theories, from the bottom, with the code they model:

  \<^item> \<open>Prelude\<close>: results of Go calls (\<open>Ok\<close>, \<open>Err\<close>, \<open>Panic\<close>), their sequencing with and without state, the
    rewrite collection \<open>outcome_simps\<close>, strings, splitting and joining, string maps. \<open>Guards\<close>: the contracts of the
    \<open>...Unchanged\<close> checks as locales, with what they give over histories of updates. \<open>Strconv\<close>: decimal
    numbers (\<^verbatim>\<open>strconv\<close>). \<open>GoTime\<close>: \<^verbatim>\<open>time.Parse\<close> for RFC 822.
  \<^item> \<open>Errors\<close>, \<open>ApiErrors\<close>: the sentinel errors of all packages and \<^verbatim>\<open>internal/errors\<close>. \<open>Objects\<close>: the
    fields of the resources that the code reads. \<open>Library\<close>: the interfaces of the libraries. \<open>Key\<close>:
    \<^verbatim>\<open>pkg/key\<close>. \<open>Fixtures\<close>: values for witnesses only.
  \<^item> \<open>ReleaseVersion\<close>: \<^verbatim>\<open>internal/releaseversion\<close> and \<^verbatim>\<open>internal/semverhelper\<close>, against an abstract upgrade
    policy. \<open>Conditions\<close>, \<open>ScheduledUpgrades\<close>, \<open>Normalize\<close>: the packages of these names under \<^verbatim>\<open>internal\<close>.
    \<open>Generic\<close>, \<open>ReleaseLookup\<close>: \<^verbatim>\<open>pkg/generic\<close>, \<^verbatim>\<open>pkg/release\<close>, \<^verbatim>\<open>pkg/filter\<close>. \<open>Mutator\<close>: the label mutations
    and patches of \<^verbatim>\<open>pkg/mutator\<close> and \<^verbatim>\<open>internal/patches\<close>.
  \<^item> \<open>VMCaps\<close>: \<^verbatim>\<open>internal/vmcapabilities\<close> with the cache as explicit state. \<open>VMConcurrency\<close>: the same look-up
    as a step relation of interleaved goroutines; \<open>CacheRuns\<close>: what whole runs of it do.
  \<^item> \<open>Webhook\<close> (what the handlers share), \<open>Cluster\<close>, \<open>AzureCluster\<close>, \<open>AzureMachine\<close>, \<open>AzureMachinePool\<close>,
    \<open>MachinePool\<close>, \<open>LegacyConfigs\<close> (\<^verbatim>\<open>pkg/azureupdate\<close>, \<^verbatim>\<open>pkg/spark\<close>): the handlers, one definition for
    every function of the package. Names that occur in several packages carry the resource as a prefix.
  \<^item> \<open>HttpHandler\<close>: \<^verbatim>\<open>pkg/validator\<close> and \<^verbatim>\<open>pkg/mutator\<close>. \<open>App\<close>: \<^verbatim>\<open>pkg/app\<close>. \<open>Mux\<close>: the multiplexer of the
    standard library. \<open>Server\<close>: \<^verbatim>\<open>main.go\<close>, \<^verbatim>\<open>pkg/config\<close>, \<^verbatim>\<open>pkg/project\<close>: the start-up as a sequence of stages,
    and the life of the process as a step relation. \<open>PanicFree\<close>: the conditions under which none of the
    handlers panics, and the types of what they decode. \<open>Reinvocation\<close>: that every mutation is content with its
    own result. \<open>Json\<close>: documents and JSON patches as the API server applies them, and what the generated
    patches do to a document. \<open>Documents\<close>: what it means that a document is one of an object, by resource.
    \<open>OwnPatches\<close>: every mutation as a transformation of the submitted document. \<open>Creation\<close>: the creation of an
    object through the mutating and the validating endpoint. \<open>Defaults\<close>: what happens where a mutation and the
    defaults of the type meet. \<open>Histories\<close>: the life of an object under the
    running server, from its creation over its updates. \<open>Chart\<close>: the webhooks and the container of
    \<^verbatim>\<open>helm/azure-admission-controller\<close>, and that they fit the program. This theory: what holds of the assembled program.
  \<^item> The tests' own code. \<open>Builders\<close>: \<^verbatim>\<open>internal/test\<close>. \<open>TestSupport\<close>: \<^verbatim>\<open>pkg/unittest\<close>, the mocks, and the fake
    client of \<^verbatim>\<open>pkg/azureupdate\<close>. \<open>Admission\<close>: \<^verbatim>\<open>pkg/admission\<close> and \<^verbatim>\<open>pkg/testrunner\<close>. \<open>Folders\<close>:
    \<^verbatim>\<open>integration/util\<close>. \<open>TestEnv\<close>: \<^verbatim>\<open>integration/env\<close>, \<^verbatim>\<open>integration/values\<close>. \<open>LiveTests\<close>: the client and the
    helpers of \<^verbatim>\<open>integration/test/validateliveresources\<close>.

  What the lemmas show. For every creating validation an exact description of the accepted objects; for
  every update validation what it preserves, over one update and over histories, while the object is not being
  deleted and, for a node pool, not of a release reconciled upstream (other updates are accepted unchecked, as
  in the code); that the patches of a creating mutation make the corresponding checks pass, and that every
  mutation, on its own result, has nothing to add but the defaults of the type, unless a MachinePool asks for a
  negative number of replicas; for the upgrade check its equivalence with the policy, the order of its errors,
  and that versions do not fall while no release is ignored; for the cache of machine types that answers stem
  from a listing and that sequential questions answered with a value stay answered alike, mutual exclusion of its
  writers and the race of its unlocked readers, and that concurrent requests end, without a deadlock, with
  answers the sequential code could have given; for the HTTP layer the exact replies; for the process when it
  starts, what it serves at which path, that it does not panic on requests with healthy objects, and what its
  shutdown may abandon; for the patches when applying them to a document gives the intended object, and that
  the object decoded from the patched document is then admitted; for the objects of a running server that what
  creation demands of them and updates compare lasts (the location of an AzureCluster is demanded but not
  compared); and for the tests that their fixtures are valid and that what they set up in a cluster is gone or
  being deleted once they have taken it down.

  Histories of updates (theories \<open>Histories\<close> and this one) run over reviews each of which may meet another
  state of the API server, other releases and other listings of Azure; the command line is the same. Within one
  request the clients' answers do not change.

  Code that is not part of the repository is an argument: version parsing and precedence, condition
  getters, the JSON diff, defaulting and validation of the resource types, decoders and Unicode tables
  are fields of \<open>lib\<close>; the Kubernetes clients are \<open>kube_api\<close>; the listing of machine types is a function of
  the number of calls made before; the HTTP library's JSON functions are \<open>http_lib\<close>; readings of the clock
  are numbers of nanoseconds; how Go values are written in JSON is a \<open>codec\<close>; the environment of the process (command line, clients, caches, credentials) is
  a \<open>platform\<close>; the YAML library and the clients of the tests are arguments of their functions. Documented
  behaviour that theorems rely on is a named hypothesis (\<open>semver_precedence\<close>, \<open>serialises\<close>, \<open>creates_patches\<close>,
  \<open>creates_objects\<close>, \<open>deletes_objects\<close>: an accepted delete removes an object or marks it, \<open>reads_back\<close>: decoding a written value gives it back,
  \<open>reads_arguments\<close>: how the command line library reads flags).

  Bounds. Ports, replicas and disk sizes are 32-bit words, as in the code; numbers read by
  \<^verbatim>\<open>strconv.ParseInt\<close> are range checked at their width. All recursion is structural or has a measure, so there
  is no fuel; iterators of the Azure client are finite.

  Not modelled: logging, contexts and time-outs, texts of errors (an error is its sentinel), the contents of
  certificates and TLS, a failure of the cache's goroutine after the start-up, the rest of the chart (roles, service, certificates), and the tests themselves. An
  object is represented by the fields the code looks at and one remainder.
\<close>

section \<open>The program as a whole\<close>

text \<open>A reply that admits a request and whose patch, if it has one, is the serialised empty list of patches.\<close>

definition admits_unpatched :: "http_lib \<Rightarrow> http_reply \<Rightarrow> string \<Rightarrow> bool" where
  "admits_unpatched H reply uid \<longleftrightarrow> (\<exists>kind ver rs. reply = ReviewReply kind ver rs \<and> rs_Allowed rs \<and> rs_UID rs = uid \<and>
     rs_Result rs = None \<and> (rs_Patch rs = None \<or> (\<exists>d. hl_MarshalPatch H [] = Inr d \<and> rs_Patch rs = Some d)))"

lemma admits_unpatched_admits: "admits_unpatched H reply uid \<Longrightarrow> admits reply uid"
  by (auto simp: admits_unpatched_def admits_def)

lemma admitting_replies:
  assumes "serialises H"
  shows "\<exists>r. validator_reply H rq (Ok ()) = Ok r \<and> admits_unpatched H r (ar_UID rq)"
    and "hl_MarshalPatch H [] = Inr d \<Longrightarrow> \<exists>r. mutator_reply H rq (Ok []) = Ok r \<and> admits_unpatched H r (ar_UID rq)"
  using assms
  by (simp_all add: validator_reply_def mutator_reply_def patch_reply_def writeResponse_serialises admits_unpatched_def
      validator_allowed_def mutator_allowed_def)

lemma outside_legacy:
  assumes "decode (ar_Object rq) = Ok ob" and "reconciled_by_legacy f ob = Ok False"
  shows "validate_created f decode v \<lparr>rv_Request = Some rq\<rparr> s = (Ok (), s)"
    and "validate_updated f decode w \<lparr>rv_Request = Some rq\<rparr> s = (Ok (), s)"
    and "mutate_created f decode m rq s = (Ok [], s)"
    and "mutate_updated f decode n rq s = (Ok [], s)"
  using assms
  by (simp_all add: validate_created_def validate_updated_def mutate_created_def mutate_updated_def bind_st_def lift_st_def)

lemma mutator_newHttpHandler_empty:
  assumes "carries H request rq" and "m rq s = (Ok [], s)"
  shows "mutator_newHttpHandler H m request s = (mutator_reply H rq (Ok []), s)"
  using assms
  by (cases "ar_DryRun rq = Some True")
    (auto simp: mutator_newHttpHandler_def with_review_carries on_error_eq mutator_reply_def lift_st_def bind_st_def)

text \<open>C19. Every endpoint of the program, validating or mutating, leaves alone what is not reconciled by a legacy
  release: the request is admitted under its own UID, its answer has no patch or the serialised empty list of
  patches, and no machine type is looked up.\<close>

theorem other_objects_pass_every_endpoint:
  assumes "getAllHandlers L now U cfg logger (Some c) (Some r) (Some v) = Ok handlers"
    and "f = \<lparr>hf_ctrlReader = r, hf_ctrlClient = c\<rparr>"
    and "h \<in> set handlers" and "(path, handler) \<in> set (register H f f h)"
    and "carries H request rq" and "serialises H" and "hl_MarshalPatch H [] = Inr d"
    and "wh_Decode h (ar_Object rq) = Ok ob" and "reconciled_by_legacy f ob = Ok False"
  shows "\<exists>reply. handler request s = (Ok reply, s) \<and> admits_unpatched H reply (ar_UID rq)"
  using assms(4)
proof (cases rule: register_cases)
  case (1 m)
  then show ?thesis
    using admitting_replies(1) [OF assms(6)]
    by (simp add: validator_NewCreateHandler_def validator_newHttpHandler_carries [OF assms(5)]
      outside_legacy [where rq = rq and decode = "wh_Decode h", OF assms(8,9)])
next
  case (2 m)
  then show ?thesis
    using admitting_replies(1) [OF assms(6)]
    by (simp add: validator_NewUpdateHandler_def validator_newHttpHandler_carries [OF assms(5)]
      outside_legacy [where rq = rq and decode = "wh_Decode h", OF assms(8,9)])
next
  case (3 m)
  then show ?thesis
    using admitting_replies(2) [OF assms(6,7)]
    by (simp add: mutator_NewCreateHandler_def mutator_newHttpHandler_empty [OF assms(5)]
      outside_legacy [where rq = rq and decode = "wh_Decode h", OF assms(8,9)])
next
  case (4 m)
  then show ?thesis
    using admitting_replies(2) [OF assms(6,7)]
    by (simp add: mutator_NewUpdateHandler_def mutator_newHttpHandler_empty [OF assms(5)]
      outside_legacy [where rq = rq and decode = "wh_Decode h", OF assms(8,9)])
qed

text \<open>What an admission by the registered route of the updating validation says of the two Clusters.\<close>

lemma admitted_cluster_update:
  assumes "RegisterWebhookHandlers L H now U cfg logger (Some c) (Some r) (Some v) = Ok routes"
    and "route routes ''/validate/cluster/update'' = Some handler"
    and "carries H request rq" and "serialises H"
    and "handler request s = (Ok reply, s')" and "admits reply uid"
    and "dec_Cluster U (ar_OldObject rq) = Inr old" and "dec_Cluster U (ar_Object rq) = Inr new"
    and "\<not> being_deleted (cl_meta new)"
    and "IsObjectReconciledByLegacyRelease r (cl_meta new) (TryGetOwnerCluster c (Some (cl_meta new))) = Ok True"
  shows "uid = ar_UID rq" and "cluster_identity old = cluster_identity new"
    and "\<exists>ov nv. GetSemverFromLabels (lib_semver L) (om_labels (cl_meta old)) = Ok ov \<and>
       GetSemverFromLabels (lib_semver L) (om_labels (cl_meta new)) = Ok nv \<and>
       Validate (lib_semver L) c ov nv = Ok ()"
proof -
  let ?f = "\<lparr>hf_ctrlReader = r, hf_ctrlClient = c\<rparr>"
  let ?h = "\<lparr>clh_baseDomain = cfg_BaseDomain cfg, clh_decoder = U, clh_ctrlReader = r, clh_ctrlClient = c\<rparr>"
  let ?u = "validate_updated ?f (Cluster_Decode ?h) (\<lambda>old ob. lift_st (Cluster_OnUpdateValidate L ?h now old ob))"
  have "handler = validator_newHttpHandler H ?u"
    using assms(2) cluster_routes(2) [OF assms(1)] by (simp add: validator_NewUpdateHandler_def)
  with assms(5,6) have "\<exists>r s'. validator_newHttpHandler H ?u request s = (Ok r, s') \<and> admits r uid" by blast
  then have u: "uid = ar_UID rq" "\<exists>t. ?u \<lparr>rv_Request = Some rq\<rparr> s = (Ok (), t)"
    unfolding endpoint_admits_iff [OF assms(3,4)] by simp_all
  then obtain t ob ok where *: "Cluster_Decode ?h (ar_Object rq) = Ok ob" "reconciled_by_legacy ?f ob = Ok ok"
    "if ok then \<exists>old. Cluster_Decode ?h (ar_OldObject rq) = Ok old \<and>
       lift_st (Cluster_OnUpdateValidate L ?h now old ob) s = (Ok (), t) else t = s"
    unfolding validate_updated_Ok_iff by blast
  then have "ok" "ob = ObjCluster new"
    using assms(8,10) by (auto simp: Cluster_Decode_def decode_with_Ok_iff reconciled_by_legacy_def)
  with *(3) have "Cluster_OnUpdateValidate L ?h now (ObjCluster old) (ObjCluster new) = Ok ()"
    using assms(7) by (auto simp: Cluster_Decode_def decode_with_Ok_iff outcome_simps)
  then have "cluster_identity old = cluster_identity new" "Cluster_validateRelease L ?h old new = Ok ()"
    using assms(9) by (auto simp: OnUpdateValidate_Ok_iff cluster_identity_def organization_label_check)
  with u(1) show "uid = ar_UID rq" and "cluster_identity old = cluster_identity new"
    and "\<exists>ov nv. GetSemverFromLabels (lib_semver L) (om_labels (cl_meta old)) = Ok ov \<and>
       GetSemverFromLabels (lib_semver L) (om_labels (cl_meta new)) = Ok nv \<and>
       Validate (lib_semver L) c ov nv = Ok ()"
    by (auto simp: validateRelease_Ok_iff)
qed

text \<open>From the registered route to the stored object: when the program answers an update of a Cluster of a
  legacy release with an admission, and the Cluster is not being deleted, then the update keeps the
  network, the endpoint and the organization of the Cluster, and the release version is kept or moves
  to one the policy permits.\<close>

theorem admitted_cluster_update_is_safe:
  assumes "RegisterWebhookHandlers L H now U cfg logger (Some c) (Some r) (Some v) = Ok routes"
    and "route routes ''/validate/cluster/update'' = Some handler"
    and "carries H request rq" and "serialises H"
    and "handler request s = (Ok reply, s')" and "admits reply uid"
    and "dec_Cluster U (ar_OldObject rq) = Inr old" and "dec_Cluster U (ar_Object rq) = Inr new"
    and "\<not> being_deleted (cl_meta new)"
    and "IsObjectReconciledByLegacyRelease r (cl_meta new) (TryGetOwnerCluster c (Some (cl_meta new))) = Ok True"
  shows "uid = ar_UID rq \<and> cluster_identity old = cluster_identity new \<and>
    (\<exists>ov nv. GetSemverFromLabels (lib_semver L) (om_labels (cl_meta old)) = Ok ov \<and>
       GetSemverFromLabels (lib_semver L) (om_labels (cl_meta new)) = Ok nv \<and>
       (sv_EQ (lib_semver L) ov nv \<or>
        (\<exists>es. availableReleases (lib_semver L) c = Ok es \<and> upgrade_permitted (lib_semver L) es ov nv)))"
  using admitted_cluster_update [OF assms]
  by (auto simp: Validate_eq_refusal outcome_simps refusal_None_iff split: if_splits option.splits)

section \<open>The running server\<close>

text \<open>
  The updates of Clusters of legacy releases that a server admits which was started in the environment
  \<open>pf\<close>: the API server posts the old and the new object of its store, and stores the new one when the
  answer is an admission. The clock and the state of the machine type cache may be any.
\<close>

definition server_admits :: "platform \<Rightarrow> lib \<Rightarrow> http_lib \<Rightarrow> decoder \<Rightarrow> cluster \<Rightarrow> cluster \<Rightarrow> bool" where
  "server_admits pf L H U old new \<longleftrightarrow>
     (\<exists>now parts line request rq s reply s' uid client reader.
        mainError pf L H now U = Serves parts \<and>
        rl_Method line = ''POST'' \<and> rl_Path line = ''/validate/cluster/update'' \<and> carries H request rq \<and>
        ServeHTTP (srv_handler parts) line request s = (Ok (WebhookReply reply), s') \<and> admits reply uid \<and>
        dec_Cluster U (ar_OldObject rq) = Inr old \<and> dec_Cluster U (ar_Object rq) = Inr new \<and>
        \<not> being_deleted (cl_meta new) \<and>
        pf_NewClients pf userAgent = Inr client \<and> pf_NewCache pf = Inr reader \<and>
        IsObjectReconciledByLegacyRelease reader (cl_meta new) (TryGetOwnerCluster client (Some (cl_meta new))) = Ok True)"

lemma server_reaches_route:
  assumes "mainError pf L H now U = Serves parts" and "rl_Path line = ''/validate/cluster/update''"
    and "pf_NewClients pf userAgent = Inr client" and "pf_NewCache pf = Inr reader"
  obtains cfg v routes handler
  where "RegisterWebhookHandlers L H now U cfg (Some ()) (Some client) (Some reader) (Some v) = Ok routes"
    and "route routes ''/validate/cluster/update'' = Some handler"
    and "ServeHTTP (srv_handler parts) line = as_endpoint handler"
proof -
  from assms(1,3,4) obtain cfg routes where r: "RegisterWebhookHandlers L H now U cfg (Some ()) (Some client) (Some reader)
      (Some (NewAzureAPI (pf_ListComplete pf))) = Ok routes" and h: "srv_handler parts = served_table pf routes"
    by (auto simp: mainError_Serves_iff)
  have p: "map fst routes = served_paths"
    using r by (auto simp: RegisterWebhookHandlers_Ok_iff registered_paths simp del: map_concat map_map)
  obtain handler where handler: "route routes ''/validate/cluster/update'' = Some handler"
    using cluster_routes(2) [OF r] by blast
  with that r show thesis
    by (simp add: h ServeHTTP_served_table [OF p] assms(2) clean_cluster_paths endpoint_of_def route_def)
qed

lemma as_endpoint_reply:
  "as_endpoint h request s = (Ok (WebhookReply reply), s') \<longleftrightarrow> h request s = (Ok reply, s')"
  by (auto simp: as_endpoint_def bind_st_def lift_st_def split: prod.splits outcome.splits)

lemma server_admits_update:
  assumes "server_admits pf L H U old new" and "serialises H"
  shows "cluster_identity old = cluster_identity new"
    and "\<exists>client ov nv. pf_NewClients pf userAgent = Inr client \<and>
       GetSemverFromLabels (lib_semver L) (om_labels (cl_meta old)) = Ok ov \<and>
       GetSemverFromLabels (lib_semver L) (om_labels (cl_meta new)) = Ok nv \<and>
       Validate (lib_semver L) client ov nv = Ok ()"
proof -
  from assms(1) obtain now parts line request rq s reply s' uid client reader where
    s: "mainError pf L H now U = Serves parts" "rl_Path line = ''/validate/cluster/update''"
      "carries H request rq" "ServeHTTP (srv_handler parts) line request s = (Ok (WebhookReply reply), s')"
      "admits reply uid"
    and o: "dec_Cluster U (ar_OldObject rq) = Inr old" "dec_Cluster U (ar_Object rq) = Inr new"
      "\<not> being_deleted (cl_meta new)"
      "IsObjectReconciledByLegacyRelease reader (cl_meta new) (TryGetOwnerCluster client (Some (cl_meta new))) = Ok True"
    and c: "pf_NewClients pf userAgent = Inr client" "pf_NewCache pf = Inr reader"
    unfolding server_admits_def by blast
  obtain cfg v routes handler where
    r: "RegisterWebhookHandlers L H now U cfg (Some ()) (Some client) (Some reader) (Some v) = Ok routes"
      "route routes ''/validate/cluster/update'' = Some handler"
    and e: "ServeHTTP (srv_handler parts) line = as_endpoint handler"
    by (rule server_reaches_route [OF s(1,2) c])
  from s(4) have "handler request s = (Ok reply, s')" by (simp add: e as_endpoint_reply)
  note update = admitted_cluster_update [OF r s(3) assms(2) this s(5) o]
  from update(2,3) c(1) show "cluster_identity old = cluster_identity new"
    and "\<exists>client ov nv. pf_NewClients pf userAgent = Inr client \<and>
       GetSemverFromLabels (lib_semver L) (om_labels (cl_meta old)) = Ok ov \<and>
       GetSemverFromLabels (lib_semver L) (om_labels (cl_meta new)) = Ok nv \<and>
       Validate (lib_semver L) client ov nv = Ok ()"
    by auto
qed

text \<open>An update admitted in any state of the platform in which no release is marked as ignored: from one update to
  the next the releases and objects at the API server, the time and the listings of Azure may change.\<close>

definition admitted_unignored :: "lib \<Rightarrow> http_lib \<Rightarrow> decoder \<Rightarrow> cluster \<Rightarrow> cluster \<Rightarrow> bool" where
  "admitted_unignored L H U old new \<longleftrightarrow>
     (\<exists>pf client. server_admits pf L H U old new \<and> pf_NewClients pf userAgent = Inr client \<and>
        no_ignored_release (lib_semver L) client)"

lemma admitted_unignored_step:
  assumes "admitted_unignored L H U old new" and "serialises H" and "semver_precedence (lib_semver L)"
  obtains ov nv where "cluster_identity old = cluster_identity new"
    and "GetSemverFromLabels (lib_semver L) (om_labels (cl_meta old)) = Ok ov"
    and "GetSemverFromLabels (lib_semver L) (om_labels (cl_meta new)) = Ok nv"
    and "\<not> sv_LT (lib_semver L) nv ov"
proof -
  from assms(1) obtain pf client where a: "server_admits pf L H U old new" "pf_NewClients pf userAgent = Inr client"
    "no_ignored_release (lib_semver L) client"
    unfolding admitted_unignored_def by blast
  from server_admits_update(2) [OF a(1) assms(2)] a(2) obtain ov nv where
    v: "GetSemverFromLabels (lib_semver L) (om_labels (cl_meta old)) = Ok ov"
      "GetSemverFromLabels (lib_semver L) (om_labels (cl_meta new)) = Ok nv"
      "Validate (lib_semver L) client ov nv = Ok ()"
    by auto
  show thesis
    by (rule that [OF server_admits_update(1) [OF a(1) assms(2)] v(1,2) Validate_no_downgrade [OF assms(3) v(3) a(3)]])
qed

text \<open>C1. The life of a Cluster under the running server: whatever updates are posted to a server that was
  started from the command line and stored when it admits them, each in whatever state the API server and Azure
  are in by then, a live Cluster of a legacy release keeps its network (port, service domain and services), its
  endpoint and its organization, and, while no release is marked as ignored, its release version never falls
  below the one it had.\<close>

theorem running_server_keeps_clusters_safe:
  assumes "serialises H" and "semver_precedence (lib_semver L)" and "(admitted_unignored L H U)\<^sup>*\<^sup>* old new"
    and "GetSemverFromLabels (lib_semver L) (om_labels (cl_meta old)) = Ok ov"
  shows "cluster_identity old = cluster_identity new \<and>
    (\<exists>nv. GetSemverFromLabels (lib_semver L) (om_labels (cl_meta new)) = Ok nv \<and> \<not> sv_LT (lib_semver L) nv ov)"
  using assms(3)
proof (induction rule: rtranclp_induct)
  case base
  show ?case by (simp add: assms(4) sv_EQ_not_LT [OF assms(2) sv_EQ_refl [OF assms(2)]])
next
  case (step mid new)
  obtain mv nv where v: "cluster_identity mid = cluster_identity new"
    "GetSemverFromLabels (lib_semver L) (om_labels (cl_meta mid)) = Ok mv"
    "GetSemverFromLabels (lib_semver L) (om_labels (cl_meta new)) = Ok nv" "\<not> sv_LT (lib_semver L) nv mv"
    by (rule admitted_unignored_step [OF step.hyps(2) assms(1,2)])
  with step.IH have "\<not> sv_LT (lib_semver L) nv ov" using sv_not_LT_trans [OF assms(2)] by fastforce
  with step.IH v(1,3) show ?case by simp
qed

section \<open>The program at work\<close>

definition demo_reader :: kube_api where
  "demo_reader = demo_kube
     [demo_release ''v1.1.0'' ''active'' [\<lparr>cmp_Name = ''azure-operator'', cmp_Version = ''5.0.0''\<rparr>]]"

lemma demo_cluster_legacy:
  "IsObjectReconciledByLegacyRelease demo_reader (cl_meta (demo_running_cluster ''v1.1.0'')) oc = Ok True"
  "IsObjectReconciledByLegacyRelease (demo_kube []) (cl_meta (demo_running_cluster ''v1.1.0'')) oc = Ok False"
  by (simp_all add: IsObjectReconciledByLegacyRelease_def TryFindReleaseForObject_def FindRelease_def demo_reader_def
      demo_kube_def demo_release_def release_cr_name_def HasPrefix_def mget_def IsLegacy_def ContainsAzureOperator_def
      GetComponentVersionsFromReleaseCR_def azureOperatorComponentName_def demo_running_cluster_def not_found_def
      IsNotFound_def is_cause_def)

lemma demo_route:
  assumes "RegisterWebhookHandlers demo_lib demo_http (0, 0) demo_life_decoder cfg (Some ())
       (Some demo_life_client) (Some demo_reader) (Some v) = Ok routes"
  shows "\<exists>handler. route routes ''/validate/cluster/update'' = Some handler \<and>
     (\<exists>reply. handler demo_http_request demo_vm_empty = (Ok reply, demo_vm_empty) \<and> admits reply ''u1'')"
proof -
  let ?h = "\<lparr>clh_baseDomain = cfg_BaseDomain cfg, clh_decoder = demo_life_decoder,
    clh_ctrlReader = demo_reader, clh_ctrlClient = demo_life_client\<rparr>"
  have "Cluster_OnUpdateValidate demo_lib ?h (0, 0)
     (ObjCluster (demo_running_cluster ''v1.0.0'')) (ObjCluster (demo_running_cluster ''v1.1.0'')) = Ok ()"
    by (rule demo_upgrade_accepted_by) (simp add: demo_installation_available)
  then have "validate_updated \<lparr>hf_ctrlReader = demo_reader, hf_ctrlClient = demo_life_client\<rparr> (Cluster_Decode ?h)
      (\<lambda>old ob. lift_st (Cluster_OnUpdateValidate demo_lib ?h (0, 0) old ob))
      \<lparr>rv_Request = Some demo_review_request\<rparr> demo_vm_empty = (Ok (), demo_vm_empty)"
    by (simp add: validate_updated_def Cluster_Decode_def decode_with_def demo_life_decoder_def
        demo_review_request_def reconciled_by_legacy_def demo_cluster_legacy bind_st_def lift_st_def)
  moreover have admitting: "\<exists>r. validator_reply demo_http demo_review_request (Ok ()) = Ok r \<and> admits r (ar_UID demo_review_request)"
    using admitting_replies(1) [OF demo_serialises] by (blast dest: admits_unpatched_admits)
  ultimately show ?thesis
    using cluster_routes(2) [OF assms]
    by (simp add: validator_NewUpdateHandler_def validator_newHttpHandler_carries [OF demo_carries])
      (simp add: demo_review_request_def)
qed

lemma demo_cluster_decodes:
  "dec_Cluster demo_life_decoder (ar_OldObject demo_review_request) = Inr (demo_running_cluster ''v1.0.0'')"
  "dec_Cluster demo_life_decoder (ar_Object demo_review_request) = Inr (demo_running_cluster ''v1.1.0'')"
  by (simp_all add: demo_life_decoder_def demo_review_request_def)

theorem admitted_cluster_update_is_safe_witness:
  "cluster_identity (demo_running_cluster ''v1.0.0'') = cluster_identity (demo_running_cluster ''v1.1.0'')"
proof -
  obtain routes where r: "RegisterWebhookHandlers demo_lib demo_http (0, 0) demo_life_decoder demo_life_config (Some ())
       (Some demo_life_client) (Some demo_reader) (Some demo_sku_api) = Ok routes"
    by (simp add: RegisterWebhookHandlers_Ok_iff demo_life_config_def)
  obtain handler reply where h: "route routes ''/validate/cluster/update'' = Some handler"
    "handler demo_http_request demo_vm_empty = (Ok reply, demo_vm_empty)" "admits reply ''u1''"
    using demo_route [OF r] by blast
  from admitted_cluster_update_is_safe [OF r h(1) demo_carries demo_serialises h(2,3) demo_cluster_decodes
      demo_running_not_deleted demo_cluster_legacy(1)]
  show ?thesis by blast
qed

lemma demo_server_admits:
  "server_admits (demo_platform demo_life_client demo_reader) demo_lib demo_http demo_life_decoder
     (demo_running_cluster ''v1.0.0'') (demo_running_cluster ''v1.1.0'')"
proof -
  let ?pf = "demo_platform demo_life_client demo_reader"
  let ?line = "\<lparr>rl_Method = ''POST'', rl_Host = ''localhost'', rl_Path = ''/validate/cluster/update''\<rparr>"
  have clients: "pf_NewClients ?pf userAgent = Inr demo_life_client" "pf_NewCache ?pf = Inr demo_reader"
    by (simp_all add: demo_platform_def)
  obtain parts where s: "mainError ?pf demo_lib demo_http (0, 0) demo_life_decoder = Serves parts"
    using demo_platform_starts by blast
  obtain cfg v routes handler where
    r: "RegisterWebhookHandlers demo_lib demo_http (0, 0) demo_life_decoder cfg (Some ()) (Some demo_life_client)
        (Some demo_reader) (Some v) = Ok routes" "route routes ''/validate/cluster/update'' = Some handler"
      "ServeHTTP (srv_handler parts) ?line = as_endpoint handler"
    by (rule server_reaches_route [OF s _ clients, of ?line]) simp_all
  obtain reply where "handler demo_http_request demo_vm_empty = (Ok reply, demo_vm_empty)" "admits reply ''u1''"
    using demo_route [OF r(1)] r(2) by auto
  moreover from this have
    "ServeHTTP (srv_handler parts) ?line demo_http_request demo_vm_empty = (Ok (WebhookReply reply), demo_vm_empty)"
    by (simp add: r(3) as_endpoint_reply)
  ultimately show ?thesis
    unfolding server_admits_def
    using s clients demo_carries demo_cluster_decodes demo_running_not_deleted demo_cluster_legacy(1)
    by (intro exI [of _ "(0, 0)"] exI [of _ parts] exI [of _ ?line] exI [of _ demo_http_request]
        exI [of _ demo_review_request] exI [of _ demo_vm_empty] exI [of _ reply] exI [of _ "''u1''"]
        exI [of _ demo_life_client] exI [of _ demo_reader]) simp
qed

theorem running_server_keeps_clusters_safe_witness:
  "cluster_identity (demo_running_cluster ''v1.0.0'') = cluster_identity (demo_running_cluster ''v1.1.0'')"
proof -
  let ?pf = "demo_platform demo_life_client demo_reader"
  have client: "pf_NewClients ?pf userAgent = Inr demo_life_client" by (simp add: demo_platform_def)
  have unignored: "no_ignored_release (lib_semver demo_lib) demo_life_client"
    by (simp add: no_ignored_release_def demo_installation_available demo_entry_simps)
  have steps: "(admitted_unignored demo_lib demo_http demo_life_decoder)\<^sup>*\<^sup>*
      (demo_running_cluster ''v1.0.0'') (demo_running_cluster ''v1.1.0'')"
    unfolding admitted_unignored_def using demo_server_admits client unignored by (intro r_into_rtranclp) blast
  have version: "GetSemverFromLabels (lib_semver demo_lib) (om_labels (cl_meta (demo_running_cluster ''v1.0.0'')))
      = Ok (demo_ver 1 0 ''0'')"
    by (simp add: demo_labels_version demo_running_cluster_def)
  have "semver_precedence (lib_semver demo_lib)" by (simp add: demo_semver_precedence)
  from running_server_keeps_clusters_safe [OF demo_serialises this steps version]
  show ?thesis by blast
qed

theorem other_objects_pass_every_endpoint_witness:
  "\<exists>handler reply. handler demo_http_request demo_vm_empty = (Ok reply, demo_vm_empty) \<and> admits_unpatched demo_http reply ''u1''"
proof -
  let ?hs = "all_webhooks demo_lib (0, 0) demo_life_decoder demo_life_config demo_life_client (demo_kube []) demo_sku_api"
  let ?h = "cluster_webhook demo_lib (0, 0) \<lparr>clh_baseDomain = ''k8s.io'', clh_decoder = demo_life_decoder,
    clh_ctrlReader = demo_kube [], clh_ctrlClient = demo_life_client\<rparr>"
  let ?f = "\<lparr>hf_ctrlReader = demo_kube [], hf_ctrlClient = demo_life_client\<rparr>"
  have handlers: "getAllHandlers demo_lib (0, 0) demo_life_decoder demo_life_config (Some ()) (Some demo_life_client)
      (Some (demo_kube [])) (Some demo_sku_api) = Ok ?hs"
    by (simp add: getAllHandlers_Ok_iff demo_life_config_def)
  have h: "?h \<in> set ?hs" by (simp add: all_webhooks_def demo_life_config_def Let_def)
  have new: "wh_Decode ?h (ar_Object demo_review_request) = Ok (ObjCluster (demo_running_cluster ''v1.1.0''))"
    by (simp add: cluster_webhook_def Cluster_Decode_def decode_with_def demo_life_decoder_def demo_review_request_def)
  have other: "reconciled_by_legacy ?f (ObjCluster (demo_running_cluster ''v1.1.0'')) = Ok False"
    by (simp add: reconciled_by_legacy_def demo_cluster_legacy)
  obtain path handler where served: "(path, handler) \<in> set (register demo_http ?f ?f ?h)"
    by (simp add: register_def cluster_webhook_def) blast
  have "hl_MarshalPatch demo_http [] = Inr ''[]''" by (simp add: demo_http_def)
  from other_objects_pass_every_endpoint [OF handlers refl h served demo_carries demo_serialises this new other]
  have "\<exists>reply. handler demo_http_request demo_vm_empty = (Ok reply, demo_vm_empty) \<and>
      admits_unpatched demo_http reply (ar_UID demo_review_request)" .
  then show ?thesis by (auto simp: demo_review_request_def)
qed

end
